(* ===== verification/Prelude.thy ===== *)
theory Prelude
  imports Complex_Main "HOL-Library.Sublist"
begin

text \<open>
  Shared vocabulary of the development: the JavaScript values the TypeScript sources compute
  with (strings, truthiness of optional strings, exceptions), the string methods the sources call
  (\<open>split\<close>, \<open>join\<close>, \<open>trim\<close>, \<open>startsWith\<close>, \<open>includes\<close>, \<open>padStart\<close>, \<open>toLowerCase\<close>,
  decimal printing), a few list operations of \<open>Array.prototype\<close>, and the generic lemmas the
  component theories share.

  A JavaScript string is modelled as \<open>string\<close>, a list of code units below 256. Where a result
  depends on code units beyond that range (\<open>getTagColor\<close>), the model takes the list of code
  units itself. A value of TypeScript type \<open>T | null\<close> or an optional property is an \<open>option\<close>.
\<close>

named_theorems js_defs \<open>definitions of the JavaScript string and array methods\<close>
named_theorems handler_defs \<open>definitions of the event handlers, unfolded by the state machine proofs\<close>

section \<open>Values and exceptions\<close>

datatype js_error = RangeError | TypeError | SyntaxError

type_synonym 'a js_result = "js_error + 'a"

definition bind_result :: "'e + 'a \<Rightarrow> ('a \<Rightarrow> 'e + 'b) \<Rightarrow> 'e + 'b" where
  "bind_result r f = (case r of Inl e \<Rightarrow> Inl e | Inr x \<Rightarrow> f x)"

fun map_result :: "('a \<Rightarrow> 'e + 'b) \<Rightarrow> 'a list \<Rightarrow> 'e + 'b list" where
  "map_result f [] = Inr []"
| "map_result f (x # xs) =
     bind_result (f x) (\<lambda>y. bind_result (map_result f xs) (\<lambda>ys. Inr (y # ys)))"

text \<open>\<open>truthy\<close> is JavaScript's coercion of a \<open>string | null | undefined\<close> to a boolean.\<close>

definition truthy :: "string option \<Rightarrow> bool" where
  "truthy s = (case s of None \<Rightarrow> False | Some t \<Rightarrow> t \<noteq> [])"

text \<open>\<open>a || b\<close> on an optional string, and \<open>a ?? b\<close>.\<close>

definition or_else :: "string option \<Rightarrow> string \<Rightarrow> string" where
  "or_else s d = (if truthy s then the s else d)"

definition nullish :: "'a option \<Rightarrow> 'a \<Rightarrow> 'a" where
  "nullish x d = (case x of None \<Rightarrow> d | Some v \<Rightarrow> v)"

text \<open>The empty string sent as \<open>null\<close>: \<open>value || null\<close>.\<close>

definition or_null :: "string \<Rightarrow> string option" where
  "or_null s = (if s = [] then None else Some s)"

section \<open>String methods\<close>

definition newline :: char where "newline = CHR 0x0A"
definition dquote :: char where "dquote = CHR 0x22"

text \<open>The white space of \<open>trim\<close> and of the regular expression class \<open>\s\<close> below code unit 256.\<close>

definition is_space :: "char \<Rightarrow> bool" where
  "is_space c \<longleftrightarrow> c \<in> {CHR 0x09, CHR 0x0A, CHR 0x0B, CHR 0x0C, CHR 0x0D, CHR 0x20, CHR 0xA0}"

definition trim :: "string \<Rightarrow> string" where
  "trim s = rev (dropWhile is_space (rev (dropWhile is_space s)))"

definition startsWith :: "string \<Rightarrow> string \<Rightarrow> bool" where
  "startsWith s p \<longleftrightarrow> take (length p) s = p"

fun includes_sub :: "string \<Rightarrow> string \<Rightarrow> bool" where
  "includes_sub [] p \<longleftrightarrow> p = []"
| "includes_sub (c # s) p \<longleftrightarrow> startsWith (c # s) p \<or> includes_sub s p"

text \<open>\<open>s.split(sep)\<close> for a non-empty separator: the leftmost occurrences are cut out.\<close>

function split_str :: "string \<Rightarrow> string \<Rightarrow> string list" where
  "split_str sep s =
     (if sep \<noteq> [] \<and> startsWith s sep then [] # split_str sep (drop (length sep) s)
      else case s of
        [] \<Rightarrow> [[]]
      | c # cs \<Rightarrow> (case split_str sep cs of [] \<Rightarrow> [[c]] | w # ws \<Rightarrow> (c # w) # ws))"
  by pat_completeness auto
termination
proof (relation "measure (\<lambda>(sep, s). length s)", goal_cases)
  case (2 sep s)
  then show ?case by (cases s) (auto simp: startsWith_def)
qed auto

declare split_str.simps [simp del]

text \<open>\<open>xs.join(sep)\<close>.\<close>

fun join :: "string \<Rightarrow> string list \<Rightarrow> string" where
  "join sep [] = []"
| "join sep [x] = x"
| "join sep (x # y # xs) = x @ sep @ join sep (y # xs)"

text \<open>\<open>s.split(/\s+/)\<close>: maximal runs of white space are the separators.\<close>

fun split_spaces :: "string \<Rightarrow> string list" where
  "split_spaces [] = [[]]"
| "split_spaces (c # s) =
     (if is_space c
      then (case s of
              [] \<Rightarrow> [[], []]
            | d # t \<Rightarrow> if is_space d then split_spaces s else [] # split_spaces s)
      else (case split_spaces s of [] \<Rightarrow> [[c]] | w # ws \<Rightarrow> (c # w) # ws))"

definition lower_char :: "char \<Rightarrow> char" where
  "lower_char c =
     (let n = of_char c :: nat in
      if 65 \<le> n \<and> n \<le> 90 \<or> (192 \<le> n \<and> n \<le> 222 \<and> n \<noteq> 215) then char_of (n + 32) else c)"

definition toLowerCase :: "string \<Rightarrow> string" where
  "toLowerCase = map lower_char"

text \<open>\<open>toUpperCase\<close>: the sharp s becomes two letters; the two letters whose capital is outside
  Latin-1 (micro sign, y with diaeresis) are left alone.\<close>

definition upper_char :: "char \<Rightarrow> string" where
  "upper_char c =
     (let n = of_char c :: nat in
      if 97 \<le> n \<and> n \<le> 122 \<or> (224 \<le> n \<and> n \<le> 254 \<and> n \<noteq> 247) then [char_of (n - 32)]
      else if n = 223 then ''SS'' else [c])"

definition toUpperCase :: "string \<Rightarrow> string" where
  "toUpperCase s = concat (map upper_char s)"

definition padStart2 :: "string \<Rightarrow> string" where
  "padStart2 s = replicate (2 - length s) (CHR ''0'') @ s"

text \<open>\<open>s.replace(/c/g, r)\<close> for a single character.\<close>

definition replace_all :: "char \<Rightarrow> string \<Rightarrow> string \<Rightarrow> string" where
  "replace_all c r s = concat (map (\<lambda>d. if d = c then r else [d]) s)"

text \<open>Decimal printing of a natural number and of an integer in a template literal.\<close>

definition digit_char :: "nat \<Rightarrow> char" where
  "digit_char d = char_of (48 + d)"

fun nat_str :: "nat \<Rightarrow> string" where
  "nat_str n = (if n < 10 then [digit_char n] else nat_str (n div 10) @ [digit_char (n mod 10)])"

declare nat_str.simps [simp del]

definition int_str :: "int \<Rightarrow> string" where
  "int_str n = (if n < 0 then CHR ''-'' # nat_str (nat (- n)) else nat_str (nat n))"

definition digit_val :: "char \<Rightarrow> nat option" where
  "digit_val c = (let n = of_char c :: nat in if 48 \<le> n \<and> n \<le> 57 then Some (n - 48) else None)"

definition is_digit :: "char \<Rightarrow> bool" where
  "is_digit c \<longleftrightarrow> digit_val c \<noteq> None"

definition digits_val :: "string \<Rightarrow> nat" where
  "digits_val s = foldl (\<lambda>a c. 10 * a + (case digit_val c of None \<Rightarrow> 0 | Some d \<Rightarrow> d)) 0 s"

section \<open>Array methods\<close>

text \<open>\<open>xs.slice(-n)\<close> for a positive \<open>n\<close>.\<close>

definition slice_last :: "nat \<Rightarrow> 'a list \<Rightarrow> 'a list" where
  "slice_last n xs = drop (length xs - n) xs"

text \<open>\<open>xs.find(p)\<close>: \<open>None\<close> is \<open>undefined\<close>.\<close>

definition find_first :: "('a \<Rightarrow> bool) \<Rightarrow> 'a list \<Rightarrow> 'a option" where
  "find_first p xs = List.find p xs"

text \<open>\<open>Array.from(new Set(xs))\<close>: the first occurrences, in order.\<close>

definition unique :: "'a list \<Rightarrow> 'a list" where
  "unique xs = rev (remdups (rev xs))"

text \<open>\<open>xs.slice(a, b)\<close> for bounds that are not negative.\<close>

definition slice :: "nat \<Rightarrow> nat \<Rightarrow> 'a list \<Rightarrow> 'a list" where
  "slice a b xs = take (b - a) (drop a xs)"

text \<open>The idiom that removes a value from a list of choices or appends it.\<close>

definition toggle_member :: "'a \<Rightarrow> 'a list \<Rightarrow> 'a list" where
  "toggle_member x xs = (if x \<in> set xs then filter (\<lambda>y. y \<noteq> x) xs else xs @ [x])"

text \<open>\<open>Object.fromEntries(ps)[k]\<close>: the last entry of a key counts.\<close>

definition from_entries :: "('k \<times> 'v) list \<Rightarrow> 'k \<rightharpoonup> 'v" where
  "from_entries ps = map_of (rev ps)"

text \<open>Grouping by a key in a \<open>Map\<close> or an object: the keys in the order of their first occurrence.\<close>

fun push_group :: "('a \<Rightarrow> 'k) \<Rightarrow> ('k \<times> 'a list) list \<Rightarrow> 'a \<Rightarrow> ('k \<times> 'a list) list" where
  "push_group key [] x = [(key x, [x])]"
| "push_group key ((k, xs) # gs) x = (if k = key x then (k, xs @ [x]) # gs else (k, xs) # push_group key gs x)"

definition group_by :: "('a \<Rightarrow> 'k) \<Rightarrow> 'a list \<Rightarrow> ('k \<times> 'a list) list" where
  "group_by key xs = foldl (push_group key) [] xs"

lemmas [js_defs] = startsWith_def trim_def toLowerCase_def padStart2_def replace_all_def
  slice_last_def find_first_def truthy_def or_else_def nullish_def or_null_def

section \<open>Generic lemmas\<close>

lemma bind_result_simps [simp]:
  "bind_result (Inl e) f = Inl e" "bind_result (Inr x) f = f x"
  by (simp_all add: bind_result_def)

lemma bind_result_eq_Inr [simp]:
  "bind_result r f = Inr y \<longleftrightarrow> (\<exists>x. r = Inr x \<and> f x = Inr y)"
  by (cases r) auto

lemma map_result_Inr: "map_result f xs = Inr ys \<Longrightarrow> length ys = length xs"
  by (induction xs arbitrary: ys) auto

lemma truthy_simps [simp]: "truthy None = False" "truthy (Some t) = (t \<noteq> [])"
  by (simp_all add: truthy_def)

lemma truthy_the [simp]: "truthy x \<Longrightarrow> Some (the x) = x"
  by (cases x) simp_all

lemma or_else_simps [simp]:
  "or_else None d = d" "or_else (Some t) d = (if t = [] then d else t)"
  by (simp_all add: or_else_def)

lemma nullish_simps [simp]: "nullish None d = d" "nullish (Some v) d = v"
  by (simp_all add: nullish_def)

lemma slice_last_length [simp]: "length (slice_last n xs) = min n (length xs)"
  by (simp add: slice_last_def)

lemma slice_last_append: "slice_last n (slice_last n xs @ ys) = slice_last n (xs @ ys)"
proof (cases "length xs \<le> n")
  case True
  then show ?thesis by (simp add: slice_last_def)
next
  case False
  then show ?thesis by (simp add: slice_last_def drop_append add.commute)
qed

lemma unique_simps [simp]: "unique [] = []" "unique (xs @ [x]) = (if x \<in> set xs then unique xs else unique xs @ [x])"
  by (simp_all add: unique_def)

lemma set_unique [simp]: "set (unique xs) = set xs"
  by (simp add: unique_def)

lemma distinct_unique [simp]: "distinct (unique xs)"
  by (simp add: unique_def)

lemma unique_id [simp]: "distinct xs \<Longrightarrow> unique xs = xs"
  by (simp add: unique_def distinct_remdups_id)

text \<open>The specification of the grouping: for every key that occurs, its elements in their order.\<close>

lemma push_group_map:
  assumes "distinct ks"
  shows "push_group key (map (\<lambda>k. (k, f k)) ks) x =
    map (\<lambda>k. (k, if k = key x then f k @ [x] else f k)) ks @ (if key x \<in> set ks then [] else [(key x, [x])])"
  using assms
proof (induction ks)
  case (Cons k ks)
  have "map (\<lambda>j. (j, if j = key x then f j @ [x] else f j)) ks = map (\<lambda>j. (j, f j)) ks" if "key x \<notin> set ks"
    using that by (intro map_cong) auto
  with Cons show ?case by auto
qed simp

lemma group_by_spec: "group_by key xs = map (\<lambda>k. (k, filter (\<lambda>x. key x = k) xs)) (unique (map key xs))"
proof (induction xs rule: rev_induct)
  case (snoc x xs)
  let ?ks = "unique (map key xs)"
  have "filter (\<lambda>y. key y = key x) xs = []" if "key x \<notin> set ?ks"
    using that unfolding filter_empty_conv by (metis image_eqI set_map set_unique)
  moreover have "group_by key (xs @ [x]) = push_group key (map (\<lambda>k. (k, filter (\<lambda>y. key y = k) xs)) ?ks) x"
    using snoc by (simp add: group_by_def)
  ultimately show ?case unfolding push_group_map[OF distinct_unique] by (auto intro!: map_cong)
qed (simp add: group_by_def)

lemma group_by_concat: "concat (map snd (group_by key xs)) = concat (map (\<lambda>k. filter (\<lambda>x. key x = k) xs) (unique (map key xs)))"
  by (simp add: group_by_spec comp_def)

lemma toggle_member_set [simp]: "set (toggle_member x xs) = (if x \<in> set xs then set xs - {x} else insert x (set xs))"
  by (auto simp: toggle_member_def)

lemma toggle_member_distinct [simp]: "distinct xs \<Longrightarrow> distinct (toggle_member x xs)"
  by (simp add: toggle_member_def)

lemma startsWith_append: "startsWith s p \<Longrightarrow> startsWith (s @ t) p"
  by (metis append_take_drop_id startsWith_def append_assoc append_eq_conv_conj)

lemma startsWith_iff: "startsWith s p \<longleftrightarrow> (\<exists>t. s = p @ t)"
  by (metis append_take_drop_id append_eq_conv_conj startsWith_def)

lemma startsWith_longer:
  assumes "startsWith (s @ t) p" "\<not> startsWith s p"
  shows "length s < length p"
proof (rule ccontr)
  assume "\<not> length s < length p"
  then have "take (length p) (s @ t) = take (length p) s" by simp
  with assms show False by (simp add: startsWith_def)
qed

lemma split_str_Nil [simp]: "sep \<noteq> [] \<Longrightarrow> split_str sep [] = [[]]"
  by (subst split_str.simps) (simp add: startsWith_def)

lemma split_str_not_Nil [simp]: "split_str sep s \<noteq> []"
  by (subst split_str.simps) (auto split: list.splits)

lemma split_str_match:
  "sep \<noteq> [] \<Longrightarrow> startsWith s sep \<Longrightarrow> split_str sep s = [] # split_str sep (drop (length sep) s)"
  by (subst split_str.simps) simp

lemma split_str_step:
  "\<not> startsWith (c # s) sep \<Longrightarrow>
     split_str sep (c # s) = (c # hd (split_str sep s)) # tl (split_str sep s)"
  by (subst split_str.simps) (auto split: list.splits)

lemma join_Cons: "xs \<noteq> [] \<Longrightarrow> join sep (x # xs) = x @ sep @ join sep xs"
  by (cases xs) simp_all

text \<open>Splitting loses nothing: joining the pieces again gives the string back.\<close>

lemma join_split_str: "sep \<noteq> [] \<Longrightarrow> join sep (split_str sep s) = s"
proof (induction sep s rule: split_str.induct)
  case (1 sep s)
  show ?case
  proof (cases "startsWith s sep")
    case True
    with 1 show ?thesis by (simp add: split_str_match join_Cons startsWith_def)
      (metis append_take_drop_id)
  next
    case False
    then show ?thesis
    proof (cases s)
      case Nil
      with 1 show ?thesis by simp
    next
      case (Cons c cs)
      with False 1 have IH: "join sep (split_str sep cs) = cs" by simp
      obtain w ws where w: "split_str sep cs = w # ws"
        by (metis split_str_not_Nil neq_Nil_conv)
      with Cons False IH show ?thesis by (cases ws) (simp_all add: split_str_step)
    qed
  qed
qed

text \<open>A piece holds no separator, so splitting it again changes nothing.\<close>

lemma split_str_short: "sep \<noteq> [] \<Longrightarrow> length s < length sep \<Longrightarrow> split_str sep s = [s]"
proof (induction s)
  case Nil
  then show ?case by simp
next
  case (Cons c s)
  then have "\<not> startsWith (c # s) sep"
    by (metis startsWith_iff append_Cons length_append not_add_less1)
  with Cons show ?case by (simp add: split_str_step)
qed

text \<open>
  The cut points found in a prefix are cut points of the whole string: this is what lets a
  stream be split piecewise.
\<close>

lemma split_str_append:
  assumes "sep \<noteq> []"
  shows "split_str sep (x @ y) =
     butlast (split_str sep x) @ split_str sep (last (split_str sep x) @ y)"
  using assms
proof (induction sep x rule: split_str.induct)
  case (1 sep x)
  show ?case
  proof (cases "startsWith x sep")
    case True
    have d: "drop (length sep) (x @ y) = drop (length sep) x @ y"
      using True by (auto simp: startsWith_iff)
    from True 1 d show ?thesis
      by (simp add: split_str_match startsWith_append)
  next
    case False
    show ?thesis
    proof (cases x)
      case Nil
      with 1 show ?thesis by simp
    next
      case (Cons c cs)
      obtain w ws where w: "split_str sep cs = w # ws"
        by (metis split_str_not_Nil neq_Nil_conv)
      show ?thesis
      proof (cases "ws = []")
        case True
        with w join_split_str[of sep cs] 1 have "w = cs" by simp
        with Cons False w True show ?thesis by (simp add: split_str_step)
      next
        case ws: False
        have "\<not> length (c # cs) < length sep"
        proof
          assume "length (c # cs) < length sep"
          with 1 have "split_str sep cs = [cs]" by (intro split_str_short) auto
          with w ws show False by simp
        qed
        with False Cons have ns: "\<not> startsWith ((c # cs) @ y) sep"
          by (metis startsWith_longer)
        from 1 False Cons have "split_str sep (cs @ y) =
            butlast (split_str sep cs) @ split_str sep (last (split_str sep cs) @ y)" by simp
        with ns Cons False w ws show ?thesis by (simp add: split_str_step)
      qed
    qed
  qed
qed

lemma includes_char: "includes_sub s [c] \<longleftrightarrow> c \<in> set s"
  by (induction s) (auto simp: startsWith_def)

lemma startsWith_char: "startsWith (d # s) [c] \<longleftrightarrow> c = d"
  by (auto simp: startsWith_def)

lemma split_no_char: "c \<notin> set s \<Longrightarrow> split_str [c] s = [s]"
  by (induction s) (simp_all add: split_str_step startsWith_char)

lemma split_char_append:
  "c \<notin> set x \<Longrightarrow> split_str [c] (x @ [c] @ y) = x # split_str [c] y"
proof (induction x)
  case Nil
  have "startsWith (c # y) [c]" by (simp add: startsWith_char)
  from split_str_match[OF _ this] show ?case by simp
next
  case (Cons d x)
  then show ?case by (simp add: split_str_step startsWith_char)
qed

lemma split_join: "xs \<noteq> [] \<Longrightarrow> \<forall>x \<in> set xs. c \<notin> set x \<Longrightarrow> split_str [c] (join [c] xs) = xs"
proof (induction xs rule: induct_list012)
  case (3 x y xs)
  then show ?case using split_char_append[of c x "join [c] (y # xs)"] by simp
qed (simp_all add: split_no_char)

lemma digit_val_digit_char [simp]: "d < 10 \<Longrightarrow> digit_val (digit_char d) = Some d"
  by (auto simp: digit_val_def digit_char_def Let_def)

lemma digits_val_snoc: "d < 10 \<Longrightarrow> digits_val (s @ [digit_char d]) = 10 * digits_val s + d"
  by (simp add: digits_val_def)

lemma digits_val_nat_str [simp]: "digits_val (nat_str n) = n"
proof (induction n rule: nat_str.induct)
  case (1 n)
  show ?case
  proof (cases "n < 10")
    case True
    then show ?thesis by (simp add: nat_str.simps[of n] digits_val_def)
  next
    case False
    with 1 show ?thesis by (simp add: nat_str.simps[of n] digits_val_snoc)
  qed
qed

lemma nat_str_inj [simp]: "nat_str m = nat_str n \<longleftrightarrow> m = n"
  by (metis digits_val_nat_str)

lemma is_digit_digit_char [simp]: "d < 10 \<Longrightarrow> is_digit (digit_char d)"
  by (simp add: is_digit_def)

lemma nat_str_digits: "\<forall>c \<in> set (nat_str n). is_digit c"
proof (induction n rule: nat_str.induct)
  case (1 n)
  then show ?case by (cases "n < 10") (auto simp: nat_str.simps[of n])
qed

lemma nat_str_not_Nil [simp]: "nat_str n \<noteq> []"
  by (subst nat_str.simps) simp

lemma split_spaces_not_Nil [simp]: "split_spaces s \<noteq> []"
proof (induction s)
  case (Cons c s)
  then show ?case by (cases s; cases "split_spaces s") (auto simp del: split_spaces.simps(2) simp: split_spaces.simps(2)[of c])
qed simp

end
