(* ===== verification/JsNumber.thy ===== *)
theory JsNumber
  imports Prelude
begin

text \<open>
  JavaScript numbers as far as the sources use them: the coercion \<open>Number(s)\<close> of a string,
  subtraction, the remainder operator, the length of \<open>Array.from({ length: n }, f)\<close> and
  \<open>Array.prototype.includes\<close>. Finite values are exact rationals: the rounding of a double is not
  modelled, the special values are. The language library is modelled here because the cron
  parser feeds unchecked user input to it.
\<close>

datatype js_number = Fin rat | PosInf | NegInf | NaN

definition hex_val :: "char \<Rightarrow> nat option" where
  "hex_val c =
     (let n = of_char c :: nat in
      if 48 \<le> n \<and> n \<le> 57 then Some (n - 48)
      else if 97 \<le> n \<and> n \<le> 102 then Some (n - 87)
      else if 65 \<le> n \<and> n \<le> 70 then Some (n - 55)
      else None)"

text \<open>The digits after a radix prefix: all of them below the radix, at least one.\<close>

definition radix_literal :: "nat \<Rightarrow> string \<Rightarrow> js_number" where
  "radix_literal b s =
     (if s \<noteq> [] \<and> (\<forall>c \<in> set s. case hex_val c of None \<Rightarrow> False | Some d \<Rightarrow> d < b)
      then Fin (of_nat (foldl (\<lambda>a c. b * a + nullish (hex_val c) 0) 0 s))
      else NaN)"

text \<open>An exponent part \<open>[+-]?digits\<close>.\<close>

definition exponent :: "string \<Rightarrow> int option" where
  "exponent s =
     (let neg = (s \<noteq> [] \<and> hd s = CHR ''-'');
          t = (if s \<noteq> [] \<and> (hd s = CHR ''-'' \<or> hd s = CHR ''+'') then tl s else s)
      in if t \<noteq> [] \<and> list_all is_digit t
         then Some (if neg then - int (digits_val t) else int (digits_val t)) else None)"

definition scale10 :: "rat \<Rightarrow> int \<Rightarrow> rat" where
  "scale10 r e = (if 0 \<le> e then r * 10 ^ nat e else r / 10 ^ nat (- e))"

text \<open>\<open>digits [. digits] [e exponent]\<close>, with a digit before or after the point.\<close>

definition is_e :: "char \<Rightarrow> bool" where "is_e c \<longleftrightarrow> c = CHR ''e'' \<or> c = CHR ''E''"

definition unsigned_decimal :: "string \<Rightarrow> rat option" where
  "unsigned_decimal s =
     (let mant = takeWhile (\<lambda>c. \<not> is_e c) s;
          ex = dropWhile (\<lambda>c. \<not> is_e c) s;
          ip = takeWhile (\<lambda>c. c \<noteq> CHR ''.'') mant;
          fp = drop 1 (dropWhile (\<lambda>c. c \<noteq> CHR ''.'') mant);
          e = (if ex = [] then Some 0 else exponent (tl ex))
      in case e of
           None \<Rightarrow> None
         | Some k \<Rightarrow>
             if (ip \<noteq> [] \<or> fp \<noteq> []) \<and> list_all is_digit ip \<and> list_all is_digit fp
             then Some (scale10 (of_nat (digits_val (ip @ fp))) (k - int (length fp)))
             else None)"

definition js_neg :: "js_number \<Rightarrow> js_number" where
  "js_neg x = (case x of Fin r \<Rightarrow> Fin (- r) | PosInf \<Rightarrow> NegInf | NegInf \<Rightarrow> PosInf | NaN \<Rightarrow> NaN)"

definition unsigned_literal :: "string \<Rightarrow> js_number" where
  "unsigned_literal s =
     (if s = ''Infinity'' then PosInf
      else case unsigned_decimal s of None \<Rightarrow> NaN | Some r \<Rightarrow> Fin r)"

text \<open>\<open>Number(s)\<close>. The empty string is 0; a radix literal takes no sign.\<close>

definition to_number :: "string \<Rightarrow> js_number" where
  "to_number s =
     (let t = trim s in
      if t = [] then Fin 0
      else if startsWith t ''0x'' \<or> startsWith t ''0X'' then radix_literal 16 (drop 2 t)
      else if startsWith t ''0o'' \<or> startsWith t ''0O'' then radix_literal 8 (drop 2 t)
      else if startsWith t ''0b'' \<or> startsWith t ''0B'' then radix_literal 2 (drop 2 t)
      else if hd t = CHR ''-'' then js_neg (unsigned_literal (tl t))
      else if hd t = CHR ''+'' then unsigned_literal (tl t)
      else unsigned_literal t)"

definition js_add :: "js_number \<Rightarrow> js_number \<Rightarrow> js_number" where
  "js_add x y = (case (x, y) of
       (Fin a, Fin b) \<Rightarrow> Fin (a + b)
     | (NaN, _) \<Rightarrow> NaN | (_, NaN) \<Rightarrow> NaN
     | (PosInf, NegInf) \<Rightarrow> NaN | (NegInf, PosInf) \<Rightarrow> NaN
     | (PosInf, _) \<Rightarrow> PosInf | (NegInf, _) \<Rightarrow> NegInf
     | (_, PosInf) \<Rightarrow> PosInf | (_, NegInf) \<Rightarrow> NegInf)"

definition js_sub :: "js_number \<Rightarrow> js_number \<Rightarrow> js_number" where
  "js_sub x y = js_add x (js_neg y)"

definition trunc :: "rat \<Rightarrow> int" where
  "trunc r = (if 0 \<le> r then \<lfloor>r\<rfloor> else \<lceil>r\<rceil>)"

text \<open>\<open>x % y\<close>: the result has the sign of the dividend; an infinite divisor leaves it alone.\<close>

definition js_rem :: "js_number \<Rightarrow> js_number \<Rightarrow> js_number" where
  "js_rem x y = (case (x, y) of
       (Fin a, Fin b) \<Rightarrow> if b = 0 then NaN else Fin (a - b * of_int (trunc (a / b)))
     | (Fin a, NaN) \<Rightarrow> NaN
     | (Fin a, _) \<Rightarrow> Fin a
     | _ \<Rightarrow> NaN)"

text \<open>
  The length \<open>Array.from\<close> allocates: \<open>NaN\<close> and negative lengths are 0, a fraction is cut off,
  and a length beyond \<open>2^32 - 1\<close> is a \<open>RangeError\<close>.
\<close>

definition array_length :: "js_number \<Rightarrow> nat js_result" where
  "array_length n = (case n of
       Fin r \<Rightarrow> if r \<le> 0 then Inr 0
                else if 2 ^ 32 - 1 < \<lfloor>r\<rfloor> then Inl RangeError else Inr (nat \<lfloor>r\<rfloor>)
     | PosInf \<Rightarrow> Inl RangeError
     | NegInf \<Rightarrow> Inr 0
     | NaN \<Rightarrow> Inr 0)"

text \<open>\<open>Array.from({ length: hi - lo + 1 }, (_, index) => lo + index)\<close>.\<close>

definition array_range :: "js_number \<Rightarrow> js_number \<Rightarrow> js_number list js_result" where
  "array_range lo hi =
     bind_result (array_length (js_add (js_sub hi lo) (Fin 1)))
       (\<lambda>n. Inr (map (\<lambda>i. js_add lo (Fin (of_nat i))) [0..<n]))"

section \<open>Printing and rounding\<close>

text \<open>
  \<open>Math.round\<close> rounds halves up. \<open>number_str\<close> prints a finite number that has at most 17 decimal
  places, as every number the API sends has, in plain notation; \<open>to_fixed\<close> is \<open>toFixed\<close>, which
  rounds the magnitude half up and keeps the sign.
\<close>

definition math_round :: "rat \<Rightarrow> int" where
  "math_round x = \<lfloor>x + 1 / 2\<rfloor>"

fun decimals :: "nat \<Rightarrow> rat \<Rightarrow> string" where
  "decimals 0 r = []"
| "decimals (Suc n) r =
     (if r = 0 then [] else digit_char (nat \<lfloor>10 * r\<rfloor>) # decimals n (10 * r - of_int \<lfloor>10 * r\<rfloor>))"

definition number_str :: "rat \<Rightarrow> string" where
  "number_str r =
     (let a = \<bar>r\<bar>; ds = decimals 17 (a - of_int \<lfloor>a\<rfloor>)
      in (if r < 0 then ''-'' else []) @ nat_str (nat \<lfloor>a\<rfloor>) @ (if ds = [] then [] else CHR ''.'' # ds))"

fun pad_zeros :: "nat \<Rightarrow> string \<Rightarrow> string" where
  "pad_zeros 0 s = s"
| "pad_zeros (Suc n) s = (if length s < Suc n then CHR ''0'' # pad_zeros n s else s)"

definition to_fixed :: "nat \<Rightarrow> rat \<Rightarrow> string" where
  "to_fixed d r =
     (let n = nat \<lfloor>\<bar>r\<bar> * 10 ^ d + 1 / 2\<rfloor>
      in (if r < 0 then ''-'' else []) @ nat_str (n div 10 ^ d)
         @ (if d = 0 then [] else CHR ''.'' # pad_zeros d (nat_str (n mod 10 ^ d))))"

text \<open>
  The relational operators are false on \<open>NaN\<close>. The value of an input of type \<open>number\<close> is empty or a
  floating-point number (anything else is sanitised to the empty text), so its \<open>Number\<close> is finite.
\<close>

fun js_less :: "js_number \<Rightarrow> js_number \<Rightarrow> bool" where
  "js_less NaN y = False"
| "js_less x NaN = False"
| "js_less (Fin a) (Fin b) = (a < b)"
| "js_less NegInf y = (y \<noteq> NegInf)"
| "js_less x PosInf = (x \<noteq> PosInf)"
| "js_less x NegInf = False"
| "js_less PosInf y = False"

definition number_input :: "string \<Rightarrow> rat" where
  "number_input v = (case to_number v of Fin r \<Rightarrow> r | _ \<Rightarrow> 0)"

section \<open>Lemmas\<close>

lemma js_number_ops [simp]:
  "js_add (Fin a) (Fin b) = Fin (a + b)"
  "js_neg (Fin a) = Fin (- a)"
  "js_sub (Fin a) (Fin b) = Fin (a - b)"
  by (simp_all add: js_add_def js_neg_def js_sub_def)

lemma is_space_not_digit: "is_digit c \<Longrightarrow> \<not> is_space c"
  by (auto simp: is_digit_def digit_val_def is_space_def Let_def split: if_splits)

lemma dropWhile_none: "(\<forall>c \<in> set s. \<not> p c) \<Longrightarrow> dropWhile p s = s"
  by (cases s) auto

lemma trim_nonspace: "\<forall>c \<in> set s. \<not> is_space c \<Longrightarrow> trim s = s"
  by (simp add: trim_def dropWhile_none)

lemma is_digit_code: "is_digit c \<longleftrightarrow> 48 \<le> (of_char c :: nat) \<and> (of_char c :: nat) \<le> 57"
  by (simp add: is_digit_def digit_val_def Let_def)

lemma digit_not_symbol:
  "is_digit c \<Longrightarrow> c \<noteq> CHR ''.'' \<and> c \<noteq> CHR ''-'' \<and> c \<noteq> CHR ''+'' \<and> \<not> is_e c \<and> c \<noteq> CHR ''I''
     \<and> c \<noteq> CHR ''x'' \<and> c \<noteq> CHR ''X'' \<and> c \<noteq> CHR ''o'' \<and> c \<noteq> CHR ''O'' \<and> c \<noteq> CHR ''b'' \<and> c \<noteq> CHR ''B''
     \<and> c \<noteq> CHR ''*'' \<and> c \<noteq> CHR '','' \<and> c \<noteq> CHR ''/''"
  by (auto simp: is_digit_code is_e_def)

lemma nat_str_no_symbol:
  "CHR ''-'' \<notin> set (nat_str n)" "CHR ''/'' \<notin> set (nat_str n)" "CHR '','' \<notin> set (nat_str n)"
  "CHR ''*'' \<notin> set (nat_str n)" "CHR ''.'' \<notin> set (nat_str n)"
  using nat_str_digits digit_not_symbol by blast+

lemma takeWhile_all: "(\<forall>c \<in> set s. p c) \<Longrightarrow> takeWhile p s = s \<and> dropWhile p s = []"
  by (induction s) auto

lemma unsigned_decimal_digits:
  assumes "s \<noteq> []" "\<forall>c \<in> set s. is_digit c"
  shows "unsigned_decimal s = Some (of_nat (digits_val s))"
proof -
  have m: "takeWhile (\<lambda>c. \<not> is_e c) s = s" "dropWhile (\<lambda>c. \<not> is_e c) s = []"
    using takeWhile_all[of s "\<lambda>c. \<not> is_e c"] digit_not_symbol assms(2) by auto
  have i: "takeWhile (\<lambda>c. c \<noteq> CHR ''.'') s = s" "dropWhile (\<lambda>c. c \<noteq> CHR ''.'') s = []"
    using takeWhile_all[of s "\<lambda>c. c \<noteq> CHR ''.''"] digit_not_symbol assms(2) by auto
  show ?thesis
    using assms by (simp add: unsigned_decimal_def Let_def m i scale10_def list_all_iff)
qed

lemma digits_not_prefixed:
  assumes "\<forall>c \<in> set s. is_digit c" "\<not> is_digit d"
  shows "\<not> startsWith s [c, d]"
proof
  assume "startsWith s [c, d]"
  then obtain t where "s = [c, d] @ t" by (auto simp: startsWith_iff)
  with assms show False by simp
qed

text \<open>\<open>Number\<close> reads back what a template literal prints for a natural number.\<close>

lemma to_number_nat_str [simp]: "to_number (nat_str n) = Fin (of_nat n)"
proof -
  let ?s = "nat_str n"
  have d: "\<forall>c \<in> set ?s. is_digit c" by (rule nat_str_digits)
  have t: "trim ?s = ?s" using d is_space_not_digit by (intro trim_nonspace) auto
  have nd: "\<not> is_digit (CHR ''x'')" "\<not> is_digit (CHR ''X'')" "\<not> is_digit (CHR ''o'')"
    "\<not> is_digit (CHR ''O'')" "\<not> is_digit (CHR ''b'')" "\<not> is_digit (CHR ''B'')"
    by (simp_all add: is_digit_code)
  have h: "is_digit (hd ?s)" using d by simp
  have inf: "?s \<noteq> ''Infinity''"
  proof
    assume "?s = ''Infinity''"
    with d show False by (simp add: is_digit_code)
  qed
  show ?thesis
    using d digit_not_symbol[OF h] inf unsigned_decimal_digits[of ?s]
    by (simp add: to_number_def t digits_not_prefixed nd unsigned_literal_def)
qed

lemma array_range_nat:
  "b < 2 ^ 32 - 1 \<Longrightarrow> array_range (Fin (of_nat a)) (Fin (of_nat b)) =
     Inr (map (\<lambda>i. Fin (of_nat i)) [a..<Suc b])"
proof (cases "a \<le> b")
  case True
  assume b: "b < 2 ^ 32 - 1"
  have e: "(of_nat b - of_nat a + 1 :: rat) = of_nat (Suc b - a)"
    using True by (simp add: of_nat_diff)
  have l: "array_length (Fin (of_nat b - of_nat a + 1)) = Inr (Suc b - a)"
    unfolding e using True b by (simp add: array_length_def del: of_nat_diff of_nat_Suc)
  have m: "map (\<lambda>i. js_add (Fin (of_nat a)) (Fin (of_nat i))) [0..<Suc b - a]
     = map (\<lambda>i. Fin (of_nat i)) [a..<Suc b]"
    by (rule nth_equalityI) (auto simp: nth_append simp del: upt_Suc)
  show ?thesis using l m by (simp add: array_range_def del: upt_Suc)
next
  case False
  then have "(of_nat b - of_nat a + 1 :: rat) \<le> 0"
    by (metis Suc_leI add_le_same_cancel2 le_add_diff_inverse2 not_le of_nat_0_le_iff of_nat_Suc
        of_nat_le_iff add.commute diff_add_eq diff_le_0_iff_le)
  with False show ?thesis by (simp add: array_range_def array_length_def)
qed

text \<open>The test \<open>x % step === 0\<close> on natural numbers is divisibility, and false for step 0.\<close>

lemma js_rem_nat:
  "js_rem (Fin (of_nat a)) (Fin (of_nat b)) = Fin 0 \<longleftrightarrow> b \<noteq> 0 \<and> b dvd a"
proof (cases "b = 0")
  case True
  then show ?thesis by (simp add: js_rem_def)
next
  case False
  have "trunc (of_nat a / of_nat b) = int (a div b)"
    by (simp add: trunc_def floor_divide_of_nat_eq)
  moreover have "(of_nat a - of_nat b * of_nat (a div b) :: rat) = of_nat (a mod b)"
    by (metis add_diff_cancel_left' mult_div_mod_eq of_nat_add of_nat_mult)
  ultimately show ?thesis
    using False by (simp add: js_rem_def dvd_eq_mod_eq_0)
qed

end
