(* ===== verification/JsDate.thy ===== *)
theory JsDate
  imports Prelude
begin

text \<open>
  The part of JavaScript's \<open>Date\<close> the sources use. A time value is the number of milliseconds
  since the epoch (UTC) as an \<open>int\<close>. The time zone of the browser is not code of the repository:
  it is a parameter of type \<open>zone\<close>, the language's \<open>LocalTime\<close> and \<open>UTC\<close> conversions. The getters
  decompose the local time value as the language does (proleptic Gregorian calendar).
\<close>

record zone =
  local_of :: "int \<Rightarrow> int"
  utc_of :: "int \<Rightarrow> int"

definition ms_per_minute :: int where "ms_per_minute = 60000"
definition ms_per_hour :: int where "ms_per_hour = 3600000"
definition ms_per_day :: int where "ms_per_day = 86400000"

lemmas ms_defs = ms_per_minute_def ms_per_hour_def ms_per_day_def

definition Day :: "int \<Rightarrow> int" where "Day t = t div ms_per_day"
definition HourFromTime :: "int \<Rightarrow> int" where "HourFromTime t = t div ms_per_hour mod 24"
definition MinFromTime :: "int \<Rightarrow> int" where "MinFromTime t = t div ms_per_minute mod 60"
definition SecFromTime :: "int \<Rightarrow> int" where "SecFromTime t = t div 1000 mod 60"
definition msFromTime :: "int \<Rightarrow> int" where "msFromTime t = t mod 1000"
definition WeekDay :: "int \<Rightarrow> int" where "WeekDay t = (Day t + 4) mod 7"

definition MakeTime :: "int \<Rightarrow> int \<Rightarrow> int \<Rightarrow> int \<Rightarrow> int" where
  "MakeTime h m s ms = h * ms_per_hour + m * ms_per_minute + s * 1000 + ms"

definition MakeDate :: "int \<Rightarrow> int \<Rightarrow> int" where
  "MakeDate d tm = d * ms_per_day + tm"

text \<open>
  Year, month (1 to 12) and day of the month of a day number. Inside, a year starts in March:
  \<open>year_parts\<close> splits a day of a 400-year era into year and day of the year, \<open>month_day\<close> a day of
  the year into month and day.
\<close>

definition year_parts :: "int \<Rightarrow> int \<times> int" where
  "year_parts doe =
     (let c = min (doe div 36524) 3; r = doe - 36524 * c; q = r div 1461; s = r mod 1461;
          k = min (s div 365) 3
      in (100 * c + 4 * q + k, s - 365 * k))"

definition month_day :: "int \<Rightarrow> int \<times> int" where
  "month_day doy =
     (let mp = (5 * doy + 2) div 153
      in (if mp < 10 then mp + 3 else mp - 9, doy - (153 * mp + 2) div 5 + 1))"

definition civil_from_days :: "int \<Rightarrow> int \<times> int \<times> int" where
  "civil_from_days n =
     (let z = n + 719468; p = year_parts (z mod 146097); md = month_day (snd p)
      in (z div 146097 * 400 + fst p + (if fst md \<le> 2 then 1 else 0), fst md, snd md))"

definition days_from_civil :: "int \<Rightarrow> int \<Rightarrow> int \<Rightarrow> int" where
  "days_from_civil y0 m d =
     (let y = (if m \<le> 2 then y0 - 1 else y0); era = y div 400; yoe = y mod 400;
          mp = (if m > 2 then m - 3 else m + 9);
          doy = (153 * mp + 2) div 5 + d - 1;
          doe = yoe * 365 + yoe div 4 - yoe div 100 + doy
      in era * 146097 + doe - 719468)"

definition MonthFromTime :: "int \<Rightarrow> int" where
  "MonthFromTime t = (case civil_from_days (Day t) of (y, m, d) \<Rightarrow> m - 1)"

definition DateFromTime :: "int \<Rightarrow> int" where
  "DateFromTime t = (case civil_from_days (Day t) of (y, m, d) \<Rightarrow> d)"

section \<open>The methods of a date in a zone\<close>

definition getMinutes :: "zone \<Rightarrow> int \<Rightarrow> int" where "getMinutes z t = MinFromTime (local_of z t)"
definition getHours :: "zone \<Rightarrow> int \<Rightarrow> int" where "getHours z t = HourFromTime (local_of z t)"
definition getDate :: "zone \<Rightarrow> int \<Rightarrow> int" where "getDate z t = DateFromTime (local_of z t)"
definition getMonth :: "zone \<Rightarrow> int \<Rightarrow> int" where "getMonth z t = MonthFromTime (local_of z t)"
definition getDay :: "zone \<Rightarrow> int \<Rightarrow> int" where "getDay z t = WeekDay (local_of z t)"

definition setMinutes :: "zone \<Rightarrow> int \<Rightarrow> int \<Rightarrow> int" where
  "setMinutes z m t =
     (let l = local_of z t in
      utc_of z (MakeDate (Day l) (MakeTime (HourFromTime l) m (SecFromTime l) (msFromTime l))))"

definition setSeconds :: "zone \<Rightarrow> int \<Rightarrow> int \<Rightarrow> int \<Rightarrow> int" where
  "setSeconds z s ms t =
     (let l = local_of z t in
      utc_of z (MakeDate (Day l) (MakeTime (HourFromTime l) (MinFromTime l) s ms)))"

text \<open>\<open>setDate\<close> takes any day number: it counts on from the first of the month.\<close>

definition setDate :: "zone \<Rightarrow> int \<Rightarrow> int \<Rightarrow> int" where
  "setDate z dt t =
     (let l = local_of z t in
      case civil_from_days (Day l) of (y, m, d) \<Rightarrow>
        utc_of z (MakeDate (days_from_civil y m dt) (l mod ms_per_day)))"

text \<open>The date part of \<open>toISOString\<close>; years beyond four digits have a sign and six digits.\<close>

definition pad0 :: "nat \<Rightarrow> string \<Rightarrow> string" where
  "pad0 n s = replicate (n - length s) (CHR ''0'') @ s"

definition iso_year :: "int \<Rightarrow> string" where
  "iso_year y = (if 0 \<le> y \<and> y \<le> 9999 then pad0 4 (nat_str (nat y))
     else (if y < 0 then ''-'' else ''+'') @ pad0 6 (nat_str (nat \<bar>y\<bar>)))"

definition iso_date :: "int \<Rightarrow> string" where
  "iso_date t = (case civil_from_days (Day t) of (y, m, d) \<Rightarrow>
     iso_year y @ ''-'' @ pad0 2 (nat_str (nat m)) @ ''-'' @ pad0 2 (nat_str (nat d)))"

text \<open>A zone with a fixed offset to UTC, in milliseconds.\<close>

definition fixed_zone :: "int \<Rightarrow> zone" where
  "fixed_zone off = \<lparr>local_of = (\<lambda>t. t + off), utc_of = (\<lambda>t. t - off)\<rparr>"

section \<open>Lemmas\<close>

lemma mixed_radix:
  fixes t :: int
  assumes "t = 1000 * a + r1" "a = 60 * b + r2" "b = 60 * c + r3" "c = 24 * e + r4"
  shows "e * 86400000 + (r4 * 3600000 + r3 * 60000 + r2 * 1000 + r1) = t"
  using assms by simp

lemma div_chain:
  fixes t :: int
  shows "t div 60000 = t div 1000 div 60" "t div 3600000 = t div 1000 div 60 div 60"
    "t div 86400000 = t div 1000 div 60 div 60 div 24"
  by (simp_all flip: zdiv_zmult2_eq)

lemma time_decomposition:
  "MakeDate (Day t) (MakeTime (HourFromTime t) (MinFromTime t) (SecFromTime t) (msFromTime t)) = t"
  unfolding MakeDate_def MakeTime_def Day_def HourFromTime_def MinFromTime_def SecFromTime_def
    msFromTime_def ms_defs div_chain
  by (rule mixed_radix; rule mult_div_mod_eq[symmetric])

text \<open>Setting the minutes to one more than they are moves the local clock on by a minute.\<close>

lemma MakeTime_Suc_minute:
  "MakeDate d (MakeTime h (m + 1) s ms) = MakeDate d (MakeTime h m s ms) + ms_per_minute"
  by (simp add: MakeDate_def MakeTime_def ms_defs)

lemma setMinutes_Suc:
  "setMinutes z (getMinutes z t + 1) t = utc_of z (local_of z t + ms_per_minute)"
  by (simp add: setMinutes_def getMinutes_def Let_def MakeTime_Suc_minute time_decomposition)

lemma getter_bounds:
  "0 \<le> getMinutes z t \<and> getMinutes z t \<le> 59"
  "0 \<le> getHours z t \<and> getHours z t \<le> 23"
  "0 \<le> getDay z t \<and> getDay z t \<le> 6"
  by (simp_all add: getMinutes_def MinFromTime_def getHours_def HourFromTime_def getDay_def
      WeekDay_def zle_diff1_eq[symmetric])

text \<open>The calendar computation is inverted by \<open>days_from_civil\<close>, and its results are in range.\<close>

lemma year_parts_day:
  assumes "0 \<le> doe" "doe < 146097" "year_parts doe = (yoe, doy)"
  shows "0 \<le> doy \<and> doy \<le> 365 \<and> 0 \<le> yoe \<and> yoe < 400
    \<and> doe = yoe * 365 + yoe div 4 - yoe div 100 + doy"
proof -
  define c where "c = min (doe div 36524) 3"
  define r where "r = doe - 36524 * c"
  define q where "q = r div 1461"
  define s where "s = r mod 1461"
  define k where "k = min (s div 365) 3"
  have e: "yoe = 100 * c + 4 * q + k" "doy = s - 365 * k"
    using assms(3) by (simp_all add: year_parts_def Let_def flip: c_def r_def q_def s_def k_def)
  have c: "0 \<le> c" "c \<le> 3" "0 \<le> r" "r \<le> 36524"
    using assms(1,2) unfolding c_def r_def by linarith+
  then have q: "0 \<le> q" "q \<le> 24" unfolding q_def by linarith+
  have rqs: "r = 1461 * q + s" by (simp add: q_def s_def)
  have s: "0 \<le> s" "s < 1461" by (simp_all add: s_def)
  then have k: "0 \<le> k" "k \<le> 3" "0 \<le> doy" "doy \<le> 365"
    unfolding e k_def by linarith+
  have l: "yoe div 4 = 25 * c + q" "yoe div 100 = c"
    using c q k int_div_pos_eq[of yoe 4 "25 * c + q" k] int_div_pos_eq[of yoe 100 c "4 * q + k"]
    by (simp_all add: e)
  have "doe = 36524 * c + r" by (simp add: r_def)
  with rqs l e k c q show ?thesis by simp
qed

lemma month_day_bounds:
  assumes "0 \<le> doy" "doy \<le> 365" "month_day doy = (m, d)"
  shows "1 \<le> m \<and> m \<le> 12 \<and> 1 \<le> d \<and> d \<le> 31
    \<and> doy = (153 * (if m > 2 then m - 3 else m + 9) + 2) div 5 + d - 1"
proof -
  define mp where "mp = (5 * doy + 2) div 153"
  define e where "e = (153 * mp + 2) div 5"
  have m: "m = (if mp < 10 then mp + 3 else mp - 9)" and d: "d = doy - e + 1"
    using assms(3) by (simp_all add: month_day_def Let_def flip: mp_def e_def)
  have mp: "0 \<le> mp" "mp \<le> 11" "153 * mp \<le> 5 * doy + 2" "5 * doy + 2 < 153 * mp + 153"
    using assms(1,2) unfolding mp_def by linarith+
  have e: "5 * e \<le> 153 * mp + 2" "153 * mp + 2 < 5 * e + 5" unfolding e_def by linarith+
  have "e \<le> doy" "doy - e \<le> 30" using mp(3,4) e by linarith+
  moreover have "(if m > 2 then m - 3 else m + 9) = mp" using m mp by simp
  ultimately show ?thesis using d m mp by (simp flip: e_def)
qed

lemma civil_from_days_eq:
  assumes "civil_from_days n = (y, m, d)"
  obtains era yoe doy where "year_parts ((n + 719468) mod 146097) = (yoe, doy)"
    "month_day doy = (m, d)" "era = (n + 719468) div 146097"
    "y = era * 400 + yoe + (if m \<le> 2 then 1 else 0)"
proof (rule that)
  let ?p = "year_parts ((n + 719468) mod 146097)"
  show "?p = (fst ?p, snd ?p)" "month_day (snd ?p) = (m, d)"
    "y = (n + 719468) div 146097 * 400 + fst ?p + (if m \<le> 2 then 1 else 0)"
    using assms by (auto simp: civil_from_days_def Let_def)
qed simp

lemma civil_bounds:
  assumes "civil_from_days n = (y, m, d)"
  shows "1 \<le> m \<and> m \<le> 12 \<and> 1 \<le> d \<and> d \<le> 31"
proof -
  obtain yoe doy where yp: "year_parts ((n + 719468) mod 146097) = (yoe, doy)"
    and md: "month_day doy = (m, d)"
    using assms by (rule civil_from_days_eq)
  from year_parts_day[OF _ _ yp] month_day_bounds[OF _ _ md] show ?thesis by simp
qed

lemma days_from_civil_from_days:
  assumes "civil_from_days n = (y, m, d)"
  shows "days_from_civil y m d = n"
proof -
  let ?z = "n + 719468"
  obtain era yoe doy where yp: "year_parts (?z mod 146097) = (yoe, doy)"
    and md: "month_day doy = (m, d)" and era: "era = ?z div 146097"
    and y: "y = era * 400 + yoe + (if m \<le> 2 then 1 else 0)"
    using assms by (rule civil_from_days_eq)
  have b: "0 \<le> doy" "doy \<le> 365" "0 \<le> yoe" "yoe < 400"
    "?z mod 146097 = yoe * 365 + yoe div 4 - yoe div 100 + doy"
    using year_parts_day[OF _ _ yp] by simp_all
  have m: "doy = (153 * (if m > 2 then m - 3 else m + 9) + 2) div 5 + d - 1"
    using month_day_bounds[OF b(1,2) md] by simp
  have y': "(if m \<le> 2 then y - 1 else y) = yoe + 400 * era" using y by simp
  have e: "(yoe + 400 * era) div 400 = era" "(yoe + 400 * era) mod 400 = yoe" using b by simp_all
  have "?z = era * 146097 + ?z mod 146097" by (simp add: era)
  then show ?thesis unfolding days_from_civil_def Let_def y' e using b(5) m by simp
qed

text \<open>Counting the day of the month down by \<open>k\<close> moves the local clock back by \<open>k\<close> days.\<close>

lemma setDate_back:
  "setDate z (getDate z t - k) t = utc_of z (local_of z t - k * ms_per_day)"
proof -
  obtain y m d where c: "civil_from_days (Day (local_of z t)) = (y, m, d)" by (metis prod_cases3)
  have "days_from_civil y m (d - k) = days_from_civil y m d - k"
    by (simp add: days_from_civil_def Let_def)
  moreover have "days_from_civil y m d = Day (local_of z t)" by (rule days_from_civil_from_days[OF c])
  ultimately have "days_from_civil y m (d - k) = Day (local_of z t) - k" by simp
  moreover have "(Day (local_of z t) - k) * ms_per_day + local_of z t mod ms_per_day = local_of z t - k * ms_per_day"
    by (simp add: Day_def left_diff_distrib)
  ultimately show ?thesis
    by (simp add: setDate_def getDate_def DateFromTime_def c Let_def MakeDate_def)
qed

lemma pad0_zeros: "pad0 n s = pad0 n t \<Longrightarrow> digits_val s = digits_val t"
proof -
  have "digits_val (replicate k (CHR ''0'') @ u) = digits_val u" for k u
    by (induction k) (simp_all add: digits_val_def digit_val_def)
  then show "pad0 n s = pad0 n t \<Longrightarrow> digits_val s = digits_val t" unfolding pad0_def by metis
qed

lemma pad0_nat_inj: "pad0 n (nat_str a) = pad0 n (nat_str b) \<Longrightarrow> a = b"
  by (drule pad0_zeros) simp

lemma length_nat_str_less: "0 < k \<Longrightarrow> n < 10 ^ k \<Longrightarrow> length (nat_str n) \<le> k"
proof (induction k arbitrary: n)
  case (Suc k)
  show ?case
  proof (cases "n < 10")
    case True
    then show ?thesis by (subst nat_str.simps) simp
  next
    case False
    then have "k \<noteq> 0" using Suc.prems by (cases k) auto
    moreover have "n div 10 < 10 ^ k" using Suc.prems(2) by (simp add: less_mult_imp_div_less mult.commute)
    ultimately have "length (nat_str (n div 10)) \<le> k" using Suc.IH by simp
    with False show ?thesis by (subst nat_str.simps) simp
  qed
qed simp

lemma length_pad0: "0 < k \<Longrightarrow> n < 10 ^ k \<Longrightarrow> length (pad0 k (nat_str n)) = k"
  using length_nat_str_less[of k n] by (simp add: pad0_def)

text \<open>The years the ISO format writes with four digits.\<close>

definition iso_day :: "int \<Rightarrow> bool" where
  "iso_day n \<longleftrightarrow> (case civil_from_days n of (y, m, d) \<Rightarrow> 0 \<le> y \<and> y \<le> 9999)"

lemma iso_date_parts:
  assumes "civil_from_days (Day t) = (y, m, d)" "iso_day (Day t)"
  shows "iso_date t = pad0 4 (nat_str (nat y)) @ ''-'' @ pad0 2 (nat_str (nat m)) @ ''-'' @ pad0 2 (nat_str (nat d))"
    "length (pad0 4 (nat_str (nat y))) = 4" "length (pad0 2 (nat_str (nat m))) = 2" "length (pad0 2 (nat_str (nat d))) = 2"
proof -
  have y: "0 \<le> y" "y \<le> 9999" using assms by (simp_all add: iso_day_def)
  have md: "m \<le> 12" "d \<le> 31" using civil_bounds[OF assms(1)] by auto
  show "iso_date t = pad0 4 (nat_str (nat y)) @ ''-'' @ pad0 2 (nat_str (nat m)) @ ''-'' @ pad0 2 (nat_str (nat d))"
    using assms(1) y by (simp add: iso_date_def iso_year_def)
  show "length (pad0 4 (nat_str (nat y))) = 4" using y by (intro length_pad0) auto
  show "length (pad0 2 (nat_str (nat m))) = 2" "length (pad0 2 (nat_str (nat d))) = 2"
    using md by (intro length_pad0; simp)+
qed

lemma iso_date_length: "iso_day (Day t) \<Longrightarrow> length (iso_date t) = 10"
  by (cases "civil_from_days (Day t)") (simp add: iso_date_parts)

text \<open>The ISO date determines the day.\<close>

lemma iso_date_inj:
  assumes "iso_day (Day s)" "iso_day (Day t)" "iso_date s = iso_date t"
  shows "Day s = Day t"
proof -
  obtain y m d where s: "civil_from_days (Day s) = (y, m, d)" by (metis prod_cases3)
  obtain y' m' d' where t: "civil_from_days (Day t) = (y', m', d')" by (metis prod_cases3)
  note ps = iso_date_parts[OF s assms(1)] and pt = iso_date_parts[OF t assms(2)]
  have "pad0 4 (nat_str (nat y)) = pad0 4 (nat_str (nat y'))" "pad0 2 (nat_str (nat m)) = pad0 2 (nat_str (nat m'))"
    "pad0 2 (nat_str (nat d)) = pad0 2 (nat_str (nat d'))"
    using assms(3) ps pt by (simp_all add: append_eq_append_conv)
  then have "nat y = nat y'" "nat m = nat m'" "nat d = nat d'" by (auto dest: pad0_nat_inj)
  moreover have "0 \<le> y" "0 \<le> y'" using assms(1,2) s t by (simp_all add: iso_day_def)
  moreover have "0 \<le> m" "0 \<le> m'" "0 \<le> d" "0 \<le> d'" using civil_bounds[OF s] civil_bounds[OF t] by auto
  ultimately have "(y, m, d) = (y', m', d')" by (simp add: eq_nat_nat_iff)
  then show ?thesis using days_from_civil_from_days[OF s] days_from_civil_from_days[OF t] by simp
qed

lemma getMonth_bounds: "0 \<le> getMonth z t \<and> getMonth z t \<le> 11"
  using civil_bounds[of "Day (local_of z t)"]
  by (cases "civil_from_days (Day (local_of z t))") (auto simp: getMonth_def MonthFromTime_def)

lemma getDate_bounds: "1 \<le> getDate z t \<and> getDate z t \<le> 31"
  using civil_bounds[of "Day (local_of z t)"]
  by (cases "civil_from_days (Day (local_of z t))") (auto simp: getDate_def DateFromTime_def)

end
