(* ===== verification/Cron.thy ===== *)
theory Cron
  imports JsNumber JsDate
begin

text \<open>
  \<open>frontend/src/utils/cron.ts\<close>: parsing of one cron field, matching of a date, the
  description of an expression, and the search for the next runs. Every branch of the source is a
  branch here, the \<open>RangeError\<close> of an oversized \<open>Array.from\<close> included. The reference meaning of a
  well-formed field (\<open>cron_field\<close>, \<open>field_values\<close>) is stated separately and \<open>parseField\<close> is shown
  to compute it; \<open>nextRuns\<close> is shown to be a filter over the minutes that follow.
\<close>

section \<open>parseField\<close>

definition nth_number :: "string list \<Rightarrow> nat \<Rightarrow> js_number" where
  "nth_number xs i = (if i < length xs then to_number (xs ! i) else NaN)"

definition step_filter :: "js_number \<Rightarrow> js_number \<Rightarrow> js_number list \<Rightarrow> js_number list" where
  "step_filter start step vs = filter (\<lambda>v. js_rem (js_sub v start) step = Fin 0) vs"

definition parse_part :: "string \<Rightarrow> nat \<Rightarrow> nat \<Rightarrow> js_number list js_result" where
  "parse_part part mn mx =
     (if includes_sub part ''/'' then
        let ps = split_str ''/'' part;
            rangePart = ps ! 0;
            step = nth_number ps 1;
            bounds = (if rangePart = ''*'' then (Fin (of_nat mn), Fin (of_nat mx))
                      else let rs = split_str ''-'' rangePart in (nth_number rs 0, nth_number rs 1))
        in bind_result (array_range (fst bounds) (snd bounds))
             (\<lambda>vs. Inr (step_filter (fst bounds) step vs))
      else if includes_sub part ''-'' then
        let rs = split_str ''-'' part in array_range (nth_number rs 0) (nth_number rs 1)
      else Inr [to_number part])"

definition parseField :: "string \<Rightarrow> nat \<Rightarrow> nat \<Rightarrow> js_number list js_result" where
  "parseField field mn mx =
     (if field = ''*'' then array_range (Fin (of_nat mn)) (Fin (of_nat mx))
      else if startsWith field ''*/'' then
        let step = to_number (drop 2 field)
        in bind_result (array_range (Fin (of_nat mn)) (Fin (of_nat mx)))
             (\<lambda>vs. Inr (step_filter (Fin (of_nat mn)) step vs))
      else bind_result (map_result (\<lambda>part. parse_part part mn mx) (split_str '','' field))
             (\<lambda>vss. Inr (concat vss)))"

section \<open>matches\<close>

definition has_value :: "js_number list \<Rightarrow> int \<Rightarrow> bool" where
  "has_value vs n \<longleftrightarrow> Fin (of_int n) \<in> set vs"

definition matches :: "zone \<Rightarrow> string \<Rightarrow> int \<Rightarrow> bool js_result" where
  "matches z expr date =
     (let ps = split_spaces (trim expr) in
      if length ps < 5 \<or> ps ! 4 = [] then Inr False
      else
        bind_result (parseField (ps ! 0) 0 59) (\<lambda>minute.
        bind_result (parseField (ps ! 1) 0 23) (\<lambda>hour.
        bind_result (parseField (ps ! 2) 1 31) (\<lambda>day.
        bind_result (parseField (ps ! 3) 1 12) (\<lambda>month.
        bind_result (parseField (ps ! 4) 0 6) (\<lambda>weekday.
          Inr (has_value minute (getMinutes z date) \<and> has_value hour (getHours z date)
               \<and> has_value day (getDate z date) \<and> has_value month (getMonth z date + 1)
               \<and> has_value weekday (getDay z date))))))))"

section \<open>parseCron\<close>

definition parseCron :: "string \<Rightarrow> string" where
  "parseCron expr =
     (let parts = split_spaces (trim expr) in
      if length parts \<noteq> 5 then ''Invalid cron expression''
      else
        let minute = parts ! 0; hour = parts ! 1; day = parts ! 2; month = parts ! 3;
            weekday = parts ! 4
        in if expr = ''0 3 * * *'' then ''Every day at 03:00''
           else if startsWith minute ''*/'' \<and> hour = ''*'' \<and> day = ''*'' \<and> month = ''*'' \<and> weekday = ''*''
             then ''Every '' @ drop 2 minute @ '' minutes''
           else if minute = ''0'' \<and> hour = ''*'' \<and> day = ''*'' \<and> month = ''*'' \<and> weekday = ''*''
             then ''Every hour''
           else if day = ''*'' \<and> month = ''*'' \<and> weekday = ''*''
             then ''Every day at '' @ padStart2 hour @ '':'' @ padStart2 minute
           else ''Runs on cron schedule: '' @ expr)"

section \<open>nextRuns\<close>

definition max_attempts :: nat where "max_attempts = 100000"

definition next_minute :: "zone \<Rightarrow> int \<Rightarrow> int" where
  "next_minute z cursor = setMinutes z (getMinutes z cursor + 1) cursor"

function next_runs_loop ::
  "zone \<Rightarrow> string \<Rightarrow> nat \<Rightarrow> int list \<Rightarrow> int \<Rightarrow> nat \<Rightarrow> int list js_result" where
  "next_runs_loop z expr count runs cursor attempts =
     (if length runs < count \<and> attempts < max_attempts then
        let cursor' = next_minute z cursor in
        bind_result (matches z expr cursor') (\<lambda>m.
          next_runs_loop z expr count (if m then runs @ [cursor'] else runs) cursor' (attempts + 1))
      else Inr runs)"
  by pat_completeness auto
termination
  by (relation "measure (\<lambda>(z, expr, count, runs, cursor, attempts). max_attempts - attempts)") auto

declare next_runs_loop.simps [simp del]

definition nextRuns :: "zone \<Rightarrow> int \<Rightarrow> string \<Rightarrow> nat \<Rightarrow> int list js_result" where
  "nextRuns z now expr count = next_runs_loop z expr count [] (setSeconds z 0 0 now) 0"

section \<open>The meaning of a well-formed field\<close>

text \<open>
  The cron dialect the parser understands: a whole field \<open>*\<close> or \<open>*/k\<close>, or a comma list of
  numbers, ranges \<open>a-b\<close>, stepped ranges \<open>a-b/k\<close> and stepped wildcards \<open>*/k\<close>.
\<close>

datatype cron_item = Val nat | Range nat nat | RangeStep nat nat nat | StarStep nat

datatype cron_field = Star | Every nat | Items "cron_item list"

fun show_item :: "cron_item \<Rightarrow> string" where
  "show_item (Val n) = nat_str n"
| "show_item (Range a b) = nat_str a @ ''-'' @ nat_str b"
| "show_item (RangeStep a b k) = nat_str a @ ''-'' @ nat_str b @ ''/'' @ nat_str k"
| "show_item (StarStep k) = ''*/'' @ nat_str k"

fun show_field :: "cron_field \<Rightarrow> string" where
  "show_field Star = ''*''"
| "show_field (Every k) = ''*/'' @ nat_str k"
| "show_field (Items its) = join '','' (map show_item its)"

definition stepped :: "nat \<Rightarrow> nat \<Rightarrow> nat \<Rightarrow> nat list" where
  "stepped a b k = filter (\<lambda>v. k \<noteq> 0 \<and> k dvd (v - a)) [a..<Suc b]"

fun item_values :: "nat \<Rightarrow> nat \<Rightarrow> cron_item \<Rightarrow> nat list" where
  "item_values mn mx (Val n) = [n]"
| "item_values mn mx (Range a b) = [a..<Suc b]"
| "item_values mn mx (RangeStep a b k) = stepped a b k"
| "item_values mn mx (StarStep k) = stepped mn mx k"

fun field_values :: "nat \<Rightarrow> nat \<Rightarrow> cron_field \<Rightarrow> nat list" where
  "field_values mn mx Star = [mn..<Suc mx]"
| "field_values mn mx (Every k) = stepped mn mx k"
| "field_values mn mx (Items its) = concat (map (item_values mn mx) its)"

text \<open>Range ends an array can hold, and a list that does not begin with a stepped wildcard.\<close>

fun wf_item :: "cron_item \<Rightarrow> bool" where
  "wf_item (Range a b) \<longleftrightarrow> b < 2 ^ 32 - 1"
| "wf_item (RangeStep a b k) \<longleftrightarrow> b < 2 ^ 32 - 1"
| "wf_item _ \<longleftrightarrow> True"

fun wf_field :: "cron_field \<Rightarrow> bool" where
  "wf_field (Items its) \<longleftrightarrow> its \<noteq> [] \<and> list_all wf_item its \<and> (\<forall>k. hd its \<noteq> StarStep k)"
| "wf_field _ \<longleftrightarrow> True"

text \<open>The minutes \<open>nextRuns\<close> visits, in order.\<close>

definition minutes_from :: "zone \<Rightarrow> int \<Rightarrow> nat \<Rightarrow> int list" where
  "minutes_from z c n = map (\<lambda>k. (next_minute z ^^ Suc k) c) [0..<n]"

section \<open>Lemmas: the parser computes the meaning of a field\<close>

lemma step_filter_nat:
  "step_filter (Fin (of_nat a)) (Fin (of_nat k)) (map (\<lambda>i. Fin (of_nat i)) [a..<Suc b])
     = map (\<lambda>i. Fin (of_nat i)) (stepped a b k)"
proof -
  have "(js_rem (js_sub (Fin (of_nat v)) (Fin (of_nat a))) (Fin (of_nat k)) = Fin 0)
      = (k \<noteq> 0 \<and> k dvd (v - a))" if "v \<in> set [a..<Suc b]" for v
  proof -
    have "a \<le> v" using that by (simp del: upt_Suc)
    then show ?thesis using js_rem_nat[of "v - a" k] by (simp add: of_nat_diff)
  qed
  then have "filter (\<lambda>v. js_rem (js_sub (Fin (of_nat v)) (Fin (of_nat a))) (Fin (of_nat k)) = Fin 0)
      [a..<Suc b] = stepped a b k"
    unfolding stepped_def by (intro filter_cong refl)
  then show ?thesis by (simp add: step_filter_def filter_map comp_def del: upt_Suc)
qed

lemma nth_number_simps [simp]:
  "nth_number (x # xs) 0 = to_number x" "nth_number (x # xs) (Suc i) = nth_number xs i"
  by (simp_all add: nth_number_def)

lemma parse_part_item:
  assumes "wf_item i" "mx < 2 ^ 32 - 1"
  shows "parse_part (show_item i) mn mx = Inr (map (\<lambda>n. Fin (of_nat n)) (item_values mn mx i))"
proof (cases i)
  case (Val n)
  then show ?thesis by (simp add: parse_part_def includes_char nat_str_no_symbol)
next
  case (Range a b)
  have "split_str ''-'' (nat_str a @ ''-'' @ nat_str b) = [nat_str a, nat_str b]"
    using split_char_append[of "CHR ''-''" "nat_str a" "nat_str b"]
    by (simp add: split_no_char nat_str_no_symbol)
  with Range assms show ?thesis
    by (simp add: parse_part_def includes_char nat_str_no_symbol array_range_nat del: upt_Suc)
next
  case (RangeStep a b k)
  have s: "split_str ''/'' ((nat_str a @ ''-'' @ nat_str b) @ ''/'' @ nat_str k)
      = [nat_str a @ ''-'' @ nat_str b, nat_str k]"
    using split_char_append[of "CHR ''/''" "nat_str a @ ''-'' @ nat_str b" "nat_str k"]
    by (simp add: split_no_char nat_str_no_symbol)
  have r: "split_str ''-'' (nat_str a @ ''-'' @ nat_str b) = [nat_str a, nat_str b]"
    using split_char_append[of "CHR ''-''" "nat_str a" "nat_str b"]
    by (simp add: split_no_char nat_str_no_symbol)
  have ns: "nat_str a @ ''-'' @ nat_str b \<noteq> ''*''"
  proof
    assume "nat_str a @ ''-'' @ nat_str b = ''*''"
    then have "CHR ''-'' \<in> set ''*''" by (metis in_set_conv_decomp append_Cons append_Nil)
    then show False by simp
  qed
  from RangeStep assms s r ns show ?thesis
    by (simp add: parse_part_def includes_char array_range_nat step_filter_nat del: upt_Suc)
next
  case (StarStep k)
  have s: "split_str ''/'' (''*'' @ ''/'' @ nat_str k) = [''*'', nat_str k]"
    using split_char_append[of "CHR ''/''" "''*''" "nat_str k"]
    by (simp add: split_no_char nat_str_no_symbol)
  with StarStep assms show ?thesis
    by (simp add: parse_part_def includes_char array_range_nat step_filter_nat del: upt_Suc)
qed

lemma show_item_no_comma: "CHR '','' \<notin> set (show_item i)"
  by (cases i) (simp_all add: nat_str_no_symbol)

lemma show_item_not_star: "show_item i \<noteq> ''*''"
proof (cases i)
  case (Val n)
  then show ?thesis using nat_str_no_symbol(4)[of n] by auto
qed (auto simp: Cons_eq_append_conv append_eq_Cons_conv)

lemma show_item_starts:
  assumes "\<forall>k. i \<noteq> StarStep k"
  shows "show_item i \<noteq> []" "hd (show_item i) \<noteq> CHR ''*''"
proof -
  have h: "hd (nat_str n) \<noteq> CHR ''*''" for n
    using nat_str_no_symbol(4)[of n] hd_in_set[OF nat_str_not_Nil, of n] by metis
  show "show_item i \<noteq> []" by (cases i) simp_all
  show "hd (show_item i) \<noteq> CHR ''*''" using assms h by (cases i) (simp_all add: hd_append)
qed

lemma join_hd: "xs \<noteq> [] \<Longrightarrow> hd xs \<noteq> [] \<Longrightarrow> join sep xs \<noteq> [] \<and> hd (join sep xs) = hd (hd xs)"
  by (cases xs; cases "tl xs") auto

lemma parseField_meaning:
  assumes "wf_field f" "mx < 2 ^ 32 - 1"
  shows "parseField (show_field f) mn mx = Inr (map (\<lambda>n. Fin (of_nat n)) (field_values mn mx f))"
proof (cases f)
  case Star
  with assms show ?thesis by (simp add: parseField_def array_range_nat del: upt_Suc)
next
  case (Every k)
  with assms show ?thesis
    by (simp add: parseField_def startsWith_def array_range_nat step_filter_nat del: upt_Suc)
next
  case (Items its)
  with assms have wf: "its \<noteq> []" "\<forall>i \<in> set its. wf_item i" "\<forall>k. hd its \<noteq> StarStep k"
    by (auto simp: list_all_iff)
  let ?s = "join '','' (map show_item its)"
  have h: "?s \<noteq> [] \<and> hd ?s \<noteq> CHR ''*''"
    using join_hd[of "map show_item its" "'',''"] show_item_starts[OF wf(3)] wf(1)
    by (simp add: hd_map)
  then have ns: "?s \<noteq> ''*''" "\<not> startsWith ?s ''*/''" by (auto simp: startsWith_iff)
  have sp: "split_str '','' ?s = map show_item its"
    using wf(1) show_item_no_comma by (intro split_join) auto
  have mr: "map_result (\<lambda>part. parse_part part mn mx) (map show_item its)
      = Inr (map (\<lambda>i. map (\<lambda>n. Fin (of_nat n)) (item_values mn mx i)) its)"
    using wf(2) by (induction its) (simp_all add: parse_part_item[OF _ assms(2)])
  from Items ns sp mr show ?thesis by (simp add: parseField_def map_concat comp_def)
qed

section \<open>Lemmas: expressions\<close>

text \<open>
  Whether \<open>matches\<close> throws, and which values it looks for, depends on the expression alone:
  \<open>cron_values\<close> is the five value lists, \<open>None\<close> for an expression with fewer than five fields.
\<close>

definition cron_values :: "string \<Rightarrow> (js_number list list) option js_result" where
  "cron_values expr =
     (let ps = split_spaces (trim expr) in
      if length ps < 5 \<or> ps ! 4 = [] then Inr None
      else bind_result (map_result (\<lambda>(p, mn, mx). parseField p mn mx)
             [(ps ! 0, 0, 59), (ps ! 1, 0, 23), (ps ! 2, 1, 31), (ps ! 3, 1, 12), (ps ! 4, 0, 6)])
             (\<lambda>vs. Inr (Some vs)))"

definition date_fields :: "zone \<Rightarrow> int \<Rightarrow> int list" where
  "date_fields z t = [getMinutes z t, getHours z t, getDate z t, getMonth z t + 1, getDay z t]"

definition values_match :: "zone \<Rightarrow> (js_number list list) option \<Rightarrow> int \<Rightarrow> bool" where
  "values_match z vs t = (case vs of None \<Rightarrow> False | Some vss \<Rightarrow> list_all2 has_value vss (date_fields z t))"

lemma matches_values:
  "matches z expr t = bind_result (cron_values expr) (\<lambda>vs. Inr (values_match z vs t))"
  by (simp add: matches_def cron_values_def values_match_def date_fields_def Let_def bind_result_def
      split: sum.splits)

lemma minutes_from_Suc:
  "minutes_from z c (Suc n) = next_minute z c # minutes_from z (next_minute z c) n"
proof -
  have "[0..<Suc n] = 0 # map Suc [0..<n]" by (metis map_Suc_upt upt_conv_Cons zero_less_Suc)
  then show ?thesis by (simp add: minutes_from_def comp_def funpow_swap1 del: upt_Suc)
qed

lemma minutes_from_0 [simp]: "minutes_from z c 0 = []"
  by (simp add: minutes_from_def)

lemma next_runs_loop_filter:
  assumes "cron_values expr = Inr vs" "length runs \<le> count" "attempts \<le> max_attempts"
  shows "next_runs_loop z expr count runs cursor attempts =
     Inr (runs @ take (count - length runs)
       (filter (values_match z vs) (minutes_from z cursor (max_attempts - attempts))))"
  using assms(2,3)
proof (induction "max_attempts - attempts" arbitrary: runs cursor attempts)
  case 0
  then show ?case by (simp add: next_runs_loop.simps)
next
  case (Suc n)
  let ?c = "next_minute z cursor"
  have m: "matches z expr ?c = Inr (values_match z vs ?c)" by (simp add: matches_values assms(1))
  have n: "max_attempts - attempts = Suc n" "max_attempts - (attempts + 1) = n"
    "attempts < max_attempts" using Suc.hyps(2) by simp_all
  show ?case
  proof (cases "length runs < count")
    case False
    with Suc.prems show ?thesis by (simp add: next_runs_loop.simps)
  next
    case True
    let ?runs = "if values_match z vs ?c then runs @ [?c] else runs"
    have "next_runs_loop z expr count ?runs ?c (attempts + 1) =
        Inr (?runs @ take (count - length ?runs) (filter (values_match z vs) (minutes_from z ?c n)))"
      using Suc.hyps(1)[of "attempts + 1" ?runs ?c] n True Suc.prems by simp
    with True n m show ?thesis
      by (simp add: next_runs_loop.simps[of z expr count runs] minutes_from_Suc Suc_diff_Suc
          take_Cons' Let_def)
  qed
qed

lemma next_runs_loop_error:
  assumes "cron_values expr = Inl e" "length runs < count" "attempts < max_attempts"
  shows "next_runs_loop z expr count runs cursor attempts = Inl e"
  using assms by (simp add: next_runs_loop.simps matches_values Let_def)

lemma split_spaces_hd:
  "\<not> is_space c \<Longrightarrow> split_spaces (c # s) = (c # hd (split_spaces s)) # tl (split_spaces s)"
  using split_spaces_not_Nil[of s] by (cases "split_spaces s") simp_all

lemma split_spaces_word: "\<forall>c \<in> set w. \<not> is_space c \<Longrightarrow> split_spaces w = [w]"
  by (induction w) (simp_all add: split_spaces_hd del: split_spaces.simps(2))

lemma split_spaces_append:
  "\<forall>c \<in> set w. \<not> is_space c \<Longrightarrow> t \<noteq> [] \<Longrightarrow> \<not> is_space (hd t) \<Longrightarrow>
     split_spaces (w @ '' '' @ t) = w # split_spaces t"
proof (induction w)
  case Nil
  then show ?case by (cases t) (simp_all add: is_space_def)
next
  case (Cons c w)
  then show ?case using split_spaces_hd[of c "w @ '' '' @ t"] by simp
qed

definition word :: "string \<Rightarrow> bool" where
  "word w \<longleftrightarrow> w \<noteq> [] \<and> (\<forall>c \<in> set w. \<not> is_space c)"

lemma word_join_hd: "list_all word ws \<Longrightarrow> ws \<noteq> [] \<Longrightarrow>
    join '' '' ws \<noteq> [] \<and> \<not> is_space (hd (join '' '' ws)) \<and> \<not> is_space (last (join '' '' ws))"
proof (induction ws rule: induct_list012)
  case (3 x y ws)
  then show ?case by (auto simp: word_def)
qed (auto simp: word_def)

lemma trim_edges:
  assumes "s \<noteq> []" "\<not> is_space (hd s)" "\<not> is_space (last s)"
  shows "trim s = s"
proof -
  have "dropWhile is_space s = s" using assms by (cases s) simp_all
  moreover have "dropWhile is_space (rev s) = rev s" using assms by (cases s rule: rev_cases) simp_all
  ultimately show ?thesis by (simp add: trim_def)
qed

lemma split_spaces_join:
  assumes "list_all word ws" "ws \<noteq> []"
  shows "split_spaces (trim (join '' '' ws)) = ws"
proof -
  have "split_spaces (join '' '' ws) = ws" using assms
  proof (induction ws rule: induct_list012)
    case (3 x y ws)
    have "\<forall>c \<in> set x. \<not> is_space c" using 3 by (simp add: word_def)
    with 3 show ?case
      using word_join_hd[of "y # ws"] split_spaces_append[of x "join '' '' (y # ws)"] by simp
  qed (simp_all add: word_def split_spaces_word)
  moreover have "trim (join '' '' ws) = join '' '' ws"
    using word_join_hd[OF assms] by (intro trim_edges) auto
  ultimately show ?thesis by simp
qed

lemma word_nat_str [simp]: "word (nat_str n)"
  using nat_str_digits is_space_not_digit by (auto simp: word_def)

lemma word_star [simp]: "word ''*''"
  by (simp add: word_def is_space_def)

lemma trim_idem_five:
  "list_all word [a, b, c, d, e] \<Longrightarrow>
     split_spaces (trim (a @ '' '' @ b @ '' '' @ c @ '' '' @ d @ '' '' @ e)) = [a, b, c, d, e]"
  using split_spaces_join[of "[a, b, c, d, e]"] by simp

lemma parseField_star: "mx < 2 ^ 32 - 1 \<Longrightarrow>
    parseField ''*'' mn mx = Inr (map (\<lambda>n. Fin (of_nat n)) [mn..<Suc mx])"
  using parseField_meaning[of Star] by simp

lemma parseField_number: "mx < 2 ^ 32 - 1 \<Longrightarrow> parseField (nat_str n) mn mx = Inr [Fin (of_nat n)]"
  using parseField_meaning[of "Items [Val n]"] by simp

lemma has_value_map:
  "has_value (map (\<lambda>n. Fin (of_nat n)) ns) v \<longleftrightarrow> (\<exists>n \<in> set ns. v = int n)"
  by (auto simp: has_value_def) (metis of_int_of_nat_eq of_int_eq_iff)+

lemma has_value_star: "has_value (map (\<lambda>n. Fin (of_nat n)) [mn..<Suc mx]) v \<longleftrightarrow> int mn \<le> v \<and> v \<le> int mx"
proof
  assume "int mn \<le> v \<and> v \<le> int mx"
  then have "nat v \<in> set [mn..<Suc mx]" "v = int (nat v)" by (auto simp del: upt_Suc)
  then show "has_value (map (\<lambda>n. Fin (of_nat n)) [mn..<Suc mx]) v"
    unfolding has_value_map by blast
qed (auto simp: has_value_map simp del: upt_Suc)

lemma star_fields_match:
  "has_value (map (\<lambda>n. Fin (of_nat n)) [0..<Suc 59]) (getMinutes z t)"
  "has_value (map (\<lambda>n. Fin (of_nat n)) [0..<Suc 23]) (getHours z t)"
  "has_value (map (\<lambda>n. Fin (of_nat n)) [1..<Suc 31]) (getDate z t)"
  "has_value (map (\<lambda>n. Fin (of_nat n)) [1..<Suc 12]) (getMonth z t + 1)"
  "has_value (map (\<lambda>n. Fin (of_nat n)) [0..<Suc 6]) (getDay z t)"
  using getter_bounds[of z t] getDate_bounds[of z t] getMonth_bounds[of z t]
  unfolding has_value_star by simp_all

lemma matches_fields:
  assumes "split_spaces (trim expr) = [a, b, c, d, e]" "e \<noteq> []"
    "parseField a 0 59 = Inr va" "parseField b 0 23 = Inr vb" "parseField c 1 31 = Inr vc"
    "parseField d 1 12 = Inr vd" "parseField e 0 6 = Inr ve"
  shows "matches z expr t = Inr (has_value va (getMinutes z t) \<and> has_value vb (getHours z t)
     \<and> has_value vc (getDate z t) \<and> has_value vd (getMonth z t + 1) \<and> has_value ve (getDay z t))"
  using assms by (simp add: matches_def Let_def)

lemma matches_daily:
  "matches z (nat_str m @ '' '' @ nat_str h @ '' * * *'') t =
     Inr (getMinutes z t = int m \<and> getHours z t = int h)"
proof -
  let ?e = "nat_str m @ '' '' @ nat_str h @ '' * * *''"
  have sp: "split_spaces (trim ?e) = [nat_str m, nat_str h, ''*'', ''*'', ''*'']"
    using trim_idem_five[of "nat_str m" "nat_str h" "''*''" "''*''" "''*''"] by simp
  have v: "has_value [Fin (of_nat n)] x \<longleftrightarrow> x = int n" for n x
    using has_value_map[of "[n]" x] by simp
  show ?thesis
    using matches_fields[OF sp _ parseField_number parseField_number parseField_star
        parseField_star parseField_star, of z t] star_fields_match[of z t]
    by (simp add: v del: upt_Suc)
qed

lemma cron_values_always: "values_match z (Some (map (\<lambda>(mn, mx). map (\<lambda>n. Fin (of_nat n)) [mn..<Suc mx])
    [(0, 59), (0, 23), (1, 31), (1, 12), (0, 6)])) t"
  using star_fields_match[of z t] by (simp add: values_match_def date_fields_def del: upt_Suc)

lemma cron_values_star: "cron_values ''* * * * *'' = Inr (Some (map (\<lambda>(mn, mx).
    map (\<lambda>n. Fin (of_nat n)) [mn..<Suc mx]) [(0, 59), (0, 23), (1, 31), (1, 12), (0, 6)]))"
proof -
  have sp: "split_spaces (trim ''* * * * *'') = [''*'', ''*'', ''*'', ''*'', ''*'']"
    using trim_idem_five[of "''*''" "''*''" "''*''" "''*''" "''*''"] by simp
  show ?thesis by (simp add: cron_values_def sp Let_def parseField_star del: upt_Suc)
qed

lemma minutes_from_increasing:
  assumes "\<And>t. t < utc_of z (local_of z t + ms_per_minute)"
  shows "sorted_wrt (<) (c # minutes_from z c n)"
proof (induction n arbitrary: c)
  case 0
  then show ?case by simp
next
  case (Suc n)
  have "c < next_minute z c" using assms by (simp add: next_minute_def setMinutes_Suc)
  with Suc[of "next_minute z c"] show ?case by (fastforce simp: minutes_from_Suc)
qed

section \<open>Properties\<close>

text \<open>C2. \<open>parseField\<close> is correct on its dialect: printing any well-formed field (a wildcard, a
  stepped wildcard, or a comma list of numbers, ranges and stepped ranges) and parsing it returns
  exactly the values the field denotes, in order.\<close>

theorem parseField_denotes:
  assumes "wf_field f" "mx < 2 ^ 32 - 1"
  shows "parseField (show_field f) mn mx = Inr (map (\<lambda>n. Fin (of_nat n)) (field_values mn mx f))"
  using assms by (rule parseField_meaning)

theorem parseField_denotes_witness:
  "parseField (show_field (Items [Val 5, RangeStep 10 20 5])) 0 59
     = Inr (map (\<lambda>n. Fin (of_nat n)) [5, 10, 15, 20])"
  using parseField_denotes[of "Items [Val 5, RangeStep 10 20 5]" 59 0]
  by (simp add: stepped_def upt_rec)

text \<open>C1. \<open>nextRuns\<close> is a bounded filter: for every expression, zone and count it returns the
  first \<open>count\<close> matching minutes among the 100000 minutes after the current one, in order, and it
  throws exactly when a field of the expression makes \<open>Array.from\<close> throw (and a run is wanted).\<close>

theorem nextRuns_filters_minutes:
  "nextRuns z now expr count =
     (case cron_values expr of
        Inl e \<Rightarrow> if count = 0 then Inr [] else Inl e
      | Inr vs \<Rightarrow> Inr (take count (filter (values_match z vs)
                     (minutes_from z (setSeconds z 0 0 now) 100000))))"
proof (cases "cron_values expr")
  case (Inl e)
  then show ?thesis
    using next_runs_loop_error[OF Inl, of "[]" count 0]
    by (auto simp: nextRuns_def max_attempts_def next_runs_loop.simps[of z expr 0])
next
  case (Inr vs)
  then show ?thesis
    using next_runs_loop_filter[OF Inr, of "[]" count 0]
    by (simp add: nextRuns_def max_attempts_def)
qed

text \<open>In a zone where the local clock moves forward, the runs \<open>nextRuns\<close> returns are strictly
  increasing, all later than the start of the current minute, and at most \<open>count\<close> many.\<close>

theorem nextRuns_increasing:
  assumes "\<And>t. t < utc_of z (local_of z t + ms_per_minute)"
    and "nextRuns z now expr count = Inr runs"
  shows "sorted_wrt (<) (setSeconds z 0 0 now # runs) \<and> length runs \<le> count"
proof -
  let ?c = "setSeconds z 0 0 now"
  from assms(2) consider "runs = []"
    | vs where "runs = take count (filter (values_match z vs) (minutes_from z ?c max_attempts))"
    using next_runs_loop_filter[of expr _ "[]" count 0 z ?c]
      next_runs_loop_error[of expr _ "[]" count 0 z ?c]
    by (cases "cron_values expr"; cases "count = 0")
      (auto simp: nextRuns_def max_attempts_def next_runs_loop.simps[of z expr 0])
  then show ?thesis
  proof cases
    case 1
    then show ?thesis by simp
  next
    case (2 vs)
    have s: "sorted_wrt (<) (?c # minutes_from z ?c max_attempts)"
      using assms(1) by (rule minutes_from_increasing)
    have "set runs \<subseteq> set (minutes_from z ?c max_attempts)"
      unfolding 2 by (meson filter_is_subset set_take_subset subset_trans)
    with s have "sorted_wrt (<) (?c # runs)"
      by (auto simp: 2 intro: sorted_wrt_take sorted_wrt_filter)
    then show ?thesis by (simp add: 2)
  qed
qed

theorem nextRuns_increasing_witness:
  "sorted_wrt (<) (setSeconds (fixed_zone 3600000) 0 0 0 # [60000, 120000]) \<and> (2::nat) \<le> 2"
proof -
  have "nextRuns (fixed_zone 3600000) 0 ''* * * * *'' 2 = Inr [60000, 120000]"
    using cron_values_always[of "fixed_zone 3600000"]
    by (simp add: nextRuns_def next_runs_loop.simps max_attempts_def matches_values cron_values_star
        next_minute_def setMinutes_Suc fixed_zone_def ms_per_minute_def setSeconds_def MakeDate_def
        MakeTime_def Day_def HourFromTime_def MinFromTime_def ms_defs Let_def del: upt_Suc)
  then show ?thesis
    using nextRuns_increasing[of "fixed_zone 3600000" 0 "''* * * * *''" 2 "[60000, 120000]"]
    by (simp add: fixed_zone_def ms_per_minute_def)
qed

text \<open>The wildcard expression always has a next run: \<open>nextRuns\<close> finds all the runs asked for,
  the consecutive minutes after now, in every zone (up to the 100000 attempts).\<close>

theorem nextRuns_every_minute:
  "nextRuns z now ''* * * * *'' count =
     Inr (minutes_from z (setSeconds z 0 0 now) (min count 100000))"
proof -
  have t: "take n (minutes_from z c m) = minutes_from z c (min n m)" for n m c
    by (simp add: minutes_from_def take_map min_def)
  show ?thesis
    using next_runs_loop_filter[OF cron_values_star, of "[]" count 0 z "setSeconds z 0 0 now"]
      cron_values_always[of z]
    by (simp add: nextRuns_def max_attempts_def t)
qed

text \<open>The description of a daily schedule is sound: for \<open>m h * * *\<close> the text names the hour and
  minute, and \<open>matches\<close> accepts exactly the dates at that local hour and minute.\<close>

theorem parseCron_daily_sound:
  "parseCron (nat_str m @ '' '' @ nat_str h @ '' * * *'')
     = ''Every day at '' @ padStart2 (nat_str h) @ '':'' @ padStart2 (nat_str m)
   \<and> matches z (nat_str m @ '' '' @ nat_str h @ '' * * *'') t
     = Inr (getMinutes z t = int m \<and> getHours z t = int h)"
proof -
  define e where "e = nat_str m @ '' '' @ nat_str h @ '' * * *''"
  have sp: "split_spaces (trim e) = [nat_str m, nat_str h, ''*'', ''*'', ''*'']"
    using trim_idem_five[of "nat_str m" "nat_str h" "''*''" "''*''" "''*''"] by (simp add: e_def)
  have ns: "nat_str h \<noteq> ''*''" using nat_str_no_symbol(4)[of h] by auto
  have three: "nat_str m = ''0'' \<and> nat_str h = ''3''" if "e = ''0 3 * * *''"
    using sp unfolding that by (simp add: trim_def is_space_def)
  have "parseCron e = ''Every day at '' @ padStart2 (nat_str h) @ '':'' @ padStart2 (nat_str m)"
    using three ns unfolding parseCron_def sp Let_def by (auto simp: padStart2_def)
  then show ?thesis using matches_daily unfolding e_def by blast
qed

text \<open>A comma list that begins with a stepped wildcard is read as one stepped wildcard whose step
  is not a number: the field \<open>*/15,7\<close> has no values at all, so \<open>matches\<close> never accepts a date for an
  expression with that minute field, although 7 is listed.\<close>

theorem parseField_stepped_list_empty:
  "parseField ''*/15,7'' 0 59 = Inr [] \<and> matches z ''*/15,7 * * * *'' t = Inr False"
proof -
  have "to_number ''15,7'' = NaN"
    by (simp add: to_number_def trim_def is_space_def startsWith_def unsigned_literal_def
        unsigned_decimal_def is_e_def Let_def is_digit_code)
  then have p: "parseField ''*/15,7'' 0 59 = Inr []"
    using array_range_nat[of 59 0]
    by (simp add: parseField_def startsWith_def step_filter_def js_rem_def js_sub_def js_neg_def
        js_add_def comp_def del: upt_Suc split: js_number.splits)
  have sp: "split_spaces (trim ''*/15,7 * * * *'') = [''*/15,7'', ''*'', ''*'', ''*'', ''*'']"
    using trim_idem_five[of "''*/15,7''" "''*''" "''*''" "''*''" "''*''"]
    by (simp add: word_def is_space_def)
  show ?thesis
    using matches_fields[OF sp _ p parseField_star parseField_star parseField_star
        parseField_star, of z t] p
    by (simp add: has_value_def del: upt_Suc)
qed

text \<open>The expression that runs every minute is described as a daily run: \<open>parseCron\<close> pads the two
  wildcards and answers \<open>Every day at 0*:0*\<close>, while every date matches the expression.\<close>

theorem parseCron_wildcard_text:
  "parseCron ''* * * * *'' = ''Every day at 0*:0*'' \<and> matches z ''* * * * *'' t = Inr True"
proof -
  have sp: "split_spaces (trim ''* * * * *'') = [''*'', ''*'', ''*'', ''*'', ''*'']"
    using trim_idem_five[of "''*''" "''*''" "''*''" "''*''" "''*''"] by simp
  have "matches z ''* * * * *'' t = Inr True"
    using cron_values_always[of z t] by (simp add: matches_values cron_values_star del: upt_Suc)
  moreover have "parseCron ''* * * * *'' = ''Every day at 0*:0*''"
    by (simp add: parseCron_def sp startsWith_def padStart2_def)
  ultimately show ?thesis by simp
qed

end
