(* ===== verification/Utils.thy ===== *)
theory Utils
  imports Prelude "HOL-Library.Word"
begin

text \<open>
  The remaining files of \<open>frontend/src/utils\<close>: \<open>time.ts\<close> (uptime formatting), \<open>tags.ts\<close> (the colour
  of a tag, a 32-bit hash) and \<open>export.ts\<close> (CSV and JSON downloads). The download code drives the
  DOM; its statements are a list of \<open>dom_effect\<close>s that \<open>run_dom\<close> executes on a small browser state.
\<close>

section \<open>time.ts\<close>

definition formatUptime :: "rat \<Rightarrow> string" where
  "formatUptime secs =
     (let totalMinutes = nat (max 0 \<lfloor>secs / 60\<rfloor>);
          days = totalMinutes div (24 * 60);
          hours = (totalMinutes mod (24 * 60)) div 60;
          minutes = totalMinutes mod 60;
          parts = (if days > 0 then [nat_str days @ ''d''] else [])
                @ (if hours > 0 \<or> days > 0 then [nat_str hours @ ''h''] else [])
                @ [nat_str minutes @ ''m'']
      in join '' '' parts)"

text \<open>The time value of the boot, from the current time value \<open>now\<close>.\<close>

definition lastBootTime :: "rat \<Rightarrow> rat \<Rightarrow> rat" where
  "lastBootTime now uptimeSecs = now - uptimeSecs * 1000"

section \<open>tags.ts\<close>

definition TAG_COLORS :: "string list" where
  "TAG_COLORS =
    [''bg-blue-100 text-blue-700 dark:bg-blue-500/15 dark:text-blue-300'',
     ''bg-emerald-100 text-emerald-700 dark:bg-emerald-500/15 dark:text-emerald-300'',
     ''bg-amber-100 text-amber-700 dark:bg-amber-500/15 dark:text-amber-300'',
     ''bg-rose-100 text-rose-700 dark:bg-rose-500/15 dark:text-rose-300'',
     ''bg-violet-100 text-violet-700 dark:bg-violet-500/15 dark:text-violet-300'',
     ''bg-cyan-100 text-cyan-700 dark:bg-cyan-500/15 dark:text-cyan-300'',
     ''bg-orange-100 text-orange-700 dark:bg-orange-500/15 dark:text-orange-300'',
     ''bg-lime-100 text-lime-700 dark:bg-lime-500/15 dark:text-lime-300'']"

text \<open>
  The tag is its list of UTF-16 code units. \<open>hash * 31 + code\<close> stays below \<open>2^53\<close>, so the double
  is exact and \<open>>>> 0\<close> reduces it modulo \<open>2^32\<close>: arithmetic on \<open>32 word\<close>.
\<close>

type_synonym code_unit = "16 word"

definition hash_step :: "32 word \<Rightarrow> code_unit \<Rightarrow> 32 word" where
  "hash_step hash c = hash * 31 + ucast c"

definition tag_hash :: "code_unit list \<Rightarrow> 32 word" where
  "tag_hash tag = foldl hash_step 0 tag"

definition getTagColor :: "code_unit list \<Rightarrow> string option" where
  "getTagColor tag =
     (let i = unat (tag_hash tag) mod length TAG_COLORS
      in if i < length TAG_COLORS then Some (TAG_COLORS ! i) else None)"

section \<open>export.ts\<close>

definition escapeCSV :: "string \<Rightarrow> string" where
  "escapeCSV value = [dquote] @ replace_all dquote [dquote, dquote] value @ [dquote]"

definition csv_text :: "string list \<Rightarrow> string list list \<Rightarrow> string" where
  "csv_text headers rows =
     join [newline] (join '','' (map escapeCSV headers)
        # map (\<lambda>row. join '','' (map (\<lambda>cell. escapeCSV cell) row)) rows)"

datatype dom_effect =
    CreateObjectURL string string string \<comment> \<open>the new URL, the blob's text and its type\<close>
  | CreateLink
  | SetHref string
  | SetDownload string
  | Click
  | RevokeObjectURL string

definition download_effects :: "string \<Rightarrow> string \<Rightarrow> string \<Rightarrow> string \<Rightarrow> dom_effect list" where
  "download_effects url filename content mime =
     [CreateObjectURL url content mime, CreateLink, SetHref url, SetDownload filename, Click,
      RevokeObjectURL url]"

text \<open>\<open>url\<close> is the fresh object URL the browser returns; \<open>stringify\<close> is \<open>JSON.stringify(_, null, 2)\<close>.\<close>

definition exportToCSV :: "string \<Rightarrow> string \<Rightarrow> string list \<Rightarrow> string list list \<Rightarrow> dom_effect list" where
  "exportToCSV url filename headers rows =
     download_effects url filename (csv_text headers rows) ''text/csv;charset=utf-8;''"

definition exportToJSON :: "('d \<Rightarrow> string) \<Rightarrow> string \<Rightarrow> string \<Rightarrow> 'd \<Rightarrow> dom_effect list" where
  "exportToJSON stringify url filename data =
     download_effects url filename (stringify data) ''application/json;charset=utf-8;''"

text \<open>What the effects do: object URLs name blobs, a click on the link downloads its blob.\<close>

record browser =
  blobs :: "string \<rightharpoonup> string \<times> string"
  link_href :: string
  link_name :: string
  downloads :: "(string \<times> string \<times> string) list"

fun dom_step :: "browser \<Rightarrow> dom_effect \<Rightarrow> browser" where
  "dom_step b (CreateObjectURL u t m) = b\<lparr>blobs := (blobs b)(u \<mapsto> (t, m))\<rparr>"
| "dom_step b CreateLink = b\<lparr>link_href := [], link_name := []\<rparr>"
| "dom_step b (SetHref u) = b\<lparr>link_href := u\<rparr>"
| "dom_step b (SetDownload n) = b\<lparr>link_name := n\<rparr>"
| "dom_step b Click = (case blobs b (link_href b) of
      None \<Rightarrow> b
    | Some (t, m) \<Rightarrow> b\<lparr>downloads := downloads b @ [(link_name b, t, m)]\<rparr>)"
| "dom_step b (RevokeObjectURL u) = b\<lparr>blobs := (blobs b)(u := None)\<rparr>"

definition run_dom :: "browser \<Rightarrow> dom_effect list \<Rightarrow> browser" where
  "run_dom b es = foldl dom_step b es"

subsection \<open>A reference reader of quoted CSV\<close>

datatype csv_mode = RowStart | CellStart | Quoted | QuoteSeen

record csv_state =
  csv_rows :: "string list list"
  csv_row :: "string list"
  csv_cell :: string
  csv_mode_of :: csv_mode

fun csv_step :: "csv_state \<Rightarrow> char \<Rightarrow> csv_state option" where
  "csv_step s c = (case csv_mode_of s of
     RowStart \<Rightarrow>
       if c = dquote then Some (s\<lparr>csv_cell := [], csv_mode_of := Quoted\<rparr>)
       else if c = newline then Some (s\<lparr>csv_rows := csv_rows s @ [[]]\<rparr>) else None
   | CellStart \<Rightarrow> if c = dquote then Some (s\<lparr>csv_cell := [], csv_mode_of := Quoted\<rparr>) else None
   | Quoted \<Rightarrow>
       if c = dquote then Some (s\<lparr>csv_mode_of := QuoteSeen\<rparr>)
       else Some (s\<lparr>csv_cell := csv_cell s @ [c]\<rparr>)
   | QuoteSeen \<Rightarrow>
       if c = dquote then Some (s\<lparr>csv_cell := csv_cell s @ [c], csv_mode_of := Quoted\<rparr>)
       else if c = CHR '','' then
         Some (s\<lparr>csv_row := csv_row s @ [csv_cell s], csv_cell := [], csv_mode_of := CellStart\<rparr>)
       else if c = newline then
         Some (s\<lparr>csv_rows := csv_rows s @ [csv_row s @ [csv_cell s]], csv_row := [], csv_cell := [],
                 csv_mode_of := RowStart\<rparr>)
       else None)"

fun csv_run :: "csv_state \<Rightarrow> string \<Rightarrow> csv_state option" where
  "csv_run s [] = Some s"
| "csv_run s (c # cs) = (case csv_step s c of None \<Rightarrow> None | Some s' \<Rightarrow> csv_run s' cs)"

definition csv_finish :: "csv_state \<Rightarrow> string list list option" where
  "csv_finish s = (case csv_mode_of s of
     RowStart \<Rightarrow> Some (csv_rows s @ [[]])
   | QuoteSeen \<Rightarrow> Some (csv_rows s @ [csv_row s @ [csv_cell s]])
   | _ \<Rightarrow> None)"

definition csv_init :: csv_state where
  "csv_init = \<lparr>csv_rows = [], csv_row = [], csv_cell = [], csv_mode_of = RowStart\<rparr>"

definition read_csv :: "string \<Rightarrow> string list list option" where
  "read_csv s = (case csv_run csv_init s of None \<Rightarrow> None | Some st \<Rightarrow> csv_finish st)"

section \<open>Lemmas: CSV\<close>

lemma csv_run_append:
  "csv_run s (xs @ ys) = (case csv_run s xs of None \<Rightarrow> None | Some s' \<Rightarrow> csv_run s' ys)"
  by (induction xs arbitrary: s) (auto split: option.splits)

lemma special_chars [simp]:
  "dquote \<noteq> newline" "dquote \<noteq> CHR '',''" "newline \<noteq> CHR '',''"
  "newline \<noteq> dquote" "CHR '','' \<noteq> dquote" "CHR '','' \<noteq> newline"
  by (simp_all add: dquote_def newline_def)

lemma csv_run_body:
  "csv_mode_of s = Quoted \<Longrightarrow>
     csv_run s (replace_all dquote [dquote, dquote] v) = Some (s\<lparr>csv_cell := csv_cell s @ v\<rparr>)"
proof (induction v arbitrary: s)
  case Nil
  then show ?case by (simp add: replace_all_def)
next
  case (Cons c v)
  then show ?case by (cases "c = dquote") (simp_all add: replace_all_def)
qed

lemma csv_run_cell:
  "csv_mode_of s \<in> {RowStart, CellStart} \<Longrightarrow>
     csv_run s (escapeCSV v) = Some (s\<lparr>csv_cell := v, csv_mode_of := QuoteSeen\<rparr>)"
  by (auto simp: escapeCSV_def csv_run_append csv_run_body)

lemma csv_run_row:
  "row \<noteq> [] \<Longrightarrow> csv_mode_of s \<in> {RowStart, CellStart} \<Longrightarrow>
     csv_run s (join '','' (map escapeCSV row)) =
       Some (s\<lparr>csv_row := csv_row s @ butlast row, csv_cell := last row, csv_mode_of := QuoteSeen\<rparr>)"
proof (induction row arbitrary: s rule: induct_list012)
  case (3 x y row)
  then show ?case by (simp add: csv_run_append csv_run_cell)
qed (simp_all add: csv_run_cell)

definition csv_at :: "string list list \<Rightarrow> csv_state" where
  "csv_at rows = \<lparr>csv_rows = rows, csv_row = [], csv_cell = [], csv_mode_of = RowStart\<rparr>"

lemma csv_run_line:
  "csv_run (csv_at rows) (join '','' (map escapeCSV row) @ newline # rest)
     = csv_run (csv_at (rows @ [row])) rest"
proof (cases "row = []")
  case True
  then show ?thesis by (simp add: csv_at_def)
next
  case False
  then show ?thesis by (simp add: csv_run_append csv_run_row csv_at_def)
qed

lemma csv_finish_line:
  "(case csv_run (csv_at rows) (join '','' (map escapeCSV row)) of None \<Rightarrow> None | Some st \<Rightarrow> csv_finish st)
     = Some (rows @ [row])"
  by (cases "row = []") (simp_all add: csv_at_def csv_run_row csv_finish_def)

lemma csv_run_rows:
  "ls \<noteq> [] \<Longrightarrow>
    (case csv_run (csv_at rows) (join [newline] (map (\<lambda>row. join '','' (map escapeCSV row)) ls)) of
       None \<Rightarrow> None | Some st \<Rightarrow> csv_finish st) = Some (rows @ ls)"
proof (induction ls arbitrary: rows rule: induct_list012)
  case (3 x y ls)
  then show ?case by (simp add: csv_run_line)
qed (simp_all add: csv_finish_line)

lemma read_csv_text: "read_csv (csv_text headers rows) = Some (headers # rows)"
  using csv_run_rows[of "headers # rows" "[]"]
  by (simp add: read_csv_def csv_text_def csv_init_def csv_at_def)

section \<open>Lemmas: uptime and tag hash\<close>

definition uptime_minutes :: "rat \<Rightarrow> nat" where
  "uptime_minutes secs = nat (max 0 \<lfloor>secs / 60\<rfloor>)"

lemma uptime_parts:
  fixes t :: nat
  shows "t = t div 1440 * 1440 + t mod 1440 div 60 * 60 + t mod 60"
proof -
  have "t mod 1440 = 60 * (t div 60 mod 24) + t mod 60" using mod_mult2_eq[of t 60 24] by simp
  then have h: "t mod 1440 div 60 = t div 60 mod 24" by simp
  have d: "t div 1440 = t div 60 div 24" by (simp add: div_mult2_eq[symmetric])
  have regroup: "60 * (24 * a + b) + c = t \<Longrightarrow> t = a * 1440 + b * 60 + c" for a b c :: nat by simp
  show ?thesis unfolding h d by (rule regroup) (simp only: mult_div_mod_eq)
qed

lemma takeWhile_digits: "\<not> is_digit c \<Longrightarrow> takeWhile is_digit (nat_str n @ c # s) = nat_str n"
  using nat_str_digits[of n] by (simp add: takeWhile_append2)

lemma nat_str_split:
  assumes "\<not> is_digit c" "\<not> is_digit d" "nat_str m @ c # s = nat_str n @ d # t"
  shows "m = n \<and> c = d \<and> s = t"
proof -
  have "nat_str m = nat_str n" using takeWhile_digits[OF assms(1), of m s]
      takeWhile_digits[OF assms(2), of n t] assms(3) by simp
  with assms(3) show ?thesis by simp
qed

definition minutes_text :: "nat \<Rightarrow> string" where
  "minutes_text m = nat_str m @ CHR ''m'' # []"

definition hours_text :: "nat \<Rightarrow> nat \<Rightarrow> string" where
  "hours_text h m = nat_str h @ CHR ''h'' # CHR '' '' # minutes_text m"

definition days_text :: "nat \<Rightarrow> nat \<Rightarrow> nat \<Rightarrow> string" where
  "days_text d h m = nat_str d @ CHR ''d'' # CHR '' '' # hours_text h m"

lemma unit_not_digit: "\<not> is_digit (CHR ''d'')" "\<not> is_digit (CHR ''h'')" "\<not> is_digit (CHR ''m'')"
  by (simp_all add: is_digit_def digit_val_def)

lemma minutes_text_inj [simp]: "minutes_text m = minutes_text m' \<longleftrightarrow> m = m'"
  by (simp add: minutes_text_def)

lemma hours_text_inj [simp]: "hours_text h m = hours_text h' m' \<longleftrightarrow> h = h' \<and> m = m'"
proof
  assume "hours_text h m = hours_text h' m'"
  from nat_str_split[OF unit_not_digit(2,2) this[unfolded hours_text_def]]
  show "h = h' \<and> m = m'" by simp
qed simp

lemma days_text_inj [simp]:
  "days_text d h m = days_text d' h' m' \<longleftrightarrow> d = d' \<and> h = h' \<and> m = m'"
proof
  assume "days_text d h m = days_text d' h' m'"
  from nat_str_split[OF unit_not_digit(1,1) this[unfolded days_text_def]]
  show "d = d' \<and> h = h' \<and> m = m'" by simp
qed simp

lemma first_unit:
  "\<not> is_digit c \<Longrightarrow> hd (dropWhile is_digit (nat_str n @ c # s)) = c"
  using nat_str_digits[of n] by (simp add: dropWhile_append2)

lemma uptime_text_distinct [simp]:
  "minutes_text m \<noteq> hours_text h' m'" "minutes_text m \<noteq> days_text d' h' m'"
  "hours_text h m \<noteq> days_text d' h' m'" "hours_text h' m' \<noteq> minutes_text m"
  "days_text d' h' m' \<noteq> minutes_text m" "days_text d' h' m' \<noteq> hours_text h m"
proof -
  have u: "hd (dropWhile is_digit (minutes_text m)) = CHR ''m''"
    "hd (dropWhile is_digit (hours_text h m)) = CHR ''h''"
    "hd (dropWhile is_digit (days_text d h m)) = CHR ''d''" for d h m
    by (simp_all only: minutes_text_def hours_text_def days_text_def first_unit unit_not_digit
        not_False_eq_True)
  show "minutes_text m \<noteq> hours_text h' m'" "minutes_text m \<noteq> days_text d' h' m'"
    "hours_text h m \<noteq> days_text d' h' m'" "hours_text h' m' \<noteq> minutes_text m"
    "days_text d' h' m' \<noteq> minutes_text m" "days_text d' h' m' \<noteq> hours_text h m"
    by (auto dest: arg_cong[of _ _ "\<lambda>s. hd (dropWhile is_digit s)"] simp: u)
qed

lemma formatUptime_texts:
  "formatUptime s = (let t = uptime_minutes s; d = t div 1440; h = t mod 1440 div 60; m = t mod 60 in
     if d > 0 then days_text d h m else if h > 0 then hours_text h m else minutes_text m)"
  by (simp add: formatUptime_def uptime_minutes_def Let_def minutes_text_def hours_text_def
      days_text_def)

lemma hash_step_mod8: "uint (hash_step h c) mod 8 = (uint c - uint h) mod 8"
proof -
  have "uint (hash_step h c) = (uint h * 31 + uint c) mod 2 ^ 32"
    by (simp add: hash_step_def uint_word_ariths uint_up_ucast is_up mod_simps)
  then have "uint (hash_step h c) mod 8 = (uint h * 31 + uint c) mod 8"
    by (simp add: mod_mod_cancel)
  also have "\<dots> = (uint c - uint h) mod 8" by (simp add: mod_eq_dvd_iff)
  finally show ?thesis .
qed

fun alternating :: "int \<Rightarrow> code_unit list \<Rightarrow> int" where
  "alternating a [] = a"
| "alternating a (c # cs) = alternating (uint c - a) cs"

lemma alternating_mod: "a mod 8 = b mod 8 \<Longrightarrow> alternating a cs mod 8 = alternating b cs mod 8"
proof (induction cs arbitrary: a b)
  case (Cons c cs)
  have "(uint c - a) mod 8 = (uint c - b) mod 8" by (rule mod_diff_cong[OF refl Cons.prems])
  then show ?case unfolding alternating.simps by (rule Cons.IH)
qed simp

lemma foldl_hash_mod8: "uint (foldl hash_step h cs) mod 8 = alternating (uint h) cs mod 8"
proof (induction cs arbitrary: h)
  case (Cons c cs)
  then show ?case using alternating_mod[OF hash_step_mod8[of h c], of cs] by simp
qed simp

section \<open>Properties\<close>

text \<open>C16. CSV export round trip: for every header row and every table, whatever characters the cells
  hold (quotes, commas, line breaks), reading the exported text back as quoted CSV gives the same
  table; running the export in the browser adds exactly that file to the downloads and leaves no
  object URL behind.\<close>

theorem exportToCSV_roundtrip:
  assumes "blobs b url = None"
  shows "\<exists>text mime. downloads (run_dom b (exportToCSV url filename headers rows))
            = downloads b @ [(filename, text, mime)]
          \<and> read_csv text = Some (headers # rows)
          \<and> blobs (run_dom b (exportToCSV url filename headers rows)) = blobs b"
  using assms read_csv_text[of headers rows]
  by (auto simp: run_dom_def exportToCSV_def download_effects_def fun_upd_idem)

theorem exportToCSV_roundtrip_witness:
  "\<exists>text mime. downloads (run_dom \<lparr>blobs = Map.empty, link_href = [], link_name = [], downloads = []\<rparr>
       (exportToCSV ''blob:1'' ''d.csv'' [''Host''] [[[dquote, newline]]])) = [(''d.csv'', text, mime)]
     \<and> read_csv text = Some [[''Host''], [[dquote, newline]]]"
  using exportToCSV_roundtrip[of "\<lparr>blobs = Map.empty, link_href = [], link_name = [], downloads = []\<rparr>"
      "''blob:1''" "''d.csv''" "[''Host'']" "[[[dquote, newline]]]"]
  by auto

text \<open>The uptime text is exact to the minute: two uptimes are shown as the same text exactly when
  they are the same number of whole minutes (a negative uptime counting as zero).\<close>

theorem formatUptime_exact:
  "formatUptime a = formatUptime b \<longleftrightarrow> uptime_minutes a = uptime_minutes b"
proof
  assume "formatUptime a = formatUptime b"
  then have "uptime_minutes a div 1440 = uptime_minutes b div 1440
      \<and> uptime_minutes a mod 1440 div 60 = uptime_minutes b mod 1440 div 60
      \<and> uptime_minutes a mod 60 = uptime_minutes b mod 60"
    unfolding formatUptime_texts Let_def by (simp split: if_splits)
  then show "uptime_minutes a = uptime_minutes b" by (metis uptime_parts)
qed (simp add: formatUptime_def uptime_minutes_def)

text \<open>The colour of a tag is always one of the eight entries of the table, and although the hash is
  a 32-bit polynomial in 31, the entry is determined by the alternating sum of the code units modulo 8.\<close>

theorem getTagColor_alternating:
  "getTagColor tag = Some (TAG_COLORS ! nat (alternating 0 tag mod 8))
   \<and> nat (alternating 0 tag mod 8) < length TAG_COLORS"
proof -
  have "int (unat (tag_hash tag) mod 8) = alternating 0 tag mod 8"
    using foldl_hash_mod8[of 0 tag] by (simp add: tag_hash_def zmod_int)
  then have "unat (tag_hash tag) mod 8 = nat (alternating 0 tag mod 8)" by simp
  then show ?thesis by (simp add: getTagColor_def TAG_COLORS_def nat_less_iff)
qed

end
