(* ===== verification/Types.thy ===== *)
theory Types
  imports Prelude
begin

text \<open>
  The data model of the web client, \<open>frontend/src/types/index.ts\<close>: one record per interface, one
  datatype per union of string literals, fields in the source's order under a short prefix. An
  optional or nullable property is an \<open>option\<close>; a JSON number is a \<open>rat\<close>, or an \<open>int\<close> where the
  server sends an integer; an untyped JSON value is a \<open>json\<close>.
\<close>

datatype json =
    JNull
  | JBool bool
  | JNum rat
  | JStr string
  | JArr "json list"
  | JObj "(string \<times> json) list"

datatype os_type = Windows | Linux | MacOS
datatype device_status = Online | Offline | Alerting
datatype event_type = Crash | ErrorEvent | WarningEvent | InfoEvent
datatype command_status = Pending | Sent | Running | Completed | Failed | Timeout
datatype severity = Info | Warning | Critical
datatype channel = BrowserChannel | Webhook | Email
datatype auth_mode = LocalMode | LDAP
datatype screenshot_status = Captured | NotCaptured
datatype user_role = Admin | Viewer
datatype uptime_kind = WentOnline | WentOffline

text \<open>The string literal of each union member, as it appears in JSON and in the views.\<close>

fun os_type_str :: "os_type \<Rightarrow> string" where
  "os_type_str Windows = ''windows''"
| "os_type_str Linux = ''linux''"
| "os_type_str MacOS = ''macos''"

fun device_status_str :: "device_status \<Rightarrow> string" where
  "device_status_str Online = ''online''"
| "device_status_str Offline = ''offline''"
| "device_status_str Alerting = ''alert''"

fun event_type_str :: "event_type \<Rightarrow> string" where
  "event_type_str Crash = ''crash''"
| "event_type_str ErrorEvent = ''error''"
| "event_type_str WarningEvent = ''warning''"
| "event_type_str InfoEvent = ''info''"

fun command_status_str :: "command_status \<Rightarrow> string" where
  "command_status_str Pending = ''pending''"
| "command_status_str Sent = ''sent''"
| "command_status_str Running = ''running''"
| "command_status_str Completed = ''completed''"
| "command_status_str Failed = ''failed''"
| "command_status_str Timeout = ''timeout''"

fun severity_str :: "severity \<Rightarrow> string" where
  "severity_str Info = ''info''"
| "severity_str Warning = ''warning''"
| "severity_str Critical = ''critical''"

fun user_role_str :: "user_role \<Rightarrow> string" where
  "user_role_str Admin = ''admin''"
| "user_role_str Viewer = ''viewer''"

record device =
  d_id :: string
  d_hostname :: string
  d_os_type :: os_type
  d_os_version :: "string option"
  d_arch :: "string option"
  d_ip_address :: "string option"
  d_status :: device_status
  d_last_seen :: "string option"
  d_enrolled_at :: string
  d_label :: "string option"
  d_notes :: "string option"
  d_tags :: "string list"
  d_serial_number :: "string option"
  d_manufacturer :: "string option"
  d_model_name :: "string option"
  d_purchase_date :: "string option"
  d_warranty_expires :: "string option"
  d_location :: "string option"
  d_assigned_to :: "string option"
  d_asset_tag :: "string option"
  d_maintenance_mode :: "bool option"
  d_maintenance_until :: "string option"
  d_maintenance_reason :: "string option"
  d_agent_version :: "string option"
  d_is_online :: bool

record device_group =
  g_id :: string
  g_name :: string
  g_description :: "string option"
  g_color :: string
  g_member_count :: "int option"
  g_created_at :: "string option"

record metric =
  m_time :: string
  m_cpu_percent :: "rat option"
  m_ram_percent :: "rat option"
  m_disk_percent :: "rat option"
  m_cpu_temp :: "rat option"
  m_uptime_secs :: "rat option"
  m_ram_total_mb :: "rat option"
  m_ram_used_mb :: "rat option"
  m_disk_total_gb :: "rat option"
  m_disk_used_gb :: "rat option"
  m_disk_read_mbps :: "rat option"
  m_disk_write_mbps :: "rat option"
  m_net_sent_mbps :: "rat option"
  m_net_recv_mbps :: "rat option"

record software_package =
  sp_id :: string
  sp_name :: string
  sp_version :: "string option"
  sp_install_date :: "string option"
  sp_update_available :: bool
  sp_latest_version :: "string option"
  sp_last_scanned :: string

record event =
  ev_id :: string
  ev_time :: string
  ev_event_type :: event_type
  ev_source :: "string option"
  ev_message :: string

record command =
  c_id :: string
  c_command_type :: string
  c_payload :: "(string \<times> json) list"
  c_status :: command_status
  c_exit_code :: "int option"
  c_output :: "string option"
  c_created_at :: string
  c_started_at :: "string option"
  c_completed_at :: "string option"

record alert =
  a_id :: string
  a_device_id :: string
  a_alert_type :: string
  a_severity :: severity
  a_message :: string
  a_is_resolved :: bool
  a_created_at :: string
  a_resolved_at :: "string option"

record network_interface =
  ni_id :: string
  ni_interface_name :: string
  ni_mac_address :: "string option"
  ni_ipv4 :: "string list"
  ni_ipv6 :: "string list"
  ni_is_up :: bool
  ni_mtu :: "int option"
  ni_updated_at :: "string option"

record device_network_response =
  dn_interfaces :: "network_interface list"

record device_config =
  dc_telemetry_interval_secs :: rat
  dc_software_scan_interval_m :: rat
  dc_event_poll_interval_secs :: rat

record device_config_response =
  dcr_device_id :: string
  dcr_config :: device_config
  dcr_updated_at :: "string option"

record scheduled_command =
  sc_id :: string
  sc_device_id :: "string option"
  sc_command_type :: string
  sc_payload :: "(string \<times> json) list"
  sc_cron_expression :: string
  sc_is_enabled :: bool
  sc_last_run_at :: "string option"
  sc_next_run_at :: "string option"
  sc_created_by :: "string option"
  sc_created_at :: "string option"

record notification_rule =
  nr_id :: string
  nr_alert_type :: string
  nr_severity_min :: severity
  nr_channel :: channel
  nr_webhook_url :: "string option"
  nr_email_address :: "string option"
  nr_is_enabled :: bool
  nr_created_at :: "string option"

record audit_log_entry =
  al_id :: string
  al_timestamp :: "string option"
  al_user_id :: "string option"
  al_username :: string
  al_action :: string
  al_resource_type :: "string option"
  al_resource_id :: "string option"
  al_ip_address :: "string option"
  al_details :: "((string \<times> json) list) option"

record auth_config =
  ac_mode :: auth_mode
  ac_ldap_enabled :: bool
  ac_ldap_server :: string
  ac_ldap_port :: int
  ac_ldap_use_ssl :: bool
  ac_ldap_base_dn :: string
  ac_ldap_user_filter :: string
  ac_ldap_admin_group_dn :: string

record pending_software_update =
  pu_software_name :: string
  pu_current_versions :: "string list"
  pu_affected_device_ids :: "string list"
  pu_affected_count :: int

record software_search_result =
  ss_name :: string
  ss_device_count :: int
  ss_versions :: "string list"

record screenshot_response =
  sh_image_b64 :: "string option"
  sh_captured_at :: "string option"
  sh_width :: "int option"
  sh_height :: "int option"
  sh_error :: "string option"
  sh_status :: "screenshot_status option"

record activity_event =
  ae_device_id :: string
  ae_device_hostname :: string
  ae_event_type :: event_type
  ae_message :: string
  ae_source :: "string option"
  ae_time :: string

record process_info =
  p_pid :: int
  p_name :: string
  p_cpu_percent :: rat
  p_mem_percent :: rat
  p_status :: string

record process_list_response =
  pl_processes :: "process_info list"
  pl_captured_at :: string

record live_connection =
  lc_device_id :: string
  lc_hostname :: string
  lc_connected_since :: string
  lc_ip :: "string option"

record live_connections_response =
  lcs_total :: int
  lcs_devices :: "live_connection list"

record storage_cleanup_response =
  scl_deleted :: "(string \<times> int) list"

record retention_days =
  rd_metrics :: int
  rd_events :: int
  rd_commands :: int
  rd_alerts :: int

record storage_stats_response =
  st_devices :: int
  st_metrics_rows :: int
  st_events_rows :: int
  st_commands_rows :: int
  st_alerts_rows :: int
  st_oldest_metric :: "string option"
  st_disk_estimate_mb :: rat
  st_retention_days :: retention_days

record user =
  u_id :: string
  u_username :: string
  u_role :: user_role
  u_is_active :: "bool option"
  u_last_login :: "string option"
  u_created_at :: "string option"

record uptime_history_event =
  ue_id :: string
  ue_event_type :: uptime_kind
  ue_timestamp :: string
  ue_duration_secs :: "rat option"

record uptime_history_response =
  uh_events :: "uptime_history_event list"
  uh_uptime_percent_30d :: rat
  uh_total_downtime_secs :: rat
  uh_outage_count :: int

record saved_command =
  sv_id :: string
  sv_name :: string
  sv_description :: "string option"
  sv_command_type :: string
  sv_payload :: "(string \<times> json) list"
  sv_is_global :: bool
  sv_created_by :: "string option"
  sv_device_id :: "string option"
  sv_created_at :: "string option"

record inventory_device =
  inv_id :: string
  inv_hostname :: string
  inv_label :: "string option"
  inv_os_type :: string
  inv_os_version :: "string option"
  inv_ip_address :: "string option"
  inv_serial_number :: "string option"
  inv_manufacturer :: "string option"
  inv_model_name :: "string option"
  inv_purchase_date :: "string option"
  inv_warranty_expires :: "string option"
  inv_location :: "string option"
  inv_assigned_to :: "string option"
  inv_asset_tag :: "string option"
  inv_status :: string

record ssh_key_info =
  ssh_id :: string
  ssh_key_type :: string
  ssh_public_key :: string
  ssh_fingerprint :: string
  ssh_comment :: "string option"
  ssh_discovered_at :: "string option"

record auth_tokens =
  tok_access_token :: string
  tok_refresh_token :: string
  tok_token_type :: string

end
