(* ===== verification/Api.thy ===== *)
theory Api
  imports Types
begin

text \<open>
  \<open>frontend/src/api/*.ts\<close>: each API function builds one HTTP request for the shared axios instance
  and projects the response. A request is a value of type \<open>request\<close>; its path is relative to the
  instance's \<open>baseURL\<close> \<open>/api/v1\<close>. A query parameter whose value is \<open>undefined\<close> is not sent, so it is
  left out of the list. The projection is \<open>r => r.data\<close> except for the two paged lists
  (\<open>page_result\<close>).
\<close>

datatype http_method = GET | POST | PATCH | DELETE

record request =
  rq_method :: http_method
  rq_path :: string
  rq_params :: "(string \<times> json) list"
  rq_body :: "json option"
  rq_blob :: bool \<comment> \<open>\<open>responseType: 'blob'\<close>\<close>
  rq_auth :: "string option" \<comment> \<open>the \<open>Authorization\<close> header, set by the interceptors\<close>
  rq_retry :: bool \<comment> \<open>the mobile client's \<open>_retry\<close> mark\<close>

definition mk_request :: "http_method \<Rightarrow> string \<Rightarrow> (string \<times> json) list \<Rightarrow> json option \<Rightarrow> request" where
  "mk_request m p ps b =
     \<lparr>rq_method = m, rq_path = p, rq_params = ps, rq_body = b, rq_blob = False, rq_auth = None,
      rq_retry = False\<rparr>"

abbreviation "api_get p ps \<equiv> mk_request GET p ps None"
abbreviation "api_post p b \<equiv> mk_request POST p [] b"
abbreviation "api_patch p b \<equiv> mk_request PATCH p [] (Some b)"
abbreviation "api_delete p \<equiv> mk_request DELETE p [] None"

definition opt_param :: "string \<Rightarrow> ('a \<Rightarrow> json) \<Rightarrow> 'a option \<Rightarrow> (string \<times> json) list" where
  "opt_param k f x = (case x of None \<Rightarrow> [] | Some v \<Rightarrow> [(k, f v)])"

definition JNullable :: "string option \<Rightarrow> json" where
  "JNullable x = (case x of None \<Rightarrow> JNull | Some s \<Rightarrow> JStr s)"

abbreviation JInt :: "int \<Rightarrow> json" where "JInt n \<equiv> JNum (of_int n)"
abbreviation JStrs :: "string list \<Rightarrow> json" where "JStrs xs \<equiv> JArr (map JStr xs)"

text \<open>A list with the total of the \<open>x-total-count\<close> header, or its own length without the header.\<close>

record 'a page =
  pg_data :: "'a list"
  pg_total :: nat

definition page_result :: "nat option \<Rightarrow> 'a list \<Rightarrow> 'a page" where
  "page_result header xs = \<lparr>pg_data = xs, pg_total = nullish header (length xs)\<rparr>"

section \<open>admin.ts\<close>

definition admin_users :: request where
  "admin_users = api_get ''/admin/users'' []"

definition admin_createUser :: "string \<Rightarrow> string \<Rightarrow> user_role \<Rightarrow> request" where
  "admin_createUser uname password rl = api_post ''/admin/users''
     (Some (JObj [(''username'', JStr uname), (''password'', JStr password), (''role'', JStr (user_role_str rl))]))"

definition admin_updateUser :: "string \<Rightarrow> user_role option \<Rightarrow> bool option \<Rightarrow> request" where
  "admin_updateUser i rl active = api_patch (''/admin/users/'' @ i)
     (JObj (opt_param ''role'' (JStr \<circ> user_role_str) rl @ opt_param ''is_active'' JBool active))"

definition admin_resetUserPassword :: "string \<Rightarrow> string \<Rightarrow> request" where
  "admin_resetUserPassword i password =
     api_patch (''/admin/users/'' @ i @ ''/password'') (JObj [(''password'', JStr password)])"

definition admin_deleteUser :: "string \<Rightarrow> request" where
  "admin_deleteUser i = api_delete (''/admin/users/'' @ i)"

definition admin_auditLog :: "string option \<Rightarrow> int option \<Rightarrow> int option \<Rightarrow> request" where
  "admin_auditLog action limit skip = api_get ''/admin/audit-log''
     (opt_param ''action'' JStr action @ opt_param ''limit'' JInt limit @ opt_param ''skip'' JInt skip)"

definition admin_authConfig :: request where
  "admin_authConfig = api_get ''/admin/auth-config'' []"

definition admin_connections :: request where
  "admin_connections = api_get ''/admin/connections'' []"

definition admin_storageStats :: request where
  "admin_storageStats = api_get ''/admin/storage-stats'' []"

definition admin_cleanup :: request where
  "admin_cleanup = api_post ''/admin/cleanup'' None"

section \<open>agent.ts, alerts.ts, auth.ts\<close>

definition agent_version :: "string option \<Rightarrow> string option \<Rightarrow> request" where
  "agent_version platform arch = api_get ''/agent/version''
     [(''platform'', JStr (nullish platform ''linux'')), (''arch'', JStr (nullish arch ''amd64''))]"

definition alerts_list ::
  "string option \<Rightarrow> bool option \<Rightarrow> string option \<Rightarrow> int option \<Rightarrow> int option \<Rightarrow> request" where
  "alerts_list dev resolved sev limit skip = api_get ''/alerts''
     (opt_param ''device_id'' JStr dev @ opt_param ''resolved'' JBool resolved @
      opt_param ''severity'' JStr sev @ opt_param ''limit'' JInt limit @ opt_param ''skip'' JInt skip)"

definition alerts_resolve :: "string \<Rightarrow> request" where
  "alerts_resolve i = api_post (''/alerts/'' @ i @ ''/resolve'') None"

definition auth_login :: "string \<Rightarrow> string \<Rightarrow> request" where
  "auth_login uname password =
     api_post ''/auth/login'' (Some (JObj [(''username'', JStr uname), (''password'', JStr password)]))"

definition auth_refresh :: "string \<Rightarrow> request" where
  "auth_refresh token = api_post ''/auth/refresh'' (Some (JObj [(''refresh_token'', JStr token)]))"

section \<open>commands.ts\<close>

definition commands_dispatch :: "string \<Rightarrow> string \<Rightarrow> (string \<times> json) list \<Rightarrow> request" where
  "commands_dispatch dev ctype payload = api_post (''/devices/'' @ dev @ ''/commands'')
     (Some (JObj [(''command_type'', JStr ctype), (''payload'', JObj payload)]))"

definition commands_bulk :: "string list \<Rightarrow> string \<Rightarrow> (string \<times> json) list \<Rightarrow> request" where
  "commands_bulk devs ctype payload = api_post ''/commands/bulk''
     (Some (JObj [(''device_ids'', JStrs devs), (''command_type'', JStr ctype), (''payload'', JObj payload)]))"

definition commands_list :: "string \<Rightarrow> request" where
  "commands_list dev = api_get (''/devices/'' @ dev @ ''/commands'') []"

definition commands_get :: "string \<Rightarrow> string \<Rightarrow> request" where
  "commands_get dev cmd = api_get (''/devices/'' @ dev @ ''/commands/'' @ cmd) []"

section \<open>devices.ts\<close>

definition devices_list :: "string option \<Rightarrow> string option \<Rightarrow> request" where
  "devices_list tag search = api_get ''/devices''
     ((if truthy tag then [(''tag'', JStr (the tag))] else [])
      @ (if truthy search then [(''search'', JStr (the search))] else []))"

definition device_path :: "string \<Rightarrow> string \<Rightarrow> string" where
  "device_path i sub = ''/devices/'' @ i @ sub"

definition devices_get :: "string \<Rightarrow> request" where
  "devices_get i = api_get (device_path i []) []"

definition devices_network :: "string \<Rightarrow> request" where
  "devices_network i = api_get (device_path i ''/network'') []"

definition devices_sshKeys :: "string \<Rightarrow> request" where
  "devices_sshKeys i = api_get (device_path i ''/ssh-keys'') []"

definition devices_deleteSSHKey :: "string \<Rightarrow> string \<Rightarrow> request" where
  "devices_deleteSSHKey i k = api_delete (device_path i (''/ssh-keys/'' @ k))"

definition devices_processes :: "string \<Rightarrow> request" where
  "devices_processes i = api_get (device_path i ''/processes'') []"

definition devices_agentLogs :: "string \<Rightarrow> request" where
  "devices_agentLogs i = api_get (device_path i ''/agent-logs'') []"

definition devices_screenshot :: "string \<Rightarrow> request" where
  "devices_screenshot i = api_get (device_path i ''/screenshot'') []"

definition devices_requestScreenshot :: "string \<Rightarrow> request" where
  "devices_requestScreenshot i = api_post (device_path i ''/screenshot/request'') None"

definition devices_uptimeHistory :: "string \<Rightarrow> int option \<Rightarrow> request" where
  "devices_uptimeHistory i days =
     api_get (device_path i ''/uptime-history'') [(''days'', JInt (nullish days 30))]"

definition devices_config :: "string \<Rightarrow> request" where
  "devices_config i = api_get (device_path i ''/config'') []"

definition devices_updateConfig :: "string \<Rightarrow> device_config \<Rightarrow> request" where
  "devices_updateConfig i c = api_post (device_path i ''/config'')
     (Some (JObj [(''telemetry_interval_secs'', JNum (dc_telemetry_interval_secs c)),
                  (''software_scan_interval_m'', JNum (dc_software_scan_interval_m c)),
                  (''event_poll_interval_secs'', JNum (dc_event_poll_interval_secs c))]))"

definition devices_update :: "string \<Rightarrow> (string \<times> json) list \<Rightarrow> request" where
  "devices_update i data = api_patch (device_path i []) (JObj data)"

definition devices_maintenance :: "string \<Rightarrow> bool \<Rightarrow> (string \<times> json) list \<Rightarrow> request" where
  "devices_maintenance i enabled rest =
     api_post (device_path i ''/maintenance'') (Some (JObj ((''enabled'', JBool enabled) # rest)))"

definition devices_disconnect :: "string \<Rightarrow> request" where
  "devices_disconnect i = api_post (device_path i ''/disconnect'') None"

definition devices_revoke :: "string \<Rightarrow> request" where
  "devices_revoke i = api_delete (device_path i [])"

section \<open>groups.ts, inventory.ts, metrics.ts\<close>

definition groups_list :: request where
  "groups_list = api_get ''/groups'' []"

text \<open>An optional field that may also be \<open>null\<close> has two options: left out, or null or a text.\<close>

definition groups_create :: "string \<Rightarrow> string option option \<Rightarrow> string \<Rightarrow> request" where
  "groups_create name descr color = api_post ''/groups''
     (Some (JObj ([(''name'', JStr name)] @ opt_param ''description'' JNullable descr @ [(''color'', JStr color)])))"

definition groups_deviceGroups :: "string \<Rightarrow> request" where
  "groups_deviceGroups dev = api_get (''/groups/device/'' @ dev) []"

definition groups_devices :: "string \<Rightarrow> request" where
  "groups_devices g = api_get (''/groups/'' @ g @ ''/devices'') []"

definition groups_addDevices :: "string \<Rightarrow> string list \<Rightarrow> request" where
  "groups_addDevices g devs =
     api_post (''/groups/'' @ g @ ''/devices'') (Some (JObj [(''device_ids'', JStrs devs)]))"

definition groups_removeDevice :: "string \<Rightarrow> string \<Rightarrow> request" where
  "groups_removeDevice g dev = api_delete (''/groups/'' @ g @ ''/devices/'' @ dev)"

definition inventory_list :: "string option \<Rightarrow> string option \<Rightarrow> int option \<Rightarrow> request" where
  "inventory_list loc assigned days = api_get ''/inventory''
     (opt_param ''location'' JStr loc @ opt_param ''assigned_to'' JStr assigned
      @ opt_param ''warranty_expiring_days'' JInt days)"

definition inventory_exportCsv :: request where
  "inventory_exportCsv = (api_get ''/inventory/export.csv'' [])\<lparr>rq_blob := True\<rparr>"

definition metrics_list :: "string \<Rightarrow> nat option \<Rightarrow> request" where
  "metrics_list dev hours =
     api_get (''/devices/'' @ dev @ ''/metrics?hours='' @ nat_str (nullish hours 24)) []"

definition metrics_latest :: "string \<Rightarrow> request" where
  "metrics_latest dev = api_get (''/devices/'' @ dev @ ''/metrics/latest'') []"

section \<open>notificationRules.ts, organizations.ts\<close>

definition rules_list :: request where
  "rules_list = api_get ''/notification-rules'' []"

definition rules_create :: "(string \<times> json) list \<Rightarrow> request" where
  "rules_create data = api_post ''/notification-rules'' (Some (JObj data))"

definition rules_update :: "string \<Rightarrow> (string \<times> json) list \<Rightarrow> request" where
  "rules_update i data = api_patch (''/notification-rules/'' @ i) (JObj data)"

record org =
  org_id :: string
  org_name :: string
  org_slug :: string
  org_role :: string
  org_active :: bool

record org_member =
  om_user_id :: string
  om_username :: string
  om_role :: string

definition orgs_list :: request where
  "orgs_list = api_get ''/organizations'' []"

definition orgs_create :: "string \<Rightarrow> string \<Rightarrow> request" where
  "orgs_create name slug =
     api_post ''/organizations'' (Some (JObj [(''name'', JStr name), (''slug'', JStr slug)]))"

definition orgs_update :: "string \<Rightarrow> string \<Rightarrow> request" where
  "orgs_update i name = api_patch (''/organizations/'' @ i) (JObj [(''name'', JStr name)])"

definition orgs_delete :: "string \<Rightarrow> request" where
  "orgs_delete i = api_delete (''/organizations/'' @ i)"

definition orgs_listMembers :: "string \<Rightarrow> request" where
  "orgs_listMembers i = api_get (''/organizations/'' @ i @ ''/members'') []"

definition orgs_inviteMember :: "string \<Rightarrow> string \<Rightarrow> string \<Rightarrow> request" where
  "orgs_inviteMember i uname rl = api_post (''/organizations/'' @ i @ ''/members'')
     (Some (JObj [(''username'', JStr uname), (''role'', JStr rl)]))"

definition orgs_removeMember :: "string \<Rightarrow> string \<Rightarrow> request" where
  "orgs_removeMember i u = api_delete (''/organizations/'' @ i @ ''/members/'' @ u)"

definition orgs_updateMember :: "string \<Rightarrow> string \<Rightarrow> string \<Rightarrow> request" where
  "orgs_updateMember i u rl =
     api_patch (''/organizations/'' @ i @ ''/members/'' @ u) (JObj [(''role'', JStr rl)])"

definition orgs_switch :: "string \<Rightarrow> request" where
  "orgs_switch i = api_post (''/organizations/'' @ i @ ''/switch'') None"

section \<open>savedCommands.ts, scheduledCommands.ts, software.ts, softwareUpdates.ts, tags.ts\<close>

definition saved_list :: request where
  "saved_list = api_get ''/saved-commands'' []"

definition saved_create :: "(string \<times> json) list \<Rightarrow> request" where
  "saved_create body = api_post ''/saved-commands'' (Some (JObj body))"

definition saved_update :: "string \<Rightarrow> (string \<times> json) list \<Rightarrow> request" where
  "saved_update i body = api_patch (''/saved-commands/'' @ i) (JObj body)"

definition saved_delete :: "string \<Rightarrow> request" where
  "saved_delete i = api_delete (''/saved-commands/'' @ i)"

definition scheduled_list :: request where
  "scheduled_list = api_get ''/scheduled-commands'' []"

definition scheduled_create :: "(string \<times> json) list \<Rightarrow> request" where
  "scheduled_create data = api_post ''/scheduled-commands'' (Some (JObj data))"

definition scheduled_update :: "string \<Rightarrow> (string \<times> json) list \<Rightarrow> request" where
  "scheduled_update i data = api_patch (''/scheduled-commands/'' @ i) (JObj data)"

definition scheduled_remove :: "string \<Rightarrow> request" where
  "scheduled_remove i = api_delete (''/scheduled-commands/'' @ i)"

definition software_search :: "string \<Rightarrow> request" where
  "software_search q = api_get ''/software/search'' [(''q'', JStr q)]"

definition updates_pending :: request where
  "updates_pending = api_get ''/software-updates/pending'' []"

definition updates_dispatch :: "string list \<Rightarrow> string list \<Rightarrow> request" where
  "updates_dispatch names devs = api_post ''/software-updates/dispatch''
     (Some (JObj [(''software_names'', JStrs names), (''device_ids'', JStrs devs)]))"

definition tags_list :: request where
  "tags_list = api_get ''/tags'' []"

section \<open>Lemmas\<close>

text \<open>A path segment: no slash, no query, not empty. The server's identifiers are UUIDs.\<close>

definition segment :: "string \<Rightarrow> bool" where
  "segment s \<longleftrightarrow> s \<noteq> [] \<and> CHR ''/'' \<notin> set s \<and> CHR ''?'' \<notin> set s"

lemma takeWhile_stop: "c \<notin> set i \<Longrightarrow> takeWhile (\<lambda>x. x \<noteq> c) (i @ c # s) = i"
  by (induction i) auto

lemma segment_append:
  assumes "segment i" "segment j" "i @ CHR ''/'' # s = j @ CHR ''/'' # t"
  shows "i = j \<and> s = t"
proof -
  have "takeWhile (\<lambda>c. c \<noteq> CHR ''/'') (i @ CHR ''/'' # s) = i"
    "takeWhile (\<lambda>c. c \<noteq> CHR ''/'') (j @ CHR ''/'' # t) = j"
    using assms(1,2) by (simp_all add: segment_def takeWhile_stop)
  with assms(3) show ?thesis by auto
qed

lemma mk_request_inject [simp]:
  "mk_request m p ps b = mk_request m' p' ps' b' \<longleftrightarrow> m = m' \<and> p = p' \<and> ps = ps' \<and> b = b'"
  by (auto simp: mk_request_def)

definition sub_path :: "string \<Rightarrow> bool" where
  "sub_path s \<longleftrightarrow> s = [] \<or> hd s = CHR ''/''"

lemma device_path_inject:
  assumes "segment i" "segment j" "sub_path s" "sub_path t" "device_path i s = device_path j t"
  shows "i = j \<and> s = t"
proof -
  have e: "i @ s = j @ t" using assms(5) by (simp add: device_path_def)
  consider "s = []" "t = []" | s' where "s = CHR ''/'' # s'" "t = []"
    | t' where "s = []" "t = CHR ''/'' # t'" | s' t' where "s = CHR ''/'' # s'" "t = CHR ''/'' # t'"
    using assms(3,4) by (cases s; cases t) (auto simp: sub_path_def)
  then show ?thesis
  proof cases
    case 1
    with e show ?thesis by simp
  next
    case 2
    with e assms(2) show ?thesis by (auto simp: segment_def)
  next
    case 3
    with e assms(1) show ?thesis by (auto simp: segment_def)
  next
    case 4
    with e segment_append[OF assms(1,2)] show ?thesis by simp
  qed
qed

section \<open>The device API as one family of calls\<close>

datatype device_call =
    Get | Network | SshKeys | DeleteSSHKey string | Processes | AgentLogs | Screenshot
  | RequestScreenshot | UptimeHistory "int option" | GetConfig | UpdateConfig device_config
  | Update "(string \<times> json) list" | Maintenance bool "(string \<times> json) list" | Disconnect | Revoke

fun device_request :: "string \<Rightarrow> device_call \<Rightarrow> request" where
  "device_request i Get = devices_get i"
| "device_request i Network = devices_network i"
| "device_request i SshKeys = devices_sshKeys i"
| "device_request i (DeleteSSHKey k) = devices_deleteSSHKey i k"
| "device_request i Processes = devices_processes i"
| "device_request i AgentLogs = devices_agentLogs i"
| "device_request i Screenshot = devices_screenshot i"
| "device_request i RequestScreenshot = devices_requestScreenshot i"
| "device_request i (UptimeHistory d) = devices_uptimeHistory i d"
| "device_request i GetConfig = devices_config i"
| "device_request i (UpdateConfig c) = devices_updateConfig i c"
| "device_request i (Update d) = devices_update i d"
| "device_request i (Maintenance b r) = devices_maintenance i b r"
| "device_request i Disconnect = devices_disconnect i"
| "device_request i Revoke = devices_revoke i"

fun call_sub :: "device_call \<Rightarrow> string" where
  "call_sub Network = ''/network''"
| "call_sub SshKeys = ''/ssh-keys''"
| "call_sub (DeleteSSHKey k) = ''/ssh-keys/'' @ k"
| "call_sub Processes = ''/processes''"
| "call_sub AgentLogs = ''/agent-logs''"
| "call_sub Screenshot = ''/screenshot''"
| "call_sub RequestScreenshot = ''/screenshot/request''"
| "call_sub (UptimeHistory d) = ''/uptime-history''"
| "call_sub GetConfig = ''/config''"
| "call_sub (UpdateConfig c) = ''/config''"
| "call_sub (Maintenance b r) = ''/maintenance''"
| "call_sub Disconnect = ''/disconnect''"
| "call_sub _ = []"

lemmas devices_api_defs = devices_get_def devices_network_def devices_sshKeys_def
  devices_deleteSSHKey_def devices_processes_def devices_agentLogs_def devices_screenshot_def
  devices_requestScreenshot_def devices_uptimeHistory_def devices_config_def
  devices_updateConfig_def devices_update_def devices_maintenance_def devices_disconnect_def
  devices_revoke_def

lemma device_request_path: "rq_path (device_request i c) = device_path i (call_sub c)"
  by (cases c) (simp_all add: devices_api_defs mk_request_def)

lemma sub_path_call: "sub_path (call_sub c)"
  by (cases c) (simp_all add: sub_path_def)

text \<open>What a call means to the server: an absent number of days is the default.\<close>

fun same_call :: "device_call \<Rightarrow> device_call \<Rightarrow> bool" where
  "same_call (UptimeHistory d) (UptimeHistory e) \<longleftrightarrow> nullish d 30 = nullish e 30"
| "same_call c d \<longleftrightarrow> c = d"

lemma device_config_eq:
  "dc_telemetry_interval_secs c = dc_telemetry_interval_secs d \<Longrightarrow>
   dc_software_scan_interval_m c = dc_software_scan_interval_m d \<Longrightarrow>
   dc_event_poll_interval_secs c = dc_event_poll_interval_secs d \<Longrightarrow> c = (d :: device_config)"
  by simp

lemma device_request_same_device:
  "device_request i c = device_request i d \<Longrightarrow> same_call c d"
  by (cases c; cases d)
    (auto simp: devices_api_defs device_path_def intro: device_config_eq)

section \<open>Properties\<close>

text \<open>Requests of the device API are unambiguous: for device identifiers that are single path
  segments, two calls build the same HTTP request only if they are the same operation with the same
  arguments on the same device. So a request for one device never acts on another.\<close>

theorem device_request_unambiguous:
  assumes "segment i" "segment j" "device_request i c = device_request j d"
  shows "i = j \<and> same_call c d"
proof -
  from assms(3) have "device_path i (call_sub c) = device_path j (call_sub d)"
    by (metis device_request_path)
  with assms(1,2) have "i = j" using device_path_inject sub_path_call by blast
  with assms(3) show ?thesis using device_request_same_device by blast
qed

theorem device_request_unambiguous_witness:
  "segment ''a1'' \<and> segment ''a1'' \<and> ''a1'' = ''a1'' \<and> same_call (UptimeHistory None) (UptimeHistory (Some 30))"
proof -
  have "segment ''a1''" by (simp add: segment_def)
  moreover have "device_request ''a1'' (UptimeHistory None) = device_request ''a1'' (UptimeHistory (Some 30))"
    by (simp add: devices_api_defs)
  ultimately show ?thesis using device_request_unambiguous by blast
qed

end
