(* ===== verification/Storage.thy ===== *)
theory Storage
  imports Prelude
begin

text \<open>
  Persistent key-value storage. The web client keeps its session in the browser's \<open>localStorage\<close>,
  the mobile client in \<open>expo-secure-store\<close>. Both are used through the same three operations, whose
  contract is the locale \<open>kv_store\<close>; the clients' lemmas about writing and deleting several keys
  are proved once inside it. \<open>localStorage\<close> is a map of strings (the Web Storage API) and
  interprets the locale; the mobile store is a parameter of the mobile definitions, with the
  locale predicate as the hypothesis on it.
\<close>

section \<open>The contract\<close>

locale kv_store =
  fixes get :: "'s \<Rightarrow> string \<Rightarrow> string option"
    and put :: "string \<Rightarrow> string \<Rightarrow> 's \<Rightarrow> 's"
    and del :: "string \<Rightarrow> 's \<Rightarrow> 's"
  assumes get_put: "get (put k v s) j = (if j = k then Some v else get s j)"
    and get_del: "get (del k s) j = (if j = k then None else get s j)"
begin

lemma get_put_same [simp]: "get (put k v s) k = Some v"
  by (simp add: get_put)

lemma get_put_other: "j \<noteq> k \<Longrightarrow> get (put k v s) j = get s j"
  by (simp add: get_put)

lemma get_fold_put:
  "get (fold (\<lambda>(k, v). put k v) kvs s) j = (case map_of (rev kvs) j of None \<Rightarrow> get s j | Some v \<Rightarrow> Some v)"
  by (induction kvs arbitrary: s) (auto simp: get_put map_add_def split: option.splits)

lemma get_fold_del: "get (fold del ks s) j = (if j \<in> set ks then None else get s j)"
  by (induction ks arbitrary: s) (auto simp: get_del)

lemma put_del_get: "get (put k v (del k s)) j = get (put k v s) j"
  by (simp add: get_put get_del)

end

section \<open>localStorage\<close>

type_synonym storage = "string \<rightharpoonup> string"

definition getItem :: "storage \<Rightarrow> string \<Rightarrow> string option" where
  "getItem s k = s k"

definition setItem :: "string \<Rightarrow> string \<Rightarrow> storage \<Rightarrow> storage" where
  "setItem k v s = s(k \<mapsto> v)"

definition removeItem :: "string \<Rightarrow> storage \<Rightarrow> storage" where
  "removeItem k s = s(k := None)"

definition clearStorage :: "storage \<Rightarrow> storage" where
  "clearStorage s = Map.empty"

interpretation ls: kv_store getItem setItem removeItem
  by unfold_locales (simp_all add: getItem_def setItem_def removeItem_def)

lemmas storage_defs = getItem_def setItem_def removeItem_def clearStorage_def

end
