(* ===== verification/AuthStore.thy ===== *)
theory AuthStore
  imports Storage Types
begin

text \<open>
  \<open>frontend/src/store/authStore.ts\<close>: the session of the web client, kept twice, in the zustand
  store and in \<open>localStorage\<close>. Every action returns the new storage and the new store state. A page
  reload rebuilds the state from the storage (\<open>auth_init\<close>). \<open>frontend/src/pages/Login.tsx\<close> and
  \<open>hooks/useCurrentOrg.ts\<close> are the store's clients modelled here.
\<close>

record auth_state =
  accessToken :: "string option"
  refreshToken :: "string option"
  username :: "string option"
  role :: "string option"
  orgId :: "string option"
  orgName :: "string option"
  isAuthenticated :: bool

type_synonym session = "storage \<times> auth_state"

definition auth_init :: "storage \<Rightarrow> auth_state" where
  "auth_init s =
     \<lparr>accessToken = getItem s ''access_token'',
      refreshToken = getItem s ''refresh_token'',
      username = getItem s ''username'',
      role = getItem s ''role'',
      orgId = getItem s ''org_id'',
      orgName = getItem s ''org_name'',
      isAuthenticated = truthy (getItem s ''access_token'')\<rparr>"

definition login ::
  "string \<Rightarrow> string \<Rightarrow> string \<Rightarrow> string \<Rightarrow> string option \<Rightarrow> string option \<Rightarrow> session \<Rightarrow> session" where
  "login access refresh uname rl org oname ss =
     (let s = fst ss;
          s = setItem ''access_token'' access s;
          s = setItem ''refresh_token'' refresh s;
          s = setItem ''username'' uname s;
          s = setItem ''role'' rl s;
          s = (if truthy org then setItem ''org_id'' (the org) s else s);
          s = (if truthy oname then setItem ''org_name'' (the oname) s else s)
      in (s, (snd ss)\<lparr>accessToken := Some access, refreshToken := Some refresh, username := Some uname,
               role := Some rl, orgId := org, orgName := oname, isAuthenticated := True\<rparr>))"

definition logout :: "session \<Rightarrow> session" where
  "logout ss =
     (fold removeItem [''access_token'', ''refresh_token'', ''username'', ''role'', ''org_id'', ''org_name'']
        (fst ss),
      (snd ss)\<lparr>accessToken := None, refreshToken := None, username := None, role := None,
         orgId := None, orgName := None, isAuthenticated := False\<rparr>)"

definition setOrgContext :: "string \<Rightarrow> string \<Rightarrow> string \<Rightarrow> string \<Rightarrow> session \<Rightarrow> session" where
  "setOrgContext org oname access refresh ss =
     (fold (\<lambda>(k, v). setItem k v)
        [(''org_id'', org), (''org_name'', oname), (''access_token'', access), (''refresh_token'', refresh)]
        (fst ss),
      (snd ss)\<lparr>orgId := Some org, orgName := Some oname, accessToken := Some access,
         refreshToken := Some refresh\<rparr>)"

definition useCurrentOrg :: "auth_state \<Rightarrow> string option \<times> string option" where
  "useCurrentOrg a = (orgId a, orgName a)"

section \<open>Sessions\<close>

text \<open>What can happen to a session: the store's actions and a reload of the page.\<close>

datatype auth_op =
    Login string string string string "string option" "string option"
  | Logout
  | SetOrg string string string string
  | Reload

fun auth_step :: "session \<Rightarrow> auth_op \<Rightarrow> session" where
  "auth_step ss (Login a r u rl org oname) = login a r u rl org oname ss"
| "auth_step ss Logout = logout ss"
| "auth_step ss (SetOrg org oname a r) = setOrgContext org oname a r ss"
| "auth_step ss Reload = (fst ss, auth_init (fst ss))"

definition auth_run :: "session \<Rightarrow> auth_op list \<Rightarrow> session" where
  "auth_run = foldl auth_step"

section \<open>Login.tsx\<close>

text \<open>
  The login page. The API call and \<open>jwtDecode\<close> (a package) are parameters: \<open>resp\<close> is the outcome
  of \<open>authApi.login\<close> (\<open>None\<close> when it rejects), \<open>decode\<close> maps an access token to its optional
  \<open>username\<close> and \<open>role\<close> claims, \<open>None\<close> when it throws.
\<close>

record login_page =
  lp_username :: string
  lp_password :: string
  lp_error :: string
  lp_loading :: bool
  lp_navigate :: "string option" \<comment> \<open>the route navigated to, if any\<close>

definition login_page_init :: login_page where
  "login_page_init =
     \<lparr>lp_username = [], lp_password = [], lp_error = [], lp_loading = False, lp_navigate = None\<rparr>"

definition handleSubmit_start :: "login_page \<Rightarrow> login_page" where
  "handleSubmit_start p = p\<lparr>lp_error := [], lp_loading := True\<rparr>"

definition handleSubmit_finish ::
  "(string \<Rightarrow> (string option \<times> string option) option) \<Rightarrow> auth_tokens option
     \<Rightarrow> login_page \<Rightarrow> session \<Rightarrow> login_page \<times> session" where
  "handleSubmit_finish decode resp p ss =
     (case resp of
        None \<Rightarrow> (p\<lparr>lp_error := ''Invalid username or password'', lp_loading := False\<rparr>, ss)
      | Some tokens \<Rightarrow>
          (case decode (tok_access_token tokens) of
             None \<Rightarrow> (p\<lparr>lp_error := ''Invalid username or password'', lp_loading := False\<rparr>, ss)
           | Some (uname, rl) \<Rightarrow>
               (p\<lparr>lp_navigate := Some ''/'', lp_loading := False\<rparr>,
                login (tok_access_token tokens) (tok_refresh_token tokens)
                  (nullish uname (lp_username p)) (nullish rl ''viewer'') None None ss)))"

section \<open>Lemmas\<close>

definition token_keys :: "string list" where
  "token_keys = [''access_token'', ''refresh_token'', ''username'', ''role'']"

text \<open>The part of the session the store always mirrors, and the organisation part.\<close>

definition tokens_synced :: "session \<Rightarrow> bool" where
  "tokens_synced ss \<longleftrightarrow>
     accessToken (snd ss) = getItem (fst ss) ''access_token''
   \<and> refreshToken (snd ss) = getItem (fst ss) ''refresh_token''
   \<and> username (snd ss) = getItem (fst ss) ''username''
   \<and> role (snd ss) = getItem (fst ss) ''role''"

definition org_synced :: "session \<Rightarrow> bool" where
  "org_synced ss \<longleftrightarrow>
     orgId (snd ss) = getItem (fst ss) ''org_id'' \<and> orgName (snd ss) = getItem (fst ss) ''org_name''"

lemma getItem_login:
  "getItem (fst (login a r u rl org oname ss)) k =
     (if k = ''access_token'' then Some a else if k = ''refresh_token'' then Some r
      else if k = ''username'' then Some u else if k = ''role'' then Some rl
      else if k = ''org_id'' \<and> truthy org then org
      else if k = ''org_name'' \<and> truthy oname then oname
      else getItem (fst ss) k)"
  by (auto simp: login_def Let_def ls.get_put)

lemma getItem_logout:
  "getItem (fst (logout ss)) k =
     (if k \<in> set (token_keys @ [''org_id'', ''org_name'']) then None else getItem (fst ss) k)"
  by (auto simp: logout_def token_keys_def ls.get_del)

lemma getItem_setOrgContext:
  "getItem (fst (setOrgContext org oname a r ss)) k =
     (if k = ''org_id'' then Some org else if k = ''org_name'' then Some oname
      else if k = ''access_token'' then Some a else if k = ''refresh_token'' then Some r
      else getItem (fst ss) k)"
  by (simp add: setOrgContext_def ls.get_put)

lemma auth_state_updates [simp]:
  "accessToken (snd (login a r u rl org oname ss)) = Some a"
  "refreshToken (snd (login a r u rl org oname ss)) = Some r"
  "username (snd (login a r u rl org oname ss)) = Some u"
  "role (snd (login a r u rl org oname ss)) = Some rl"
  "orgId (snd (login a r u rl org oname ss)) = org"
  "orgName (snd (login a r u rl org oname ss)) = oname"
  "isAuthenticated (snd (login a r u rl org oname ss))"
  "accessToken (snd (logout ss)) = None" "refreshToken (snd (logout ss)) = None"
  "username (snd (logout ss)) = None" "role (snd (logout ss)) = None"
  "orgId (snd (logout ss)) = None" "orgName (snd (logout ss)) = None"
  "\<not> isAuthenticated (snd (logout ss))"
  "accessToken (snd (setOrgContext org' on' a r ss)) = Some a"
  "refreshToken (snd (setOrgContext org' on' a r ss)) = Some r"
  "orgId (snd (setOrgContext org' on' a r ss)) = Some org'"
  "orgName (snd (setOrgContext org' on' a r ss)) = Some on'"
  "username (snd (setOrgContext org' on' a r ss)) = username (snd ss)"
  "role (snd (setOrgContext org' on' a r ss)) = role (snd ss)"
  "isAuthenticated (snd (setOrgContext org' on' a r ss)) = isAuthenticated (snd ss)"
  by (simp_all add: login_def logout_def setOrgContext_def Let_def)

lemma auth_init_fields [simp]:
  "accessToken (auth_init s) = getItem s ''access_token''"
  "refreshToken (auth_init s) = getItem s ''refresh_token''"
  "username (auth_init s) = getItem s ''username''" "role (auth_init s) = getItem s ''role''"
  "orgId (auth_init s) = getItem s ''org_id''" "orgName (auth_init s) = getItem s ''org_name''"
  "isAuthenticated (auth_init s) = truthy (getItem s ''access_token'')"
  by (simp_all add: auth_init_def)

lemma auth_step_tokens_synced: "tokens_synced ss \<Longrightarrow> tokens_synced (auth_step ss x)"
  by (cases x) (simp_all add: tokens_synced_def getItem_login getItem_logout getItem_setOrgContext
      token_keys_def)

lemma auth_run_Nil [simp]: "auth_run ss [] = ss"
  by (simp add: auth_run_def)

lemma auth_run_Cons [simp]: "auth_run ss (x # xs) = auth_run (auth_step ss x) xs"
  by (simp add: auth_run_def)

lemma auth_run_tokens_synced: "tokens_synced ss \<Longrightarrow> tokens_synced (auth_run ss xs)"
  by (induction xs arbitrary: ss) (simp_all add: auth_step_tokens_synced)

text \<open>Whether the session counts as signed in agrees with the token it holds.\<close>

definition auth_consistent :: "session \<Rightarrow> bool" where
  "auth_consistent ss \<longleftrightarrow> (isAuthenticated (snd ss) \<longleftrightarrow> truthy (accessToken (snd ss)))"

fun op_allowed :: "session \<Rightarrow> auth_op \<Rightarrow> bool" where
  "op_allowed ss (Login a r u rl org oname) \<longleftrightarrow> a \<noteq> []"
| "op_allowed ss (SetOrg org oname a r) \<longleftrightarrow> a \<noteq> [] \<and> isAuthenticated (snd ss)"
| "op_allowed ss _ \<longleftrightarrow> True"

fun ops_allowed :: "session \<Rightarrow> auth_op list \<Rightarrow> bool" where
  "ops_allowed ss [] \<longleftrightarrow> True"
| "ops_allowed ss (x # xs) \<longleftrightarrow> op_allowed ss x \<and> ops_allowed (auth_step ss x) xs"

lemma auth_step_consistent: "auth_consistent ss \<Longrightarrow> op_allowed ss x \<Longrightarrow> auth_consistent (auth_step ss x)"
  by (cases x) (simp_all add: auth_consistent_def)

lemma auth_run_consistent:
  "auth_consistent ss \<Longrightarrow> ops_allowed ss xs \<Longrightarrow> auth_consistent (auth_run ss xs)"
  by (induction xs arbitrary: ss) (simp_all add: auth_step_consistent)

section \<open>Properties\<close>

text \<open>C9. Whatever sequence of logins, logouts, organisation switches and reloads the store goes through
  after the page is loaded, its tokens, user name and role are the ones in \<open>localStorage\<close>; and
  as long as logins carry a token and organisations are switched only when signed in,
  \<open>isAuthenticated\<close> says exactly whether there is an access token.\<close>

theorem session_invariant:
  "tokens_synced (auth_run (s, auth_init s) xs)
   \<and> (ops_allowed (s, auth_init s) xs \<longrightarrow> auth_consistent (auth_run (s, auth_init s) xs))"
proof (intro conjI impI)
  show "tokens_synced (auth_run (s, auth_init s) xs)"
    by (rule auth_run_tokens_synced) (simp add: tokens_synced_def)
  show "auth_consistent (auth_run (s, auth_init s) xs)" if "ops_allowed (s, auth_init s) xs"
    using that by (intro auth_run_consistent) (simp_all add: auth_consistent_def)
qed

theorem session_invariant_witness:
  "let ss = auth_run (Map.empty, auth_init Map.empty)
       [Login ''t'' ''r'' ''ann'' ''admin'' None None, SetOrg ''o1'' ''Org'' ''t2'' ''r2'', Reload]
   in tokens_synced ss \<and> auth_consistent ss"
  using session_invariant[of Map.empty
      "[Login ''t'' ''r'' ''ann'' ''admin'' None None, SetOrg ''o1'' ''Org'' ''t2'' ''r2'', Reload]"]
  by (simp only: Let_def) simp

text \<open>Logout leaves nothing behind: the six session keys are gone from the storage, every other
  key is untouched, the store is signed out, and reloading the page gives the same signed-out
  state.\<close>

theorem logout_complete:
  "(\<forall>k. getItem (fst (logout ss)) k =
      (if k \<in> {''access_token'', ''refresh_token'', ''username'', ''role'', ''org_id'', ''org_name''}
       then None else getItem (fst ss) k))
   \<and> snd (logout ss) = auth_init (fst (logout ss))
   \<and> \<not> isAuthenticated (snd (logout ss))"
proof -
  have "snd (logout ss) = auth_init (fst (logout ss))"
    by (rule auth_state.equality) (simp_all add: getItem_logout token_keys_def)
  then show ?thesis by (simp add: getItem_logout token_keys_def)
qed

text \<open>A login is restored by a reload: when no organisation is left over in the storage (as after
  a logout), or the login names one, reading the storage back gives the very state the login set.\<close>

theorem login_reload:
  assumes "access \<noteq> []" "org \<noteq> Some []" "oname \<noteq> Some []"
    and "org = None \<Longrightarrow> getItem s ''org_id'' = None"
    and "oname = None \<Longrightarrow> getItem s ''org_name'' = None"
  shows "auth_init (fst (login access refresh u rl org oname (s, a)))
       = snd (login access refresh u rl org oname (s, a))"
  by (rule auth_state.equality) (use assms in \<open>auto simp: getItem_login truthy_def split: option.splits\<close>)

theorem login_reload_witness:
  "auth_init (fst (login ''t'' ''r'' ''ann'' ''admin'' (Some ''o'') (Some ''Org'') (Map.empty, auth_init Map.empty)))
   = snd (login ''t'' ''r'' ''ann'' ''admin'' (Some ''o'') (Some ''Org'') (Map.empty, auth_init Map.empty))"
  by (rule login_reload) (simp_all add: getItem_def)

text \<open>The login page passes no organisation, so signing in as another user without a logout keeps
  the previous user's organisation in the storage: the state shows none, but the next reload of the
  page brings the stale organisation back.\<close>

theorem login_keeps_stale_org:
  assumes "handleSubmit_finish decode (Some tokens) p (s, a) = (p', (s', a'))"
    and "decode (tok_access_token tokens) = Some claims"
    and "getItem s ''org_id'' = Some org"
  shows "orgId a' = None \<and> orgId (auth_init s') = Some org"
proof -
  obtain u rl where "claims = (u, rl)" by (cases claims)
  with assms(1,2) have l: "login (tok_access_token tokens) (tok_refresh_token tokens)
      (nullish u (lp_username p)) (nullish rl ''viewer'') None None (s, a) = (s', a')" (is "?l = _")
    by (simp add: handleSubmit_finish_def)
  have "orgId (snd ?l) = None" "orgId (auth_init (fst ?l)) = Some org"
    using assms(3) by (simp_all add: getItem_login)
  then show ?thesis unfolding l by simp
qed

theorem login_keeps_stale_org_witness:
  "\<exists>p' s' a'. handleSubmit_finish (\<lambda>_. Some (Some ''bob'', Some ''viewer''))
       (Some \<lparr>tok_access_token = ''t2'', tok_refresh_token = ''r2'', tok_token_type = ''bearer''\<rparr>)
       login_page_init ([''org_id'' \<mapsto> ''o1''], auth_init [''org_id'' \<mapsto> ''o1'']) = (p', (s', a'))
     \<and> orgId a' = None \<and> orgId (auth_init s') = Some ''o1''"
proof -
  obtain p' s' a' where e: "handleSubmit_finish (\<lambda>_. Some (Some ''bob'', Some ''viewer''))
       (Some \<lparr>tok_access_token = ''t2'', tok_refresh_token = ''r2'', tok_token_type = ''bearer''\<rparr>)
       login_page_init ([''org_id'' \<mapsto> ''o1''], auth_init [''org_id'' \<mapsto> ''o1'']) = (p', (s', a'))"
    by (metis prod_cases3)
  from login_keeps_stale_org[OF e, of "(Some ''bob'', Some ''viewer'')" "''o1''"] e
  show ?thesis by (auto simp: getItem_def)
qed

end
