(* ===== verification/ApiClient.thy ===== *)
theory ApiClient
  imports Api AuthStore
begin

text \<open>
  The HTTP clients with their interceptors: \<open>frontend/src/api/client.ts\<close> and
  \<open>mobile/src/api/client.ts\<close>. Axios and the server are not code of the repository: they are the
  parameters \<open>send\<close> (one exchange of an API request) and \<open>refresh\<close> (one
  \<open>POST /auth/refresh\<close> with the bare axios object), functions on an arbitrary transport state. An
  exchange resolves for a status in 200..299 and rejects otherwise, as axios does by default.

  The web interceptor retries without a bound, so \<open>api_request\<close> is a partial function: \<open>None\<close> means
  that it never settles. The mobile interceptor marks the request (\<open>_retry\<close>) and retries once.
\<close>

datatype 'd reply = Reply int 'd | NetworkError

record token_data =
  td_access :: "string option"
  td_refresh :: "string option"

datatype 'd outcome = Resolved int 'd | Rejected "int option"

definition ok_status :: "int \<Rightarrow> bool" where
  "ok_status c \<longleftrightarrow> 200 \<le> c \<and> c < 300"

text \<open>The rejection carries \<open>err.response?.status\<close>; \<open>refreshed\<close> is the data of a resolved refresh.\<close>

definition settle :: "'d reply \<Rightarrow> 'd outcome" where
  "settle r = (case r of
     NetworkError \<Rightarrow> Rejected None
   | Reply c d \<Rightarrow> if ok_status c then Resolved c d else Rejected (Some c))"

definition refreshed :: "token_data reply \<Rightarrow> token_data option" where
  "refreshed r = (case settle r of Resolved c d \<Rightarrow> Some d | Rejected _ \<Rightarrow> None)"

definition bearer :: "string \<Rightarrow> string" where
  "bearer t = ''Bearer '' @ t"

section \<open>The web client\<close>

record 'w web =
  net :: 'w
  store :: storage
  location :: "string option" \<comment> \<open>the last assignment to \<open>window.location.href\<close>\<close>

definition web_attach :: "storage \<Rightarrow> request \<Rightarrow> request" where
  "web_attach s cfg =
     (if truthy (getItem s ''access_token'')
      then cfg\<lparr>rq_auth := Some (bearer (the (getItem s ''access_token'')))\<rparr> else cfg)"

text \<open>A missing \<open>access_token\<close> in the response is stored and sent as the text \<open>undefined\<close>.\<close>

definition new_token :: "token_data \<Rightarrow> string" where
  "new_token d = nullish (td_access d) ''undefined''"

partial_function (option) api_request ::
  "('w \<Rightarrow> request \<Rightarrow> 'd reply \<times> 'w) \<Rightarrow> ('w \<Rightarrow> string \<Rightarrow> token_data reply \<times> 'w)
     \<Rightarrow> request \<Rightarrow> 'w web \<Rightarrow> ('d outcome \<times> 'w web) option" where
  "api_request send refresh cfg st =
     (let cfg1 = web_attach (store st) cfg;
          x = send (net st) cfg1;
          st1 = st\<lparr>net := snd x\<rparr>;
          tok = getItem (store st) ''refresh_token''
      in if settle (fst x) = Rejected (Some 401) \<and> truthy tok then
           let y = refresh (net st1) (the tok); st2 = st1\<lparr>net := snd y\<rparr>
           in case refreshed (fst y) of
                None \<Rightarrow> Some (Rejected (Some 401),
                              st2\<lparr>store := clearStorage (store st2), location := Some ''/login''\<rparr>)
              | Some d \<Rightarrow>
                  api_request send refresh (cfg1\<lparr>rq_auth := Some (bearer (new_token d))\<rparr>)
                    (st2\<lparr>store := setItem ''access_token'' (new_token d) (store st2)\<rparr>)
         else Some (settle (fst x), st1))"

section \<open>The mobile client\<close>

text \<open>
  \<open>expo-secure-store\<close> is a parameter: its \<open>getItemAsync\<close>, \<open>setItemAsync\<close> and \<open>deleteItemAsync\<close>
  as functions on an abstract store. \<open>setItemAsync\<close> rejects a value that is not a string.
\<close>

record 's store_ops =
  ss_get :: "'s \<Rightarrow> string \<Rightarrow> string option"
  ss_put :: "string \<Rightarrow> string \<Rightarrow> 's \<Rightarrow> 's"
  ss_del :: "string \<Rightarrow> 's \<Rightarrow> 's"

definition strip_slash :: "string \<Rightarrow> string" where
  "strip_slash url = (if url \<noteq> [] \<and> last url = CHR ''/'' then butlast url else url)"

definition getServerUrl :: "'s store_ops \<Rightarrow> 's \<Rightarrow> string" where
  "getServerUrl ops s = nullish (ss_get ops s ''server_url'') ''http://localhost:8000''"

definition getAccessToken :: "'s store_ops \<Rightarrow> 's \<Rightarrow> string option" where
  "getAccessToken ops s = ss_get ops s ''access_token''"

definition put_token :: "'s store_ops \<Rightarrow> string \<Rightarrow> string option \<Rightarrow> 's \<Rightarrow> 's" where
  "put_token ops k v s = (case v of None \<Rightarrow> s | Some t \<Rightarrow> ss_put ops k t s)"

text \<open>
  \<open>Promise.all\<close> starts both writes before either can fail, so the write of the other token takes
  place when one is rejected; the flag says whether the promise resolves.
\<close>

definition saveTokens :: "'s store_ops \<Rightarrow> string option \<Rightarrow> string option \<Rightarrow> 's \<Rightarrow> bool \<times> 's" where
  "saveTokens ops access refresh s =
     (access \<noteq> None \<and> refresh \<noteq> None,
      put_token ops ''refresh_token'' refresh (put_token ops ''access_token'' access s))"

definition saveServerUrl :: "'s store_ops \<Rightarrow> string \<Rightarrow> 's \<Rightarrow> 's" where
  "saveServerUrl ops url s = ss_put ops ''server_url'' (strip_slash url) s"

definition clearTokens :: "'s store_ops \<Rightarrow> 's \<Rightarrow> 's" where
  "clearTokens ops s = ss_del ops ''refresh_token'' (ss_del ops ''access_token'' s)"

definition mobile_attach :: "'s store_ops \<Rightarrow> 's \<Rightarrow> request \<Rightarrow> string \<times> request" where
  "mobile_attach ops s cfg =
     (getServerUrl ops s @ ''/api/v1'',
      if truthy (getAccessToken ops s)
      then cfg\<lparr>rq_auth := Some (bearer (the (getAccessToken ops s)))\<rparr> else cfg)"

text \<open>
  One request through the mobile instance. \<open>send\<close> also gets the base URL of the instance,
  \<open>refresh\<close> the full URL of the refresh endpoint.
\<close>

function mobile_request ::
  "'s store_ops \<Rightarrow> ('w \<Rightarrow> string \<Rightarrow> request \<Rightarrow> 'd reply \<times> 'w)
     \<Rightarrow> ('w \<Rightarrow> string \<Rightarrow> string \<Rightarrow> token_data reply \<times> 'w)
     \<Rightarrow> request \<Rightarrow> 's \<Rightarrow> 'w \<Rightarrow> 'd outcome \<times> 's \<times> 'w" where
  "mobile_request ops send refresh cfg s w =
     (let (base, cfg1) = mobile_attach ops s cfg;
          x = send w base cfg1
      in if settle (fst x) = Rejected (Some 401) \<and> \<not> rq_retry cfg then
           let tok = ss_get ops s ''refresh_token'';
               failed = (\<lambda>s' w'. (Rejected (Some 401), clearTokens ops s', w'))
           in if truthy tok then
                let y = refresh (snd x) (getServerUrl ops s @ ''/api/v1/auth/refresh'') (the tok)
                in case refreshed (fst y) of
                     None \<Rightarrow> failed s (snd y)
                   | Some d \<Rightarrow>
                       let saved = saveTokens ops (td_access d) (td_refresh d) s
                       in if fst saved then
                            mobile_request ops send refresh
                              (cfg1\<lparr>rq_retry := True, rq_auth := Some (bearer (the (td_access d)))\<rparr>)
                              (snd saved) (snd y)
                          else failed (snd saved) (snd y)
              else failed s (snd x)
         else (settle (fst x), s, snd x))"
  by pat_completeness auto
termination
  by (relation "measure (\<lambda>(ops, send, refresh, cfg, s, w). if rq_retry cfg then 0 else 1)") auto

declare mobile_request.simps [simp del]

section \<open>Lemmas\<close>

lemma api_request_plain:
  assumes "settle (fst (send (net st) (web_attach (store st) cfg))) \<noteq> Rejected (Some 401)
    \<or> \<not> truthy (getItem (store st) ''refresh_token'')"
  shows "api_request send refresh cfg st =
     Some (settle (fst (send (net st) (web_attach (store st) cfg))),
           st\<lparr>net := snd (send (net st) (web_attach (store st) cfg))\<rparr>)"
  using assms by (subst api_request.simps) (auto simp: Let_def)

lemma api_request_expired:
  assumes "send (net st) (web_attach (store st) cfg) = (Reply 401 d, w1)"
    and "getItem (store st) ''refresh_token'' = Some tok" "tok \<noteq> []"
    and "refresh w1 tok = (r, w2)" "refreshed r = None"
  shows "api_request send refresh cfg st =
     Some (Rejected (Some 401), st\<lparr>net := w2, store := Map.empty, location := Some ''/login''\<rparr>)"
  using assms by (subst api_request.simps) (simp add: Let_def settle_def ok_status_def clearStorage_def)

lemma api_request_retry:
  assumes "send (net st) (web_attach (store st) cfg) = (Reply 401 d, w1)"
    and "getItem (store st) ''refresh_token'' = Some tok" "tok \<noteq> []"
    and "refresh w1 tok = (r, w2)" "refreshed r = Some td"
  shows "api_request send refresh cfg st =
     api_request send refresh ((web_attach (store st) cfg)\<lparr>rq_auth := Some (bearer (new_token td))\<rparr>)
       (st\<lparr>net := w2, store := setItem ''access_token'' (new_token td) (store st)\<rparr>)"
  using assms
  by (subst api_request.simps) (simp add: Let_def settle_def ok_status_def)

lemma web_attach_token:
  "getItem s ''access_token'' = Some t \<Longrightarrow> t \<noteq> [] \<Longrightarrow>
     web_attach s cfg = cfg\<lparr>rq_auth := Some (bearer t)\<rparr>"
  by (simp add: web_attach_def)

lemma settle_401: "settle x = Rejected (Some c) \<longleftrightarrow> (\<exists>d. x = Reply c d) \<and> \<not> ok_status c"
  by (auto simp: settle_def split: reply.splits if_splits)

lemma refreshed_Some: "refreshed r = Some d \<longleftrightarrow> (\<exists>c. r = Reply c d \<and> ok_status c)"
  by (auto simp: refreshed_def settle_def split: reply.splits if_splits)

lemma api_request_terminates_by:
  fixes f :: "'w \<Rightarrow> nat"
  assumes dec: "\<And>w q t. settle (fst (send w q)) = Rejected (Some 401) \<Longrightarrow>
      refreshed (fst (refresh (snd (send w q)) t)) \<noteq> None \<Longrightarrow>
      f (snd (refresh (snd (send w q)) t)) < f w"
  shows "\<exists>r. api_request send refresh cfg st = Some r"
proof (induction "f (net st)" arbitrary: cfg st rule: less_induct)
  case less
  let ?x = "send (net st) (web_attach (store st) cfg)"
  let ?tok = "getItem (store st) ''refresh_token''"
  let ?y = "refresh (snd ?x) (the ?tok)"
  show ?case
  proof (cases "settle (fst ?x) = Rejected (Some 401) \<and> truthy ?tok")
    case False
    then show ?thesis using api_request_plain[of send st cfg refresh] by auto
  next
    case True
    show ?thesis
    proof (cases "refreshed (fst ?y)")
      case None
      with True show ?thesis by (subst api_request.simps) (simp add: Let_def)
    next
      case (Some d)
      with True dec[of "net st" "web_attach (store st) cfg" "the ?tok"] have "f (snd ?y) < f (net st)"
        by simp
      with less[of "st\<lparr>net := snd ?y, store := setItem ''access_token'' (new_token d) (store st)\<rparr>"]
      show ?thesis using True Some by (subst api_request.simps) (simp add: Let_def)
    qed
  qed
qed

text \<open>A server that answers 401 to everything but the refresh.\<close>

definition refuses_all ::
  "('w \<Rightarrow> request \<Rightarrow> 'd reply \<times> 'w) \<Rightarrow> ('w \<Rightarrow> string \<Rightarrow> token_data reply \<times> 'w) \<Rightarrow> bool" where
  "refuses_all send refresh \<longleftrightarrow>
     (\<forall>w q. settle (fst (send w q)) = Rejected (Some 401)) \<and> (\<forall>w t. refreshed (fst (refresh w t)) \<noteq> None)"

lemma api_request_diverges:
  assumes "refuses_all send refresh" "truthy (getItem (store st) ''refresh_token'')"
  shows "api_request send refresh cfg st = None"
proof (rule ccontr)
  assume "api_request send refresh cfg st \<noteq> None"
  then obtain r where r: "api_request send refresh cfg st = Some r" by blast
  let ?P = "\<lambda>send refresh cfg st r. \<not> (refuses_all send refresh \<and> truthy (getItem (store st) ''refresh_token''))"
  have "?P send refresh cfg st r"
  proof (rule api_request.raw_induct[where P = ?P, OF _ r], goal_cases)
    case (1 f send refresh cfg st y)
    show ?case
    proof
      assume h: "refuses_all send refresh \<and> truthy (getItem (store st) ''refresh_token'')"
      let ?x = "send (net st) (web_attach (store st) cfg)"
      let ?y = "refresh (snd ?x) (the (getItem (store st) ''refresh_token''))"
      obtain d where d: "refreshed (fst ?y) = Some d"
        using h unfolding refuses_all_def by (metis not_None_eq)
      have x: "settle (fst ?x) = Rejected (Some 401)" using h by (simp add: refuses_all_def)
      have "f send refresh ((web_attach (store st) cfg)\<lparr>rq_auth := Some (bearer (new_token d))\<rparr>)
          (st\<lparr>net := snd ?y, store := setItem ''access_token'' (new_token d) (store st)\<rparr>) = Some y"
        using 1(2) h d x by (simp add: Let_def)
      from 1(1)[OF this] h show False by (simp add: ls.get_put)
    qed
  qed
  with assms show False by simp
qed

lemmas mobile_store_defs = getServerUrl_def getAccessToken_def put_token_def saveTokens_def saveServerUrl_def
  clearTokens_def

lemma mobile_request_done:
  assumes "mobile_attach ops s cfg = (base, cfg1)" "send w base cfg1 = (x, w1)"
    and "settle x \<noteq> Rejected (Some 401) \<or> rq_retry cfg"
  shows "mobile_request ops send refresh cfg s w = (settle x, s, w1)"
  using assms by (subst mobile_request.simps) auto

lemma mobile_attach_retry: "rq_retry (snd (mobile_attach ops s cfg)) = rq_retry cfg"
  by (simp add: mobile_attach_def)

lemma mobile_request_marked:
  assumes "rq_retry cfg"
  shows "mobile_request ops send refresh cfg s w =
     (settle (fst (send w (fst (mobile_attach ops s cfg)) (snd (mobile_attach ops s cfg)))), s,
      snd (send w (fst (mobile_attach ops s cfg)) (snd (mobile_attach ops s cfg))))"
  using assms by (subst mobile_request.simps) (simp add: split_def Let_def)

lemma api_request_refreshed:
  assumes "send (net st) (web_attach (store st) cfg) = (Reply 401 d, w1)"
    and "getItem (store st) ''refresh_token'' = Some tok" "tok \<noteq> []"
    and "refresh w1 tok = (Reply rc td, w2)" "ok_status rc" "td_access td = Some acc" "acc \<noteq> []"
    and "send w2 ((web_attach (store st) cfg)\<lparr>rq_auth := Some (bearer acc)\<rparr>) = (Reply c e, w3)"
    and "ok_status c"
  shows "api_request send refresh cfg st =
     Some (Resolved c e, st\<lparr>net := w3, store := (store st)(''access_token'' \<mapsto> acc)\<rparr>)"
proof -
  let ?cfg = "(web_attach (store st) cfg)\<lparr>rq_auth := Some (bearer acc)\<rparr>"
  let ?st = "st\<lparr>net := w2, store := setItem ''access_token'' acc (store st)\<rparr>"
  have t: "new_token td = acc" using assms(6) by (simp add: new_token_def)
  have "api_request send refresh cfg st = api_request send refresh ?cfg ?st"
    using api_request_retry[of send st cfg d w1 tok refresh "Reply rc td" w2 td] assms(1-5) t
    by (simp add: refreshed_Some)
  moreover have "web_attach (store ?st) ?cfg = ?cfg"
    using assms(7) by (simp add: web_attach_token[of _ acc] ls.get_put)
  moreover have "settle (Reply c e) = Resolved c e" using assms(9) by (simp add: settle_def)
  ultimately show ?thesis
    using assms(8) api_request_plain[of send ?st ?cfg refresh] by (simp add: setItem_def)
qed

section \<open>Properties of the web client\<close>

text \<open>C4. Token refresh: when a request is answered with 401, the refresh succeeds and the repeated
  request is accepted, the caller gets the accepted response; the repeated request carries the new
  token, the new token is the only change to the storage, and the page is not redirected.\<close>

theorem api_request_refreshes:
  assumes "send (net st) (web_attach (store st) cfg) = (Reply 401 d, w1)"
    and "getItem (store st) ''refresh_token'' = Some tok" "tok \<noteq> []"
    and "refresh w1 tok = (Reply rc td, w2)" "ok_status rc" "td_access td = Some acc" "acc \<noteq> []"
    and "send w2 ((web_attach (store st) cfg)\<lparr>rq_auth := Some (bearer acc)\<rparr>) = (Reply c e, w3)"
    and "ok_status c"
  shows "api_request send refresh cfg st =
     Some (Resolved c e, st\<lparr>net := w3, store := (store st)(''access_token'' \<mapsto> acc)\<rparr>)"
  using assms by (rule api_request_refreshed)

theorem api_request_refreshes_witness:
  "api_request (\<lambda>w q. if rq_auth q = Some ''Bearer new'' then (Reply 200 (), w) else (Reply 401 (), w))
     (\<lambda>w t. (Reply 200 \<lparr>td_access = Some ''new'', td_refresh = None\<rparr>, w)) admin_users
     \<lparr>net = (), store = [''access_token'' \<mapsto> ''old'', ''refresh_token'' \<mapsto> ''r''], location = None\<rparr>
   = Some (Resolved 200 (), \<lparr>net = (),
       store = [''access_token'' \<mapsto> ''new'', ''refresh_token'' \<mapsto> ''r''], location = None\<rparr>)"
  by (subst api_request_refreshes[where tok = "''r''" and acc = "''new''" and rc = 200 and c = 200
        and td = "\<lparr>td_access = Some ''new'', td_refresh = None\<rparr>"])
    (auto simp: web_attach_def getItem_def bearer_def ok_status_def admin_users_def mk_request_def
      fun_upd_twist)

text \<open>C18. Every API request settles as long as the server stops refusing: if some measure of the
  server's state decreases with every round of a 401 followed by a successful refresh, the request
  is resolved or rejected, whatever the stored tokens.\<close>

theorem api_request_settles:
  fixes f :: "'w \<Rightarrow> nat"
  assumes "\<And>w q t. settle (fst (send w q)) = Rejected (Some 401) \<Longrightarrow>
      refreshed (fst (refresh (snd (send w q)) t)) \<noteq> None \<Longrightarrow>
      f (snd (refresh (snd (send w q)) t)) < f w"
  shows "\<exists>r. api_request send refresh cfg st = Some r"
  using api_request_terminates_by[where f = f] assms by blast

theorem api_request_settles_witness:
  "\<exists>r. api_request (\<lambda>n q. if n = 0 then (Reply 200 (), n) else (Reply 401 (), n))
     (\<lambda>n t. (Reply 200 \<lparr>td_access = None, td_refresh = None\<rparr>, n - 1)) admin_users
     \<lparr>net = (3::nat), store = [''refresh_token'' \<mapsto> ''r''], location = None\<rparr> = Some r"
  by (rule api_request_settles[where f = "\<lambda>n. n"]) (auto simp: settle_def ok_status_def split: if_splits)

text \<open>C38. The web interceptor has no retry bound: against a server that keeps answering 401 while its
  refresh endpoint keeps issuing tokens (a disabled role, a clock skew), a request never settles.\<close>

theorem api_request_unbounded_retry:
  assumes "refuses_all send refresh" "truthy (getItem (store st) ''refresh_token'')"
  shows "api_request send refresh cfg st = None"
  using assms by (rule api_request_diverges)

theorem api_request_unbounded_retry_witness:
  "api_request (\<lambda>w q. (Reply 401 (), w)) (\<lambda>w t. (Reply 200 \<lparr>td_access = Some ''t'', td_refresh = None\<rparr>, w))
     admin_users \<lparr>net = (), store = [''refresh_token'' \<mapsto> ''r''], location = None\<rparr> = None"
  by (rule api_request_unbounded_retry)
    (simp_all add: refuses_all_def settle_def ok_status_def refreshed_def getItem_def)

text \<open>C19. An expired session ends the same way for every request: when the refresh fails (or its
  response cannot be reached), the request is rejected with the 401, the whole storage is emptied,
  the next page load is signed out, and the browser is sent to the login page.\<close>

theorem api_request_session_end:
  assumes "send (net st) (web_attach (store st) cfg) = (Reply 401 d, w1)"
    and "getItem (store st) ''refresh_token'' = Some tok" "tok \<noteq> []"
    and "refresh w1 tok = (r, w2)" "refreshed r = None"
  shows "\<exists>st'. api_request send refresh cfg st = Some (Rejected (Some 401), st')
     \<and> (\<forall>k. getItem (store st') k = None) \<and> \<not> isAuthenticated (auth_init (store st'))
     \<and> location st' = Some ''/login''"
  using api_request_expired[of send st cfg d w1 tok refresh r w2] assms by (simp add: getItem_def)

theorem api_request_session_end_witness:
  "\<exists>st'. api_request (\<lambda>w q. (Reply 401 (), w)) (\<lambda>w t. (NetworkError, w)) admin_users
       \<lparr>net = (), store = [''refresh_token'' \<mapsto> ''r'', ''dtsys-theme'' \<mapsto> ''light''], location = None\<rparr>
     = Some (Rejected (Some 401), st')
     \<and> (\<forall>k. getItem (store st') k = None) \<and> \<not> isAuthenticated (auth_init (store st'))
     \<and> location st' = Some ''/login''"
  by (rule api_request_session_end[where tok = "''r''" and d = "()" and r = NetworkError])
    (simp_all add: getItem_def refreshed_def settle_def)

end
