(* ===== verification/View.thy ===== *)
theory View
  imports Prelude
begin

text \<open>
  What a React component renders, as a tree: elements with their tag, the attributes that carry
  information (labels, values, titles, \<open>disabled\<close>, choices of colour) and their event handlers, and
  text. A handler is a function from the input text of the event (ignored by a click) to the
  message of the component it raises; the component's update function says what the message does.
  Static class names and styles are left out: they carry no behaviour. Characters of static labels
  outside Latin-1 have ASCII stand-ins (\<open>em_dash\<close>).

  \<open>offers v m\<close> says that a user facing the view \<open>v\<close> can raise the message \<open>m\<close>: it is the guard of
  every user step in the state machines of the pages.
\<close>

datatype 'm node =
    Txt string
  | El string "(string \<times> string) list" "(string \<times> (string \<Rightarrow> 'm)) list" "'m node list"

type_synonym 'm view = "'m node list"

definition disabled_attr :: "bool \<Rightarrow> (string \<times> string) list" where
  "disabled_attr b = (if b then [(''disabled'', ''true'')] else [])"

fun handlers :: "'m node \<Rightarrow> (string \<Rightarrow> 'm) list" where
  "handlers (Txt s) = []"
| "handlers (El t as hs cs) =
     (if (''disabled'', ''true'') \<in> set as then [] else map snd hs) @ concat (map handlers cs)"

fun texts :: "'m node \<Rightarrow> string list" where
  "texts (Txt s) = [s]"
| "texts (El t as hs cs) = concat (map texts cs)"

definition view_handlers :: "'m view \<Rightarrow> (string \<Rightarrow> 'm) list" where
  "view_handlers v = concat (map handlers v)"

definition view_texts :: "'m view \<Rightarrow> string list" where
  "view_texts v = concat (map texts v)"

definition offers :: "'m view \<Rightarrow> 'm \<Rightarrow> bool" where
  "offers v m \<longleftrightarrow> (\<exists>h \<in> set (view_handlers v). \<exists>input. h input = m)"

section \<open>Building blocks\<close>

definition em_dash :: string where "em_dash = ''--''"

abbreviation box :: "'m view \<Rightarrow> 'm node" where
  "box cs \<equiv> El ''div'' [] [] cs"

abbreviation label :: "string \<Rightarrow> 'm node" where
  "label s \<equiv> El ''span'' [] [] [Txt s]"

abbreviation button :: "'m \<Rightarrow> 'm view \<Rightarrow> 'm node" where
  "button m cs \<equiv> El ''button'' [] [(''onClick'', \<lambda>_. m)] cs"

abbreviation button_if :: "bool \<Rightarrow> 'm \<Rightarrow> 'm view \<Rightarrow> 'm node" where
  "button_if off m cs \<equiv> El ''button'' (disabled_attr off) [(''onClick'', \<lambda>_. m)] cs"

abbreviation input_field :: "string \<Rightarrow> (string \<Rightarrow> 'm) \<Rightarrow> 'm node" where
  "input_field v h \<equiv> El ''input'' [(''value'', v)] [(''onChange'', h)] []"

abbreviation checkbox :: "bool \<Rightarrow> 'm \<Rightarrow> 'm node" where
  "checkbox b m \<equiv> El ''input'' [(''type'', ''checkbox''), (''checked'', if b then ''true'' else ''false'')] [(''onChange'', \<lambda>_. m)] []"

abbreviation select_field :: "string \<Rightarrow> (string \<Rightarrow> 'm) \<Rightarrow> (string \<times> string) list \<Rightarrow> 'm node" where
  "select_field v h opts \<equiv> El ''select'' [(''value'', v)] [(''onChange'', h)]
     (map (\<lambda>(value, text). El ''option'' [(''value'', value)] [] [Txt text]) opts)"

text \<open>A \<open>select\<close> whose handler the type system trusts: the user can raise the values of its options only.\<close>

abbreviation choice_field :: "string \<Rightarrow> (string \<Rightarrow> 'm) \<Rightarrow> (string \<times> string) list \<Rightarrow> 'm node" where
  "choice_field v h opts \<equiv> El ''select'' [(''value'', v)] (map (\<lambda>(value, text). (''onChange'', \<lambda>_. h value)) opts)
     (map (\<lambda>(value, text). El ''option'' [(''value'', value)] [] [Txt text]) opts)"

text \<open>A form with \<open>required\<close> fields: the browser raises its submit event only when all of them are filled.\<close>

abbreviation required_form :: "string list \<Rightarrow> 'm \<Rightarrow> 'm view \<Rightarrow> 'm node" where
  "required_form fields m cs \<equiv> El ''form'' (disabled_attr ([] \<in> set fields)) [(''onSubmit'', \<lambda>_. m)] cs"

abbreviation toned :: "string \<Rightarrow> string \<Rightarrow> 'm node" where
  "toned colour s \<equiv> El ''span'' [(''color'', colour)] [] [Txt s]"

abbreviation row :: "'m view \<Rightarrow> 'm node" where
  "row cs \<equiv> El ''tr'' [] [] cs"

abbreviation headings :: "string list \<Rightarrow> 'm view" where
  "headings hs \<equiv> map (\<lambda>h. label h) hs"

abbreviation icon :: "string \<Rightarrow> 'm node" where
  "icon n \<equiv> El ''icon'' [(''name'', n)] [] []"

abbreviation shown :: "bool \<Rightarrow> 'm view \<Rightarrow> 'm view" where
  "shown b v \<equiv> (if b then v else [])"

text \<open>A component that is placed in another: its messages become messages of the outer one.\<close>

fun map_node :: "('m \<Rightarrow> 'n) \<Rightarrow> 'm node \<Rightarrow> 'n node" where
  "map_node f (Txt s) = Txt s"
| "map_node f (El t as hs cs) = El t as (map (\<lambda>(e, h). (e, \<lambda>i. f (h i))) hs) (map (map_node f) cs)"

section \<open>Lemmas\<close>

lemma disabled_attr_iff [simp]: "(''disabled'', ''true'') \<in> set (disabled_attr b) \<longleftrightarrow> b"
  by (simp add: disabled_attr_def)

lemma view_handlers_simps [simp]:
  "view_handlers [] = []"
  "view_handlers (n # v) = handlers n @ view_handlers v"
  "view_handlers (v @ w) = view_handlers v @ view_handlers w"
  by (simp_all add: view_handlers_def)

lemma offers_Nil [simp]: "\<not> offers [] m"
  by (simp add: offers_def)

lemma offers_append [simp]: "offers (v @ w) m \<longleftrightarrow> offers v m \<or> offers w m"
  by (auto simp: offers_def)

lemma offers_if [simp]: "offers (if b then v else w) m \<longleftrightarrow> b \<and> offers v m \<or> \<not> b \<and> offers w m"
  by simp

lemma offers_Txt [simp]: "offers (Txt s # v) m \<longleftrightarrow> offers v m"
  by (simp add: offers_def)

lemma offers_El [simp]:
  "offers (El t as hs cs # v) m \<longleftrightarrow>
     ((''disabled'', ''true'') \<notin> set as \<and> (\<exists>h \<in> snd ` set hs. \<exists>i. h i = m)) \<or> offers cs m \<or> offers v m"
proof -
  have "set (view_handlers (El t as hs cs # v)) =
     (if (''disabled'', ''true'') \<in> set as then {} else snd ` set hs) \<union> set (view_handlers cs) \<union> set (view_handlers v)"
    by (simp add: view_handlers_def Un_assoc)
  then show ?thesis unfolding offers_def by (simp add: bex_Un)
qed

lemma offers_map [simp]: "offers (map f xs) m \<longleftrightarrow> (\<exists>x \<in> set xs. offers [f x] m)"
proof (induction xs)
  case (Cons x xs)
  have "offers (map f (x # xs)) m \<longleftrightarrow> offers [f x] m \<or> offers (map f xs) m"
    using offers_append[of "[f x]" "map f xs" m] by simp
  with Cons show ?case by simp
qed simp

lemma offers_member: "n \<in> set v \<Longrightarrow> offers [n] m \<Longrightarrow> offers v m"
  using offers_map[of "\<lambda>x. x" v m] by auto

lemma offers_concat_map: "offers (concat (map f xs)) m \<longleftrightarrow> (\<exists>x \<in> set xs. offers (f x) m)"
  by (induction xs) auto

lemma handlers_map_node: "handlers (map_node f n) = map (\<lambda>h i. f (h i)) (handlers n)"
  by (induction f n rule: map_node.induct) (auto simp: comp_def split_def map_concat intro!: arg_cong[of _ _ concat])

lemma offers_map_node [simp]: "offers (map (map_node f) v) m \<longleftrightarrow> (\<exists>k. m = f k \<and> offers v k)"
proof -
  have "set (view_handlers (map (map_node f) v)) = (\<lambda>h i. f (h i)) ` set (view_handlers v)"
    by (auto simp: view_handlers_def handlers_map_node)
  then show ?thesis unfolding offers_def by auto
qed

lemma offers_map_node1 [simp]: "offers [map_node f n] m \<longleftrightarrow> (\<exists>k. m = f k \<and> offers [n] k)"
  using offers_map_node[of f "[n]" m] by simp

lemma view_texts_simps [simp]:
  "view_texts [] = []" "view_texts (Txt s # v) = s # view_texts v"
  "view_texts (El t as hs cs # v) = view_texts cs @ view_texts v"
  "view_texts (v @ w) = view_texts v @ view_texts w"
  by (simp_all add: view_texts_def)

lemma view_texts_map [simp]: "view_texts (map f xs) = concat (map (\<lambda>x. view_texts [f x]) xs)"
  by (simp add: view_texts_def comp_def)

section \<open>Runs of a page\<close>

text \<open>
  A page is its initial state, its update function and its view, which also depends on the data \<open>'d\<close>
  its queries hold at that moment. A run interleaves messages the user can raise on the current view
  with messages of the environment (answers of the server, timers), which \<open>env\<close> admits.
\<close>

inductive ui_run ::
  "('d \<Rightarrow> 's \<Rightarrow> 'm view) \<Rightarrow> ('s \<Rightarrow> 'm \<Rightarrow> bool) \<Rightarrow> ('s \<Rightarrow> 'm \<Rightarrow> 's) \<Rightarrow> 's \<Rightarrow> 'm list \<Rightarrow> 's \<Rightarrow> bool"
  for view env update init where
  mount: "ui_run view env update init [] init"
| user: "ui_run view env update init ms s \<Longrightarrow> offers (view d s) m \<Longrightarrow>
     ui_run view env update init (ms @ [m]) (update s m)"
| environment: "ui_run view env update init ms s \<Longrightarrow> env s m \<Longrightarrow>
     ui_run view env update init (ms @ [m]) (update s m)"

inductive_simps ui_run_Nil: "ui_run view env update init [] s"

text \<open>
  The contract of a page with an invariant over its history and state: it holds when the page is
  mounted, and every message that can be raised keeps it.
\<close>

locale ui_page =
  fixes view :: "'d \<Rightarrow> 's \<Rightarrow> 'm view"
    and env :: "'s \<Rightarrow> 'm \<Rightarrow> bool"
    and update :: "'s \<Rightarrow> 'm \<Rightarrow> 's"
    and init :: 's
    and inv :: "'m list \<Rightarrow> 's \<Rightarrow> bool"
  assumes inv_init: "inv [] init"
    and inv_user: "inv ms s \<Longrightarrow> offers (view d s) m \<Longrightarrow> inv (ms @ [m]) (update s m)"
    and inv_env: "inv ms s \<Longrightarrow> env s m \<Longrightarrow> inv (ms @ [m]) (update s m)"
begin

lemma run_inv: "ui_run view env update init ms s \<Longrightarrow> inv ms s"
  by (induction rule: ui_run.induct) (auto intro: inv_init inv_user inv_env)

lemma run_next: "ui_run view env update init ms s \<Longrightarrow> offers (view d s) m \<Longrightarrow> inv (ms @ [m]) (update s m)"
  by (blast intro: inv_user run_inv)

end

lemma ui_run_state: "ui_run view env update init ms s \<Longrightarrow> s = foldl update init ms"
  by (induction rule: ui_run.induct) auto

end
