(* ===== verification/JsSort.thy ===== *)
theory JsSort
  imports Prelude "HOL-Library.Multiset"
begin

text \<open>
  \<open>Array.prototype.sort\<close> with a comparison function. The language requires a stable sort; for a
  consistent comparator its result is unique, so insertion from the right computes it. The locale
  \<open>comparator\<close> is what a comparator owes (the ECMAScript conditions: antisymmetric in sign and
  transitive); inside it the result is a sorted, stable permutation. Every comparator of the code
  interprets it.
\<close>

fun insert_by :: "('a \<Rightarrow> 'a \<Rightarrow> int) \<Rightarrow> 'a \<Rightarrow> 'a list \<Rightarrow> 'a list" where
  "insert_by cmp x [] = [x]"
| "insert_by cmp x (y # ys) = (if cmp x y \<le> 0 then x # y # ys else y # insert_by cmp x ys)"

definition js_sort :: "('a \<Rightarrow> 'a \<Rightarrow> int) \<Rightarrow> 'a list \<Rightarrow> 'a list" where
  "js_sort cmp xs = foldr (insert_by cmp) xs []"

lemma js_sort_simps [simp]: "js_sort cmp [] = []" "js_sort cmp (x # xs) = insert_by cmp x (js_sort cmp xs)"
  by (simp_all add: js_sort_def)

lemma mset_insert_by [simp]: "mset (insert_by cmp x ys) = add_mset x (mset ys)"
  by (induction ys) auto

lemma mset_js_sort [simp]: "mset (js_sort cmp xs) = mset xs"
  by (induction xs) auto

lemma set_insert_by [simp]: "set (insert_by cmp x ys) = insert x (set ys)"
  by (induction ys) auto

lemma set_js_sort [simp]: "set (js_sort cmp xs) = set xs"
  by (induction xs) auto

lemma length_js_sort [simp]: "length (js_sort cmp xs) = length xs"
  by (metis mset_js_sort size_mset)

locale comparator =
  fixes cmp :: "'a \<Rightarrow> 'a \<Rightarrow> int"
  assumes antisym: "sgn (cmp a b) = - sgn (cmp b a)"
    and trans: "cmp a b \<le> 0 \<Longrightarrow> cmp b c \<le> 0 \<Longrightarrow> cmp a c \<le> 0"
begin

lemma total: "\<not> cmp a b \<le> 0 \<Longrightarrow> cmp b a \<le> 0"
  using antisym[of a b] by (auto simp: sgn_if split: if_splits)

lemma zero_iff: "cmp a b = 0 \<longleftrightarrow> cmp a b \<le> 0 \<and> cmp b a \<le> 0"
  using antisym[of a b] by (auto simp: sgn_if split: if_splits)

lemma zero_trans: "cmp a b = 0 \<Longrightarrow> cmp b c = 0 \<Longrightarrow> cmp a c = 0"
  by (metis trans zero_iff)

lemma zero_sym: "cmp a b = 0 \<Longrightarrow> cmp b a = 0"
  by (metis zero_iff)

lemma sorted_insert_by:
  "sorted_wrt (\<lambda>a b. cmp a b \<le> 0) ys \<Longrightarrow> sorted_wrt (\<lambda>a b. cmp a b \<le> 0) (insert_by cmp x ys)"
  by (induction ys) (auto dest: total intro: trans)

lemma sorted_js_sort: "sorted_wrt (\<lambda>a b. cmp a b \<le> 0) (js_sort cmp xs)"
  by (induction xs) (auto intro: sorted_insert_by)

lemma filter_insert_by:
  "sorted_wrt (\<lambda>a b. cmp a b \<le> 0) ys \<Longrightarrow>
   filter (\<lambda>y. cmp y k = 0) (insert_by cmp x ys) =
     (if cmp x k = 0 then x # filter (\<lambda>y. cmp y k = 0) ys else filter (\<lambda>y. cmp y k = 0) ys)"
  by (induction ys) (auto dest: zero_sym zero_trans)

lemma stable: "filter (\<lambda>y. cmp y k = 0) (js_sort cmp xs) = filter (\<lambda>y. cmp y k = 0) xs"
  by (induction xs) (simp_all add: filter_insert_by sorted_js_sort)

end

text \<open>
  Comparators the code shares: the sign of a difference of numbers (\<open>sort\<close> reads only the sign) and the
  order of strings by code units, which is what \<open>sort()\<close> without a comparator uses.
\<close>

definition diff_sign :: "rat \<Rightarrow> rat \<Rightarrow> int" where
  "diff_sign a b = (if a < b then -1 else if b < a then 1 else 0)"

fun code_compare :: "nat list \<Rightarrow> nat list \<Rightarrow> int" where
  "code_compare [] [] = 0"
| "code_compare [] (d # t) = -1"
| "code_compare (c # s) [] = 1"
| "code_compare (c # s) (d # t) = (if c < d then -1 else if d < c then 1 else code_compare s t)"

definition str_compare :: "string \<Rightarrow> string \<Rightarrow> int" where
  "str_compare s t = code_compare (map of_char s) (map of_char t)"

interpretation numbers: comparator diff_sign
  by unfold_locales (auto simp: diff_sign_def split: if_splits)

text \<open>A comparator on a key, and a comparator with its arguments exchanged (a descending sort).\<close>

lemma comparator_key: "comparator cmp \<Longrightarrow> comparator (\<lambda>a b. cmp (f a) (f b))"
  unfolding comparator_def by blast

lemma comparator_flip: "comparator cmp \<Longrightarrow> comparator (\<lambda>a b. cmp b a)"
  unfolding comparator_def by (metis minus_equation_iff)

interpretation codes: comparator code_compare
proof
  show "sgn (code_compare a b) = - sgn (code_compare b a)" for a b
    by (induction a b rule: code_compare.induct) auto
  show "code_compare a c \<le> 0" if "code_compare a b \<le> 0" "code_compare b c \<le> 0" for a b c
    using that
  proof (induction a b arbitrary: c rule: code_compare.induct)
    case (2 d t c)
    then show ?case by (cases c) simp_all
  next
    case (4 x s d t c)
    show ?case
    proof (cases c)
      case Nil
      with "4.prems"(2) show ?thesis by simp
    next
      case (Cons e u)
      have "x \<le> d" "d \<le> e" using "4.prems" unfolding Cons by (simp_all split: if_splits)
      then consider "x < e" | "x = d" "d = e" by linarith
      then show ?thesis
      proof cases
        case 2
        with "4.IH"[of u] "4.prems" show ?thesis unfolding Cons by simp
      qed (simp add: Cons)
    qed
  qed simp_all
qed

interpretation strings: comparator str_compare
  unfolding str_compare_def using comparator_key[OF codes.comparator_axioms] .

lemma code_compare_eq: "code_compare a b = 0 \<longleftrightarrow> a = b"
  by (induction a b rule: code_compare.induct) auto

lemma str_compare_eq: "str_compare a b = 0 \<longleftrightarrow> a = b"
  unfolding str_compare_def code_compare_eq
  by (metis inj_map_eq_map inj_on_def of_char_eq_iff UNIV_I)

text \<open>Lexicographic composition of integer keys gives a comparator.\<close>

lemma comparator_lex:
  "comparator (\<lambda>a b. if f a - f b \<noteq> (0::int) then f a - f b else g a - (g b :: int))"
  by unfold_locales (auto simp: sgn_if split: if_splits)

end
