(* ===== verification/MobileApp.thy ===== *)
theory MobileApp
  imports ApiClient View JsSort JsNumber
begin

text \<open>
  The mobile application: \<open>mobile/src/hooks/useAuth.ts\<close>, \<open>mobile/App.tsx\<close>, the screens under
  \<open>mobile/src/screens\<close>, \<open>mobile/src/api/commands.ts\<close> and \<open>mobile/src/components\<close>. Data fetched by
  react-query is a parameter of the views, and pull-to-refresh only refetches it; \<open>formatDistanceToNow\<close> (date-fns) is the parameter \<open>ago\<close>;
  \<open>new Date(s).getTime()\<close> is the parameter \<open>ms\<close>. The device screen is a state machine whose user
  steps are the messages its view offers.
\<close>

section \<open>useAuth.ts\<close>

record auth_hook =
  ah_loading :: bool
  ah_error :: "string option"

text \<open>
  \<open>resp\<close> is the outcome of the login request to the given URL: the tokens, or the server's
  \<open>detail\<close> if it sent one.
\<close>

definition mobile_login ::
  "'s store_ops \<Rightarrow> (string \<Rightarrow> string \<Rightarrow> string \<Rightarrow> string option + token_data)
     \<Rightarrow> string \<Rightarrow> string \<Rightarrow> string \<Rightarrow> auth_hook \<times> 's \<Rightarrow> bool \<times> auth_hook \<times> 's" where
  "mobile_login ops post serverUrl uname password hs =
     (let base = strip_slash serverUrl;
          s1 = saveServerUrl ops base (snd hs);
          failed = (\<lambda>detail s. (False, \<lparr>ah_loading = False, ah_error = Some (nullish detail ''Login failed'')\<rparr>, s))
      in case post (base @ ''/api/v1/auth/login'') uname password of
           Inl detail \<Rightarrow> failed detail s1
         | Inr d \<Rightarrow>
             (case saveTokens ops (td_access d) (td_refresh d) s1 of
                (saved, s2) \<Rightarrow>
                  if saved then (True, \<lparr>ah_loading = False, ah_error = None\<rparr>, ss_put ops ''username'' uname s2)
                  else failed None s2))"

definition mobile_logout :: "'s store_ops \<Rightarrow> 's \<Rightarrow> 's" where
  "mobile_logout ops s = ss_del ops ''username'' (clearTokens ops s)"

definition checkAuth :: "'s store_ops \<Rightarrow> 's \<Rightarrow> bool" where
  "checkAuth ops s = truthy (getAccessToken ops s)"

section \<open>App.tsx, LoginScreen.tsx, SettingsScreen.tsx\<close>

datatype app_view = Spinner | LoginScreenView | NavigatorView

record 's app =
  ap_auth :: "bool option"
  ap_store :: 's
  ap_cached :: bool \<comment> \<open>whether the query cache may hold data of the session\<close>

definition app_mount :: "'s store_ops \<Rightarrow> 's app \<Rightarrow> 's app" where
  "app_mount ops a = a\<lparr>ap_auth := Some (checkAuth ops (ap_store a))\<rparr>"

definition handleLoginSuccess :: "'s app \<Rightarrow> 's app" where
  "handleLoginSuccess a = a\<lparr>ap_auth := Some True\<rparr>"

definition handleLogout :: "'s store_ops \<Rightarrow> 's app \<Rightarrow> 's app" where
  "handleLogout ops a =
     a\<lparr>ap_store := mobile_logout ops (ap_store a), ap_cached := False, ap_auth := Some False\<rparr>"

definition app_screen :: "'s app \<Rightarrow> app_view" where
  "app_screen a = (case ap_auth a of None \<Rightarrow> Spinner
     | Some b \<Rightarrow> if b then NavigatorView else LoginScreenView)"

text \<open>The settings screen signs out itself and then calls the \<open>onLogout\<close> it was given.\<close>

definition settings_handleLogout :: "'s store_ops \<Rightarrow> 's app \<Rightarrow> 's app" where
  "settings_handleLogout ops a = handleLogout ops (a\<lparr>ap_store := mobile_logout ops (ap_store a)\<rparr>)"

record login_form =
  lf_serverUrl :: string
  lf_username :: string
  lf_password :: string

definition login_form_init :: login_form where
  "login_form_init = \<lparr>lf_serverUrl = ''http://192.168.1.100:8000'', lf_username = [], lf_password = []\<rparr>"

datatype login_msg = SetServerUrl string | SetUsername string | SetPassword string | HandleLogin

definition login_screen_view :: "auth_hook \<Rightarrow> login_form \<Rightarrow> login_msg view" where
  "login_screen_view h f =
     [label ''DTSYS'', label ''Device Management'',
      label ''Server URL'', input_field (lf_serverUrl f) SetServerUrl,
      label ''Username'', input_field (lf_username f) SetUsername,
      label ''Password'', input_field (lf_password f) SetPassword]
     @ shown (truthy (ah_error h)) [label (nullish (ah_error h) [])]
     @ [button_if (ah_loading h) HandleLogin
          [if ah_loading h then icon ''ActivityIndicator'' else Txt ''Sign In'']]"

definition login_handle ::
  "'s store_ops \<Rightarrow> (string \<Rightarrow> string \<Rightarrow> string \<Rightarrow> string option + token_data) \<Rightarrow> login_form
     \<Rightarrow> auth_hook \<Rightarrow> 's app \<Rightarrow> auth_hook \<times> 's app" where
  "login_handle ops post f h a =
     (case mobile_login ops post (lf_serverUrl f) (lf_username f) (lf_password f) (h, ap_store a) of
        (good, h', s') \<Rightarrow>
          (h', (if good then handleLoginSuccess (a\<lparr>ap_store := s'\<rparr>) else a\<lparr>ap_store := s'\<rparr>)))"

definition settings_view :: "'s store_ops \<Rightarrow> 's \<Rightarrow> unit view" where
  "settings_view ops s =
     [label ''Account'', label ''Username'', label (or_else (ss_get ops s ''username'') em_dash),
      label ''Server'', label (getServerUrl ops s), label ''App'', label ''Version'', label ''1.2.0'',
      button () [Txt ''Sign Out'']]"

section \<open>commands.ts, CommandOutputModal.tsx\<close>

definition mobile_commands_list :: "string \<Rightarrow> int option \<Rightarrow> request" where
  "mobile_commands_list dev limit =
     api_get ''/commands'' [(''device_id'', JStr dev), (''limit'', JInt (nullish limit 20))]"

definition mobile_commands_dispatch :: "string \<Rightarrow> string \<Rightarrow> (string \<times> json) list \<Rightarrow> request" where
  "mobile_commands_dispatch dev ctype payload = api_post ''/commands''
     (Some (JObj [(''device_id'', JStr dev), (''command_type'', JStr ctype), (''payload'', JObj payload)]))"

definition mobile_commands_get :: "string \<Rightarrow> request" where
  "mobile_commands_get cmd = api_get (''/commands/'' @ cmd) []"

record library_item =
  li_label :: string
  li_type :: string
  li_description :: string
  li_dangerous :: bool

definition COMMAND_LIBRARY :: "library_item list" where
  "COMMAND_LIBRARY =
    [\<lparr>li_label = ''Check Updates'', li_type = ''check_updates'', li_description = ''Check for available software updates'', li_dangerous = False\<rparr>,
     \<lparr>li_label = ''Sync Time'', li_type = ''sync_time'', li_description = ''Synchronize system clock via NTP'', li_dangerous = False\<rparr>,
     \<lparr>li_label = ''Collect Inventory'', li_type = ''collect_inventory'', li_description = ''Refresh software inventory'', li_dangerous = False\<rparr>,
     \<lparr>li_label = ''Screenshot'', li_type = ''screenshot'', li_description = ''Capture current screen state'', li_dangerous = False\<rparr>,
     \<lparr>li_label = ''List Processes'', li_type = ''list_processes'', li_description = ''Fetch running process list'', li_dangerous = False\<rparr>,
     \<lparr>li_label = ''Network Info'', li_type = ''network_info'', li_description = ''Refresh network interface data'', li_dangerous = False\<rparr>,
     \<lparr>li_label = ''Reboot'', li_type = ''reboot'', li_description = ''Reboot the device'', li_dangerous = True\<rparr>,
     \<lparr>li_label = ''Shutdown'', li_type = ''shutdown'', li_description = ''Shut down the device'', li_dangerous = True\<rparr>]"

definition STATUS_COLOR :: "command_status \<Rightarrow> string" where
  "STATUS_COLOR st = (case st of Pending \<Rightarrow> ''#f59e0b'' | Sent \<Rightarrow> ''#3b82f6'' | Running \<Rightarrow> ''#8b5cf6''
     | Completed \<Rightarrow> ''#22c55e'' | Failed \<Rightarrow> ''#ef4444'' | Timeout \<Rightarrow> ''#94a3b8'')"

text \<open>The modal polls while the command is in flight: milliseconds, or \<open>None\<close> for \<open>false\<close>.\<close>

definition refetch_interval :: "command_status option \<Rightarrow> nat option" where
  "refetch_interval st =
     (if st = Some Pending \<or> st = Some Sent \<or> st = Some Running then Some 2000 else None)"

record mobile_command =
  mc_id :: string
  mc_device_id :: string
  mc_command_type :: string
  mc_status :: command_status
  mc_output :: "string option"
  mc_exit_code :: "int option"
  mc_payload :: "(string \<times> json) list"
  mc_created_at :: string
  mc_completed_at :: "string option"

definition output_modal_view :: "'m \<Rightarrow> string option \<Rightarrow> bool \<Rightarrow> mobile_command option \<Rightarrow> 'm view" where
  "output_modal_view close commandId isLoading cmd =
     shown (commandId \<noteq> None)
       ([label (case cmd of None \<Rightarrow> ''Command Output'' | Some c \<Rightarrow> mc_command_type c),
         button close [Txt ''Done'']]
        @ (case cmd of None \<Rightarrow> []
           | Some c \<Rightarrow>
               [El ''dot'' [(''color'', STATUS_COLOR (mc_status c))] [] [],
                label (toUpperCase (command_status_str (mc_status c)))]
               @ (case mc_exit_code c of None \<Rightarrow> [] | Some n \<Rightarrow> [label (''exit '' @ int_str n)]))
        @ shown isLoading [label ''Loading...'']
        @ shown (\<not> isLoading \<and> \<not> truthy (Option.bind cmd mc_output)) [label ''No output yet.'']
        @ shown (truthy (Option.bind cmd mc_output)) [label (nullish (Option.bind cmd mc_output) [])])"

section \<open>DashboardScreen.tsx, AlertsScreen.tsx\<close>

definition alert_counts :: "string list \<Rightarrow> string \<rightharpoonup> nat" where
  "alert_counts device_ids =
     foldl (\<lambda>counts d. counts(d \<mapsto> nullish (counts d) 0 + 1)) Map.empty device_ids"

text \<open>The colour thresholds of both gauges.\<close>

definition gauge_color :: "rat \<Rightarrow> string" where
  "gauge_color v = (if v > 85 then ''#ef4444'' else if v > 70 then ''#f59e0b'' else ''#22c55e'')"

definition gauge_bar :: "rat option \<Rightarrow> 'm view" where
  "gauge_bar v = (case v of
     None \<Rightarrow> [label em_dash]
   | Some x \<Rightarrow> [El ''fill'' [(''width'', number_str x @ ''%''), (''color'', gauge_color x)] [] [],
                 label (int_str (math_round x) @ ''%'')])"

record mobile_device =
  md_id :: string
  md_hostname :: string
  md_label :: "string option"
  md_os_type :: string
  md_status :: string
  md_cpu_percent :: "rat option"
  md_ram_percent :: "rat option"
  md_unresolved_alerts :: nat

datatype dash_msg = OpenDevice string string

definition render_device :: "(string \<rightharpoonup> nat) option \<Rightarrow> mobile_device \<Rightarrow> dash_msg node" where
  "render_device counts item =
     (let name = or_else (md_label item) (md_hostname item);
          alertCount = nullish (Option.bind counts (\<lambda>c. c (md_id item))) 0
      in button (OpenDevice (md_id item) name)
           ([El ''dot'' [(''color'', if md_status item = ''online'' then ''#22c55e'' else ''#94a3b8'')] [] [],
             label name]
            @ shown (alertCount > 0) [label (nat_str alertCount)]
            @ [label (md_os_type item), label ''CPU''] @ gauge_bar (md_cpu_percent item)
            @ [label ''RAM''] @ gauge_bar (md_ram_percent item)))"

definition dashboard_screen ::
  "bool \<Rightarrow> mobile_device list \<Rightarrow> (string \<rightharpoonup> nat) option \<Rightarrow> dash_msg view" where
  "dashboard_screen isLoading devices counts =
     (if isLoading then [icon ''ActivityIndicator'']
      else if devices = [] then [label ''No devices yet'']
      else map (render_device counts) devices)"

record alert_item =
  ai_id :: string
  ai_device_id :: string
  ai_alert_type :: string
  ai_severity :: string
  ai_message :: string
  ai_created_at :: string

definition SEVERITY_ORDER :: "string \<Rightarrow> int" where
  "SEVERITY_ORDER s = (if s = ''critical'' then 0 else if s = ''warning'' then 1
     else if s = ''info'' then 2 else 99)"

definition severity_color :: "string \<Rightarrow> string" where
  "severity_color s = (if s = ''critical'' then ''#ef4444'' else if s = ''warning'' then ''#f59e0b''
     else if s = ''info'' then ''#3b82f6'' else ''#94a3b8'')"

text \<open>
  The comparator of the list: severity rank, then newest first.
\<close>

definition alert_compare :: "(string \<Rightarrow> int) \<Rightarrow> alert_item \<Rightarrow> alert_item \<Rightarrow> int" where
  "alert_compare ms a b =
     (let sev = SEVERITY_ORDER (ai_severity a) - SEVERITY_ORDER (ai_severity b)
      in if sev \<noteq> 0 then sev else ms (ai_created_at b) - ms (ai_created_at a))"

definition sorted_alerts :: "(string \<Rightarrow> int) \<Rightarrow> alert_item list \<Rightarrow> alert_item list" where
  "sorted_alerts ms raw = js_sort (alert_compare ms) raw"

datatype alerts_msg = ResolveAlert string

definition alert_card :: "(string \<Rightarrow> string) \<Rightarrow> alert_item \<Rightarrow> alerts_msg node" where
  "alert_card ago a =
     El ''card'' [(''color'', severity_color (ai_severity a))] []
       [label (toUpperCase (ai_severity a)), label (ago (ai_created_at a)), label (ai_message a),
        label (ai_alert_type a), button (ResolveAlert (ai_id a)) [Txt ''Resolve'']]"

definition alerts_screen ::
  "(string \<Rightarrow> int) \<Rightarrow> (string \<Rightarrow> string) \<Rightarrow> bool \<Rightarrow> alert_item list \<Rightarrow> alerts_msg view" where
  "alerts_screen ms ago isLoading raw =
     (if isLoading then [icon ''ActivityIndicator'']
      else if raw = [] then [label ''No active alerts'']
      else map (alert_card ago) (sorted_alerts ms raw))"

definition mobile_resolve :: "string \<Rightarrow> request" where
  "mobile_resolve i = api_post (''/alerts/'' @ i @ ''/resolve'') None"

section \<open>DeviceDetailScreen.tsx\<close>

datatype detail_tab = Overview | CommandsTab

record detail =
  dt_tab :: detail_tab
  dt_selected :: "string option"
  dt_library :: bool
  dt_alert :: "string option" \<comment> \<open>the command type an open confirmation dialog is about\<close>
  dt_sent :: "request list" \<comment> \<open>the requests of \<open>dispatch.mutate\<close>, newest last\<close>

definition detail_init :: detail where
  "detail_init = \<lparr>dt_tab = Overview, dt_selected = None, dt_library = False, dt_alert = None, dt_sent = []\<rparr>"

datatype detail_msg =
    SetTab detail_tab
  | HandleDispatch string bool
  | ConfirmSend
  | CancelAlert
  | SelectCommand string
  | CloseOutput
  | OpenLibrary
  | CloseLibrary
  | Dispatched string \<comment> \<open>\<open>dispatch.onSuccess\<close> with the new command's id\<close>

definition dispatch_mutate :: "string \<Rightarrow> string \<Rightarrow> detail \<Rightarrow> detail" where
  "dispatch_mutate dev ctype s = s\<lparr>dt_sent := dt_sent s @ [mobile_commands_dispatch dev ctype []]\<rparr>"

fun detail_update :: "string \<Rightarrow> detail \<Rightarrow> detail_msg \<Rightarrow> detail" where
  "detail_update dev s (SetTab t) = s\<lparr>dt_tab := t\<rparr>"
| "detail_update dev s (HandleDispatch ctype dangerous) =
     (if dangerous then s\<lparr>dt_alert := Some ctype\<rparr> else dispatch_mutate dev ctype s)"
| "detail_update dev s ConfirmSend = (case dt_alert s of
      None \<Rightarrow> s | Some ctype \<Rightarrow> dispatch_mutate dev ctype (s\<lparr>dt_alert := None\<rparr>))"
| "detail_update dev s CancelAlert = s\<lparr>dt_alert := None\<rparr>"
| "detail_update dev s (SelectCommand i) = s\<lparr>dt_selected := Some i\<rparr>"
| "detail_update dev s CloseOutput = s\<lparr>dt_selected := None\<rparr>"
| "detail_update dev s OpenLibrary = s\<lparr>dt_library := True\<rparr>"
| "detail_update dev s CloseLibrary = s\<lparr>dt_library := False\<rparr>"
| "detail_update dev s (Dispatched i) = s\<lparr>dt_library := False, dt_selected := Some i\<rparr>"

definition gauge :: "string \<Rightarrow> rat option \<Rightarrow> 'm view" where
  "gauge name v = (case v of
     None \<Rightarrow> []
   | Some x \<Rightarrow> [label name, El ''fill'' [(''color'', gauge_color x), (''width'', number_str (min x 100) @ ''%'')] [] [],
                 label (int_str (math_round x) @ ''%'')])"

record detail_data =
  dd_loading :: bool
  dd_last_seen :: "string option"
  dd_agent_version :: "string option"
  dd_metric :: "rat option \<times> rat option \<times> rat option" \<comment> \<open>CPU, RAM and disk percent\<close>
  dd_alerts :: "alert_item list"
  dd_commands :: "mobile_command list"
  dd_output :: "mobile_command option"
  dd_output_loading :: bool

definition command_row :: "(string \<Rightarrow> string) \<Rightarrow> mobile_command \<Rightarrow> detail_msg node" where
  "command_row ago c =
     button (SelectCommand (mc_id c))
       [label (mc_command_type c), label (ago (mc_created_at c)),
        El ''pill'' [(''color'', STATUS_COLOR (mc_status c))] [] [Txt (command_status_str (mc_status c))]]"

definition library_sheet :: "bool \<Rightarrow> detail_msg view" where
  "library_sheet visible = shown visible
     ([label ''Command Library'', button CloseLibrary [Txt ''Cancel'']]
      @ map (\<lambda>item. button (HandleDispatch (li_type item) (li_dangerous item))
               ([label (li_label item), label (li_description item)]
                @ shown (li_dangerous item) [label ''DANGER''])) COMMAND_LIBRARY)"

definition overview_view :: "(string \<Rightarrow> string) \<Rightarrow> detail_data \<Rightarrow> detail_msg view" where
  "overview_view ago d =
     [label ''System''] @ gauge ''CPU'' (fst (dd_metric d)) @ gauge ''RAM'' (fst (snd (dd_metric d)))
     @ gauge ''Disk'' (snd (snd (dd_metric d)))
     @ [label (''Last seen: '' @ (if truthy (dd_last_seen d) then ago (the (dd_last_seen d)) else em_dash))]
     @ shown (truthy (dd_agent_version d)) [label (''Agent: v'' @ the (dd_agent_version d))]
     @ shown (dd_alerts d \<noteq> [])
         (label (''Alerts ('' @ nat_str (length (dd_alerts d)) @ '')'')
          # map (\<lambda>a. El ''alert'' [(''critical'', if ai_severity a = ''critical'' then ''true'' else ''false'')] []
                   [label (toUpperCase (ai_severity a)), label (ai_message a)]) (dd_alerts d))
     @ [label ''Quick Actions'',
        button (HandleDispatch ''check_updates'' False) [Txt ''Check Updates''],
        button (HandleDispatch ''sync_time'' False) [Txt ''Sync Time''],
        button (HandleDispatch ''reboot'' True) [Txt ''Reboot'']]"

definition commands_view :: "(string \<Rightarrow> string) \<Rightarrow> detail_data \<Rightarrow> detail_msg view" where
  "commands_view ago d =
     shown (dd_commands d = []) [label ''No commands yet. Tap + to dispatch one.'']
     @ map (command_row ago) (dd_commands d) @ [button OpenLibrary [Txt ''+'']]"

text \<open>The dialog of \<open>Alert.alert\<close> is modal: while it is open it is all the user can act on.\<close>

definition alert_dialog :: "string \<Rightarrow> detail_msg view" where
  "alert_dialog ctype =
     (let name = (case List.find (\<lambda>c. li_type c = ctype) COMMAND_LIBRARY of None \<Rightarrow> ctype | Some c \<Rightarrow> li_label c)
      in [label name, label (''Are you sure you want to send '' @ [dquote] @ name @ [dquote] @ '' to this device?''),
          button CancelAlert [Txt ''Cancel''], button ConfirmSend [Txt ''Send'']])"

definition detail_view :: "(string \<Rightarrow> string) \<Rightarrow> detail_data \<Rightarrow> detail \<Rightarrow> detail_msg view" where
  "detail_view ago d s =
     (case dt_alert s of
        Some ctype \<Rightarrow> alert_dialog ctype
      | None \<Rightarrow>
          if dd_loading d then [icon ''ActivityIndicator'']
          else [button (SetTab Overview) [Txt ''Overview''],
                button (SetTab CommandsTab) [Txt (''Commands '' @
                  (if dd_commands d \<noteq> [] then ''('' @ nat_str (length (dd_commands d)) @ '')'' else []))]]
               @ (if dt_tab s = Overview then overview_view ago d else commands_view ago d)
               @ output_modal_view CloseOutput (dt_selected s) (dd_output_loading d) (dd_output d)
               @ library_sheet (dt_library s))"

text \<open>The commands tab refetches every five seconds.\<close>

definition commands_refetch :: "detail \<Rightarrow> nat option" where
  "commands_refetch s = (if dt_tab s = CommandsTab then Some 5000 else None)"

text \<open>
  Runs of the screen: the user raises a message the current view offers, for any data the queries
  hold at that moment, or a dispatched command is acknowledged by the server.
\<close>

fun detail_env :: "detail \<Rightarrow> detail_msg \<Rightarrow> bool" where
  "detail_env s (Dispatched i) = (dt_sent s \<noteq> [])"
| "detail_env s m = False"

abbreviation detail_run :: "(string \<Rightarrow> string) \<Rightarrow> string \<Rightarrow> detail_msg list \<Rightarrow> detail \<Rightarrow> bool" where
  "detail_run ago dev \<equiv> ui_run (detail_view ago) detail_env (detail_update dev) detail_init"

section \<open>The session of the mobile application\<close>

abbreviation secure_store :: "'s store_ops \<Rightarrow> bool" where
  "secure_store ops \<equiv> kv_store (ss_get ops) (ss_put ops) (ss_del ops)"

definition local_ops :: "storage store_ops" where
  "local_ops = \<lparr>ss_get = getItem, ss_put = setItem, ss_del = removeItem\<rparr>"

lemma secure_store_local [simp]: "secure_store local_ops"
  using ls.kv_store_axioms by (simp add: local_ops_def)

lemmas store_laws = kv_store.get_put kv_store.get_del

lemma getServerUrl_logout: "secure_store ops \<Longrightarrow> getServerUrl ops (mobile_logout ops s) = getServerUrl ops s"
  by (simp add: mobile_logout_def mobile_store_defs store_laws)

lemma get_mobile_logout:
  "secure_store ops \<Longrightarrow> ss_get ops (mobile_logout ops s) k =
     (if k \<in> {''access_token'', ''refresh_token'', ''username''} then None else ss_get ops s k)"
  by (simp add: mobile_logout_def mobile_store_defs store_laws)

lemma mobile_login_accepted:
  assumes "post (strip_slash url @ ''/api/v1/auth/login'') uname pw = Inr \<lparr>td_access = Some a, td_refresh = Some r\<rparr>"
  shows "mobile_login ops post url uname pw (h, s) =
    (True, \<lparr>ah_loading = False, ah_error = None\<rparr>,
     ss_put ops ''username'' uname (ss_put ops ''refresh_token'' r (ss_put ops ''access_token'' a
       (ss_put ops ''server_url'' (strip_slash (strip_slash url)) s))))"
  using assms by (simp add: mobile_login_def mobile_store_defs Let_def)

text \<open>C11. A mobile request is sent at most twice, whatever the server answers: the transport sees one
  exchange, or a second one after a refresh, and with a transport that counts its exchanges the count
  grows by at most two.\<close>

theorem mobile_request_at_most_twice:
  "snd (snd (mobile_request ops
       (\<lambda>(n, w) base q. case send w base q of (x, w') \<Rightarrow> (x, (n + 1, w')))
       (\<lambda>(n, w) url t. case refresh w url t of (y, w') \<Rightarrow> (y, (n, w')))
       cfg s (n, w))) \<in> {n + 1, n + (2::nat)} \<times> UNIV"
  by (subst mobile_request.simps) (auto simp: mobile_request_marked Let_def split_def split: option.splits)

text \<open>C30. Signing in and out on the phone: after an accepted login the application shows its navigator,
  now and after a restart, for the server that was entered; after signing out it shows the login
  screen, now and after a restart, no token or user name is left, no cached query either, and the
  server URL is kept for the next login.\<close>

theorem mobile_session_cycle:
  assumes "secure_store ops"
    and "post (strip_slash (lf_serverUrl f) @ ''/api/v1/auth/login'') (lf_username f) (lf_password f)
      = Inr \<lparr>td_access = Some acc, td_refresh = Some ref\<rparr>" "acc \<noteq> []"
    and "app1 = snd (login_handle ops post f h app0)" "app2 = settings_handleLogout ops app1"
  shows "app_screen app1 = NavigatorView \<and> app_screen (app_mount ops app1) = NavigatorView
    \<and> getServerUrl ops (ap_store app1) = strip_slash (strip_slash (lf_serverUrl f))
    \<and> app_screen app2 = LoginScreenView \<and> app_screen (app_mount ops app2) = LoginScreenView
    \<and> getServerUrl ops (ap_store app2) = getServerUrl ops (ap_store app1) \<and> \<not> ap_cached app2
    \<and> (\<forall>k \<in> {''access_token'', ''refresh_token'', ''username''}. ss_get ops (ap_store app2) k = None)"
proof -
  have app1: "app1 = app0\<lparr>ap_auth := Some True, ap_store :=
      ss_put ops ''username'' (lf_username f) (ss_put ops ''refresh_token'' ref (ss_put ops ''access_token'' acc
       (ss_put ops ''server_url'' (strip_slash (strip_slash (lf_serverUrl f))) (ap_store app0))))\<rparr>"
    using assms(4) mobile_login_accepted[of post "lf_serverUrl f" "lf_username f" "lf_password f" acc ref ops h] assms(2)
    by (simp add: login_handle_def handleLoginSuccess_def)
  show ?thesis
    using assms(1,3) unfolding assms(5) app1
    by (simp add: settings_handleLogout_def handleLogout_def app_screen_def app_mount_def checkAuth_def
        getAccessToken_def get_mobile_logout getServerUrl_def store_laws)
qed

theorem mobile_session_cycle_witness:
  "let app1 = snd (login_handle local_ops
         (\<lambda>url u p. if p = ''pw'' then Inr \<lparr>td_access = Some ''t'', td_refresh = Some ''r''\<rparr> else Inl None)
         \<lparr>lf_serverUrl = ''http://h/'', lf_username = ''admin'', lf_password = ''pw''\<rparr>
         \<lparr>ah_loading = False, ah_error = None\<rparr> \<lparr>ap_auth = Some False, ap_store = Map.empty, ap_cached = False\<rparr>);
       app2 = settings_handleLogout local_ops app1
   in app_screen app1 = NavigatorView \<and> app_screen (app_mount local_ops app2) = LoginScreenView
      \<and> getServerUrl local_ops (ap_store app2) = ''http://h''"
  using mobile_session_cycle[OF secure_store_local, where f = "\<lparr>lf_serverUrl = ''http://h/'', lf_username = ''admin'', lf_password = ''pw''\<rparr>"
      and post = "\<lambda>url u p. if p = ''pw'' then Inr \<lparr>td_access = Some ''t'', td_refresh = Some ''r''\<rparr> else Inl None"
      and acc = "''t''" and ref = "''r''", OF _ _ refl refl]
  by (simp add: strip_slash_def Let_def)

text \<open>When a mobile request cannot be re-authorised (no refresh token, a failed refresh, or a
  refresh response without both tokens), the caller gets the 401, the next start asks for a login,
  and everything but the two tokens is kept in the store.\<close>

theorem mobile_request_session_end:
  assumes "secure_store ops" "\<not> rq_retry cfg"
    and "mobile_attach ops s cfg = (base, cfg1)" "send w base cfg1 = (Reply 401 d, w1)"
    and "\<not> truthy (ss_get ops s ''refresh_token'')
      \<or> (case refreshed (fst (refresh w1 (getServerUrl ops s @ ''/api/v1/auth/refresh'')
             (the (ss_get ops s ''refresh_token'')))) of
           None \<Rightarrow> True | Some t \<Rightarrow> td_access t = None \<or> td_refresh t = None)"
  shows "\<exists>s' w'. mobile_request ops send refresh cfg s w = (Rejected (Some 401), s', w')
    \<and> \<not> checkAuth ops s'
    \<and> (\<forall>k. ss_get ops s' k = (if k \<in> {''access_token'', ''refresh_token''} then None else ss_get ops s k))"
proof -
  have 401: "settle (Reply 401 d) = Rejected (Some 401)" by (simp add: settle_def ok_status_def)
  show ?thesis
    using assms(2-5) 401
    by (subst mobile_request.simps, cases "truthy (ss_get ops s ''refresh_token'')")
      (auto simp: checkAuth_def mobile_store_defs store_laws[OF assms(1)] Let_def split: option.splits)
qed

theorem mobile_request_session_end_witness:
  "\<exists>s' w'. mobile_request local_ops (\<lambda>w base q. (Reply 401 (), w)) (\<lambda>w url t. (NetworkError, w))
      (mobile_commands_get ''c1'') [''access_token'' \<mapsto> ''old'', ''refresh_token'' \<mapsto> ''r''] () =
        (Rejected (Some 401), s', w')
    \<and> \<not> checkAuth local_ops s'
    \<and> (\<forall>k. ss_get local_ops s' k = (if k \<in> {''access_token'', ''refresh_token''} then None
         else ss_get local_ops [''access_token'' \<mapsto> ''old'', ''refresh_token'' \<mapsto> ''r''] k))"
  by (rule mobile_request_session_end[OF secure_store_local _ surjective_pairing])
    (simp_all add: mobile_commands_get_def mk_request_def refreshed_def settle_def)

section \<open>Alerts\<close>

lemma alert_counts_fold:
  "foldl (\<lambda>counts d. counts(d \<mapsto> nullish (counts d) 0 + 1)) m ds x =
     (if x \<in> set ds then Some (nullish (m x) 0 + count_list ds x) else m x)"
  by (induction ds arbitrary: m) auto

interpretation alerts: comparator "alert_compare ms"
proof -
  have "alert_compare ms = (\<lambda>a b. if SEVERITY_ORDER (ai_severity a) - SEVERITY_ORDER (ai_severity b) \<noteq> 0
      then SEVERITY_ORDER (ai_severity a) - SEVERITY_ORDER (ai_severity b)
      else - ms (ai_created_at a) - - ms (ai_created_at b))"
    by (auto simp: fun_eq_iff alert_compare_def Let_def)
  then show "comparator (alert_compare ms)"
    using comparator_lex[of "\<lambda>a. SEVERITY_ORDER (ai_severity a)" "\<lambda>a. - ms (ai_created_at a)"] by simp
qed

text \<open>The badge of a device on the mobile dashboard is the number of open alerts of that device,
  and a device without alerts has no badge.\<close>

theorem alert_counts_correct:
  "alert_counts ds x = (if x \<in> set ds then Some (count_list ds x) else None)"
  by (simp add: alert_counts_def alert_counts_fold del: add_0 One_nat_def Nat.add_Suc_right Nat.add_0_right)

text \<open>The mobile alert list shows exactly the open alerts, the more severe first, and among alerts
  of one severity the newest first; alerts that tie keep the order of the server.\<close>

theorem sorted_alerts_correct:
  "mset (sorted_alerts ms raw) = mset raw
   \<and> sorted_wrt (\<lambda>a b. SEVERITY_ORDER (ai_severity a) < SEVERITY_ORDER (ai_severity b)
        \<or> SEVERITY_ORDER (ai_severity a) = SEVERITY_ORDER (ai_severity b)
          \<and> ms (ai_created_at b) \<le> ms (ai_created_at a)) (sorted_alerts ms raw)
   \<and> filter (\<lambda>a. alert_compare ms a k = 0) (sorted_alerts ms raw) = filter (\<lambda>a. alert_compare ms a k = 0) raw"
proof -
  have "sorted_wrt (\<lambda>a b. alert_compare ms a b \<le> 0) (sorted_alerts ms raw)"
    by (simp add: sorted_alerts_def alerts.sorted_js_sort)
  then have "sorted_wrt (\<lambda>a b. SEVERITY_ORDER (ai_severity a) < SEVERITY_ORDER (ai_severity b)
        \<or> SEVERITY_ORDER (ai_severity a) = SEVERITY_ORDER (ai_severity b)
          \<and> ms (ai_created_at b) \<le> ms (ai_created_at a)) (sorted_alerts ms raw)"
    by (rule sorted_wrt_mono_rel[rotated]) (auto simp: alert_compare_def Let_def split: if_splits)
  then show ?thesis by (simp add: sorted_alerts_def alerts.stable)
qed

section \<open>Dangerous commands need a confirmation\<close>

definition dangerous_type :: "string \<Rightarrow> bool" where
  "dangerous_type t \<longleftrightarrow> (\<exists>item \<in> set COMMAND_LIBRARY. li_dangerous item \<and> li_type item = t)"

definition dangerous_sent :: "string \<Rightarrow> detail \<Rightarrow> nat" where
  "dangerous_sent dev s =
     length (filter (\<lambda>r. \<exists>item \<in> set COMMAND_LIBRARY. li_dangerous item
        \<and> r = mobile_commands_dispatch dev (li_type item) []) (dt_sent s))"

lemma dispatch_inj [simp]:
  "mobile_commands_dispatch dev t p = mobile_commands_dispatch dev u p \<longleftrightarrow> t = u"
  by (auto simp: mobile_commands_dispatch_def mk_request_def)

lemma dangerous_sent_simps [simp]:
  "dangerous_sent dev (dispatch_mutate dev t s) = dangerous_sent dev s + (if dangerous_type t then 1 else 0)"
  "dangerous_sent dev (s\<lparr>dt_alert := a\<rparr>) = dangerous_sent dev s"
  "dangerous_sent dev (s\<lparr>dt_tab := t'\<rparr>) = dangerous_sent dev s"
  "dangerous_sent dev (s\<lparr>dt_selected := a\<rparr>) = dangerous_sent dev s"
  "dangerous_sent dev (s\<lparr>dt_library := b\<rparr>) = dangerous_sent dev s"
  by (auto simp: dangerous_sent_def dispatch_mutate_def dangerous_type_def)

lemma dangerous_type_iff: "dangerous_type t \<longleftrightarrow> t = ''reboot'' \<or> t = ''shutdown''"
  by (auto simp: dangerous_type_def COMMAND_LIBRARY_def)

lemma library_sheet_safe: "offers (library_sheet b) (HandleDispatch t False) \<Longrightarrow> \<not> dangerous_type t"
  unfolding dangerous_type_iff library_sheet_def COMMAND_LIBRARY_def by (auto split: if_splits)

lemma gauge_offers [simp]: "\<not> offers (gauge n v) m"
  by (auto simp: gauge_def split: option.splits)

lemma output_modal_offers: "offers (output_modal_view c i l cmd) m \<Longrightarrow> m = c"
  by (auto simp: output_modal_view_def split: if_splits option.splits)

lemma overview_safe: "offers (overview_view ago d) (HandleDispatch t False) \<Longrightarrow> \<not> dangerous_type t"
  by (auto simp: overview_view_def dangerous_type_iff split: if_splits)

lemma commands_view_safe: "\<not> offers (commands_view ago d) (HandleDispatch t b)"
  by (auto simp: commands_view_def command_row_def split: if_splits)

lemma alert_dialog_offers: "offers (alert_dialog ct) m \<Longrightarrow> m = CancelAlert \<or> m = ConfirmSend"
  by (auto simp: alert_dialog_def Let_def)

lemma detail_view_safe: "offers (detail_view ago d s) (HandleDispatch t False) \<Longrightarrow> \<not> dangerous_type t"
  by (auto simp: detail_view_def commands_view_safe split: option.splits if_splits
      dest: alert_dialog_offers output_modal_offers library_sheet_safe overview_safe)

definition confirmed :: "string \<Rightarrow> detail_msg list \<Rightarrow> detail \<Rightarrow> bool" where
  "confirmed dev ms s \<longleftrightarrow> dangerous_sent dev s \<le> count_list ms ConfirmSend"

lemma confirmed_step:
  assumes "confirmed dev ms s" "\<And>t. m = HandleDispatch t False \<Longrightarrow> \<not> dangerous_type t"
  shows "confirmed dev (ms @ [m]) (detail_update dev s m)"
  using assms
  by (cases "(dev, s, m)" rule: detail_update.cases)
    (auto simp: confirmed_def split: option.splits)

interpretation detail_page: ui_page "detail_view ago" detail_env "detail_update dev" detail_init "confirmed dev"
proof unfold_locales
  show "confirmed dev [] detail_init" by (simp add: confirmed_def dangerous_sent_def detail_init_def)
  show "confirmed dev (ms @ [m]) (detail_update dev s m)"
    if "confirmed dev ms s" "offers (detail_view ago d s) m" for ms s m d
    using that detail_view_safe by (blast intro: confirmed_step)
  show "confirmed dev (ms @ [m]) (detail_update dev s m)" if "confirmed dev ms s" "detail_env s m" for ms s m
    using that by (cases m) (auto simp: confirmed_def)
qed

text \<open>C3. No reboot or shutdown leaves the device screen without the user's confirmation: in every run
  of the screen, with whatever data the queries return, the number of dangerous commands sent is at
  most the number of times the user pressed Send in the confirmation dialog.\<close>

theorem dangerous_commands_confirmed:
  assumes "detail_run ago dev ms s"
  shows "dangerous_sent dev s \<le> count_list ms ConfirmSend"
  using detail_page.run_inv[OF assms] by (simp add: confirmed_def)

theorem dangerous_commands_confirmed_witness:
  "\<exists>s. detail_run (\<lambda>t. t) ''d1'' [HandleDispatch ''reboot'' True, ConfirmSend] s
     \<and> dangerous_sent ''d1'' s = 1 \<and> dangerous_sent ''d1'' s \<le> count_list [HandleDispatch ''reboot'' True, ConfirmSend] ConfirmSend"
proof -
  let ?d = "\<lparr>dd_loading = False, dd_last_seen = None, dd_agent_version = None, dd_metric = (None, None, None),
    dd_alerts = [], dd_commands = [], dd_output = None, dd_output_loading = False\<rparr>"
  let ?s1 = "detail_update ''d1'' detail_init (HandleDispatch ''reboot'' True)"
  have "detail_run (\<lambda>t. t) ''d1'' ([] @ [HandleDispatch ''reboot'' True]) ?s1"
    by (rule ui_run.user[OF ui_run.mount, where d = ?d])
      (simp add: detail_view_def detail_init_def overview_view_def)
  from ui_run.user[OF this, where d = ?d and m = ConfirmSend]
  have run: "detail_run (\<lambda>t. t) ''d1'' [HandleDispatch ''reboot'' True, ConfirmSend] (detail_update ''d1'' ?s1 ConfirmSend)"
    by (simp add: detail_view_def alert_dialog_def Let_def)
  have "dangerous_sent ''d1'' (detail_update ''d1'' ?s1 ConfirmSend) = 1"
    by (simp add: dangerous_type_iff detail_init_def) (simp add: dangerous_sent_def)
  with run dangerous_commands_confirmed[OF run] show ?thesis by blast
qed

text \<open>Sending is immediate and exact: outside the dialog a safe quick action sends one command of its
  type to the device of the screen; in the dialog, Send sends the command the dialog is about and
  Cancel sends nothing, and both close it.\<close>

theorem dispatch_exact:
  "dt_sent (detail_update dev s (HandleDispatch t False)) = dt_sent s @ [mobile_commands_dispatch dev t []]
   \<and> dt_sent (detail_update dev s (HandleDispatch t True)) = dt_sent s
   \<and> (let s' = detail_update dev s (HandleDispatch t True) in
        dt_sent (detail_update dev s' ConfirmSend) = dt_sent s @ [mobile_commands_dispatch dev t []]
        \<and> dt_alert (detail_update dev s' ConfirmSend) = None
        \<and> detail_update dev s' CancelAlert = s\<lparr>dt_alert := None\<rparr>)"
  by (simp add: dispatch_mutate_def Let_def)

end
