(* ===== verification/Stores.thy ===== *)
theory Stores
  imports Storage Types
begin

text \<open>
  The smaller stores of the dashboard: \<open>frontend/src/store/alertStore.ts\<close>, \<open>brandingStore.ts\<close>,
  \<open>globalSearchStore.ts\<close>, \<open>layoutStore.ts\<close> and \<open>themeStore.ts\<close>, and the boot code of \<open>main.tsx\<close> that
  uses the last two. A zustand store is its state and the functions that \<open>set\<close> applies to it; an
  update by a partial object is a record update. The \<open>persist\<close> middleware of the branding store is
  library code: the state here is the one it restores.
\<close>

section \<open>alertStore.ts\<close>

record alert_store =
  unresolved :: "alert list"

definition alert_store_init :: alert_store where
  "alert_store_init = \<lparr>unresolved = []\<rparr>"

definition setUnresolved :: "alert list \<Rightarrow> alert_store \<Rightarrow> alert_store" where
  "setUnresolved alerts state =
     (if length (unresolved state) = length alerts
         \<and> list_all (\<lambda>(index, existing). index < length alerts \<and> a_id existing = a_id (alerts ! index))
             (enumerate 0 (unresolved state))
      then state else state\<lparr>unresolved := alerts\<rparr>)"

definition addAlert :: "alert \<Rightarrow> alert_store \<Rightarrow> alert_store" where
  "addAlert alert state =
     state\<lparr>unresolved := alert # filter (\<lambda>existing. a_id existing \<noteq> a_id alert) (unresolved state)\<rparr>"

definition resolve :: "string \<Rightarrow> alert_store \<Rightarrow> alert_store" where
  "resolve i state = state\<lparr>unresolved := filter (\<lambda>a. a_id a \<noteq> i) (unresolved state)\<rparr>"

section \<open>brandingStore.ts\<close>

record branding =
  companyName :: string
  logoUrl :: string
  accentColor :: string
  sidebarLabel :: string
  faviconUrl :: string

definition DEFAULTS :: branding where
  "DEFAULTS = \<lparr>companyName = ''DTSYS'', logoUrl = [], accentColor = ''#3b82f6'',
     sidebarLabel = ''IT Management'', faviconUrl = []\<rparr>"

datatype branding_op = SetCompanyName string | SetLogoUrl string | SetAccentColor string
  | SetSidebarLabel string | SetFaviconUrl string | ResetBranding

fun branding_step :: "branding \<Rightarrow> branding_op \<Rightarrow> branding" where
  "branding_step b (SetCompanyName v) = b\<lparr>companyName := v\<rparr>"
| "branding_step b (SetLogoUrl v) = b\<lparr>logoUrl := v\<rparr>"
| "branding_step b (SetAccentColor v) = b\<lparr>accentColor := v\<rparr>"
| "branding_step b (SetSidebarLabel v) = b\<lparr>sidebarLabel := v\<rparr>"
| "branding_step b (SetFaviconUrl v) = b\<lparr>faviconUrl := v\<rparr>"
| "branding_step b ResetBranding = b\<lparr>companyName := companyName DEFAULTS, logoUrl := logoUrl DEFAULTS,
     accentColor := accentColor DEFAULTS, sidebarLabel := sidebarLabel DEFAULTS, faviconUrl := faviconUrl DEFAULTS\<rparr>"

section \<open>globalSearchStore.ts, layoutStore.ts\<close>

record search_store = search_open :: bool

definition search_init :: search_store where "search_init = \<lparr>search_open = False\<rparr>"
definition openSearch :: "search_store \<Rightarrow> search_store" where "openSearch s = s\<lparr>search_open := True\<rparr>"
definition closeSearch :: "search_store \<Rightarrow> search_store" where "closeSearch s = s\<lparr>search_open := False\<rparr>"
definition toggleSearch :: "search_store \<Rightarrow> search_store" where
  "toggleSearch s = s\<lparr>search_open := \<not> search_open s\<rparr>"

record layout_store = mobileSidebarOpen :: bool

definition layout_init :: layout_store where "layout_init = \<lparr>mobileSidebarOpen = False\<rparr>"
definition openSidebar :: "layout_store \<Rightarrow> layout_store" where "openSidebar s = s\<lparr>mobileSidebarOpen := True\<rparr>"
definition closeSidebar :: "layout_store \<Rightarrow> layout_store" where "closeSidebar s = s\<lparr>mobileSidebarOpen := False\<rparr>"
definition toggleSidebar :: "layout_store \<Rightarrow> layout_store" where
  "toggleSidebar s = s\<lparr>mobileSidebarOpen := \<not> mobileSidebarOpen s\<rparr>"

section \<open>themeStore.ts and main.tsx\<close>

datatype theme = Dark | Light

definition theme_str :: "theme \<Rightarrow> string" where
  "theme_str t = (case t of Dark \<Rightarrow> ''dark'' | Light \<Rightarrow> ''light'')"

text \<open>The document: the class list of its root element and its icon links, as \<open>href\<close>s.\<close>

record document =
  root_classes :: "string set"
  icon_links :: "string list"

record page_env =
  pe_storage :: storage
  pe_document :: document
  pe_theme :: theme

definition applyTheme :: "theme \<Rightarrow> document \<Rightarrow> document" where
  "applyTheme t d = d\<lparr>root_classes :=
     (if t = Dark then insert ''dark'' (root_classes d) else root_classes d - {''dark''})\<rparr>"

definition getStoredTheme :: "storage \<Rightarrow> theme" where
  "getStoredTheme s = (if getItem s ''dtsys-theme'' = Some ''light'' then Light else Dark)"

definition toggle :: "page_env \<Rightarrow> page_env" where
  "toggle e =
     (let nextTheme = (if pe_theme e = Dark then Light else Dark)
      in e\<lparr>pe_storage := setItem ''dtsys-theme'' (theme_str nextTheme) (pe_storage e),
           pe_document := applyTheme nextTheme (pe_document e), pe_theme := nextTheme\<rparr>)"

definition initializeTheme :: "storage \<Rightarrow> document \<Rightarrow> document" where
  "initializeTheme s d = applyTheme (getStoredTheme s) d"

text \<open>
  The boot code sets the first icon link to the stored icon, or adds one; \<open>appendChild\<close> moves an
  element that is already in the document to the end.
\<close>

definition apply_favicon :: "branding \<Rightarrow> document \<Rightarrow> document" where
  "apply_favicon b d =
     (if faviconUrl b = [] then d
      else d\<lparr>icon_links := (case icon_links d of [] \<Rightarrow> [] | first # rest \<Rightarrow> rest) @ [faviconUrl b]\<rparr>)"

definition boot :: "storage \<Rightarrow> branding \<Rightarrow> document \<Rightarrow> page_env" where
  "boot s b d = \<lparr>pe_storage = s, pe_document = apply_favicon b (initializeTheme s d), pe_theme = getStoredTheme s\<rparr>"

section \<open>Lemmas\<close>

lemma setUnresolved_unresolved:
  "unresolved (setUnresolved alerts st) =
     (if map a_id (unresolved st) = map a_id alerts then unresolved st else alerts)"
proof -
  have "(length (unresolved st) = length alerts
         \<and> list_all (\<lambda>(index, existing). index < length alerts \<and> a_id existing = a_id (alerts ! index))
             (enumerate 0 (unresolved st))) \<longleftrightarrow> map a_id (unresolved st) = map a_id alerts"
    by (auto simp: list_eq_iff_nth_eq list_all_length nth_enumerate_eq)
  then show ?thesis by (simp add: setUnresolved_def)
qed

text \<open>The ids shown are those of the latest list, also when the shortcut keeps the old objects.\<close>

lemma setUnresolved_ids [simp]: "map a_id (unresolved (setUnresolved alerts st)) = map a_id alerts"
  by (simp add: setUnresolved_unresolved)

definition distinct_alerts :: "alert_store \<Rightarrow> bool" where
  "distinct_alerts st \<longleftrightarrow> distinct (map a_id (unresolved st))"

lemma addAlert_distinct: "distinct_alerts st \<Longrightarrow> distinct_alerts (addAlert a st)"
  by (auto simp: distinct_alerts_def addAlert_def distinct_map inj_on_def)

lemma resolve_distinct: "distinct_alerts st \<Longrightarrow> distinct_alerts (resolve i st)"
  by (auto simp: distinct_alerts_def resolve_def distinct_map inj_on_def)

lemma setUnresolved_distinct: "distinct (map a_id alerts) \<Longrightarrow> distinct_alerts (setUnresolved alerts st)"
  by (simp add: distinct_alerts_def)

text \<open>A theme is in force when the document, the store and the stored value agree.\<close>

definition theme_consistent :: "page_env \<Rightarrow> bool" where
  "theme_consistent e \<longleftrightarrow> pe_theme e = getStoredTheme (pe_storage e)
     \<and> (''dark'' \<in> root_classes (pe_document e) \<longleftrightarrow> pe_theme e = Dark)"

lemma boot_consistent: "theme_consistent (boot s b d)"
  by (simp add: theme_consistent_def boot_def initializeTheme_def applyTheme_def apply_favicon_def)

lemma getStoredTheme_set [simp]: "getStoredTheme (setItem ''dtsys-theme'' (theme_str t) s) = t"
  by (cases t) (simp_all add: getStoredTheme_def storage_defs theme_str_def)

lemma toggle_consistent: "theme_consistent (toggle e)"
  by (simp add: theme_consistent_def toggle_def Let_def applyTheme_def)

lemma toggle_theme: "pe_theme (toggle e) = (if pe_theme e = Dark then Light else Dark)"
  by (simp add: toggle_def Let_def)

section \<open>Properties\<close>

text \<open>The theme survives a reload: whatever was stored and however often the user toggles after the
  page booted, the theme of the store, the class of the document and the theme the next boot
  restores agree, and it is the other theme exactly after an odd number of toggles.\<close>

theorem theme_persists:
  "theme_consistent ((toggle ^^ n) (boot s b d))
   \<and> pe_theme (boot (pe_storage ((toggle ^^ n) (boot s b d))) b' d') = pe_theme ((toggle ^^ n) (boot s b d))
   \<and> (pe_theme ((toggle ^^ n) (boot s b d)) = getStoredTheme s \<longleftrightarrow> even n)"
proof -
  have c: "theme_consistent ((toggle ^^ n) (boot s b d))"
    by (cases n) (simp_all add: boot_consistent toggle_consistent)
  have "pe_theme ((toggle ^^ n) (boot s b d)) = getStoredTheme s \<longleftrightarrow> even n"
  proof (induction n)
    case (Suc n)
    then show ?case
      by (cases "getStoredTheme s"; cases "pe_theme ((toggle ^^ n) (boot s b d))") (simp_all add: toggle_theme)
  qed (simp add: boot_def)
  with c show ?thesis by (simp add: theme_consistent_def boot_def)
qed

text \<open>The alert store shows each alert once: adding an alert puts it first and keeps every other
  alert in order, resolving removes exactly that alert, replacing the list shows the ids of the new
  list in its order; each keeps the ids distinct.\<close>

theorem alert_store_correct:
  "distinct_alerts st \<Longrightarrow>
     distinct_alerts (addAlert a st) \<and> distinct_alerts (resolve i st)
     \<and> map a_id (unresolved (addAlert a st)) = a_id a # filter (\<lambda>j. j \<noteq> a_id a) (map a_id (unresolved st))
     \<and> map a_id (unresolved (resolve i st)) = filter (\<lambda>j. j \<noteq> i) (map a_id (unresolved st))
     \<and> resolve (a_id a) (addAlert a st) = resolve (a_id a) st
     \<and> map a_id (unresolved (setUnresolved alerts st)) = map a_id alerts"
  by (simp add: addAlert_distinct resolve_distinct) (simp add: addAlert_def resolve_def filter_map comp_def)

theorem alert_store_correct_witness:
  "let a = \<lparr>a_id = ''1'', a_device_id = ''d'', a_alert_type = ''cpu_high'', a_severity = Critical,
         a_message = ''m'', a_is_resolved = False, a_created_at = ''t'', a_resolved_at = None\<rparr>;
       st = addAlert a alert_store_init
   in distinct_alerts st \<and> map a_id (unresolved st) = [''1'']
      \<and> distinct_alerts (addAlert (a\<lparr>a_id := ''2''\<rparr>) st) \<and> map a_id (unresolved (resolve ''1'' st)) = []"
proof -
  let ?a = "\<lparr>a_id = ''1'', a_device_id = ''d'', a_alert_type = ''cpu_high'', a_severity = Critical,
         a_message = ''m'', a_is_resolved = False, a_created_at = ''t'', a_resolved_at = None\<rparr>"
  have "distinct_alerts alert_store_init" by (simp add: distinct_alerts_def alert_store_init_def)
  note s1 = alert_store_correct[OF this, of ?a]
  then have "distinct_alerts (addAlert ?a alert_store_init)" by blast
  from alert_store_correct[OF this, of "?a\<lparr>a_id := ''2''\<rparr>" "''1''"] s1 show ?thesis
    by (simp add: Let_def alert_store_init_def)
qed

end
