(* ===== verification/Streams.thy ===== *)
theory Streams
  imports Stores
begin

text \<open>
  The event streams of the dashboard: \<open>frontend/src/hooks/useSSE.ts\<close> and \<open>useActivityStream.ts\<close>.
  Both read text from a \<open>fetch\<close> body in arbitrary pieces, cut it into records at empty lines and take
  the first \<open>data:\<close> line of each. What they share is \<open>feed\<close>; the locale \<open>stream_consumer\<close> is the
  contract of the function that handles one record, and both hooks interpret it.

  \<open>JSON.parse(...) as T\<close> is the parameter \<open>parse\<close> (\<open>None\<close> when it throws). \<open>fetch\<close>, timers and
  unmounting are events of the environment. Each run of the effect of \<open>useSSE\<close> is identified by its
  \<open>AbortController\<close>; a hook that is mounted again starts a new run, and its earlier run has been
  aborted, so a flag per run stands for the shared \<open>mountedRef\<close>.
\<close>

section \<open>Records of a stream\<close>

definition record_sep :: string where "record_sep = [newline, newline]"

definition feed :: "('s \<Rightarrow> string \<Rightarrow> 's) \<Rightarrow> string \<times> 's \<Rightarrow> string \<Rightarrow> string \<times> 's" where
  "feed step bs piece =
     (let chunks = split_str record_sep (fst bs @ piece)
      in (last chunks, foldl step (snd bs) (butlast chunks)))"

definition data_line :: "string \<Rightarrow> string option" where
  "data_line chunk = find_first (\<lambda>line. startsWith line ''data: '') (split_str [newline] chunk)"

locale stream_consumer =
  fixes step :: "'s \<Rightarrow> string \<Rightarrow> 's"
  assumes ignores: "data_line chunk = None \<Longrightarrow> step s chunk = s"
begin

text \<open>The state reached depends on the text only, not on the pieces it arrived in.\<close>

lemma feed_append: "feed step (feed step (buf, s) x) y = feed step (buf, s) (x @ y)"
proof -
  have "split_str record_sep ((buf @ x) @ y) =
      butlast (split_str record_sep (buf @ x)) @ split_str record_sep (last (split_str record_sep (buf @ x)) @ y)"
    by (rule split_str_append) (simp add: record_sep_def)
  then show ?thesis by (simp add: feed_def Let_def butlast_append)
qed

lemma feed_pieces: "pieces \<noteq> [] \<Longrightarrow> foldl (feed step) (buf, s) pieces = feed step (buf, s) (concat pieces)"
proof (induction pieces rule: rev_induct)
  case (snoc x xs)
  then show ?case by (cases "xs = []") (simp_all add: feed_append)
qed simp

text \<open>Records without data, such as the comments that keep a connection open, change nothing.\<close>

lemma foldl_ignored: "\<forall>c \<in> set cs. data_line c = None \<Longrightarrow> foldl step s cs = s"
  by (induction cs) (simp_all add: ignores)

lemma feed_ignored:
  "\<forall>c \<in> set (butlast (split_str record_sep (buf @ piece))). data_line c = None \<Longrightarrow>
     snd (feed step (buf, s) piece) = s"
  by (simp add: feed_def Let_def foldl_ignored)

end

section \<open>useActivityStream.ts\<close>

definition activity_step :: "(string \<Rightarrow> activity_event option) \<Rightarrow> activity_event list \<Rightarrow> string \<Rightarrow> activity_event list" where
  "activity_step parse current chunk =
     (case data_line chunk of
        None \<Rightarrow> current
      | Some line \<Rightarrow> (case parse (drop 6 line) of
           None \<Rightarrow> current
         | Some payload \<Rightarrow> slice_last 20 (current @ [payload])))"

datatype activity_phase =
    ActFetching
  | ActReading string
  | ActWaiting nat bool \<comment> \<open>milliseconds, and whether the error was an \<open>AbortError\<close>\<close>
  | ActEnded

record activity =
  act_events :: "activity_event list"
  act_phase :: activity_phase
  act_cancelled :: bool

datatype activity_event_in =
    ActStart bool "string option" \<comment> \<open>the effect of a fresh mount: \<open>enabled\<close> and the stored token\<close>
  | ActResponse bool bool \<comment> \<open>\<open>response.ok\<close>, and whether there is a body\<close>
  | ActPiece string
  | ActDone
  | ActError bool \<comment> \<open>a rejection, and whether it is an \<open>AbortError\<close>\<close>
  | ActTimer
  | ActCleanup

definition activity_init :: activity where
  "activity_init = \<lparr>act_events = [], act_phase = ActEnded, act_cancelled = False\<rparr>"

text \<open>\<open>while (!cancelled)\<close>: the next turn of the outer loop.\<close>

definition act_loop :: "activity \<Rightarrow> activity" where
  "act_loop a = a\<lparr>act_phase := (if act_cancelled a then ActEnded else ActFetching)\<rparr>"

definition act_catch :: "bool \<Rightarrow> activity \<Rightarrow> activity" where
  "act_catch aborted a =
     (if act_cancelled a then a\<lparr>act_phase := ActEnded\<rparr> else a\<lparr>act_phase := ActWaiting 3000 aborted\<rparr>)"

fun activity_update :: "(string \<Rightarrow> activity_event option) \<Rightarrow> activity \<Rightarrow> activity_event_in \<Rightarrow> activity" where
  "activity_update parse a (ActStart enabled token) =
     (if enabled \<and> truthy token \<and> a = activity_init then act_loop a else a)"
| "activity_update parse a (ActResponse good body) =
     (if act_phase a = ActFetching then
        if good \<and> body then
          (if act_cancelled a then act_loop a else a\<lparr>act_phase := ActReading []\<rparr>)
        else act_catch False a
      else a)"
| "activity_update parse a (ActPiece piece) =
     (case act_phase a of
        ActReading buf \<Rightarrow>
          let r = feed (activity_step parse) (buf, act_events a) piece;
              a' = a\<lparr>act_events := snd r\<rparr>
          in if act_cancelled a then act_loop a' else a'\<lparr>act_phase := ActReading (fst r)\<rparr>
      | _ \<Rightarrow> a)"
| "activity_update parse a ActDone =
     (case act_phase a of ActReading buf \<Rightarrow> act_loop a | _ \<Rightarrow> a)"
| "activity_update parse a (ActError aborted) =
     (case act_phase a of ActFetching \<Rightarrow> act_catch aborted a | ActReading buf \<Rightarrow> act_catch aborted a | _ \<Rightarrow> a)"
| "activity_update parse a ActTimer =
     (case act_phase a of
        ActWaiting d aborted \<Rightarrow> if aborted then a\<lparr>act_phase := ActEnded\<rparr> else act_loop a
      | _ \<Rightarrow> a)"
| "activity_update parse a ActCleanup = a\<lparr>act_cancelled := True\<rparr>"

section \<open>useSSE.ts: one record\<close>

datatype permission = NoNotification | Granted | Default | Denied

record sse_view =
  sv_ref :: "alert list" \<comment> \<open>\<open>prevAlertsRef.current\<close>\<close>
  sv_store :: alert_store
  sv_notified :: "(string \<times> string) list" \<comment> \<open>title and body of each notification\<close>
  sv_requests :: nat \<comment> \<open>calls of \<open>requestPermission\<close>\<close>
  sv_failed :: bool \<comment> \<open>a record made the reader throw\<close>

definition merge_alert :: "alert \<Rightarrow> sse_view \<Rightarrow> sse_view" where
  "merge_alert alert v =
     (let current = sv_ref v in
      if \<not> list_ex (\<lambda>existing. a_id existing = a_id alert) current then
        let next = alert # current;
            changed = length next \<noteq> length current
              \<or> list_ex (\<lambda>(index, item). \<not> (index < length current \<and> a_id item = a_id (current ! index)))
                  (enumerate 0 next)
        in if changed then v\<lparr>sv_ref := next, sv_store := setUnresolved next (sv_store v)\<rparr> else v
      else v)"

definition notification_title :: "alert \<Rightarrow> string" where
  "notification_title alert = toUpperCase (severity_str (a_severity alert)) @ '': ''
     @ replace_all (CHR ''_'') '' '' (a_alert_type alert)"

definition notify :: "permission \<Rightarrow> alert \<Rightarrow> sse_view \<Rightarrow> sse_view" where
  "notify perm alert v = (case perm of
     NoNotification \<Rightarrow> v
   | Granted \<Rightarrow> v\<lparr>sv_notified := sv_notified v @ [(notification_title alert, a_message alert)]\<rparr>
   | Default \<Rightarrow> v\<lparr>sv_requests := sv_requests v + 1\<rparr>
   | Denied \<Rightarrow> v)"

definition sse_step :: "(string \<Rightarrow> alert option) \<Rightarrow> permission \<Rightarrow> sse_view \<Rightarrow> string \<Rightarrow> sse_view" where
  "sse_step parse perm v chunk =
     (if sv_failed v then v
      else case data_line chunk of
        None \<Rightarrow> v
      | Some line \<Rightarrow> (case parse (drop 6 line) of
           None \<Rightarrow> v\<lparr>sv_failed := True\<rparr>
         | Some alert \<Rightarrow> notify perm alert (merge_alert alert v)))"

section \<open>useSSE.ts: the connection\<close>

datatype sse_phase = Idle | Connecting | Reading string | Waiting nat

record sse_run =
  rn_owner :: bool \<comment> \<open>the run created a controller\<close>
  rn_mounted :: bool
  rn_aborted :: bool
  rn_backoff :: nat
  rn_phase :: sse_phase

record sse =
  sse_active :: bool
  sse_controller :: "nat option"
  sse_runs :: "nat \<rightharpoonup> sse_run"
  sse_data :: sse_view

datatype sse_event =
    Mount nat bool "string option" \<comment> \<open>\<open>enabled\<close> and the stored token\<close>
  | Unmount nat
  | Responded nat nat bool \<comment> \<open>status, and whether there is a body\<close>
  | Received nat string
  | StreamDone nat
  | Broken nat \<comment> \<open>\<open>fetch\<close> or \<open>read\<close> rejects\<close>
  | TimerFired nat
  | Rendered \<comment> \<open>the effect that copies \<open>unresolved\<close> into the ref\<close>

definition sse_init :: "sse_view \<Rightarrow> sse" where
  "sse_init v = \<lparr>sse_active = False, sse_controller = None, sse_runs = Map.empty, sse_data = v\<rparr>"

definition scheduleReconnect :: "nat \<Rightarrow> sse_run \<Rightarrow> sse_run" where
  "scheduleReconnect delay r =
     r\<lparr>rn_phase := (if \<not> rn_mounted r \<or> rn_aborted r then Idle else Waiting delay)\<rparr>"

definition back_off :: "sse_run \<Rightarrow> sse_run" where
  "back_off r = (scheduleReconnect (rn_backoff r) r)\<lparr>rn_backoff := min (rn_backoff r * 2) 60000\<rparr>"

definition connect :: "sse_run \<Rightarrow> sse_run" where
  "connect r = r\<lparr>rn_phase := (if \<not> rn_mounted r \<or> rn_aborted r then Idle else Connecting)\<rparr>"

definition respond :: "nat \<Rightarrow> bool \<Rightarrow> sse_run \<Rightarrow> sse_run" where
  "respond status body r =
     (if status = 429 then scheduleReconnect 60000 r
      else if \<not> body then back_off r
      else let r' = r\<lparr>rn_backoff := 5000\<rparr>
           in if rn_mounted r then r'\<lparr>rn_phase := Reading []\<rparr> else back_off r')"

definition caught :: "sse_run \<Rightarrow> sse_run" where
  "caught r = (if \<not> rn_mounted r \<or> rn_aborted r then r\<lparr>rn_phase := Idle\<rparr> else back_off r)"

definition after_read :: "bool \<Rightarrow> string \<Rightarrow> sse_run \<Rightarrow> sse_run" where
  "after_read failed buf r =
     (if failed then caught r else if rn_mounted r then r\<lparr>rn_phase := Reading buf\<rparr> else back_off r)"

definition with_run :: "nat \<Rightarrow> (sse_run \<Rightarrow> bool) \<Rightarrow> (sse_run \<Rightarrow> sse_run) \<Rightarrow> sse \<Rightarrow> sse" where
  "with_run i guard f s = (case sse_runs s i of
     None \<Rightarrow> s
   | Some r \<Rightarrow> if guard r then s\<lparr>sse_runs := (sse_runs s)(i \<mapsto> f r)\<rparr> else s)"

fun is_reading :: "sse_phase \<Rightarrow> bool" where
  "is_reading (Reading buf) = True"
| "is_reading _ = False"

fun is_waiting :: "sse_phase \<Rightarrow> bool" where
  "is_waiting (Waiting d) = True"
| "is_waiting _ = False"

definition sse_mount :: "nat \<Rightarrow> bool \<Rightarrow> string option \<Rightarrow> sse \<Rightarrow> sse" where
  "sse_mount i enabled token s =
     (if \<not> enabled \<or> \<not> truthy token \<or> sse_runs s i \<noteq> None then s
      else if sse_active s then
        s\<lparr>sse_runs := (sse_runs s)(i \<mapsto> \<lparr>rn_owner = False, rn_mounted = True, rn_aborted = False,
            rn_backoff = 5000, rn_phase = Idle\<rparr>)\<rparr>
      else
        s\<lparr>sse_active := True, sse_controller := Some i, sse_runs := (sse_runs s)(i \<mapsto>
            connect \<lparr>rn_owner = True, rn_mounted = True, rn_aborted = False, rn_backoff = 5000, rn_phase = Idle\<rparr>)\<rparr>)"

definition sse_unmount :: "nat \<Rightarrow> sse \<Rightarrow> sse" where
  "sse_unmount i s = (case sse_runs s i of
     None \<Rightarrow> s
   | Some r \<Rightarrow>
       let s' = s\<lparr>sse_runs := (sse_runs s)(i \<mapsto> r\<lparr>rn_mounted := False, rn_aborted := rn_owner r\<rparr>)\<rparr>
       in if rn_owner r \<and> sse_controller s = Some i then s'\<lparr>sse_controller := None, sse_active := False\<rparr> else s')"

definition sse_receive :: "(string \<Rightarrow> alert option) \<Rightarrow> permission \<Rightarrow> nat \<Rightarrow> string \<Rightarrow> sse \<Rightarrow> sse" where
  "sse_receive parse perm i piece s = (case sse_runs s i of
     None \<Rightarrow> s
   | Some r \<Rightarrow> (case rn_phase r of
        Reading buf \<Rightarrow>
          let res = feed (sse_step parse perm) (buf, sse_data s) piece
          in s\<lparr>sse_data := (snd res)\<lparr>sv_failed := False\<rparr>,
               sse_runs := (sse_runs s)(i \<mapsto> after_read (sv_failed (snd res)) (fst res) r)\<rparr>
      | _ \<Rightarrow> s))"

fun sse_update :: "(string \<Rightarrow> alert option) \<Rightarrow> permission \<Rightarrow> sse \<Rightarrow> sse_event \<Rightarrow> sse" where
  "sse_update parse perm s (Mount i enabled token) = sse_mount i enabled token s"
| "sse_update parse perm s (Unmount i) = sse_unmount i s"
| "sse_update parse perm s (Responded i status body) =
     with_run i (\<lambda>r. rn_phase r = Connecting) (respond status body) s"
| "sse_update parse perm s (Received i piece) = sse_receive parse perm i piece s"
| "sse_update parse perm s (StreamDone i) = with_run i (\<lambda>r. is_reading (rn_phase r)) back_off s"
| "sse_update parse perm s (Broken i) =
     with_run i (\<lambda>r. rn_phase r = Connecting \<or> is_reading (rn_phase r)) caught s"
| "sse_update parse perm s (TimerFired i) =
     with_run i (\<lambda>r. is_waiting (rn_phase r)) (\<lambda>r. if rn_mounted r then connect r else r\<lparr>rn_phase := Idle\<rparr>) s"
| "sse_update parse perm s Rendered =
     s\<lparr>sse_data := (sse_data s)\<lparr>sv_ref := unresolved (sv_store (sse_data s))\<rparr>\<rparr>"

definition sse_exec :: "(string \<Rightarrow> alert option) \<Rightarrow> permission \<Rightarrow> sse \<Rightarrow> sse_event list \<Rightarrow> sse" where
  "sse_exec parse perm s es = foldl (sse_update parse perm) s es"

section \<open>What the streams deliver\<close>

interpretation activity_stream: stream_consumer "activity_step parse"
  by unfold_locales (simp add: activity_step_def)

interpretation alert_stream: stream_consumer "sse_step parse perm"
  by unfold_locales (simp add: sse_step_def)

definition complete_records :: "string \<Rightarrow> string list" where
  "complete_records text = butlast (split_str record_sep text)"

definition payload :: "(string \<Rightarrow> 'a option) \<Rightarrow> string \<Rightarrow> 'a option" where
  "payload parse chunk = Option.bind (data_line chunk) (\<lambda>line. parse (drop 6 line))"

lemma activity_step_payload:
  "activity_step parse evs c = (case payload parse c of None \<Rightarrow> evs | Some p \<Rightarrow> slice_last 20 (evs @ [p]))"
  by (simp add: activity_step_def payload_def split: option.splits)

lemma activity_records:
  "foldl (activity_step parse) (slice_last 20 evs) cs = slice_last 20 (evs @ List.map_filter (payload parse) cs)"
  by (induction cs arbitrary: evs)
    (simp_all add: activity_step_payload slice_last_append List.map_filter_def split: option.splits)

text \<open>The alerts of a list of records, up to the first one that does not parse.\<close>

fun received :: "(string \<Rightarrow> alert option) \<Rightarrow> string list \<Rightarrow> alert list" where
  "received parse [] = []"
| "received parse (c # cs) = (case data_line c of
     None \<Rightarrow> received parse cs
   | Some line \<Rightarrow> (case parse (drop 6 line) of None \<Rightarrow> [] | Some a \<Rightarrow> a # received parse cs))"

definition synced :: "sse_view \<Rightarrow> bool" where
  "synced v \<longleftrightarrow> unresolved (sv_store v) = sv_ref v \<and> distinct (map a_id (sv_ref v)) \<and> \<not> sv_failed v"

lemma merge_alert_ref:
  "sv_ref (merge_alert a v) = (if a_id a \<in> a_id ` set (sv_ref v) then sv_ref v else a # sv_ref v)"
  by (auto simp: merge_alert_def Let_def list_ex_iff image_iff) metis+

lemma merge_alert_synced: "synced v \<Longrightarrow> synced (merge_alert a v)"
  by (auto simp: synced_def merge_alert_def Let_def list_ex_iff setUnresolved_unresolved)

lemma merge_alert_rest [simp]:
  "sv_notified (merge_alert a v) = sv_notified v" "sv_failed (merge_alert a v) = sv_failed v"
  by (auto simp: merge_alert_def Let_def)

lemma notify_rest [simp]:
  "sv_ref (notify perm a v) = sv_ref v" "sv_store (notify perm a v) = sv_store v"
  "sv_failed (notify perm a v) = sv_failed v"
  by (cases perm; simp add: notify_def)+

lemma sse_step_failed: "sv_failed v \<Longrightarrow> foldl (sse_step parse perm) v cs = v"
  by (induction cs) (simp_all add: sse_step_def)

lemma sse_step_cases:
  "data_line c = None \<Longrightarrow> sse_step parse perm v c = v"
  "data_line c = Some line \<Longrightarrow> parse (drop 6 line) = None \<Longrightarrow> \<not> sv_failed v \<Longrightarrow>
     sse_step parse perm v c = v\<lparr>sv_failed := True\<rparr>"
  "data_line c = Some line \<Longrightarrow> parse (drop 6 line) = Some a \<Longrightarrow> \<not> sv_failed v \<Longrightarrow>
     sse_step parse perm v c = notify perm a (merge_alert a v)"
  by (simp_all add: sse_step_def)

lemma synced_notify [simp]: "synced (notify perm a v) = synced v"
  by (simp add: synced_def)

text \<open>The view after some records, with the flag of the reader cleared.\<close>

lemma sse_records:
  assumes "synced v" "w = foldl (sse_step parse perm) v cs"
  shows "unresolved (sv_store w) = sv_ref w \<and> distinct (map a_id (sv_ref w))
    \<and> a_id ` set (sv_ref w) = a_id ` set (sv_ref v) \<union> a_id ` set (received parse cs)
    \<and> (perm = Granted \<longrightarrow> sv_notified w =
         sv_notified v @ map (\<lambda>a. (notification_title a, a_message a)) (received parse cs))"
  using assms
proof (induction cs arbitrary: v)
  case Nil
  then show ?case by (simp add: synced_def)
next
  case (Cons c cs)
  have ok: "\<not> sv_failed v" using Cons.prems by (simp add: synced_def)
  show ?case
  proof (cases "data_line c")
    case None
    then show ?thesis using Cons.IH[OF Cons.prems(1)] Cons.prems(2) by (simp add: sse_step_cases(1))
  next
    case (Some line)
    show ?thesis
    proof (cases "parse (drop 6 line)")
      case None
      then show ?thesis using Some Cons.prems ok
        by (simp add: sse_step_cases(2) sse_step_failed synced_def)
    next
      case a: (Some a)
      have "synced (notify perm a (merge_alert a v))" using Cons.prems(1) by (simp add: merge_alert_synced)
      from Cons.IH[OF this] Cons.prems(2) show ?thesis using Some a ok
        by (simp add: sse_step_cases(3) merge_alert_ref) (auto simp: notify_def)
    qed
  qed
qed

text \<open>C6. The alert stream is exact however the network cuts it: after any non-empty sequence of pieces
  the store holds each alert once, its ids are those it had and those of the well-formed records
  received before the first malformed one, and, when notifications are permitted, there is one
  notification per received record in order.\<close>

theorem alert_stream_exact:
  assumes "synced v"
  shows "let w = snd (foldl (feed (sse_step parse perm)) ([], v) (p # ps));
             new = received parse (complete_records (concat (p # ps)))
    in unresolved (sv_store w) = sv_ref w \<and> distinct (map a_id (sv_ref w))
    \<and> a_id ` set (sv_ref w) = a_id ` set (sv_ref v) \<union> a_id ` set new
    \<and> (perm = Granted \<longrightarrow> sv_notified w = sv_notified v @ map (\<lambda>a. (notification_title a, a_message a)) new)"
proof -
  have "snd (foldl (feed (sse_step parse perm)) ([], v) (p # ps)) =
      foldl (sse_step parse perm) v (complete_records (concat (p # ps)))"
    using alert_stream.feed_pieces[of "p # ps" parse perm "[]" v]
    by (simp add: feed_def Let_def complete_records_def)
  from sse_records[OF assms this] show ?thesis unfolding Let_def .
qed

definition sample_alert :: alert where
  "sample_alert = \<lparr>a_id = ''1'', a_device_id = ''d'', a_alert_type = ''cpu_high'', a_severity = Critical,
     a_message = ''m'', a_is_resolved = False, a_created_at = ''t'', a_resolved_at = None\<rparr>"

definition empty_view :: sse_view where
  "empty_view = \<lparr>sv_ref = [], sv_store = alert_store_init, sv_notified = [], sv_requests = 0, sv_failed = False\<rparr>"

lemma synced_empty_view: "synced empty_view"
  by (simp add: synced_def empty_view_def alert_store_init_def)

theorem alert_stream_exact_witness:
  "let w = snd (foldl (feed (sse_step (\<lambda>t. if t = ''x'' then Some sample_alert else None) Granted))
         ([], empty_view) [''data: '', [CHR ''x'', newline], [newline] @ ''data''])
   in a_id ` set (sv_ref w) = {''1''} \<and> sv_notified w = [(''CRITICAL: cpu high'', ''m'')]"
proof -
  have r: "complete_records (concat [''data: '', [CHR ''x'', newline], [newline] @ ''data'']) = [''data: x'']"
    by (simp add: complete_records_def record_sep_def newline_def split_str.simps startsWith_def)
  have d: "data_line ''data: x'' = Some ''data: x''"
    by (simp add: data_line_def find_first_def newline_def split_str.simps startsWith_def)
  have t: "notification_title sample_alert = ''CRITICAL: cpu high''"
    by code_simp
  show ?thesis
    using alert_stream_exact[OF synced_empty_view, of "\<lambda>t. if t = ''x'' then Some sample_alert else None" Granted
        "''data: ''" "[[CHR ''x'', newline], [newline] @ ''data'']"]
    unfolding Let_def r by (simp add: d t empty_view_def) (simp add: sample_alert_def)
qed

text \<open>The activity list is the last twenty events: whatever pieces the text arrives in, the hook
  holds the last twenty well-formed payloads of the complete records in order; malformed and
  comment records are skipped.\<close>

theorem activity_stream_window:
  "snd (foldl (feed (activity_step parse)) ([], []) (p # ps)) =
     slice_last 20 (List.map_filter (payload parse) (complete_records (concat (p # ps))))"
proof -
  have "snd (feed (activity_step parse) ([], []) (concat (p # ps))) =
      foldl (activity_step parse) (slice_last 20 []) (complete_records (concat (p # ps)))"
    by (simp add: feed_def Let_def complete_records_def slice_last_def)
  then show ?thesis
    using activity_stream.feed_pieces[of "p # ps" parse "[]" "[]"] activity_records[of parse "[]"] by simp
qed

section \<open>The connection\<close>

definition delays :: "nat set" where "delays = {5000, 10000, 20000, 40000, 60000}"

definition run_ok :: "sse_run \<Rightarrow> bool" where
  "run_ok r \<longleftrightarrow> rn_backoff r \<in> delays \<and> (\<forall>d. rn_phase r = Waiting d \<longrightarrow> d \<in> delays)
     \<and> (\<not> rn_owner r \<longrightarrow> rn_phase r = Idle) \<and> (rn_owner r \<longrightarrow> rn_aborted r = (\<not> rn_mounted r))
     \<and> (rn_owner r \<and> rn_mounted r \<longrightarrow> rn_phase r \<noteq> Idle)"

definition live :: "sse_run \<Rightarrow> bool" where
  "live r \<longleftrightarrow> rn_phase r \<noteq> Idle \<and> \<not> rn_aborted r"

definition sse_inv :: "sse \<Rightarrow> bool" where
  "sse_inv s \<longleftrightarrow> (\<forall>i r. sse_runs s i = Some r \<longrightarrow>
       run_ok r \<and> (rn_owner r \<and> rn_mounted r \<longleftrightarrow> sse_controller s = Some i))
     \<and> (sse_active s \<longleftrightarrow> sse_controller s \<noteq> None)
     \<and> (\<forall>i. sse_controller s = Some i \<longrightarrow> sse_runs s i \<noteq> None)"

lemma delays_double: "b \<in> delays \<Longrightarrow> min (b * 2) 60000 \<in> delays"
  by (auto simp: delays_def)

text \<open>The operations on a run keep its owner and mount flags.\<close>

definition tame :: "(sse_run \<Rightarrow> sse_run) \<Rightarrow> bool" where
  "tame f \<longleftrightarrow> (\<forall>r. run_ok r \<and> rn_owner r \<longrightarrow>
     run_ok (f r) \<and> rn_owner (f r) = rn_owner r \<and> rn_mounted (f r) = rn_mounted r)"

lemmas run_defs = run_ok_def scheduleReconnect_def back_off_def connect_def respond_def caught_def
  after_read_def Let_def

lemma tame_ops:
  "tame back_off" "tame caught" "tame (respond status body)" "tame (after_read failed buf)"
  "tame (\<lambda>r. if rn_mounted r then connect r else r\<lparr>rn_phase := Idle\<rparr>)"
  unfolding tame_def run_defs using delays_double by (auto simp: delays_def)

lemma sse_inv_run:
  assumes "sse_inv s" "tame f" "sse_runs s i = Some r" "rn_phase r \<noteq> Idle"
  shows "sse_inv (s\<lparr>sse_runs := (sse_runs s)(i \<mapsto> f r)\<rparr>)"
proof -
  have "run_ok r" "rn_owner r" using assms by (auto simp: sse_inv_def run_ok_def)
  then have "run_ok (f r)" "rn_owner (f r) = rn_owner r" "rn_mounted (f r) = rn_mounted r"
    using assms(2) by (auto simp: tame_def)
  with assms show ?thesis by (auto simp: sse_inv_def)
qed

lemma sse_inv_data: "sse_inv (s\<lparr>sse_data := v\<rparr>) = sse_inv s"
  by (simp add: sse_inv_def)

lemma with_run_inv:
  assumes "sse_inv s" "tame f" "\<And>r. g r \<Longrightarrow> rn_phase r \<noteq> Idle"
  shows "sse_inv (with_run i g f s)"
  using assms by (auto simp: with_run_def sse_inv_run split: option.splits)

lemma sse_receive_inv:
  assumes "sse_inv s"
  shows "sse_inv (sse_receive parse perm i piece s)"
proof (cases "\<exists>r buf. sse_runs s i = Some r \<and> rn_phase r = Reading buf")
  case True
  then obtain r buf where r: "sse_runs s i = Some r" "rn_phase r = Reading buf" by blast
  have "sse_inv (s\<lparr>sse_data := v\<rparr>)" for v using assms by (simp add: sse_inv_data)
  from sse_inv_run[OF this tame_ops(4)] r show ?thesis by (simp add: sse_receive_def Let_def)
next
  case False
  then show ?thesis using assms by (auto simp: sse_receive_def split: option.splits sse_phase.splits)
qed

lemma sse_mount_inv: "sse_inv s \<Longrightarrow> sse_inv (sse_mount i enabled token s)"
  by (auto simp: sse_mount_def sse_inv_def run_ok_def connect_def delays_def)

lemma sse_unmount_inv:
  assumes "sse_inv s"
  shows "sse_inv (sse_unmount i s)"
proof (cases "sse_runs s i")
  case (Some r)
  have inv: "run_ok q" "rn_owner q \<and> rn_mounted q \<longleftrightarrow> sse_controller s = Some j" if "sse_runs s j = Some q" for j q
    using assms that by (auto simp: sse_inv_def)
  let ?r = "r\<lparr>rn_mounted := False, rn_aborted := rn_owner r\<rparr>"
  have ok: "run_ok ?r" using inv(1)[OF Some] by (auto simp: run_ok_def)
  show ?thesis
  proof (cases "sse_controller s = Some i")
    case True
    then have "sse_unmount i s = s\<lparr>sse_runs := (sse_runs s)(i \<mapsto> ?r), sse_controller := None, sse_active := False\<rparr>"
      using Some inv(2)[OF Some] by (simp add: sse_unmount_def Let_def)
    moreover have "\<not> (rn_owner q \<and> rn_mounted q)" if "sse_runs s j = Some q" "j \<noteq> i" for j q
      using inv(2)[OF that(1)] that(2) True by simp
    ultimately show ?thesis using ok inv(1) by (auto simp: sse_inv_def)
  next
    case False
    then have "sse_unmount i s = s\<lparr>sse_runs := (sse_runs s)(i \<mapsto> ?r)\<rparr>"
      using Some by (simp add: sse_unmount_def Let_def)
    then show ?thesis using ok inv False assms by (auto simp: sse_inv_def)
  qed
qed (use assms in \<open>simp add: sse_unmount_def\<close>)

lemma is_phase_not_Idle: "is_reading p \<Longrightarrow> p \<noteq> Idle" "is_waiting p \<Longrightarrow> p \<noteq> Idle"
  by auto

lemma sse_update_inv: "sse_inv s \<Longrightarrow> sse_inv (sse_update parse perm s e)"
  by (cases e) (auto simp: sse_mount_inv sse_unmount_inv sse_receive_inv sse_inv_data is_phase_not_Idle
      intro!: with_run_inv tame_ops)

lemma sse_exec_inv: "sse_inv s \<Longrightarrow> sse_inv (sse_exec parse perm s es)"
  by (induction es arbitrary: s) (simp_all add: sse_exec_def sse_update_inv)

lemma sse_init_inv: "sse_inv (sse_init v)"
  by (simp add: sse_inv_def sse_init_def)

text \<open>C5. However many components mount and unmount the hook and however the network behaves, at most
  one connection to the alert stream is live, and it is the one the module records; it never stops
  while its component is mounted (it is connecting, reading or waiting to reconnect), and every wait
  is between five seconds and a minute.\<close>

theorem sse_single_connection:
  assumes "s = sse_exec parse perm (sse_init v) es" "sse_runs s i = Some r"
  shows "(live r \<longrightarrow> sse_controller s = Some i \<and> sse_active s \<and> (\<forall>j q. sse_runs s j = Some q \<and> live q \<longrightarrow> j = i))
    \<and> (sse_controller s = Some i \<longrightarrow> live r)
    \<and> (\<forall>d. rn_phase r = Waiting d \<longrightarrow> 5000 \<le> d \<and> d \<le> 60000)"
proof -
  have inv: "sse_inv s" using assms(1) by (simp add: sse_exec_inv sse_init_inv)
  have live: "sse_controller s = Some j" if "sse_runs s j = Some q" "live q" for j q
    using that inv by (auto simp: sse_inv_def live_def run_ok_def)
  have ok: "run_ok r" using inv assms(2) by (auto simp: sse_inv_def)
  have "5000 \<le> d \<and> d \<le> 60000" if "rn_phase r = Waiting d" for d
    using ok that by (auto simp: run_ok_def delays_def)
  moreover have "live r" if "sse_controller s = Some i"
    using ok that inv assms(2) by (auto simp: live_def run_ok_def sse_inv_def)
  moreover have "sse_active s" if "live r"
    using inv live[OF assms(2) that] by (simp add: sse_inv_def)
  moreover have "j = i" if "live r" "sse_runs s j = Some q" "live q" for j q
    using live[OF assms(2)] live[OF that(2,3)] that(1) by simp
  ultimately show ?thesis using live[OF assms(2)] by blast
qed

theorem sse_single_connection_witness:
  "let s = sse_exec (\<lambda>t. None) Denied (sse_init empty_view)
        [Mount 0 True (Some ''t''), Mount 1 True (Some ''t''), Broken 0]
   in \<exists>r. sse_runs s 0 = Some r \<and> rn_phase r = Waiting 5000 \<and> live r \<and> sse_controller s = Some 0
      \<and> (\<forall>j q. sse_runs s j = Some q \<and> live q \<longrightarrow> j = 0)"
proof -
  let ?s = "sse_exec (\<lambda>t. None) Denied (sse_init empty_view)
        [Mount 0 True (Some ''t''), Mount 1 True (Some ''t''), Broken 0]"
  let ?r = "\<lparr>rn_owner = True, rn_mounted = True, rn_aborted = False, rn_backoff = 10000, rn_phase = Waiting 5000\<rparr>"
  have r: "sse_runs ?s 0 = Some ?r"
    by (simp add: sse_exec_def sse_init_def sse_mount_def with_run_def run_defs)
  have "live ?r" by (simp add: live_def)
  with sse_single_connection[OF refl r] r show ?thesis by (auto simp: Let_def)
qed

text \<open>C28. Exponential back-off: after a fresh mount and \<open>n\<close> attempts in a row that fail, each retried when
  its timer fires, the next attempt to fail is retried after 5 seconds times \<open>2 ^ n\<close>, capped at one
  minute, and a connection that is accepted resets the wait to 5 seconds.\<close>

theorem sse_backoff:
  "let s = sse_exec parse perm (sse_mount i True (Some (c # cs)) (sse_init v))
             (concat (replicate n [Broken i, TimerFired i]))
   in map_option rn_phase (sse_runs (sse_update parse perm s (Broken i)) i) = Some (Waiting (min (5000 * 2 ^ n) 60000))
      \<and> map_option rn_phase (sse_runs (sse_exec parse perm s [Responded i 200 True, Broken i]) i) = Some (Waiting 5000)"
proof -
  let ?r = "\<lambda>b. \<lparr>rn_owner = True, rn_mounted = True, rn_aborted = False, rn_backoff = b, rn_phase = Connecting\<rparr>"
  let ?b = "\<lambda>n. min (5000 * 2 ^ n) 60000 :: nat"
  have "sse_runs (sse_exec parse perm (sse_mount i True (Some (c # cs)) (sse_init v))
      (concat (replicate n [Broken i, TimerFired i]))) i = Some (?r (?b n))" for n
  proof (induction n)
    case 0
    then show ?case by (simp add: sse_exec_def sse_mount_def sse_init_def connect_def)
  next
    case (Suc n)
    have b: "min (?b n * 2) 60000 = ?b (Suc n)" by simp
    have "concat (replicate (Suc n) [Broken i, TimerFired i]) =
        concat (replicate n [Broken i, TimerFired i]) @ [Broken i, TimerFired i]"
      by (simp only: replicate_Suc replicate_append_same[symmetric] concat_append) simp
    with Suc b show ?case by (simp add: sse_exec_def with_run_def run_defs)
  qed
  then show ?thesis by (simp add: Let_def sse_exec_def with_run_def run_defs)
qed

end
