(* ===== verification/Pagination.thy ===== *)
theory Pagination
  imports View JsSort
begin

text \<open>
  \<open>frontend/src/components/ui/Pagination.tsx\<close>: the page list with its gaps and the view whose buttons
  raise the page they select. Pages are integers, as the component may be given any number.
\<close>

datatype page_item = PageNo int | Ellipsis

definition num_compare :: "int \<Rightarrow> int \<Rightarrow> int" where
  "num_compare a b = a - b"

definition push_page :: "page_item list \<Rightarrow> int \<Rightarrow> page_item list" where
  "push_page result value =
     (case result of
        [] \<Rightarrow> result
      | _ \<Rightarrow> (case last result of
           PageNo previous \<Rightarrow> if value - previous > 1 then result @ [Ellipsis] else result
         | Ellipsis \<Rightarrow> result)) @ [PageNo value]"

definition buildPages :: "int \<Rightarrow> int \<Rightarrow> page_item list" where
  "buildPages current tot =
     (let values = remdups [1, tot, current - 1, current, current + 1, current - 2, current + 2];
          sorted = js_sort num_compare (filter (\<lambda>value. 1 \<le> value \<and> value \<le> tot) values)
      in foldl push_page [] sorted)"

definition page_button :: "int \<Rightarrow> page_item \<Rightarrow> int node" where
  "page_button page value = (case value of
     Ellipsis \<Rightarrow> label ''...''
   | PageNo p \<Rightarrow> El ''button'' [(''current'', if p = page then ''true'' else ''false'')] [(''onClick'', \<lambda>_. p)]
        [Txt (int_str p)])"

definition pagination_view :: "int \<Rightarrow> int \<Rightarrow> int view" where
  "pagination_view page totalPages =
     (if totalPages \<le> 1 then []
      else [button_if (page \<le> 1) (page - 1) [Txt ''Previous'']]
           @ map (page_button page) (buildPages page totalPages)
           @ [button_if (page \<ge> totalPages) (page + 1) [Txt ''Next'']])"

section \<open>Lemmas\<close>

interpretation pages: comparator num_compare
  by unfold_locales (auto simp: num_compare_def sgn_if)

text \<open>The specification: the pages in order, with an ellipsis exactly where pages are left out.\<close>

fun with_gaps :: "int list \<Rightarrow> page_item list" where
  "with_gaps [] = []"
| "with_gaps [x] = [PageNo x]"
| "with_gaps (x # y # ys) = PageNo x # (if y - x > 1 then [Ellipsis] else []) @ with_gaps (y # ys)"

definition shown_pages :: "int \<Rightarrow> int \<Rightarrow> int set" where
  "shown_pages current tot = ({1, tot} \<union> {current - 2..current + 2}) \<inter> {1..tot}"

lemma with_gaps_ne: "xs \<noteq> [] \<Longrightarrow> with_gaps xs \<noteq> [] \<and> last (with_gaps xs) = PageNo (last xs)"
  by (induction xs rule: with_gaps.induct) auto

lemma with_gaps_snoc: "xs \<noteq> [] \<Longrightarrow> with_gaps (xs @ [y]) = with_gaps xs @ (if y - last xs > 1 then [Ellipsis] else []) @ [PageNo y]"
  by (induction xs rule: with_gaps.induct) auto

lemma foldl_push_page: "foldl push_page [] xs = with_gaps xs"
proof (induction xs rule: rev_induct)
  case (snoc y xs)
  show ?case
  proof (cases "xs = []")
    case True
    then show ?thesis by (simp add: push_page_def)
  next
    case False
    with with_gaps_ne[OF False] have "push_page (with_gaps xs) y =
        with_gaps xs @ (if y - last xs > 1 then [Ellipsis] else []) @ [PageNo y]"
      by (auto simp: push_page_def split: list.splits)
    with False snoc show ?thesis by (simp add: with_gaps_snoc)
  qed
qed simp

lemma sort_pages: "js_sort num_compare xs = sort xs"
proof -
  have "sorted_wrt (\<le>) (js_sort num_compare xs)"
    using pages.sorted_js_sort[of xs] by (rule sorted_wrt_mono_rel[rotated]) (simp add: num_compare_def)
  then show ?thesis by (metis mset_js_sort properties_for_sort)
qed

lemma set_with_gaps: "PageNo p \<in> set (with_gaps xs) \<longleftrightarrow> p \<in> set xs"
  by (induction xs rule: with_gaps.induct) auto

lemma set_page_values: "set (filter (\<lambda>v. 1 \<le> v \<and> v \<le> t) [1, t, c - 1, c, c + 1, c - 2, c + 2]) = shown_pages c t"
proof -
  have "{c - 2..c + 2} = {c - 2, c - 1, c, c + 1, c + 2}" by auto
  then show ?thesis unfolding shown_pages_def by auto
qed

lemma buildPages_gaps: "buildPages c t = with_gaps (sorted_list_of_set (shown_pages c t))"
proof -
  define vs where "vs = [1, t, c - 1, c, c + 1, c - 2, c + 2]"
  have "filter (\<lambda>v. 1 \<le> v \<and> v \<le> t) (remdups vs) = remdups (filter (\<lambda>v. 1 \<le> v \<and> v \<le> t) vs)"
    by (rule remdups_filter[symmetric])
  moreover have "sort (remdups (filter (\<lambda>v. 1 \<le> v \<and> v \<le> t) vs)) =
      sorted_list_of_set (set (filter (\<lambda>v. 1 \<le> v \<and> v \<le> t) vs))"
    by (rule sorted_list_of_set_sort_remdups[symmetric])
  moreover have "set (filter (\<lambda>v. 1 \<le> v \<and> v \<le> t) vs) = shown_pages c t"
    unfolding vs_def by (rule set_page_values)
  ultimately show ?thesis
    unfolding buildPages_def Let_def sort_pages foldl_push_page vs_def[symmetric] by metis
qed

section \<open>Properties\<close>

text \<open>C23. The page bar is exact: it lists, in increasing order and once each, the first page, the last
  page and the pages at most two away from the current one that exist, with an ellipsis exactly
  between two listed pages that are not consecutive.\<close>

theorem buildPages_exact: "buildPages c t = with_gaps (sorted_list_of_set (shown_pages c t))"
  by (rule buildPages_gaps)

text \<open>From a valid page the bar offers only valid pages, always the first and the last page, and the
  neighbours that exist.\<close>

theorem pagination_offers:
  assumes "1 \<le> page" "page \<le> tot" "1 < tot"
  shows "(\<forall>p. offers (pagination_view page tot) p \<longrightarrow> 1 \<le> p \<and> p \<le> tot)
    \<and> offers (pagination_view page tot) 1 \<and> offers (pagination_view page tot) tot
    \<and> (page < tot \<longrightarrow> offers (pagination_view page tot) (page + 1))
    \<and> (1 < page \<longrightarrow> offers (pagination_view page tot) (page - 1))"
proof -
  have fin: "finite (shown_pages page tot)" by (simp add: shown_pages_def)
  have buttons: "offers (map (page_button page) (buildPages page tot)) p \<longleftrightarrow> p \<in> shown_pages page tot" for p
  proof -
    have "offers [page_button page x] p \<longleftrightarrow> x = PageNo p" for x
      by (cases x) (auto simp: page_button_def)
    then show ?thesis by (simp add: buildPages_gaps set_with_gaps fin)
  qed
  have "1 \<in> shown_pages page tot" "tot \<in> shown_pages page tot"
    "\<And>p. p \<in> shown_pages page tot \<Longrightarrow> 1 \<le> p \<and> p \<le> tot"
    using assms by (auto simp: shown_pages_def)
  then show ?thesis using assms by (auto simp: pagination_view_def buttons simp del: offers_map)
qed

theorem pagination_offers_witness:
  "offers (pagination_view 5 9) 9 \<and> offers (pagination_view 5 9) 1 \<and> \<not> offers (pagination_view 5 9) 10"
proof -
  have "\<not> (1 \<le> (10::int) \<and> (10::int) \<le> 9)" by simp
  moreover note pagination_offers[of 5 9]
  ultimately show ?thesis by auto
qed

end
