(* ===== verification/Routes.thy ===== *)
theory Routes
  imports AuthStore
begin

text \<open>
  The routes of \<open>frontend/src/App.tsx\<close>. The matching of a location against the route table is
  react-router's documented one, as far as the table uses it: segments compare without regard to
  case, \<open>:id\<close> matches one segment, \<open>*\<close> matches what nothing else does.
\<close>

datatype screen = LoginPage | StatusPage | OnboardingPage | HomePage | DashboardPage | CustomDashboardPage
  | DeviceDetailPage string | DeviceComparePage | NetworkMapPage | AlertsPage | ReportsPage | InventoryPage
  | CommandLibraryPage | SoftwareUpdatesPage | ScheduledPage | UsersPage | CompliancePage | AuditPage
  | DownloadsPage | OrganizationsPage | SettingsPage | LoadingDashboard

datatype element =
    Bare screen \<comment> \<open>\<open>withBoundary(<Page />)\<close>\<close>
  | WithWhatsNew screen \<comment> \<open>protected, without the layout\<close>
  | InLayout screen \<comment> \<open>protected, in the outlet of \<open>Layout\<close>\<close>
  | NavigateTo string

definition segments :: "string \<Rightarrow> string list" where
  "segments path = filter (\<lambda>s. s \<noteq> []) (split_str ''/'' path)"

definition layout_routes :: "(string \<times> screen) list" where
  "layout_routes =
     [(''my-dashboard'', CustomDashboardPage), (''compare'', DeviceComparePage), (''network-map'', NetworkMapPage),
      (''alerts'', AlertsPage), (''reports'', ReportsPage), (''inventory'', InventoryPage),
      (''command-library'', CommandLibraryPage), (''software-updates'', SoftwareUpdatesPage),
      (''scheduled'', ScheduledPage), (''users'', UsersPage), (''compliance'', CompliancePage),
      (''audit'', AuditPage), (''downloads'', DownloadsPage), (''organizations'', OrganizationsPage),
      (''settings'', SettingsPage)]"

text \<open>The route of a location: the page it names and whether it is protected, or \<open>None\<close> for \<open>*\<close>.\<close>

datatype route = Public screen | Protected screen | ProtectedLayout screen

definition match_route :: "string \<Rightarrow> route option" where
  "match_route path = (case segments path of
     [] \<Rightarrow> Some (ProtectedLayout HomePage)
   | [s] \<Rightarrow>
       (let l = toLowerCase s in
        if l = ''login'' then Some (Public LoginPage)
        else if l = ''status'' then Some (Public StatusPage)
        else if l = ''onboarding'' then Some (Protected OnboardingPage)
        else map_option ProtectedLayout (map_of layout_routes l))
   | [s, i] \<Rightarrow> if toLowerCase s = ''devices'' then Some (ProtectedLayout (DeviceDetailPage i)) else None
   | _ \<Rightarrow> None)"

definition ProtectedRoute :: "auth_state \<Rightarrow> element \<Rightarrow> element" where
  "ProtectedRoute auth children = (if isAuthenticated auth then children else NavigateTo ''/login'')"

text \<open>\<open>devices\<close> is the data of the query of the home route, \<open>None\<close> while there is none.\<close>

definition HomeRoute :: "auth_state \<Rightarrow> bool \<Rightarrow> 'd list option \<Rightarrow> element" where
  "HomeRoute auth isLoading devices =
     (if role auth = Some ''admin'' then
        if isLoading then InLayout LoadingDashboard
        else if (case devices of None \<Rightarrow> 0 | Some ds \<Rightarrow> length ds) = 0 then NavigateTo ''/onboarding''
        else InLayout DashboardPage
      else InLayout DashboardPage)"

text \<open>
  What the route table renders at a location. The page it names can redirect further: the onboarding page does, and
  \<open>settle_path\<close> of the theory of that page follows its redirects too; \<open>resolve_path\<close> follows those of the table alone.
\<close>

definition app_element :: "auth_state \<Rightarrow> bool \<Rightarrow> 'd list option \<Rightarrow> string \<Rightarrow> element" where
  "app_element auth isLoading devices path = (case match_route path of
     None \<Rightarrow> NavigateTo ''/''
   | Some (Public p) \<Rightarrow> Bare p
   | Some (Protected p) \<Rightarrow> ProtectedRoute auth (WithWhatsNew p)
   | Some (ProtectedLayout p) \<Rightarrow>
       ProtectedRoute auth (if p = HomePage then HomeRoute auth isLoading devices else InLayout p))"

text \<open>Following the redirects of the table, at most \<open>n\<close> of them.\<close>

fun resolve_path :: "nat \<Rightarrow> auth_state \<Rightarrow> bool \<Rightarrow> 'd list option \<Rightarrow> string \<Rightarrow> element" where
  "resolve_path n auth isLoading devices path =
     (case app_element auth isLoading devices path of
        NavigateTo p \<Rightarrow> (case n of 0 \<Rightarrow> NavigateTo p | Suc m \<Rightarrow> resolve_path m auth isLoading devices p)
      | e \<Rightarrow> e)"

declare resolve_path.simps [simp del]

section \<open>Lemmas\<close>

lemma segments_known:
  "segments ''/login'' = [''login'']" "segments ''/'' = []" "segments ''/onboarding'' = [''onboarding'']"
  by code_simp+

lemma match_known:
  "match_route ''/login'' = Some (Public LoginPage)" "match_route ''/'' = Some (ProtectedLayout HomePage)"
  "match_route ''/onboarding'' = Some (Protected OnboardingPage)"
  by code_simp+

lemma match_public: "match_route path = Some (Public p) \<Longrightarrow> p = LoginPage \<or> p = StatusPage"
  by (auto simp: match_route_def Let_def split: list.splits if_splits)

lemma match_protected: "match_route path = Some (Protected p) \<Longrightarrow> p = OnboardingPage"
  by (auto simp: match_route_def Let_def split: list.splits if_splits)

definition is_redirect :: "element \<Rightarrow> bool" where
  "is_redirect e \<longleftrightarrow> (\<exists>p. e = NavigateTo p)"

lemma resolve_login: "resolve_path n auth l ds ''/login'' = Bare LoginPage"
  by (simp add: resolve_path.simps app_element_def match_known)

lemma resolve_onboarding:
  "isAuthenticated auth \<Longrightarrow> resolve_path n auth l ds ''/onboarding'' = WithWhatsNew OnboardingPage"
  by (simp add: resolve_path.simps app_element_def match_known ProtectedRoute_def)

lemma resolve_home:
  "resolve_path (Suc n) auth l ds ''/'' =
     (if isAuthenticated auth then
        (case HomeRoute auth l ds of NavigateTo p \<Rightarrow> WithWhatsNew OnboardingPage | e \<Rightarrow> e)
      else Bare LoginPage)"
  by (auto simp: resolve_path.simps[of "Suc n"] app_element_def match_known ProtectedRoute_def HomeRoute_def
      resolve_login resolve_onboarding)

section \<open>Properties\<close>

text \<open>C12. Nobody sees a protected page without signing in: for every location, a visitor who is not
  authenticated ends, after at most two redirects, on the login page or the public status page.\<close>

theorem signed_out_sees_public:
  "\<not> isAuthenticated auth \<Longrightarrow> resolve_path (Suc (Suc n)) auth isLoading devices path \<in> {Bare LoginPage, Bare StatusPage}"
  using match_public[of path]
  by (auto simp: resolve_path.simps[of "Suc (Suc n)"] app_element_def ProtectedRoute_def resolve_login resolve_home
      split: option.splits route.splits)

theorem signed_out_sees_public_witness:
  "resolve_path 2 (auth_init Map.empty) False (None :: unit list option) ''/settings'' \<in> {Bare LoginPage, Bare StatusPage}"
  using signed_out_sees_public[of "auth_init Map.empty" 0 False None "''/settings''"]
  by (simp add: auth_init_def storage_defs numeral_2_eq_2)

end
