(* ===== verification/Shortcuts.thy ===== *)
theory Shortcuts
  imports Stores
begin

text \<open>
  \<open>frontend/src/hooks/useKeyboardShortcuts.ts\<close>: the global keyboard shortcuts as a state machine over
  key events and the timer of the \<open>g\<close> prefix. The list \<open>ks_navigated\<close> records the calls of
  \<open>navigate\<close>; \<open>ks_refreshes\<close> counts \<open>invalidateQueries\<close>; \<open>ks_closed\<close> counts the
  \<open>dtsys:close-modals\<close> events. Timer ids are the positive integers the browser hands out.
\<close>

datatype key_target = NoElement | Element string bool \<comment> \<open>tag name, \<open>isContentEditable\<close>\<close>

record key_event =
  ke_key :: string
  ke_meta :: bool
  ke_ctrl :: bool
  ke_alt :: bool
  ke_shift :: bool
  ke_target :: key_target

record shortcuts =
  ks_prefix :: bool \<comment> \<open>\<open>pendingPrefix === 'g'\<close>\<close>
  ks_timer :: "nat option"
  ks_next_timer :: nat
  ks_help :: bool
  ks_search :: search_store
  ks_navigated :: "string list"
  ks_refreshes :: nat
  ks_closed :: nat

definition shortcuts_init :: "search_store \<Rightarrow> shortcuts" where
  "shortcuts_init s = \<lparr>ks_prefix = False, ks_timer = None, ks_next_timer = 1, ks_help = False, ks_search = s,
     ks_navigated = [], ks_refreshes = 0, ks_closed = 0\<rparr>"

definition isTypingTarget :: "key_target \<Rightarrow> bool" where
  "isTypingTarget t = (case t of
     NoElement \<Rightarrow> False
   | Element tag editable \<Rightarrow>
       editable \<or> toLowerCase tag = ''input'' \<or> toLowerCase tag = ''textarea'' \<or> toLowerCase tag = ''select'')"

definition clearPrefix :: "shortcuts \<Rightarrow> shortcuts" where
  "clearPrefix s = s\<lparr>ks_prefix := False, ks_timer := None\<rparr>"

definition closeModals :: "shortcuts \<Rightarrow> shortcuts" where
  "closeModals s = s\<lparr>ks_search := closeSearch (ks_search s), ks_help := False, ks_closed := ks_closed s + 1\<rparr>"

definition go :: "string \<Rightarrow> shortcuts \<Rightarrow> shortcuts" where
  "go path s = s\<lparr>ks_navigated := ks_navigated s @ [path]\<rparr>"

definition no_modifier :: "key_event \<Rightarrow> bool" where
  "no_modifier e \<longleftrightarrow> \<not> ke_meta e \<and> \<not> ke_ctrl e \<and> \<not> ke_alt e"

definition onKeyDown :: "key_event \<Rightarrow> shortcuts \<Rightarrow> shortcuts" where
  "onKeyDown e s =
     (let key = toLowerCase (ke_key e) in
      if (ke_meta e \<or> ke_ctrl e) \<and> key = ''k'' then s\<lparr>ks_search := openSearch (ks_search s)\<rparr>
      else if ke_key e = ''Escape'' then clearPrefix (closeModals s)
      else if isTypingTarget (ke_target e) then s
      else if ke_key e = ''?'' \<or> (ke_key e = ''/'' \<and> ke_shift e) then clearPrefix (s\<lparr>ks_help := True\<rparr>)
      else if key = ''r'' \<and> \<not> ke_meta e \<and> \<not> ke_ctrl e \<and> \<not> ke_alt e
        then clearPrefix (s\<lparr>ks_refreshes := ks_refreshes s + 1\<rparr>)
      else if ks_prefix s then
        clearPrefix (if key = ''d'' then go ''/'' s
          else if key = ''a'' then go ''/alerts'' s
          else if key = ''r'' then go ''/reports'' s
          else if key = ''s'' then go ''/settings'' s
          else s)
      else if key = ''g'' \<and> \<not> ke_meta e \<and> \<not> ke_ctrl e \<and> \<not> ke_alt e
        then s\<lparr>ks_prefix := True, ks_timer := Some (ks_next_timer s), ks_next_timer := ks_next_timer s + 1\<rparr>
      else s)"

text \<open>A timer that was cleared does not fire; the one that is set runs \<open>clearPrefix\<close>.\<close>

definition prefix_timeout :: "nat \<Rightarrow> shortcuts \<Rightarrow> shortcuts" where
  "prefix_timeout t s = (if ks_timer s = Some t then clearPrefix s else s)"

definition closeHelp :: "shortcuts \<Rightarrow> shortcuts" where
  "closeHelp s = s\<lparr>ks_help := False\<rparr>"

datatype shortcut_event = KeyDown key_event | TimerElapsed nat | CloseHelp

fun shortcut_step :: "shortcuts \<Rightarrow> shortcut_event \<Rightarrow> shortcuts" where
  "shortcut_step s (KeyDown e) = onKeyDown e s"
| "shortcut_step s (TimerElapsed t) = prefix_timeout t s"
| "shortcut_step s CloseHelp = closeHelp s"

definition shortcut_run :: "shortcuts \<Rightarrow> shortcut_event list \<Rightarrow> shortcuts" where
  "shortcut_run s es = foldl shortcut_step s es"

section \<open>Lemmas\<close>

definition prefix_timed :: "shortcuts \<Rightarrow> bool" where
  "prefix_timed s \<longleftrightarrow> (ks_prefix s \<longleftrightarrow> ks_timer s \<noteq> None) \<and> (\<forall>t. ks_timer s = Some t \<longrightarrow> t < ks_next_timer s)"

lemmas shortcut_defs = clearPrefix_def closeModals_def go_def prefix_timeout_def closeHelp_def

lemma onKeyDown_timed: "prefix_timed s \<Longrightarrow> prefix_timed (onKeyDown e s)"
  by (auto simp: prefix_timed_def onKeyDown_def shortcut_defs Let_def)

lemma shortcut_step_timed: "prefix_timed s \<Longrightarrow> prefix_timed (shortcut_step s e)"
  by (cases e) (simp add: onKeyDown_timed, auto simp: prefix_timed_def shortcut_defs)

lemma shortcut_run_timed: "prefix_timed s \<Longrightarrow> prefix_timed (shortcut_run s es)"
  by (induction es arbitrary: s) (simp_all add: shortcut_run_def shortcut_step_timed)

definition plain_key :: "char \<Rightarrow> key_event" where
  "plain_key c = \<lparr>ke_key = [c], ke_meta = False, ke_ctrl = False, ke_alt = False, ke_shift = False, ke_target = NoElement\<rparr>"

section \<open>Properties\<close>

text \<open>C32. The \<open>g\<close> prefix cannot get stuck: in every run of key presses, timeouts and help closings, a
  pending prefix has its timer running, and when that timer fires the prefix is gone; a key press
  after it is then an ordinary one.\<close>

theorem prefix_never_stuck:
  assumes "s = shortcut_run (shortcuts_init v) es"
  shows "(ks_prefix s \<longleftrightarrow> (\<exists>t. ks_timer s = Some t))
    \<and> (\<forall>t. ks_timer s = Some t \<longrightarrow> \<not> ks_prefix (shortcut_step s (TimerElapsed t)))"
proof -
  have "prefix_timed s"
    unfolding assms by (rule shortcut_run_timed) (simp add: prefix_timed_def shortcuts_init_def)
  then show ?thesis by (auto simp: prefix_timed_def prefix_timeout_def clearPrefix_def)
qed

theorem prefix_never_stuck_witness:
  "let s = shortcut_run (shortcuts_init search_init) [KeyDown (plain_key (CHR ''g''))]
   in ks_prefix s \<and> \<not> ks_prefix (shortcut_step s (TimerElapsed 1))"
proof -
  let ?s = "shortcut_run (shortcuts_init search_init) [KeyDown (plain_key (CHR ''g''))]"
  have "ks_timer ?s = Some 1" by code_simp
  with prefix_never_stuck[OF refl, of search_init "[KeyDown (plain_key (CHR ''g''))]"]
  show ?thesis by (auto simp: Let_def)
qed

text \<open>Typing is safe: a key pressed in an input, a text area, a select or an editable element never
  navigates, refreshes or opens the help, except that Escape and Ctrl/Cmd-K work everywhere.\<close>

theorem typing_is_safe:
  "isTypingTarget (ke_target e) \<Longrightarrow>
     ks_navigated (onKeyDown e s) = ks_navigated s \<and> ks_refreshes (onKeyDown e s) = ks_refreshes s
     \<and> (ks_help (onKeyDown e s) \<longrightarrow> ks_help s)
     \<and> (ke_key e \<noteq> ''Escape'' \<and> \<not> ((ke_meta e \<or> ke_ctrl e) \<and> toLowerCase (ke_key e) = ''k'') \<longrightarrow> onKeyDown e s = s)"
  by (auto simp: onKeyDown_def shortcut_defs Let_def)

theorem typing_is_safe_witness:
  "onKeyDown (plain_key (CHR ''r'')\<lparr>ke_target := Element ''TEXTAREA'' False\<rparr>) (shortcuts_init search_init)
     = shortcuts_init search_init"
proof -
  have "isTypingTarget (Element ''TEXTAREA'' False)" by code_simp
  moreover have "toLowerCase [CHR ''r''] = ''r''" by code_simp
  ultimately show ?thesis
    using typing_is_safe[of "plain_key (CHR ''r'')\<lparr>ke_target := Element ''TEXTAREA'' False\<rparr>" "shortcuts_init search_init"]
    by (simp add: plain_key_def)
qed

text \<open>The shortcut to the reports page does not exist: an unmodified \<open>r\<close> refreshes the data and never
  navigates, with or without the pending prefix, although the help says that G then R goes to the
  reports; the other three sequences do navigate.\<close>

theorem g_r_refreshes:
  "ke_key e \<in> {''r'', ''R''} \<Longrightarrow> no_modifier e \<Longrightarrow> \<not> isTypingTarget (ke_target e) \<Longrightarrow>
     ks_navigated (onKeyDown e s) = ks_navigated s \<and> ks_refreshes (onKeyDown e s) = ks_refreshes s + 1
     \<and> \<not> ks_prefix (onKeyDown e s)
     \<and> (ks_prefix s \<longrightarrow>
          ks_navigated (onKeyDown (plain_key (CHR ''d'')) s) = ks_navigated s @ [''/'']
          \<and> ks_navigated (onKeyDown (plain_key (CHR ''a'')) s) = ks_navigated s @ [''/alerts'']
          \<and> ks_navigated (onKeyDown (plain_key (CHR ''s'')) s) = ks_navigated s @ [''/settings''])"
proof -
  assume h: "ke_key e \<in> {''r'', ''R''}" "no_modifier e" "\<not> isTypingTarget (ke_target e)"
  have low: "toLowerCase ''r'' = ''r''" "toLowerCase ''R'' = ''r''" "toLowerCase ''d'' = ''d''"
    "toLowerCase ''a'' = ''a''" "toLowerCase ''s'' = ''s''" by code_simp+
  have "toLowerCase (ke_key e) = ''r''" using h(1) low by auto
  then show ?thesis
    using h by (auto simp: onKeyDown_def no_modifier_def plain_key_def isTypingTarget_def low shortcut_defs Let_def)
qed

theorem g_r_refreshes_witness:
  "let s = shortcut_run (shortcuts_init search_init) [KeyDown (plain_key (CHR ''g''))]
   in ks_navigated (onKeyDown (plain_key (CHR ''r'')) s) = [] \<and> ks_refreshes (onKeyDown (plain_key (CHR ''r'')) s) = 1"
proof -
  let ?s = "shortcut_run (shortcuts_init search_init) [KeyDown (plain_key (CHR ''g''))]"
  have "ks_navigated ?s = []" "ks_refreshes ?s = 0" by code_simp+
  with g_r_refreshes[of "plain_key (CHR ''r'')" ?s] show ?thesis
    by (simp add: Let_def plain_key_def no_modifier_def isTypingTarget_def)
qed

end
