(* ===== verification/Queries.thy ===== *)
theory Queries
  imports Api
begin

text \<open>
  The query hooks \<open>frontend/src/hooks/useAlerts.ts\<close>, \<open>useDevices.ts\<close> and \<open>useMetrics.ts\<close>. react-query is
  a library; what the hooks hand to it is the model: a query is its key, its request, its refetch
  interval in milliseconds and whether it is enabled, a mutation its request and the key prefixes it
  invalidates on success. \<open>invalidates\<close> is the documented partial matching of keys by prefix.
\<close>

record query =
  q_key :: "json list"
  q_request :: request
  q_interval :: nat
  q_enabled :: bool

record mutation =
  mu_request :: request
  mu_invalidates :: "json list list"

definition invalidates :: "json list \<Rightarrow> json list \<Rightarrow> bool" where
  "invalidates pattern key \<longleftrightarrow> take (length pattern) key = pattern"

definition refetched :: "mutation \<Rightarrow> query \<Rightarrow> bool" where
  "refetched m q \<longleftrightarrow> list_ex (\<lambda>pattern. invalidates pattern (q_key q)) (mu_invalidates m)"

section \<open>The hooks\<close>

definition alert_params :: "string option \<Rightarrow> bool option \<Rightarrow> json" where
  "alert_params device_id resolved = JObj (opt_param ''device_id'' JStr device_id @ opt_param ''resolved'' JBool resolved)"

definition useAlerts :: "string option \<Rightarrow> bool option \<Rightarrow> query" where
  "useAlerts device_id resolved =
     \<lparr>q_key = [JStr ''alerts'', alert_params device_id resolved],
      q_request = alerts_list device_id resolved None None None, q_interval = 30000, q_enabled = True\<rparr>"

definition useResolveAlert :: "string \<Rightarrow> mutation" where
  "useResolveAlert i = \<lparr>mu_request = alerts_resolve i, mu_invalidates = [[JStr ''alerts'']]\<rparr>"

definition useDevices :: "string option \<Rightarrow> query" where
  "useDevices tag =
     \<lparr>q_key = [JStr ''devices'', JStr (nullish tag ''all'')], q_request = devices_list tag None,
      q_interval = 30000, q_enabled = True\<rparr>"

definition useDevice :: "string \<Rightarrow> query" where
  "useDevice i = \<lparr>q_key = [JStr ''device'', JStr i], q_request = devices_get i, q_interval = 15000, q_enabled = True\<rparr>"

definition useUpdateDevice :: "string \<Rightarrow> (string \<times> json) list \<Rightarrow> mutation" where
  "useUpdateDevice i data =
     \<lparr>mu_request = devices_update i data,
      mu_invalidates = [[JStr ''device'', JStr i], [JStr ''devices''], [JStr ''inventory''], [JStr ''tags'']]\<rparr>"

definition useMetrics :: "string \<Rightarrow> nat \<Rightarrow> query" where
  "useMetrics deviceId hours =
     \<lparr>q_key = [JStr ''metrics'', JStr deviceId, JInt (int hours)], q_request = metrics_list deviceId (Some hours),
      q_interval = 60000, q_enabled = (deviceId \<noteq> [])\<rparr>"

definition useLatestMetric :: "string \<Rightarrow> query" where
  "useLatestMetric deviceId =
     \<lparr>q_key = [JStr ''metrics'', JStr deviceId, JStr ''latest''], q_request = metrics_latest deviceId,
      q_interval = 30000, q_enabled = (deviceId \<noteq> [])\<rparr>"

section \<open>Properties\<close>

text \<open>Updating a device refreshes what shows it and nothing else of the devices: its own query and every
  device list, whatever the tag, are refetched, the query of another device is not; resolving an
  alert refreshes every alert list.\<close>

theorem update_refetches:
  "refetched (useUpdateDevice i data) (useDevice i) \<and> refetched (useUpdateDevice i data) (useDevices tag)
   \<and> (refetched (useUpdateDevice i data) (useDevice j) \<longleftrightarrow> i = j)
   \<and> refetched (useResolveAlert a) (useAlerts dev resolved)"
  by (auto simp: refetched_def invalidates_def useUpdateDevice_def useDevice_def useDevices_def
      useResolveAlert_def useAlerts_def)

text \<open>The key of the device list is ambiguous: the list of a tag named \<open>all\<close> shares its cache entry with
  the list of all devices, although they are different requests; any two other tags are kept apart.\<close>

theorem devices_key_collision:
  "q_key (useDevices (Some ''all'')) = q_key (useDevices None)
   \<and> q_request (useDevices (Some ''all'')) \<noteq> q_request (useDevices None)
   \<and> (q_key (useDevices (Some t)) = q_key (useDevices (Some u)) \<longleftrightarrow> t = u)
   \<and> (q_key (useDevices (Some t)) = q_key (useDevices None) \<longleftrightarrow> t = ''all'')"
  by (auto simp: useDevices_def devices_list_def mk_request_def)

end
