(* ===== verification/Url.thy ===== *)
theory Url
  imports Prelude
begin

text \<open>
  \<open>encodeURIComponent\<close> and \<open>URLSearchParams.get\<close>, which the dashboard uses to pass a search text from one
  page to another. Characters are Latin-1, so their UTF-8 encoding has one or two bytes.
\<close>

definition hex_digit :: "nat \<Rightarrow> char" where
  "hex_digit n = char_of (if n < 10 then 48 + n else 55 + n)"

definition percent :: "nat \<Rightarrow> string" where
  "percent b = [CHR ''%'', hex_digit (b div 16), hex_digit (b mod 16)]"

definition utf8 :: "char \<Rightarrow> nat list" where
  "utf8 c = (let n = of_char c in if n < 128 then [n] else [192 + n div 64, 128 + n mod 64])"

definition unreserved :: "char \<Rightarrow> bool" where
  "unreserved c =
     (let n = (of_char c :: nat) in
      (48 \<le> n \<and> n \<le> 57) \<or> (65 \<le> n \<and> n \<le> 90) \<or> (97 \<le> n \<and> n \<le> 122)
      \<or> n \<in> {45, 95, 46, 33, 126, 42, 39, 40, 41})"

definition encodeURIComponent :: "string \<Rightarrow> string" where
  "encodeURIComponent s = concat (map (\<lambda>c. if unreserved c then [c] else concat (map percent (utf8 c))) s)"

text \<open>\<open>URLSearchParams.toString\<close>: the form encoding, with its own set of plain characters.\<close>

definition form_plain :: "char \<Rightarrow> bool" where
  "form_plain c =
     (let n = (of_char c :: nat) in
      (48 \<le> n \<and> n \<le> 57) \<or> (65 \<le> n \<and> n \<le> 90) \<or> (97 \<le> n \<and> n \<le> 122) \<or> n \<in> {42, 45, 46, 95})"

definition form_encode :: "string \<Rightarrow> string" where
  "form_encode s = concat (map (\<lambda>c. if form_plain c then [c] else if c = CHR '' '' then ''+'' else concat (map percent (utf8 c))) s)"

definition search_string :: "(string \<times> string) list \<Rightarrow> string" where
  "search_string ps = join ''&'' (map (\<lambda>(k, v). form_encode k @ ''='' @ form_encode v) ps)"

definition from_hex :: "char \<Rightarrow> nat option" where
  "from_hex c =
     (let n = (of_char c :: nat) in
      if 48 \<le> n \<and> n \<le> 57 then Some (n - 48)
      else if 65 \<le> n \<and> n \<le> 70 then Some (n - 55)
      else if 97 \<le> n \<and> n \<le> 102 then Some (n - 87) else None)"

fun form_bytes :: "string \<Rightarrow> nat list" where
  "form_bytes (a # h # l # s) =
     (if a = CHR ''%'' then
        (case (from_hex h, from_hex l) of
           (Some x, Some y) \<Rightarrow> (16 * x + y) # form_bytes s
         | _ \<Rightarrow> utf8 a @ form_bytes (h # l # s))
      else if a = CHR ''+'' then 32 # form_bytes (h # l # s) else utf8 a @ form_bytes (h # l # s))"
| "form_bytes (a # s) = (if a = CHR ''+'' then [32] else utf8 a) @ form_bytes s"
| "form_bytes [] = []"

text \<open>Ill-formed sequences decode to a replacement, here a question mark.\<close>

fun utf8_decode :: "nat list \<Rightarrow> string" where
  "utf8_decode [] = []"
| "utf8_decode (b # bs) =
     (if b < 128 then char_of b # utf8_decode bs
      else case bs of
        c # cs \<Rightarrow> if (b = 194 \<or> b = 195) \<and> 128 \<le> c \<and> c < 192 then char_of ((b - 192) * 64 + (c - 128)) # utf8_decode cs
                 else CHR ''?'' # utf8_decode bs
      | [] \<Rightarrow> [CHR ''?''])"

definition form_decode :: "string \<Rightarrow> string" where
  "form_decode s = utf8_decode (form_bytes s)"

definition param_pair :: "string \<Rightarrow> string \<times> string" where
  "param_pair p = (form_decode (takeWhile (\<lambda>c. c \<noteq> CHR ''='') p), form_decode (drop 1 (dropWhile (\<lambda>c. c \<noteq> CHR ''='') p)))"

definition search_get :: "string \<Rightarrow> string \<Rightarrow> string option" where
  "search_get search k =
     (let body = (if startsWith search ''?'' then drop 1 search else search)
      in map_of (map param_pair (filter (\<lambda>p. p \<noteq> []) (split_str ''&'' body))) k)"

section \<open>Lemmas\<close>

lemma from_hex_digit: "n < 16 \<Longrightarrow> from_hex (hex_digit n) = Some n"
  by (auto simp: from_hex_def hex_digit_def Let_def)

lemma of_char_less: "(of_char c :: nat) < 256"
  by simp

lemma utf8_bytes: "b \<in> set (utf8 c) \<Longrightarrow> b < 256"
proof -
  have "(of_char c :: nat) div 64 < 4" using of_char_less[of c] by (simp add: less_mult_imp_div_less)
  moreover have "(of_char c :: nat) mod 64 < 64" by simp
  ultimately show "b \<in> set (utf8 c) \<Longrightarrow> b < 256"
    by (auto simp: utf8_def Let_def split: if_splits)
qed

lemma form_bytes_percent: "b < 256 \<Longrightarrow> form_bytes (percent b @ s) = b # form_bytes s"
  by (simp add: percent_def from_hex_digit)

lemma form_bytes_percents: "\<forall>b \<in> set bs. b < 256 \<Longrightarrow> form_bytes (concat (map percent bs) @ s) = bs @ form_bytes s"
  by (induction bs) (simp_all add: form_bytes_percent)

lemma unreserved_plain: "unreserved c \<Longrightarrow> c \<noteq> CHR ''%'' \<and> c \<noteq> CHR ''+'' \<and> c \<noteq> CHR ''&'' \<and> c \<noteq> CHR ''='' \<and> c \<noteq> CHR ''#''"
  by (auto simp: unreserved_def Let_def)

lemma form_bytes_plain: "c \<noteq> CHR ''%'' \<Longrightarrow> c \<noteq> CHR ''+'' \<Longrightarrow> form_bytes (c # s) = utf8 c @ form_bytes s"
  by (cases "c # s" rule: form_bytes.cases) auto

lemma encode_Cons:
  "encodeURIComponent (c # s) = (if unreserved c then [c] else concat (map percent (utf8 c))) @ encodeURIComponent s"
  by (simp add: encodeURIComponent_def)

lemma form_bytes_encode: "form_bytes (encodeURIComponent s) = concat (map utf8 s)"
proof (induction s)
  case (Cons c s)
  then show ?case
    using unreserved_plain[of c] utf8_bytes[of _ c]
    by (simp add: encode_Cons form_bytes_plain form_bytes_percents)
qed (simp add: encodeURIComponent_def)

lemma utf8_decode_char: "utf8_decode (utf8 c @ bs) = c # utf8_decode bs"
proof (cases "(of_char c :: nat) < 128")
  case True
  then show ?thesis by (simp add: utf8_def)
next
  case False
  let ?n = "of_char c :: nat"
  have n: "128 \<le> ?n" "?n < 256" using False of_char_less[of c] by auto
  then have "?n div 64 = 2 \<or> ?n div 64 = 3" by linarith
  then have "192 + ?n div 64 = 194 \<or> 192 + ?n div 64 = 195" by auto
  moreover have "?n div 64 * 64 + ?n mod 64 = ?n" by simp
  ultimately show ?thesis using False by (auto simp: utf8_def Let_def)
qed

lemma utf8_decode_encode: "utf8_decode (concat (map utf8 s)) = s"
  by (induction s) (simp_all add: utf8_decode_char)

lemma form_decode_encode [simp]: "form_decode (encodeURIComponent s) = s"
  by (simp add: form_decode_def form_bytes_encode utf8_decode_encode)

lemma hex_digit_plain: "n < 16 \<Longrightarrow> hex_digit n \<notin> {CHR ''&'', CHR ''#''}"
  using from_hex_digit[of n] by (auto simp: from_hex_def)

lemma percent_plain: "b < 256 \<Longrightarrow> x \<in> {CHR ''&'', CHR ''#''} \<Longrightarrow> x \<notin> set (percent b)"
proof -
  assume "b < 256" "x \<in> {CHR ''&'', CHR ''#''}"
  moreover from \<open>b < 256\<close> have "b div 16 < 16" by (simp add: less_mult_imp_div_less)
  ultimately show ?thesis using hex_digit_plain[of "b div 16"] hex_digit_plain[of "b mod 16"] by (auto simp: percent_def)
qed

lemma separators_not_in_encode: "x \<in> {CHR ''&'', CHR ''#''} \<Longrightarrow> x \<notin> set (encodeURIComponent s)"
proof (induction s)
  case (Cons c s)
  have "x \<notin> set (concat (map percent (utf8 c)))"
    using utf8_bytes[of _ c] percent_plain[OF _ Cons.prems] by auto
  with Cons unreserved_plain[of c] show ?case by (auto simp: encode_Cons)
qed (simp add: encodeURIComponent_def)

text \<open>A parameter that was written with \<open>encodeURIComponent\<close> is read back unchanged.\<close>

lemma takeWhile_until: "x \<notin> set xs \<Longrightarrow> takeWhile (\<lambda>c. c \<noteq> x) (xs @ x # ys) = xs"
  by (induction xs) auto

lemma dropWhile_until: "x \<notin> set xs \<Longrightarrow> dropWhile (\<lambda>c. c \<noteq> x) (xs @ x # ys) = x # ys"
  by (induction xs) auto

lemma search_get_encoded:
  assumes "CHR ''='' \<notin> set k" "CHR ''&'' \<notin> set k" "form_decode k = k"
  shows "search_get (''?'' @ k @ ''='' @ encodeURIComponent v) k = Some v"
proof -
  have "split_str ''&'' (k @ ''='' @ encodeURIComponent v) = [k @ ''='' @ encodeURIComponent v]"
    using assms(2) separators_not_in_encode[of "CHR ''&''" v] by (intro split_no_char) auto
  then show ?thesis
    using assms(1,3) by (simp add: search_get_def startsWith_def param_pair_def takeWhile_until dropWhile_until)
qed

end
