(* ===== verification/Chrome.thy ===== *)
theory Chrome
  imports Routes Stores Shortcuts Queries View Url
begin

text \<open>
  What surrounds the pages: \<open>frontend/src/components/layout/Topbar.tsx\<close>, \<open>Sidebar.tsx\<close>, \<open>Layout.tsx\<close>,
  \<open>components/ui/GlobalSearch.tsx\<close>, \<open>WhatsNew.tsx\<close>, \<open>ErrorBoundary.tsx\<close>, \<open>Skeleton.tsx\<close>,
  \<open>components/device/DeviceStatusBadge.tsx\<close>, and the form of \<open>pages/Login.tsx\<close>. Each component is the view
  it renders from its state and the data of its queries, and an update function for the messages
  its handlers raise. Pictographs in front of static labels are left out.
\<close>

section \<open>Login.tsx\<close>

datatype login_form_msg = LoginUsername string | LoginPassword string | LoginSubmit

definition login_view :: "login_page \<Rightarrow> login_form_msg view" where
  "login_view p =
     [icon ''Shield'', label ''DTSYS'', label ''Device Management Platform'',
      El ''form'' [] [(''onSubmit'', \<lambda>_. LoginSubmit)]
        (shown (lp_error p \<noteq> []) [label (lp_error p)]
         @ [label ''Username'', El ''input'' [(''type'', ''text''), (''value'', lp_username p), (''required'', ''true'')]
              [(''onChange'', LoginUsername)] [],
            label ''Password'', El ''input'' [(''type'', ''password''), (''value'', lp_password p), (''required'', ''true'')]
              [(''onChange'', LoginPassword)] [],
            El ''button'' ((''type'', ''submit'') # disabled_attr (lp_loading p)) []
              [Txt (if lp_loading p then ''Signing in...'' else ''Sign In'')]])]"

section \<open>DeviceStatusBadge.tsx, Skeleton.tsx, ErrorBoundary.tsx\<close>

definition badge_config :: "device_status \<Rightarrow> string \<times> string" where
  "badge_config st = (case st of Online \<Rightarrow> (''bg-green-400'', ''Online'') | Offline \<Rightarrow> (''bg-gray-500'', ''Offline'')
     | Alerting \<Rightarrow> (''bg-red-500 animate-pulse'', ''Alert''))"

definition status_badge :: "device_status \<Rightarrow> 'm node" where
  "status_badge st = El ''span'' [] [] [El ''dot'' [(''color'', fst (badge_config st))] [] [], Txt (snd (badge_config st))]"

definition skeleton_text :: "'m node" where "skeleton_text = El ''skeleton'' [] [] []"

definition skeleton_metric :: "'m node" where "skeleton_metric = box [skeleton_text, skeleton_text]"

definition skeleton_card :: "'m node" where
  "skeleton_card = box [box [skeleton_text, skeleton_text], skeleton_text, skeleton_text, skeleton_text]"

definition skeleton_table :: "nat option \<Rightarrow> 'm node" where
  "skeleton_table rows = box (map (\<lambda>_. box [skeleton_text, skeleton_text, skeleton_text]) [0..<nullish rows 5])"

text \<open>Rendering the children either gives a view or throws; the boundary keeps the error.\<close>

definition getDerivedStateFromError :: "string \<Rightarrow> string option" where
  "getDerivedStateFromError msg = Some msg"

definition boundary_render :: "'m \<Rightarrow> 'm view option \<Rightarrow> 'm view \<Rightarrow> string option \<Rightarrow> 'm view" where
  "boundary_render reload fallback children error = (case error of
     Some msg \<Rightarrow> (case fallback of
        Some f \<Rightarrow> f
      | None \<Rightarrow> [label ''Something went wrong'', label msg, button reload [Txt ''Reload page'']])
   | None \<Rightarrow> children)"

section \<open>WhatsNew.tsx\<close>

definition APP_VERSION :: string where "APP_VERSION = ''0.1.0''"

definition highlights :: "string list" where
  "highlights = [''Multi-platform agent (Windows, Linux, macOS)'', ''Real-time hardware monitoring'',
     ''Smart alert engine'', ''Remote command execution'', ''Software inventory & update tracking'',
     ''Scheduled commands'', ''Device screenshots'', ''Network topology map'', ''Email & webhook notifications'',
     ''And more...'']"

definition whatsnew_init :: "storage \<Rightarrow> bool" where
  "whatsnew_init s \<longleftrightarrow> getItem s ''dtsys-whats-new-v0.1.0'' \<noteq> Some APP_VERSION"

definition whatsnew_dismiss :: "storage \<Rightarrow> bool \<times> storage" where
  "whatsnew_dismiss s = (False, setItem ''dtsys-whats-new-v0.1.0'' APP_VERSION s)"

definition whatsnew_view :: "bool \<Rightarrow> unit view" where
  "whatsnew_view is_open = shown is_open
     ([label (''What's New in v'' @ APP_VERSION)] @ map (\<lambda>item. label item) highlights @ [button () [Txt ''Got it'']])"

section \<open>Topbar.tsx\<close>

record topbar =
  tb_session :: session
  tb_alerts :: alert_store
  tb_theme :: page_env
  tb_search :: search_store
  tb_layout :: layout_store
  tb_orgMenuOpen :: bool
  tb_navigated :: "string list" \<comment> \<open>calls of \<open>navigate\<close>\<close>
  tb_location :: "string option" \<comment> \<open>assignment to \<open>window.location.href\<close>\<close>

datatype topbar_msg =
    TToggleSidebar | TOpenSearch | TOrgButton | TSwitchOrg string string | TAlerts | TToggleTheme | TLogout
  | TClickOutside \<comment> \<open>a mouse press outside the menu, while it is rendered\<close>
  | TSync "alert list" \<comment> \<open>the effect on new alert data\<close>
  | TSwitched string string "auth_tokens option" \<comment> \<open>the answer to \<open>orgsApi.switch\<close>\<close>

definition topbar_handleLogout :: "topbar \<Rightarrow> topbar" where
  "topbar_handleLogout s =
     s\<lparr>tb_session := logout (tb_session s), tb_navigated := tb_navigated s @ [''/login'']\<rparr>"

definition switchOrg :: "string \<Rightarrow> string \<Rightarrow> auth_tokens option \<Rightarrow> topbar \<Rightarrow> topbar" where
  "switchOrg target name resp s = (case resp of
     None \<Rightarrow> s
   | Some tokens \<Rightarrow>
       s\<lparr>tb_session := setOrgContext target name (tok_access_token tokens) (tok_refresh_token tokens) (tb_session s),
         tb_orgMenuOpen := False, tb_location := Some ''/''\<rparr>)"

fun topbar_update :: "org list \<Rightarrow> topbar \<Rightarrow> topbar_msg \<Rightarrow> topbar" where
  "topbar_update orgs s TToggleSidebar = s\<lparr>tb_layout := toggleSidebar (tb_layout s)\<rparr>"
| "topbar_update orgs s TOpenSearch = s\<lparr>tb_search := openSearch (tb_search s)\<rparr>"
| "topbar_update orgs s TOrgButton =
     (if length orgs > 1 then s\<lparr>tb_orgMenuOpen := \<not> tb_orgMenuOpen s\<rparr> else s)"
| "topbar_update orgs s (TSwitchOrg i n) = s"
| "topbar_update orgs s TAlerts = s\<lparr>tb_navigated := tb_navigated s @ [''/alerts'']\<rparr>"
| "topbar_update orgs s TToggleTheme = s\<lparr>tb_theme := toggle (tb_theme s)\<rparr>"
| "topbar_update orgs s TLogout = topbar_handleLogout s"
| "topbar_update orgs s TClickOutside = s\<lparr>tb_orgMenuOpen := False\<rparr>"
| "topbar_update orgs s (TSync alerts) = s\<lparr>tb_alerts := setUnresolved alerts (tb_alerts s)\<rparr>"
| "topbar_update orgs s (TSwitched i n resp) = switchOrg i n resp s"

definition org_entry :: "string option \<Rightarrow> org \<Rightarrow> topbar_msg node" where
  "org_entry current x =
     El ''button'' [(''current'', if current = Some (org_id x) then ''true'' else ''false'')]
       [(''onClick'', \<lambda>_. TSwitchOrg (org_id x) (org_name x))]
       ([icon ''Building2'', label (org_name x), label (org_role x)]
        @ shown (current = Some (org_id x)) [El ''dot'' [] [] []])"

definition topbar_view :: "org list \<Rightarrow> topbar \<Rightarrow> topbar_msg view" where
  "topbar_view orgs s =
     (let auth = snd (tb_session s); showOrgSwitcher = length orgs > 1; n = length (unresolved (tb_alerts s)) in
      [El ''button'' [(''aria-label'', ''Open sidebar'')] [(''onClick'', \<lambda>_. TToggleSidebar)] [icon ''Menu''],
       button TOpenSearch [icon ''Search'', label ''Search devices, software'', label ''Ctrl K'']]
      @ shown (truthy (orgName auth))
          (El ''button'' [(''title'', if showOrgSwitcher then ''Switch organization'' else the (orgName auth))]
             [(''onClick'', \<lambda>_. TOrgButton)]
             ([icon ''Building2'', label (the (orgName auth))] @ shown showOrgSwitcher [icon ''ChevronDown''])
           # shown (tb_orgMenuOpen s \<and> showOrgSwitcher) (map (org_entry (orgId auth)) orgs))
      @ [El ''button'' [(''title'', ''Open alerts'')] [(''onClick'', \<lambda>_. TAlerts)]
           (icon ''Bell'' # shown (n > 0) [label (nat_str n)]),
         El ''button'' [(''title'', ''Toggle theme'')] [(''onClick'', \<lambda>_. TToggleTheme)]
           [icon (if pe_theme (tb_theme s) = Dark then ''Sun'' else ''Moon'')],
         icon ''User'', label (nullish (username auth) []), label (''('' @ nullish (role auth) [] @ '')''),
         button TLogout [icon ''LogOut'', label ''Logout'']])"

section \<open>Sidebar.tsx\<close>

record nav_item =
  nav_to :: string
  nav_icon :: string
  nav_label :: string
  nav_adminOnly :: bool

definition nav :: "string \<Rightarrow> string \<Rightarrow> string \<Rightarrow> nav_item" where
  "nav path ic text = \<lparr>nav_to = path, nav_icon = ic, nav_label = text, nav_adminOnly = False\<rparr>"

definition navItems :: "nav_item list" where
  "navItems =
     [nav ''/my-dashboard'' ''LayoutDashboard'' ''My Dashboard'', nav ''/'' ''Monitor'' ''Devices'',
      nav ''/alerts'' ''Bell'' ''Alerts'', nav ''/reports'' ''BarChart2'' ''Reports'',
      nav ''/network-map'' ''Network'' ''Network Map'', nav ''/inventory'' ''Package'' ''Inventory'',
      nav ''/command-library'' ''BookOpen'' ''Command Library'', nav ''/software-updates'' ''PackageOpen'' ''Software Updates'',
      nav ''/scheduled'' ''Clock3'' ''Scheduled'', nav ''/downloads'' ''Download'' ''Downloads'',
      nav ''/compliance'' ''CheckSquare'' ''Compliance'',
      (nav ''/audit'' ''ClipboardList'' ''Audit Log'')\<lparr>nav_adminOnly := True\<rparr>,
      (nav ''/users'' ''Users'' ''Users'')\<lparr>nav_adminOnly := True\<rparr>,
      nav ''/organizations'' ''Building2'' ''Organizations'', nav ''/settings'' ''Settings'' ''Settings'']"

record sidebar =
  sb_showCreateGroup :: bool
  sb_name :: string
  sb_color :: string
  sb_navigated :: "string list"
  sb_closed :: nat \<comment> \<open>calls of \<open>onNavigate\<close>\<close>
  sb_requests :: "request list"

definition sidebar_init :: sidebar where
  "sidebar_init = \<lparr>sb_showCreateGroup = False, sb_name = [], sb_color = ''#3b82f6'', sb_navigated = [],
     sb_closed = 0, sb_requests = []\<rparr>"

datatype sidebar_msg = SNavLink string | SShowCreate | SGroup string | SName string | SColor string
  | SCancel | SCreate | SCreated

definition sidebar_goto :: "string \<Rightarrow> sidebar \<Rightarrow> sidebar" where
  "sidebar_goto path s = s\<lparr>sb_navigated := sb_navigated s @ [path], sb_closed := sb_closed s + 1\<rparr>"

fun sidebar_update :: "string option \<Rightarrow> sidebar \<Rightarrow> sidebar_msg \<Rightarrow> sidebar" where
  "sidebar_update active s (SNavLink path) = sidebar_goto path s"
| "sidebar_update active s SShowCreate = s\<lparr>sb_showCreateGroup := True\<rparr>"
| "sidebar_update active s (SGroup i) = sidebar_goto (if active = Some i then ''/'' else ''/?group='' @ i) s"
| "sidebar_update active s (SName v) = s\<lparr>sb_name := v\<rparr>"
| "sidebar_update active s (SColor v) = s\<lparr>sb_color := v\<rparr>"
| "sidebar_update active s SCancel = s\<lparr>sb_showCreateGroup := False\<rparr>"
| "sidebar_update active s SCreate =
     s\<lparr>sb_requests := sb_requests s @ [groups_create (sb_name s) None (sb_color s)]\<rparr>"
| "sidebar_update active s SCreated = s\<lparr>sb_name := [], sb_color := ''#3b82f6'', sb_showCreateGroup := False\<rparr>"

definition nav_link :: "nat \<Rightarrow> nav_item \<Rightarrow> sidebar_msg node" where
  "nav_link unresolvedCount item =
     El ''a'' [(''href'', nav_to item)] [(''onClick'', \<lambda>_. SNavLink (nav_to item))]
       ([icon (nav_icon item), label (nav_label item)]
        @ shown (nav_label item = ''Alerts'' \<and> unresolvedCount > 0) [label (nat_str unresolvedCount)])"

definition group_button :: "string option \<Rightarrow> device_group \<Rightarrow> sidebar_msg node" where
  "group_button active g =
     El ''button'' [(''current'', if active = Some (g_id g) then ''true'' else ''false'')] [(''onClick'', \<lambda>_. SGroup (g_id g))]
       [El ''dot'' [(''color'', g_color g)] [] [], label (g_name g), label (int_str (nullish (g_member_count g) 0))]"

definition create_group_dialog :: "bool \<Rightarrow> sidebar \<Rightarrow> sidebar_msg view" where
  "create_group_dialog isPending s =
     [label ''Create Group'', input_field (sb_name s) SName, label ''Color'',
      El ''input'' [(''type'', ''color''), (''value'', sb_color s)] [(''onChange'', SColor)] [],
      button SCancel [Txt ''Cancel''],
      button_if (trim (sb_name s) = [] \<or> isPending) SCreate [Txt ''Create'']]"

definition sidebar_view ::
  "string option \<Rightarrow> branding \<Rightarrow> alert list option \<Rightarrow> device_group list \<Rightarrow> string \<Rightarrow> bool \<Rightarrow> sidebar \<Rightarrow> sidebar_msg view" where
  "sidebar_view userRole brand alerts groups search isPending s =
     (let unresolvedCount = (case alerts of None \<Rightarrow> 0 | Some as \<Rightarrow> length as);
          active = search_get search ''group''
      in [if logoUrl brand \<noteq> [] then El ''img'' [(''src'', logoUrl brand)] [] []
          else El ''icon'' [(''name'', ''Shield''), (''color'', accentColor brand)] [] [],
          label (companyName brand)]
         @ shown (sidebarLabel brand \<noteq> []) [label (sidebarLabel brand)]
         @ map (nav_link unresolvedCount) (filter (\<lambda>item. \<not> nav_adminOnly item \<or> userRole = Some ''admin'') navItems)
         @ [label ''Groups'']
         @ shown (userRole = Some ''admin'') [El ''button'' [(''title'', ''Create group'')] [(''onClick'', \<lambda>_. SShowCreate)] [icon ''Plus'']]
         @ map (group_button active) groups
         @ shown (groups = []) [label ''No groups yet'']
         @ [label (companyName brand @ '' - v1.3.0'')]
         @ shown (sb_showCreateGroup s) (create_group_dialog isPending s))"

section \<open>Layout.tsx\<close>

definition shortcut_help :: "(string \<times> string) list" where
  "shortcut_help =
     [(''Ctrl/Cmd + K'', ''Open global search''), (''G then D'', ''Go to dashboard''), (''G then A'', ''Go to alerts''),
      (''G then R'', ''Go to reports''), (''G then S'', ''Go to settings''), (''R'', ''Refresh current page data''),
      (''Escape'', ''Close open overlays''), (''?'', ''Open this help modal'')]"

datatype layout_msg = LCloseSidebar | LCloseHelp | LSidebar sidebar_msg | LMobileSidebar sidebar_msg | LOther

text \<open>\<open>topbar\<close>, \<open>outlet\<close> and \<open>search\<close> are the views of the parts the layout places.\<close>

definition layout_view ::
  "bool \<Rightarrow> bool \<Rightarrow> sidebar_msg view \<Rightarrow> layout_msg view \<Rightarrow> layout_msg view \<Rightarrow> layout_msg view \<Rightarrow> layout_msg view" where
  "layout_view sidebarOpen showHelp sidebar_nodes topbar_nodes outlet search_nodes =
     [El ''aside'' [(''hidden-below'', ''md'')] [] (map (map_node LSidebar) sidebar_nodes)]
     @ shown sidebarOpen
         [El ''button'' [(''aria-label'', ''Close sidebar'')] [(''onClick'', \<lambda>_. LCloseSidebar)] [],
          El ''aside'' [] [] (map (map_node LMobileSidebar) sidebar_nodes)]
     @ topbar_nodes @ [El ''main'' [] [] outlet] @ search_nodes
     @ shown showHelp
         ([label ''Keyboard Shortcuts'', label ''Navigation and quick actions available globally.'',
           button LCloseHelp [Txt ''Close''], label ''Shortcut'', label ''Action'']
          @ map (\<lambda>(shortcut, action). El ''tr'' [] [] [label shortcut, label action]) shortcut_help)"

section \<open>GlobalSearch.tsx\<close>

datatype search_result = DeviceResult device | SoftwareResult software_search_result

fun result_key :: "search_result \<Rightarrow> string" where
  "result_key (DeviceResult d) = ''device-'' @ d_id d"
| "result_key (SoftwareResult e) = ''software-'' @ ss_name e"

record global_search =
  gs_store :: search_store
  gs_query :: string
  gs_debounced :: string
  gs_selected :: nat
  gs_devices :: "device list"
  gs_software :: "software_search_result list"
  gs_navigated :: "string list"

definition global_search_init :: global_search where
  "global_search_init = \<lparr>gs_store = search_init, gs_query = [], gs_debounced = [], gs_selected = 0,
     gs_devices = [], gs_software = [], gs_navigated = []\<rparr>"

definition gs_results :: "global_search \<Rightarrow> search_result list" where
  "gs_results s = map DeviceResult (gs_devices s) @ map SoftwareResult (gs_software s)"

definition search_enabled :: "global_search \<Rightarrow> bool" where
  "search_enabled s \<longleftrightarrow> search_open (gs_store s) \<and> 2 \<le> length (gs_debounced s)"

text \<open>
  The effects after a render: a closed dialog forgets its query, a query that is not enabled has no
  data, and the selection is kept inside the results.
\<close>

definition search_effects :: "global_search \<Rightarrow> global_search" where
  "search_effects s =
     (let s1 = (if search_open (gs_store s) then s else s\<lparr>gs_query := [], gs_debounced := [], gs_selected := 0\<rparr>);
          s2 = (if search_enabled s1 then s1 else s1\<lparr>gs_devices := [], gs_software := []\<rparr>)
      in if gs_selected s2 \<ge> length (gs_results s2) then s2\<lparr>gs_selected := length (gs_results s2) - 1\<rparr> else s2)"

definition handleSelect :: "search_result \<Rightarrow> global_search \<Rightarrow> global_search" where
  "handleSelect result s =
     (let path = (case result of
          DeviceResult d \<Rightarrow> ''/devices/'' @ d_id d
        | SoftwareResult e \<Rightarrow> ''/software-updates?search='' @ encodeURIComponent (ss_name e))
      in s\<lparr>gs_navigated := gs_navigated s @ [path], gs_store := closeSearch (gs_store s)\<rparr>)"

text \<open>The listener that is always installed, and the one of the open dialog.\<close>

definition search_global_key :: "key_event \<Rightarrow> global_search \<Rightarrow> global_search" where
  "search_global_key e s =
     (if (ke_meta e \<or> ke_ctrl e) \<and> toLowerCase (ke_key e) = ''k'' then s\<lparr>gs_store := toggleSearch (gs_store s)\<rparr>
      else if ke_key e = ''Escape'' then s\<lparr>gs_store := closeSearch (gs_store s)\<rparr> else s)"

definition search_dialog_key :: "key_event \<Rightarrow> global_search \<Rightarrow> global_search" where
  "search_dialog_key e s =
     (let results = gs_results s; n = length results in
      if n = 0 then s
      else if ke_key e = ''ArrowDown'' then s\<lparr>gs_selected := (gs_selected s + 1) mod n\<rparr>
      else if ke_key e = ''ArrowUp'' then s\<lparr>gs_selected := nat ((int (gs_selected s) - 1 + int n) mod int n)\<rparr>
      else if ke_key e = ''Enter'' then handleSelect (results ! gs_selected s) s
      else s)"

datatype search_msg =
    GKey key_event
  | GInput string
  | GDebounced \<comment> \<open>300 ms without a change of the query\<close>
  | GData "device list" "software_search_result list"
  | GPick search_result
  | GClose

fun search_react :: "global_search \<Rightarrow> search_msg \<Rightarrow> global_search" where
  "search_react s (GKey e) =
     (let s' = search_global_key e s in if search_open (gs_store s) then search_dialog_key e s' else s')"
| "search_react s (GInput v) = s\<lparr>gs_query := v\<rparr>"
| "search_react s GDebounced = s\<lparr>gs_debounced := trim (gs_query s)\<rparr>"
| "search_react s (GData ds es) = s\<lparr>gs_devices := ds, gs_software := es\<rparr>"
| "search_react s (GPick r) = handleSelect r s"
| "search_react s GClose = s\<lparr>gs_store := closeSearch (gs_store s)\<rparr>"

definition search_update :: "global_search \<Rightarrow> search_msg \<Rightarrow> global_search" where
  "search_update s m = search_effects (search_react s m)"

definition os_icon :: "os_type \<Rightarrow> 'm node" where
  "os_icon os = (case os of MacOS \<Rightarrow> icon ''Apple'' | Linux \<Rightarrow> icon ''Terminal'' | Windows \<Rightarrow> icon ''Monitor'')"

text \<open>\<open>results.findIndex(...)\<close>; the results contain the key of every entry that is rendered.\<close>

definition result_index :: "global_search \<Rightarrow> search_result \<Rightarrow> nat" where
  "result_index s r = length (takeWhile (\<lambda>x. result_key x \<noteq> result_key r) (gs_results s))"

definition result_attr :: "global_search \<Rightarrow> search_result \<Rightarrow> (string \<times> string) list" where
  "result_attr s r = [(''selected'', if gs_selected s = result_index s r then ''true'' else ''false'')]"

fun result_body :: "search_result \<Rightarrow> search_msg view" where
  "result_body (DeviceResult d) =
     [os_icon (d_os_type d), label (nullish (d_label d) (d_hostname d)),
      label (d_hostname d @ '' - '' @ nullish (d_ip_address d) ''No IP''), status_badge (d_status d)]"
| "result_body (SoftwareResult e) =
     [icon ''PackageOpen'', label (ss_name e),
      label (int_str (ss_device_count e) @ '' devices - ''
        @ (if join '', '' (ss_versions e) = [] then ''Unknown version'' else join '', '' (ss_versions e)))]"

definition result_button :: "global_search \<Rightarrow> search_result \<Rightarrow> search_msg node" where
  "result_button s r = El ''button'' (result_attr s r) [(''onClick'', \<lambda>_. GPick r)] (result_body r)"

definition search_view :: "global_search \<Rightarrow> search_msg view" where
  "search_view s = shown (search_open (gs_store s))
     ([icon ''Search'', input_field (gs_query s) GInput, button GClose [Txt ''ESC'']]
      @ (if length (gs_debounced s) < 2 then [label ''Type at least 2 characters to search.'']
         else if gs_results s = [] then [label ''No matching devices or software found.'']
         else shown (gs_devices s \<noteq> []) (label ''Devices'' # map (\<lambda>d. result_button s (DeviceResult d)) (gs_devices s))
              @ shown (gs_software s \<noteq> []) (label ''Software'' # map (\<lambda>e. result_button s (SoftwareResult e)) (gs_software s))))"

section \<open>Lemmas\<close>

definition search_ok :: "global_search \<Rightarrow> bool" where
  "search_ok s \<longleftrightarrow> (gs_results s = [] \<longrightarrow> gs_selected s = 0) \<and> (gs_results s \<noteq> [] \<longrightarrow> gs_selected s < length (gs_results s))
     \<and> (\<not> search_open (gs_store s) \<longrightarrow> gs_query s = [] \<and> gs_debounced s = [])
     \<and> (gs_results s \<noteq> [] \<longrightarrow> search_enabled s)"

lemma gs_results_simps [simp]:
  "gs_results (s\<lparr>gs_selected := n\<rparr>) = gs_results s" "gs_results (s\<lparr>gs_query := q\<rparr>) = gs_results s"
  "gs_results (s\<lparr>gs_debounced := q\<rparr>) = gs_results s" "gs_results (s\<lparr>gs_devices := [], gs_software := []\<rparr>) = []"
  by (simp_all add: gs_results_def)

lemma search_effects_ok: "search_ok (search_effects s)"
proof -
  define s1 where "s1 = (if search_open (gs_store s) then s else s\<lparr>gs_query := [], gs_debounced := [], gs_selected := 0\<rparr>)"
  define s2 where "s2 = (if search_enabled s1 then s1 else s1\<lparr>gs_devices := [], gs_software := []\<rparr>)"
  have eff: "search_effects s = (if gs_selected s2 \<ge> length (gs_results s2) then s2\<lparr>gs_selected := length (gs_results s2) - 1\<rparr> else s2)"
    by (simp add: search_effects_def Let_def s1_def s2_def)
  have "\<not> search_open (gs_store s2) \<longrightarrow> gs_query s2 = [] \<and> gs_debounced s2 = []"
    by (simp add: s1_def s2_def)
  moreover have "gs_results s2 \<noteq> [] \<longrightarrow> search_enabled s2"
    by (auto simp: s2_def)
  ultimately show ?thesis unfolding eff search_ok_def by (auto simp: search_enabled_def)
qed

definition search_exec :: "search_msg list \<Rightarrow> global_search" where
  "search_exec ms = foldl search_update global_search_init ms"

lemma search_exec_ok: "search_ok (search_exec ms)"
proof (cases ms rule: rev_cases)
  case Nil
  then show ?thesis by (simp add: search_exec_def search_ok_def global_search_init_def gs_results_def search_init_def)
next
  case (snoc ms' m)
  then show ?thesis by (simp add: search_exec_def search_update_def search_effects_ok)
qed

lemma offers_result_button: "offers [result_button s r] m \<longleftrightarrow> m = GPick r"
  by (cases r) (auto simp: result_button_def result_attr_def os_icon_def status_badge_def split: os_type.splits)

lemma sidebar_no_nav:
  "\<not> offers [group_button active g] (SNavLink p)" "\<not> offers (create_group_dialog pending s) (SNavLink p)"
  by (auto simp: group_button_def create_group_dialog_def)

lemma offers_nav_link: "offers [nav_link n item] m \<longleftrightarrow> m = SNavLink (nav_to item)"
  by (auto simp: nav_link_def)

text \<open>The keys of the open dialog.\<close>

lemma wrap_up:
  assumes "i < (n :: nat)"
  shows "nat ((int i - 1 + int n) mod int n) = (if i = 0 then n - 1 else i - 1)"
proof (cases "i = 0")
  case True
  have "(int n - 1) mod int n = int n - 1" using assms by (intro mod_pos_pos_trivial) auto
  then show ?thesis using True by (simp add: nat_diff_distrib')
next
  case False
  then have "(int i - 1 + int n) mod int n = int i - 1" using assms by simp
  with False show ?thesis by (simp add: nat_diff_distrib')
qed

lemma wrap_down:
  assumes "i < (n :: nat)"
  shows "(i + 1) mod n = (if i = n - 1 then 0 else i + 1)"
proof (cases "i = n - 1")
  case True
  then have "i + 1 = n" using assms by simp
  with True show ?thesis by simp
qed (use assms in simp)

lemma dialog_keys:
  assumes "gs_results s \<noteq> []"
  shows "search_dialog_key (plain_key c\<lparr>ke_key := ''ArrowDown''\<rparr>) s = s\<lparr>gs_selected := (gs_selected s + 1) mod length (gs_results s)\<rparr>"
    and "search_dialog_key (plain_key c\<lparr>ke_key := ''ArrowUp''\<rparr>) s =
      s\<lparr>gs_selected := nat ((int (gs_selected s) - 1 + int (length (gs_results s))) mod int (length (gs_results s)))\<rparr>"
    and "search_dialog_key (plain_key c\<lparr>ke_key := ''Enter''\<rparr>) s = handleSelect (gs_results s ! gs_selected s) s"
  using assms by (simp_all add: search_dialog_key_def Let_def plain_key_def)

lemma search_key_step:
  "search_open (gs_store s) \<Longrightarrow> k \<noteq> ''Escape'' \<Longrightarrow>
   search_update s (GKey (plain_key c\<lparr>ke_key := k\<rparr>)) = search_effects (search_dialog_key (plain_key c\<lparr>ke_key := k\<rparr>) s)"
  by (simp add: search_update_def search_global_key_def plain_key_def)

lemma search_effects_move:
  "search_enabled s \<Longrightarrow> search_open (gs_store s) \<Longrightarrow> j < length (gs_results s) \<Longrightarrow>
   search_effects (s\<lparr>gs_selected := j\<rparr>) = s\<lparr>gs_selected := j\<rparr>"
  by (simp add: search_effects_def Let_def search_enabled_def)

lemma search_effects_select:
  "search_effects (handleSelect r s) =
     s\<lparr>gs_store := (gs_store s)\<lparr>search_open := False\<rparr>, gs_query := [], gs_debounced := [], gs_selected := 0,
       gs_devices := [], gs_software := [],
       gs_navigated := gs_navigated s @ [case r of DeviceResult d \<Rightarrow> ''/devices/'' @ d_id d
         | SoftwareResult e \<Rightarrow> ''/software-updates?search='' @ encodeURIComponent (ss_name e)]\<rparr>"
  by (simp add: handleSelect_def search_effects_def search_enabled_def closeSearch_def gs_results_def Let_def)

section \<open>Properties\<close>

text \<open>C33. The search dialog always has a valid selection: after any keys, input, timer and answers, the
  selected index addresses a result whenever there is one. Enter then goes to the page of the selected
  result, the device page of a device and the update page with the name of a software as its search, and
  closes the dialog, which forgets query and results; the arrow keys move the selection by one, around the
  ends, and change nothing else.\<close>

theorem search_selection_valid:
  assumes "s = search_exec ms" "gs_results s \<noteq> []"
  shows "gs_selected s < length (gs_results s)
    \<and> search_update s (GKey (plain_key c\<lparr>ke_key := ''Enter''\<rparr>)) =
        s\<lparr>gs_store := (gs_store s)\<lparr>search_open := False\<rparr>, gs_query := [], gs_debounced := [], gs_selected := 0,
          gs_devices := [], gs_software := [],
          gs_navigated := gs_navigated s @ [case gs_results s ! gs_selected s of
            DeviceResult d \<Rightarrow> ''/devices/'' @ d_id d
          | SoftwareResult e \<Rightarrow> ''/software-updates?search='' @ encodeURIComponent (ss_name e)]\<rparr>
    \<and> search_update s (GKey (plain_key c\<lparr>ke_key := ''ArrowDown''\<rparr>)) =
        s\<lparr>gs_selected := (if gs_selected s = length (gs_results s) - 1 then 0 else gs_selected s + 1)\<rparr>
    \<and> search_update s (GKey (plain_key c\<lparr>ke_key := ''ArrowUp''\<rparr>)) =
        s\<lparr>gs_selected := (if gs_selected s = 0 then length (gs_results s) - 1 else gs_selected s - 1)\<rparr>"
proof -
  let ?n = "length (gs_results s)" let ?i = "gs_selected s"
  have i: "?i < ?n" using search_exec_ok[of ms] assms by (auto simp: search_ok_def)
  have open_s: "search_enabled s" "search_open (gs_store s)"
    using search_exec_ok[of ms] assms by (auto simp: search_ok_def search_enabled_def)
  have key_names: "''Enter'' \<noteq> ''Escape''" "''ArrowDown'' \<noteq> ''Escape''" "''ArrowUp'' \<noteq> ''Escape''" by simp_all
  note keys = dialog_keys[OF assms(2), of c] and press = search_key_step[OF open_s(2), of _ c]
  have "(if ?i = ?n - 1 then 0 else ?i + 1) < ?n" "(if ?i = 0 then ?n - 1 else ?i - 1) < ?n" using i by auto
  note move = this[THEN search_effects_move[OF open_s]]
  show ?thesis using i
    by (simp only: press[OF key_names(1)] press[OF key_names(2)] press[OF key_names(3)] keys wrap_down[OF i] wrap_up[OF i] move
        search_effects_select)
qed

theorem search_selection_valid_witness:
  "let e = \<lparr>ss_name = ''vim'', ss_device_count = 1, ss_versions = []\<rparr>;
       k = plain_key (CHR ''k'')\<lparr>ke_ctrl := True\<rparr>;
       s = search_exec [GKey k, GInput '' vi '', GDebounced, GData [] [e]];
       s' = search_update s (GKey (plain_key (CHR ''k'')\<lparr>ke_key := ''Enter''\<rparr>))
   in gs_results s = [SoftwareResult e] \<and> gs_navigated s' = [''/software-updates?search=vim''] \<and> \<not> search_open (gs_store s')"
proof -
  let ?e = "\<lparr>ss_name = ''vim'', ss_device_count = 1, ss_versions = []\<rparr>"
  let ?s = "search_exec [GKey (plain_key (CHR ''k'')\<lparr>ke_ctrl := True\<rparr>), GInput '' vi '', GDebounced, GData [] [?e]]"
  have k: "toLowerCase ''k'' = ''k''" "trim '' vi '' = ''vi''" "encodeURIComponent ''vim'' = ''vim''" by code_simp+
  have r: "gs_results ?s = [SoftwareResult ?e]" "gs_selected ?s = 0" "gs_navigated ?s = []"
    by (simp_all add: search_exec_def search_update_def search_effects_def search_enabled_def gs_results_def Let_def
        search_global_key_def plain_key_def k global_search_init_def search_init_def toggleSearch_def)
  from search_selection_valid[OF refl, of "[GKey (plain_key (CHR ''k'')\<lparr>ke_ctrl := True\<rparr>), GInput '' vi '', GDebounced, GData [] [?e]]" "CHR ''k''"]
  show ?thesis by (simp add: Let_def r k)
qed

text \<open>Ctrl/Cmd-K always leaves the search dialog open: both listeners run on the key, the dialog's
  own toggles the store and the global shortcut then opens it, so the toggle can never close it.\<close>

theorem ctrl_k_opens:
  assumes "ke_meta e \<or> ke_ctrl e" "toLowerCase (ke_key e) = ''k''" "gs_store g = ks_search s"
  shows "search_open (ks_search (onKeyDown e (s\<lparr>ks_search := gs_store (search_global_key e g)\<rparr>)))
    \<and> (search_open (gs_store (search_global_key e g)) \<longleftrightarrow> \<not> search_open (ks_search s))"
  using assms by (simp add: onKeyDown_def search_global_key_def openSearch_def toggleSearch_def)

theorem ctrl_k_opens_witness:
  "let e = plain_key (CHR ''k'')\<lparr>ke_ctrl := True\<rparr>; g = global_search_init\<lparr>gs_store := openSearch search_init\<rparr>;
       s = shortcuts_init (openSearch search_init)
   in search_open (ks_search s) \<and> search_open (ks_search (onKeyDown e (s\<lparr>ks_search := gs_store (search_global_key e g)\<rparr>)))"
  using ctrl_k_opens[of "plain_key (CHR ''k'')\<lparr>ke_ctrl := True\<rparr>"
      "global_search_init\<lparr>gs_store := openSearch search_init\<rparr>" "shortcuts_init (openSearch search_init)"]
  by (simp add: Let_def plain_key_def toLowerCase_def lower_char_def shortcuts_init_def openSearch_def)

text \<open>Every link of the sidebar leads to a page: for every role the links offered are those of the
  table the role may see, each of them matches a protected route of the application, and the two
  administration pages are offered to administrators only.\<close>

theorem sidebar_links_resolve:
  "(\<forall>item \<in> set navItems. \<exists>p. match_route (nav_to item) = Some (ProtectedLayout p))
   \<and> (\<forall>path. offers (sidebar_view r brand alerts groups search pending s) (SNavLink path) \<longleftrightarrow>
        (\<exists>item \<in> set navItems. nav_to item = path \<and> (nav_adminOnly item \<longrightarrow> r = Some ''admin'')))"
proof -
  have "list_all (\<lambda>item. case match_route (nav_to item) of Some (ProtectedLayout p) \<Rightarrow> True | _ \<Rightarrow> False) navItems"
    by code_simp
  then have table: "case match_route (nav_to item) of Some (ProtectedLayout p) \<Rightarrow> True | _ \<Rightarrow> False"
    if "item \<in> set navItems" for item
    using that unfolding list_all_iff by blast
  have "\<exists>p. match_route (nav_to item) = Some (ProtectedLayout p)" if "item \<in> set navItems" for item
    using table[OF that] by (cases "match_route (nav_to item)"; cases "the (match_route (nav_to item))") auto
  moreover have "offers (sidebar_view r brand alerts groups search pending s) (SNavLink path) \<longleftrightarrow>
        (\<exists>item \<in> set navItems. nav_to item = path \<and> (nav_adminOnly item \<longrightarrow> r = Some ''admin''))" for path
    by (simp add: sidebar_view_def Let_def offers_nav_link sidebar_no_nav) blast
  ultimately show ?thesis by blast
qed

theorem sidebar_links_resolve_witness:
  "offers (sidebar_view (Some ''admin'') DEFAULTS None [] [] False sidebar_init) (SNavLink ''/users'')
   \<and> \<not> offers (sidebar_view (Some ''viewer'') DEFAULTS None [] [] False sidebar_init) (SNavLink ''/users'')
   \<and> (\<exists>p. match_route ''/users'' = Some (ProtectedLayout p))"
proof -
  have u: "(nav ''/users'' ''Users'' ''Users'')\<lparr>nav_adminOnly := True\<rparr> \<in> set navItems"
    by (simp add: navItems_def)
  have only: "item \<in> set navItems \<Longrightarrow> nav_to item = ''/users'' \<Longrightarrow> nav_adminOnly item" for item
    by (auto simp: navItems_def nav_def)
  show ?thesis
    using sidebar_links_resolve[of "Some ''admin''" DEFAULTS None "[]" "[]" False sidebar_init]
      sidebar_links_resolve[of "Some ''viewer''" DEFAULTS None "[]" "[]" False sidebar_init] u only
    by (fastforce simp: nav_def)
qed

end
