(* ===== verification/Dashboard.thy ===== *)
theory Dashboard
  imports Chrome JsNumber Utils
begin

text \<open>
  The device overview: \<open>frontend/src/components/device/DeviceCard.tsx\<close>, \<open>BulkCommandBar.tsx\<close> and
  \<open>pages/Dashboard.tsx\<close>. The data of the queries is the argument \<open>dash_data\<close> of the view;
  \<open>ago\<close> stands for date-fns' \<open>formatDistanceToNow(new Date(_), { addSuffix: true })\<close>, \<open>now\<close> for
  \<open>new Date().toISOString()\<close>. The bar is mounted while two devices are selected; its local state is
  lost when it is unmounted.
\<close>

section \<open>DeviceCard.tsx\<close>

definition sparkline_points :: "rat list \<Rightarrow> (rat \<times> rat) list" where
  "sparkline_points values =
     (let height = 40; width = 180;
          step = (if length values > 1 then width / of_nat (length values - 1) else width)
      in map (\<lambda>(index, value). (of_nat index * step, height - (max 0 (min 100 value) / 100) * height))
           (enumerate 0 values))"

definition sparkline_path :: "rat list \<Rightarrow> string" where
  "sparkline_path values =
     join '' '' (map (\<lambda>(index, x, y). (if index = (0::nat) then ''M'' else ''L'') @ '' '' @ number_str x @ '' '' @ number_str y)
        (enumerate 0 (sparkline_points values)))"

definition CPUSparkline :: "rat list \<Rightarrow> 'm node" where
  "CPUSparkline values =
     (if values = [] then box []
      else El ''svg'' [(''viewBox'', ''0 0 180 40'')] [] [El ''path'' [(''d'', sparkline_path values)] [] []])"

datatype card_msg = OpenCard string | ToggleCard string

definition DeviceCard ::
  "(string \<Rightarrow> string) \<Rightarrow> alert list \<Rightarrow> metric list \<Rightarrow> bool \<Rightarrow> device \<Rightarrow> card_msg node" where
  "DeviceCard ago unresolvedAlerts cpuMetrics selected device =
     (let maintenance = (d_maintenance_mode device = Some True) in
      El ''div'' [(''selected'', if selected then ''true'' else ''false'')] [(''onClick'', \<lambda>_. OpenCard (d_id device))]
        (shown maintenance [icon ''Wrench'', label ''Maint'']
         @ shown (\<not> maintenance \<and> d_status device = Alerting \<and> unresolvedAlerts \<noteq> []) [label (nat_str (length unresolvedAlerts))]
         @ [El ''input'' [(''type'', ''checkbox''), (''checked'', if selected then ''true'' else ''false''),
                 (''aria-label'', ''Select '' @ d_hostname device)] [(''onChange'', \<lambda>_. ToggleCard (d_id device))] [],
            os_icon (d_os_type device), label (nullish (d_label device) (d_hostname device))]
         @ shown (truthy (d_label device)) [label (d_hostname device)]
         @ shown (\<not> maintenance) [status_badge (d_status device)]
         @ [label (nullish (d_os_version device) (os_type_str (d_os_type device))),
            label (nullish (d_ip_address device) ''No IP'')]
         @ shown (truthy (d_last_seen device)) [label (''Last seen: '' @ ago (the (d_last_seen device)))]
         @ [label ''CPU last hour'', CPUSparkline (rev (map (\<lambda>m. nullish (m_cpu_percent m) 0) cpuMetrics))]))"

text \<open>The card's queries: alerts only while the device has the alert status, metrics only while online.\<close>

definition card_queries :: "device \<Rightarrow> query list" where
  "card_queries device =
     [\<lparr>q_key = [JStr ''alerts'', JStr ''device-card'', JStr (d_id device)],
       q_request = alerts_list (Some (d_id device)) (Some False) None None None, q_interval = 30000,
       q_enabled = (d_status device = Alerting)\<rparr>,
      \<lparr>q_key = [JStr ''metrics'', JStr ''sparkline'', JStr (d_id device)],
       q_request = metrics_list (d_id device) (Some 1), q_interval = 120000, q_enabled = (d_status device = Online)\<rparr>]"

section \<open>BulkCommandBar.tsx\<close>

record bulk_bar =
  bb_modal :: bool
  bb_shell :: string
  bb_toast :: "(bool \<times> string) option" \<comment> \<open>success, message\<close>
  bb_pending :: bool

definition bulk_bar_init :: bulk_bar where
  "bulk_bar_init = \<lparr>bb_modal = False, bb_shell = [], bb_toast = None, bb_pending = False\<rparr>"

datatype bulk_msg =
    BOpenModal | BCloseModal | BShell string
  | BQuick string "(string \<times> json) list"
  | BSubmit | BEnter
  | BCompare | BClear
  | BToastTimeout
  | BSuccess nat \<comment> \<open>the number of devices the server dispatched to\<close>
  | BError string

text \<open>A step returns the new bar and the requests it sends.\<close>

definition quickAction :: "string list \<Rightarrow> string \<Rightarrow> (string \<times> json) list \<Rightarrow> bulk_bar \<Rightarrow> bulk_bar \<times> request list" where
  "quickAction selectedIds ctype payload b =
     (if length selectedIds < 2 \<or> bb_pending b then (b, [])
      else (b\<lparr>bb_pending := True\<rparr>, [commands_bulk selectedIds ctype payload]))"

definition submitShellCommand :: "string list \<Rightarrow> bulk_bar \<Rightarrow> bulk_bar \<times> request list" where
  "submitShellCommand selectedIds b =
     (if trim (bb_shell b) = [] then (b, [])
      else quickAction selectedIds ''shell'' [(''command'', JStr (trim (bb_shell b)))] b)"

fun bulk_update :: "string list \<Rightarrow> bulk_bar \<Rightarrow> bulk_msg \<Rightarrow> bulk_bar \<times> request list" where
  "bulk_update sel b BOpenModal = (b\<lparr>bb_modal := True\<rparr>, [])"
| "bulk_update sel b BCloseModal = (b\<lparr>bb_modal := False\<rparr>, [])"
| "bulk_update sel b (BShell v) = (b\<lparr>bb_shell := v\<rparr>, [])"
| "bulk_update sel b (BQuick ctype payload) = quickAction sel ctype payload b"
| "bulk_update sel b BSubmit = submitShellCommand sel b"
| "bulk_update sel b BEnter = (if trim (bb_shell b) \<noteq> [] then submitShellCommand sel b else (b, []))"
| "bulk_update sel b BCompare = (b, [])"
| "bulk_update sel b BClear = (b, [])"
| "bulk_update sel b BToastTimeout = (b\<lparr>bb_toast := None\<rparr>, [])"
| "bulk_update sel b (BSuccess n) =
     (b\<lparr>bb_shell := [], bb_modal := False, bb_pending := False,
        bb_toast := Some (True, ''Command sent to '' @ nat_str n @ '' devices'')\<rparr>, [])"
| "bulk_update sel b (BError msg) =
     (b\<lparr>bb_pending := False, bb_toast := Some (False, if msg = [] then ''Bulk command failed'' else msg)\<rparr>, [])"

definition compare_link :: "string list \<Rightarrow> string" where
  "compare_link selectedIds = ''/compare?ids='' @ join '','' (take 4 selectedIds)"

definition bulk_bar_view :: "string \<Rightarrow> string list \<Rightarrow> bulk_bar \<Rightarrow> bulk_msg view" where
  "bulk_bar_view now selectedIds b =
     (case bb_toast b of None \<Rightarrow> [] | Some (good, message) \<Rightarrow>
        [El ''toast'' [(''tone'', if good then ''success'' else ''error'')] [] [Txt message]])
     @ [label (nat_str (length selectedIds) @ '' devices selected''),
        button BOpenModal [icon ''Play'', Txt ''Run Command''],
        button_if (bb_pending b) (BQuick ''reboot'' []) [icon ''RotateCcw'', Txt ''Reboot''],
        button_if (bb_pending b) (BQuick ''update_check'' []) [icon ''RefreshCw'', Txt ''Check Updates''],
        button_if (bb_pending b) (BQuick ''sync_time'' [(''target_time'', JStr now)]) [icon ''Clock3'', Txt ''Sync Time''],
        button BCompare [icon ''Columns3'', Txt ''Compare''],
        button BClear [icon ''X'', Txt ''Clear'']]
     @ shown (bb_modal b)
         [label ''Run Shell Command'',
          label (''Dispatch a shell command to '' @ nat_str (length selectedIds) @ '' selected devices.''),
          button BCloseModal [icon ''X''],
          El ''input'' [(''value'', bb_shell b)] [(''onChange'', BShell), (''onKeyDown Enter'', \<lambda>_. BEnter)] [],
          button BCloseModal [Txt ''Cancel''],
          button_if (trim (bb_shell b) = [] \<or> bb_pending b) BSubmit [Txt ''Send'']]"

section \<open>Dashboard.tsx\<close>

record dash_data =
  da_group :: string \<comment> \<open>\<open>searchParams.get('group') ?? ''\<close>\<close>
  da_devices :: "device list"
  da_devicesLoading :: bool
  da_groupDevices :: "device list"
  da_groupLoading :: bool
  da_groups :: "device_group list"
  da_tags :: "string list"
  da_alerts :: "alert list"
  da_activity :: "activity_event list"
  da_now :: string
  da_cards :: "string \<Rightarrow> alert list \<times> metric list" \<comment> \<open>the data of the cards' own queries\<close>

record dashboard =
  ds_tag :: string
  ds_filter :: "device_status option" \<comment> \<open>\<open>None\<close> is \<open>all\<close>\<close>
  ds_search :: string
  ds_selected :: "string list"
  ds_paused :: bool
  ds_bar :: bulk_bar
  ds_sent :: "request list"
  ds_navigated :: "string list"
  ds_downloads :: "(string \<times> string list \<times> string list list) list" \<comment> \<open>calls of \<open>exportToCSV\<close>\<close>

definition dashboard_init :: dashboard where
  "dashboard_init = \<lparr>ds_tag = [], ds_filter = None, ds_search = [], ds_selected = [], ds_paused = False,
     ds_bar = bulk_bar_init, ds_sent = [], ds_navigated = [], ds_downloads = []\<rparr>"

definition sourceDevices :: "dash_data \<Rightarrow> device list" where
  "sourceDevices d = (if da_group d \<noteq> [] then da_groupDevices d else da_devices d)"

definition filtered :: "dashboard \<Rightarrow> device list \<Rightarrow> device list" where
  "filtered s devices =
     filter (\<lambda>d. ds_search s = []
          \<or> includes_sub (toLowerCase (d_hostname d)) (toLowerCase (ds_search s))
          \<or> includes_sub (toLowerCase (nullish (d_label d) [])) (toLowerCase (ds_search s))
          \<or> includes_sub (nullish (d_ip_address d) []) (ds_search s))
       (filter (\<lambda>d. ds_filter s = None \<or> ds_filter s = Some (d_status d))
          (filter (\<lambda>d. ds_tag s = [] \<or> ds_tag s \<in> set (d_tags d)) devices))"

definition toggleSelected :: "string \<Rightarrow> string list \<Rightarrow> string list" where
  "toggleSelected deviceId current =
     (if deviceId \<in> set current then filter (\<lambda>i. i \<noteq> deviceId) current else current @ [deviceId])"

definition prune_selected :: "device list \<Rightarrow> string list \<Rightarrow> string list" where
  "prune_selected devices current = filter (\<lambda>i. list_ex (\<lambda>device. d_id device = i) devices) current"

definition dashboard_csv :: "device list \<Rightarrow> string \<times> string list \<times> string list list" where
  "dashboard_csv devices =
     (''devices.csv'', [''ID'', ''Hostname'', ''OS'', ''Status'', ''Last Seen''],
      map (\<lambda>d. [d_id d, nullish (d_label d) (d_hostname d), nullish (d_os_version d) (os_type_str (d_os_type d)),
                device_status_str (d_status d), nullish (d_last_seen d) []]) devices)"

datatype dashboard_msg =
    DFilter "device_status option" | DTag string | DSearch string | DPause
  | DExport "device list" \<comment> \<open>the devices on the page\<close>
  | DCard card_msg
  | DBulk bulk_msg
  | DSync "device list" \<comment> \<open>the effect on new device data\<close>

text \<open>The bar keeps its state only while it is mounted.\<close>

definition remount_bar :: "dashboard \<Rightarrow> dashboard" where
  "remount_bar s = (if length (ds_selected s) \<ge> 2 then s else s\<lparr>ds_bar := bulk_bar_init\<rparr>)"

fun dashboard_update :: "dashboard \<Rightarrow> dashboard_msg \<Rightarrow> dashboard" where
  "dashboard_update s (DFilter f) = s\<lparr>ds_filter := f\<rparr>"
| "dashboard_update s (DTag t) = s\<lparr>ds_tag := t\<rparr>"
| "dashboard_update s (DSearch q) = s\<lparr>ds_search := q\<rparr>"
| "dashboard_update s DPause = s\<lparr>ds_paused := \<not> ds_paused s\<rparr>"
| "dashboard_update s (DExport devices) = s\<lparr>ds_downloads := ds_downloads s @ [dashboard_csv devices]\<rparr>"
| "dashboard_update s (DCard (OpenCard i)) = s\<lparr>ds_navigated := ds_navigated s @ [''/devices/'' @ i]\<rparr>"
| "dashboard_update s (DCard (ToggleCard i)) =
     remount_bar (s\<lparr>ds_selected := toggleSelected i (ds_selected s)\<rparr>)"
| "dashboard_update s (DBulk BClear) = remount_bar (s\<lparr>ds_selected := []\<rparr>)"
| "dashboard_update s (DBulk BCompare) =
     s\<lparr>ds_navigated := ds_navigated s @ [compare_link (ds_selected s)]\<rparr>"
| "dashboard_update s (DBulk m) =
     (case bulk_update (ds_selected s) (ds_bar s) m of
        (b, sent) \<Rightarrow> s\<lparr>ds_bar := b, ds_sent := ds_sent s @ sent\<rparr>)"
| "dashboard_update s (DSync new) = remount_bar (s\<lparr>ds_selected := prune_selected new (ds_selected s)\<rparr>)"

definition eventDot :: "event_type \<Rightarrow> string" where
  "eventDot t = (case t of Crash \<Rightarrow> ''bg-red-500'' | ErrorEvent \<Rightarrow> ''bg-rose-500'' | WarningEvent \<Rightarrow> ''bg-amber-500''
     | InfoEvent \<Rightarrow> ''bg-blue-500'')"

definition dash_stats :: "device list \<Rightarrow> alert list \<Rightarrow> (string \<times> nat) list" where
  "dash_stats devices alerts =
     [(''Total Devices'', length devices),
      (''Online'', length (filter (\<lambda>d. d_status d = Online) devices)),
      (''Offline'', length (filter (\<lambda>d. d_status d = Offline) devices)),
      (''Active Alerts'', length alerts)]"

definition activity_row :: "(string \<Rightarrow> string) \<Rightarrow> activity_event \<Rightarrow> dashboard_msg node" where
  "activity_row ago item =
     box [El ''dot'' [(''color'', eventDot (ae_event_type item))] [] [], label (ae_device_hostname item),
          label (ae_message item), label (ago (ae_time item))]"

definition device_grid :: "(string \<Rightarrow> string) \<Rightarrow> dash_data \<Rightarrow> dashboard \<Rightarrow> dashboard_msg view" where
  "device_grid ago d s =
     (if (if da_group d \<noteq> [] then da_groupLoading d else da_devicesLoading d) then replicate 8 skeleton_card
      else if filtered s (sourceDevices d) = [] then [icon ''Monitor'', label ''No devices found'']
      else map (\<lambda>device. map_node DCard (DeviceCard ago (fst (da_cards d (d_id device))) (snd (da_cards d (d_id device)))
                 (d_id device \<in> set (ds_selected s)) device))
             (filtered s (sourceDevices d)))"

definition dashboard_view :: "(string \<Rightarrow> string) \<Rightarrow> dash_data \<Rightarrow> dashboard \<Rightarrow> dashboard_msg view" where
  "dashboard_view ago d s =
     [label ''Dashboard'', label ''Overview of all managed devices'', button (DExport (sourceDevices d)) [Txt ''Export CSV'']]
     @ map (\<lambda>(name, value). box [label name, label (nat_str value)]) (dash_stats (sourceDevices d) (da_alerts d))
     @ map (\<lambda>f. El ''button'' [(''current'', if ds_filter s = f then ''true'' else ''false'')] [(''onClick'', \<lambda>_. DFilter f)]
              [Txt (case f of None \<Rightarrow> ''all'' | Some st \<Rightarrow> device_status_str st)])
         [None, Some Online, Some Offline, Some Alerting]
     @ [El ''select'' [(''value'', ds_tag s)] [(''onChange'', DTag)]
          (label ''All tags'' # map (\<lambda>t. El ''option'' [(''value'', t)] [] [Txt t]) (da_tags d)),
        input_field (ds_search s) DSearch]
     @ (case find_first (\<lambda>g. g_id g = da_group d) (da_groups d) of
          None \<Rightarrow> [] | Some g \<Rightarrow> [label (''Filtering dashboard to group '' @ g_name g @ ''.'')])
     @ device_grid ago d s
     @ [label ''Live Activity'', label ''Last 20 events from all devices'',
        button DPause [Txt (if ds_paused s then ''Resume'' else ''Pause'')]]
     @ (if da_activity d = [] then [label ''Waiting for activity...'']
        else map (activity_row ago) (da_activity d))
     @ shown (length (ds_selected s) \<ge> 2) (map (map_node DBulk) (bulk_bar_view (da_now d) (ds_selected s) (ds_bar s)))"

text \<open>
  Messages of the environment: new data, the answer to a bulk command, the timer of the toast and the
  \<open>dtsys:close-modals\<close> event.
\<close>

fun dashboard_env :: "dashboard \<Rightarrow> dashboard_msg \<Rightarrow> bool" where
  "dashboard_env s (DSync new) = True"
| "dashboard_env s (DBulk (BSuccess n)) = bb_pending (ds_bar s)"
| "dashboard_env s (DBulk (BError e)) = bb_pending (ds_bar s)"
| "dashboard_env s (DBulk BToastTimeout) = (bb_toast (ds_bar s) \<noteq> None)"
| "dashboard_env s (DBulk BCloseModal) = True"
| "dashboard_env s m = False"

abbreviation dashboard_run :: "(string \<Rightarrow> string) \<Rightarrow> dashboard_msg list \<Rightarrow> dashboard \<Rightarrow> bool" where
  "dashboard_run ago \<equiv> ui_run (dashboard_view ago) dashboard_env dashboard_update dashboard_init"

section \<open>Lemmas\<close>

definition ticked :: "dashboard_msg list \<Rightarrow> string set" where
  "ticked ms = {i. DCard (ToggleCard i) \<in> set ms}"

definition bulk_ok :: "dashboard_msg list \<Rightarrow> request \<Rightarrow> bool" where
  "bulk_ok ms r \<longleftrightarrow> (\<exists>ids t p. r = commands_bulk ids t p \<and> 2 \<le> length ids \<and> distinct ids \<and> set ids \<subseteq> ticked ms)"

definition selection_ok :: "dashboard_msg list \<Rightarrow> dashboard \<Rightarrow> bool" where
  "selection_ok ms s \<longleftrightarrow> distinct (ds_selected s) \<and> set (ds_selected s) \<subseteq> ticked ms \<and> (\<forall>r \<in> set (ds_sent s). bulk_ok ms r)"

lemma ticked_snoc: "ticked ms \<subseteq> ticked (ms @ [m])" "ticked (ms @ [DCard (ToggleCard i)]) = insert i (ticked ms)"
  by (auto simp: ticked_def)

lemma bulk_ok_snoc: "bulk_ok ms r \<Longrightarrow> bulk_ok (ms @ [m]) r"
  unfolding bulk_ok_def using ticked_snoc(1)[of ms m] by blast

lemma toggleSelected_props:
  "distinct xs \<Longrightarrow> distinct (toggleSelected i xs)" "set (toggleSelected i xs) \<subseteq> insert i (set xs)"
  by (auto simp: toggleSelected_def)

lemma toggleSelected_twice: "i \<notin> set xs \<Longrightarrow> toggleSelected i (toggleSelected i xs) = xs"
  by (auto simp: toggleSelected_def filter_id_conv)

lemma remount_bar_simps [simp]: "ds_selected (remount_bar s) = ds_selected s" "ds_sent (remount_bar s) = ds_sent s"
  by (simp_all add: remount_bar_def)

lemma bulk_update_sent:
  "snd (bulk_update sel b m) = [] \<or> (2 \<le> length sel \<and> (\<exists>t p. snd (bulk_update sel b m) = [commands_bulk sel t p]))"
  by (cases "(sel, b, m)" rule: bulk_update.cases) (auto simp: quickAction_def submitShellCommand_def)

lemma dashboard_step_sent:
  "\<exists>rs. ds_sent (dashboard_update s m) = ds_sent s @ rs \<and> (\<forall>r \<in> set rs. 2 \<le> length (ds_selected s)
      \<and> (\<exists>t p. r = commands_bulk (ds_selected s) t p))"
proof (cases "\<exists>b. m = DBulk b \<and> b \<noteq> BClear \<and> b \<noteq> BCompare")
  case True
  then obtain b where m: "m = DBulk b" "b \<noteq> BClear" "b \<noteq> BCompare" by blast
  then have "ds_sent (dashboard_update s m) = ds_sent s @ snd (bulk_update (ds_selected s) (ds_bar s) b)"
    by (cases b) (simp_all add: split_def)
  moreover have "2 \<le> length (ds_selected s) \<and> (\<exists>t p. r = commands_bulk (ds_selected s) t p)"
    if "r \<in> set (snd (bulk_update (ds_selected s) (ds_bar s) b))" for r
    using bulk_update_sent[of "ds_selected s" "ds_bar s" b] that by fastforce
  ultimately show ?thesis by blast
next
  case False
  then have "ds_sent (dashboard_update s m) = ds_sent s"
    by (cases "(s, m)" rule: dashboard_update.cases) simp_all
  then show ?thesis by simp
qed

lemma selection_step:
  assumes "selection_ok ms s"
  shows "selection_ok (ms @ [m]) (dashboard_update s m)"
proof -
  have sel: "distinct (ds_selected s)" "set (ds_selected s) \<subseteq> ticked ms" and sent: "\<forall>r \<in> set (ds_sent s). bulk_ok ms r"
    using assms by (auto simp: selection_ok_def)
  have "distinct (ds_selected (dashboard_update s m)) \<and> set (ds_selected (dashboard_update s m)) \<subseteq> ticked (ms @ [m])"
  proof (cases "\<exists>i. m = DCard (ToggleCard i)")
    case True
    then obtain i where "m = DCard (ToggleCard i)" by blast
    then show ?thesis
      using sel ticked_snoc(2)[of ms i] toggleSelected_props(1)[of "ds_selected s" i] toggleSelected_props(2)[of i "ds_selected s"] by auto
  next
    case False
    then have "distinct (ds_selected (dashboard_update s m)) \<and> set (ds_selected (dashboard_update s m)) \<subseteq> set (ds_selected s)"
      using sel(1) by (cases "(s, m)" rule: dashboard_update.cases) (auto simp: prune_selected_def split_def)
    with sel(2) ticked_snoc(1)[of ms m] show ?thesis by blast
  qed
  moreover have "bulk_ok (ms @ [m]) r" if "r \<in> set (ds_sent (dashboard_update s m))" for r
  proof -
    obtain rs where "ds_sent (dashboard_update s m) = ds_sent s @ rs" and
      "\<forall>r \<in> set rs. 2 \<le> length (ds_selected s) \<and> (\<exists>t p. r = commands_bulk (ds_selected s) t p)"
      using dashboard_step_sent[of s m] by blast
    with that have "r \<in> set (ds_sent s) \<or> 2 \<le> length (ds_selected s) \<and> (\<exists>t p. r = commands_bulk (ds_selected s) t p)"
      by auto
    with sent sel have "bulk_ok ms r" unfolding bulk_ok_def by blast
    then show ?thesis by (rule bulk_ok_snoc)
  qed
  ultimately show ?thesis by (simp add: selection_ok_def)
qed

interpretation dashboard_page: ui_page "dashboard_view ago" dashboard_env dashboard_update dashboard_init selection_ok
  by unfold_locales (simp_all add: selection_step, simp add: selection_ok_def dashboard_init_def)

section \<open>Properties\<close>

text \<open>C14. Bulk commands reach only what the user selected: in every run of the dashboard, whatever the data,
  every bulk command sent goes to at least two devices, each once, and each of them was ticked by the
  user.\<close>

theorem bulk_targets_selected:
  assumes "dashboard_run ago ms s" "r \<in> set (ds_sent s)"
  shows "\<exists>ids t p. r = commands_bulk ids t p \<and> 2 \<le> length ids \<and> distinct ids
    \<and> (\<forall>i \<in> set ids. DCard (ToggleCard i) \<in> set ms)"
proof -
  have "bulk_ok ms r" using dashboard_page.run_inv[OF assms(1)] assms(2) by (simp add: selection_ok_def)
  then show ?thesis unfolding bulk_ok_def ticked_def by blast
qed

definition sample_device :: "string \<Rightarrow> device" where
  "sample_device i = \<lparr>d_id = i, d_hostname = ''h'' @ i, d_os_type = Linux, d_os_version = None, d_arch = None,
     d_ip_address = None, d_status = Online, d_last_seen = None, d_enrolled_at = ''t'', d_label = None, d_notes = None,
     d_tags = [], d_serial_number = None, d_manufacturer = None, d_model_name = None, d_purchase_date = None,
     d_warranty_expires = None, d_location = None, d_assigned_to = None, d_asset_tag = None, d_maintenance_mode = None,
     d_maintenance_until = None, d_maintenance_reason = None, d_agent_version = None, d_is_online = True\<rparr>"

definition sample_data :: dash_data where
  "sample_data = \<lparr>da_group = [], da_devices = [sample_device ''1'', sample_device ''2''], da_devicesLoading = False,
     da_groupDevices = [], da_groupLoading = False, da_groups = [], da_tags = [], da_alerts = [], da_activity = [],
     da_now = ''t'', da_cards = (\<lambda>i. ([], []))\<rparr>"

lemma sample_offers_tick:
  assumes "ds_filter s = None" "ds_search s = []" "ds_tag s = []" "i \<in> {''1'', ''2''}"
  shows "offers (dashboard_view ago sample_data s) (DCard (ToggleCard i))"
proof -
  have "filtered s (sourceDevices sample_data) = [sample_device ''1'', sample_device ''2'']"
    using assms by (simp add: filtered_def sourceDevices_def sample_data_def)
  then have "offers (device_grid ago sample_data s) (DCard (ToggleCard i))"
    using assms(4) by (auto simp: device_grid_def DeviceCard_def Let_def sample_device_def sample_data_def)
  then show ?thesis by (simp add: dashboard_view_def)
qed

lemma bar_offers_reboot:
  assumes "2 \<le> length (ds_selected s)" "\<not> bb_pending (ds_bar s)"
  shows "offers (dashboard_view ago d s) (DBulk (BQuick ''reboot'' []))"
proof -
  have "offers (bulk_bar_view (da_now d) (ds_selected s) (ds_bar s)) (BQuick ''reboot'' [])"
    using assms(2) by (simp add: bulk_bar_view_def)
  then have "offers (map (map_node DBulk) (bulk_bar_view (da_now d) (ds_selected s) (ds_bar s))) (DBulk (BQuick ''reboot'' []))"
    by (simp only: offers_map_node) blast
  then show ?thesis unfolding dashboard_view_def offers_append if_P[OF assms(1)] by blast
qed

theorem bulk_targets_selected_witness:
  "\<exists>s. dashboard_run (\<lambda>t. t) [DCard (ToggleCard ''1''), DCard (ToggleCard ''2''), DBulk (BQuick ''reboot'' [])] s
     \<and> ds_sent s = [commands_bulk [''1'', ''2''] ''reboot'' []]
     \<and> (\<exists>ids t p. commands_bulk [''1'', ''2''] ''reboot'' [] = commands_bulk ids t p \<and> 2 \<le> length ids \<and> distinct ids)"
proof -
  let ?s1 = "dashboard_update dashboard_init (DCard (ToggleCard ''1''))"
  let ?s2 = "dashboard_update ?s1 (DCard (ToggleCard ''2''))"
  let ?s3 = "dashboard_update ?s2 (DBulk (BQuick ''reboot'' []))"
  have s2: "?s2 = dashboard_init\<lparr>ds_selected := [''1'', ''2'']\<rparr>"
    by (simp add: dashboard_init_def toggleSelected_def remount_bar_def)
  have "dashboard_run (\<lambda>t. t) ([] @ [DCard (ToggleCard ''1'')]) ?s1"
    by (rule ui_run.user[OF ui_run.mount, where d = sample_data]) (rule sample_offers_tick, simp_all add: dashboard_init_def)
  then have "dashboard_run (\<lambda>t. t) (([] @ [DCard (ToggleCard ''1'')]) @ [DCard (ToggleCard ''2'')]) ?s2"
    by (rule ui_run.user[where d = sample_data])
      (rule sample_offers_tick, simp_all add: dashboard_init_def remount_bar_def toggleSelected_def)
  then have run: "dashboard_run (\<lambda>t. t) ((([] @ [DCard (ToggleCard ''1'')]) @ [DCard (ToggleCard ''2'')]) @ [DBulk (BQuick ''reboot'' [])]) ?s3"
    by (rule ui_run.user[where d = sample_data])
      (rule bar_offers_reboot, simp_all only: s2, simp_all add: dashboard_init_def bulk_bar_init_def)
  have sent: "ds_sent ?s3 = [commands_bulk [''1'', ''2''] ''reboot'' []]"
    unfolding s2 by (simp add: dashboard_init_def bulk_bar_init_def quickAction_def)
  have "commands_bulk [''1'', ''2''] ''reboot'' [] \<in> set (ds_sent ?s3)" by (simp only: sent) simp
  from bulk_targets_selected[OF run this] run sent show ?thesis by auto
qed

text \<open>The CPU sparkline stays in its box: for any list of readings, also negative ones or ones above
  100 percent, there is one point per reading, every point lies in the 180 by 40 view box, and the
  points go from left to right.\<close>

theorem sparkline_in_box:
  "length (sparkline_points values) = length values
   \<and> list_all (\<lambda>(x, y). 0 \<le> x \<and> x \<le> 180 \<and> 0 \<le> y \<and> y \<le> 40) (sparkline_points values)
   \<and> sorted (map fst (sparkline_points values))"
proof -
  define step :: rat where "step = (if length values > 1 then 180 / of_nat (length values - 1) else 180)"
  have step: "0 \<le> step" by (simp add: step_def)
  have pts: "sparkline_points values =
      map (\<lambda>(i, v). (of_nat i * step, 40 - (max 0 (min 100 v) / 100) * 40)) (enumerate 0 values)"
    by (simp add: sparkline_points_def Let_def step_def)
  have x: "of_nat i * step \<le> 180" if "i < length values" for i
  proof (cases "length values > 1")
    case True
    then have "(of_nat i :: rat) \<le> of_nat (length values - 1)" using that by (intro of_nat_mono) simp
    then have "of_nat i * step \<le> of_nat (length values - 1) * step" using step by (rule mult_right_mono)
    also have "\<dots> = 180" using True by (simp add: step_def del: of_nat_diff)
    finally show ?thesis .
  next
    case False
    then have "i = 0" using that by linarith
    then show ?thesis by simp
  qed
  have y: "0 \<le> 40 - (max 0 (min 100 v) / 100) * 40 \<and> 40 - (max 0 (min 100 v) / 100) * 40 \<le> (40::rat)" for v :: rat
  proof -
    have "0 \<le> max 0 (min 100 v)" "max 0 (min 100 v) \<le> 100" by auto
    then show ?thesis by linarith
  qed
  have "map fst (sparkline_points values) = map (\<lambda>i. of_nat i * step) [0..<length values]"
  proof (rule nth_equalityI)
    show "map fst (sparkline_points values) ! i = map (\<lambda>i. of_nat i * step) [0..<length values] ! i"
      if "i < length (map fst (sparkline_points values))" for i
      using that by (simp add: pts nth_enumerate_eq)
  qed (simp add: pts)
  then have "sorted (map fst (sparkline_points values))"
    using step by (auto simp: sorted_iff_nth_mono intro!: mult_right_mono)
  moreover have "list_all (\<lambda>(x, y). 0 \<le> x \<and> x \<le> 180 \<and> 0 \<le> y \<and> y \<le> 40) (sparkline_points values)"
    unfolding list_all_length pts using x y step by (simp add: nth_enumerate_eq)
  ultimately show ?thesis by (simp add: pts)
qed

end
