(* ===== verification/CommandPanel.thy ===== *)
theory CommandPanel
  imports Queries View JsNumber
begin

text \<open>
  \<open>frontend/src/components/device/CommandPanel.tsx\<close>: the command line of a device page, its history and
  its library of saved commands, as a state machine. \<open>ago\<close> is date-fns' relative time, \<open>now\<close> is
  \<open>new Date().toISOString()\<close>, \<open>parse\<close> is \<open>JSON.parse\<close> (\<open>None\<close> when it throws).
\<close>

section \<open>JSON values on the page\<close>

fun js_string :: "json \<Rightarrow> string" where
  "js_string JNull = ''null''"
| "js_string (JBool b) = (if b then ''true'' else ''false'')"
| "js_string (JNum n) = number_str n"
| "js_string (JStr s) = s"
| "js_string (JArr xs) = join '','' (map (\<lambda>x. if x = JNull then [] else js_string x) xs)"
| "js_string (JObj fs) = ''[object Object]''"

definition safeParseJSON :: "(string \<Rightarrow> json option) \<Rightarrow> string \<Rightarrow> json" where
  "safeParseJSON parse value = (case parse value of None \<Rightarrow> JStr value | Some j \<Rightarrow> j)"

fun JsonTree :: "json \<Rightarrow> 'm node" where
  "JsonTree JNull = label ''null''"
| "JsonTree (JStr s) = label ([dquote] @ s @ [dquote])"
| "JsonTree (JNum n) = label (number_str n)"
| "JsonTree (JBool b) = label (if b then ''true'' else ''false'')"
| "JsonTree (JArr xs) = box ([label ''[''] @ map (\<lambda>x. box [JsonTree x]) xs @ [label '']''])"
| "JsonTree (JObj fs) =
     box ([label ''{''] @ map (\<lambda>f. box [label (fst f), label '': '', JsonTree (snd f)]) fs @ [label ''}''])"

section \<open>The panel\<close>

definition statusColor :: "command_status \<Rightarrow> string" where
  "statusColor st = (case st of Pending \<Rightarrow> ''text-gray-400'' | Sent \<Rightarrow> ''text-blue-400'' | Running \<Rightarrow> ''text-yellow-400''
     | Completed \<Rightarrow> ''text-green-400'' | Failed \<Rightarrow> ''text-red-400'' | Timeout \<Rightarrow> ''text-orange-400'')"

record panel =
  cp_text :: string
  cp_selected :: "command option"
  cp_libraryOpen :: bool
  cp_saveName :: string
  cp_saveDescription :: string
  cp_search :: string
  cp_pending :: bool \<comment> \<open>\<open>dispatch.isPending\<close>\<close>
  cp_sent :: "request list" \<comment> \<open>the requests of \<open>dispatch\<close> and \<open>saveCurrentCommand\<close>\<close>

definition panel_init :: panel where
  "panel_init = \<lparr>cp_text = [], cp_selected = None, cp_libraryOpen = False, cp_saveName = [], cp_saveDescription = [],
     cp_search = [], cp_pending = False, cp_sent = []\<rparr>"

datatype panel_msg =
    PText string
  | PEnter | PSend
  | PLibrary bool
  | PQuick string string \<comment> \<open>type, and the time of the click\<close>
  | PSelect command
  | PSearch string
  | PRun saved_command
  | PName string | PDescription string | PSave
  | PCommands "command list" \<comment> \<open>the effect on new command data\<close>
  | PDispatched | PDispatchFailed
  | PSaved

text \<open>\<open>deviceId\<close> is the device the panel was given.\<close>

definition panel_dispatch :: "string \<Rightarrow> string \<Rightarrow> (string \<times> json) list \<Rightarrow> panel \<Rightarrow> panel" where
  "panel_dispatch deviceId ctype payload s =
     s\<lparr>cp_pending := True, cp_sent := cp_sent s @ [commands_dispatch deviceId ctype payload]\<rparr>"

definition send_shell :: "string \<Rightarrow> panel \<Rightarrow> panel" where
  "send_shell deviceId s =
     (if cp_text s \<noteq> [] then panel_dispatch deviceId ''shell'' [(''command'', JStr (cp_text s))] s else s)"

definition refresh_selected :: "command list \<Rightarrow> panel \<Rightarrow> panel" where
  "refresh_selected commands s = (case cp_selected s of
     None \<Rightarrow> s
   | Some sel \<Rightarrow> (case find_first (\<lambda>c. c_id c = c_id sel) commands of
        None \<Rightarrow> s
      | Some refreshed \<Rightarrow> s\<lparr>cp_selected := Some refreshed\<rparr>))"

definition run_saved :: "string \<Rightarrow> saved_command \<Rightarrow> panel \<Rightarrow> panel" where
  "run_saved deviceId c s =
     (let s' = (if sv_command_type c = ''shell''
                then s\<lparr>cp_text := (case map_of (sv_payload c) ''command'' of
                       None \<Rightarrow> [] | Some JNull \<Rightarrow> [] | Some j \<Rightarrow> js_string j)\<rparr>
                else panel_dispatch deviceId (sv_command_type c) (sv_payload c) s)
      in s'\<lparr>cp_libraryOpen := False\<rparr>)"

definition save_request :: "panel \<Rightarrow> request" where
  "save_request s = saved_create
     [(''name'', JStr (cp_saveName s)),
      (''description'', JNullable (or_null (cp_saveDescription s))),
      (''command_type'', JStr ''shell''), (''payload'', JObj [(''command'', JStr (cp_text s))]),
      (''is_global'', JBool False), (''device_id'', JNull)]"

fun panel_update :: "string \<Rightarrow> panel \<Rightarrow> panel_msg \<Rightarrow> panel" where
  "panel_update dev s (PText v) = s\<lparr>cp_text := v\<rparr>"
| "panel_update dev s PEnter = send_shell dev s"
| "panel_update dev s PSend = send_shell dev s"
| "panel_update dev s (PLibrary b) = s\<lparr>cp_libraryOpen := b\<rparr>"
| "panel_update dev s (PQuick ctype now) =
     panel_dispatch dev ctype (if ctype = ''sync_time'' then [(''target_time'', JStr now)] else []) s"
| "panel_update dev s (PSelect c) =
     s\<lparr>cp_selected := (if map_option c_id (cp_selected s) = Some (c_id c) then None else Some c)\<rparr>"
| "panel_update dev s (PSearch v) = s\<lparr>cp_search := v\<rparr>"
| "panel_update dev s (PRun c) = run_saved dev c s"
| "panel_update dev s (PName v) = s\<lparr>cp_saveName := v\<rparr>"
| "panel_update dev s (PDescription v) = s\<lparr>cp_saveDescription := v\<rparr>"
| "panel_update dev s PSave = s\<lparr>cp_sent := cp_sent s @ [save_request s]\<rparr>"
| "panel_update dev s (PCommands cs) = refresh_selected cs s"
| "panel_update dev s PDispatched = s\<lparr>cp_text := [], cp_pending := False\<rparr>"
| "panel_update dev s PDispatchFailed = s\<lparr>cp_pending := False\<rparr>"
| "panel_update dev s PSaved = s\<lparr>cp_saveName := [], cp_saveDescription := []\<rparr>"

record panel_data =
  pd_commands :: "command list"
  pd_savedCommands :: "saved_command list"
  pd_now :: string

definition quickActions :: "(string \<times> string \<times> string) list" where
  "quickActions = [(''Check Updates'', ''update_check'', ''RefreshCw''), (''Reboot (30s)'', ''reboot'', ''RotateCcw''),
     (''Sync Time'', ''sync_time'', ''Clock3''), (''Run Diagnostics'', ''diagnostics'', ''Stethoscope'')]"

definition command_title :: "command \<Rightarrow> string" where
  "command_title c =
     (if c_command_type c = ''shell''
      then (case map_of (c_payload c) ''command'' of None \<Rightarrow> ''shell'' | Some JNull \<Rightarrow> ''shell'' | Some j \<Rightarrow> js_string j)
      else c_command_type c)"

definition command_entry ::
  "(string \<Rightarrow> string) \<Rightarrow> (string \<Rightarrow> json option) \<Rightarrow> panel \<Rightarrow> command \<Rightarrow> panel_msg node" where
  "command_entry ago parse s c =
     El ''div'' [] [(''onClick'', \<lambda>_. PSelect c)]
       ([label (command_title c),
         El ''span'' [(''color'', statusColor (c_status c))] [] [Txt (command_status_str (c_status c))],
         label (ago (c_created_at c))]
        @ shown (map_option c_id (cp_selected s) = Some (c_id c) \<and> truthy (c_output c))
            [if c_command_type c = ''diagnostics'' then JsonTree (safeParseJSON parse (the (c_output c)))
             else El ''pre'' [] [] [Txt (the (c_output c))]])"

definition saved_entry :: "saved_command \<Rightarrow> panel_msg node" where
  "saved_entry c = box [label (sv_name c), label (nullish (sv_description c) ''No description''), button (PRun c) [Txt ''Run'']]"

definition library_view :: "panel_data \<Rightarrow> panel \<Rightarrow> panel_msg view" where
  "library_view d s =
     [label ''Command Library'', label ''Reuse saved commands or save the current shell command.'',
      button (PLibrary False) [icon ''X''], input_field (cp_search s) PSearch]
     @ map saved_entry (filter (\<lambda>c. includes_sub (toLowerCase (sv_name c)) (toLowerCase (cp_search s))) (pd_savedCommands d))
     @ [label ''Save Current'', label ''Store the current shell command in your personal library.'',
        input_field (cp_saveName s) PName, input_field (cp_saveDescription s) PDescription,
        button_if (trim (cp_text s) = [] \<or> trim (cp_saveName s) = []) PSave [Txt ''Save Current'']]"

definition panel_view ::
  "(string \<Rightarrow> string) \<Rightarrow> (string \<Rightarrow> json option) \<Rightarrow> panel_data \<Rightarrow> panel \<Rightarrow> panel_msg view" where
  "panel_view ago parse d s =
     [icon ''Terminal'',
      El ''input'' [(''value'', cp_text s)] [(''onChange'', PText), (''onKeyDown Enter'', \<lambda>_. PEnter)] [],
      button_if (cp_text s = [] \<or> cp_pending s) PSend [icon ''Play'', Txt ''Send''],
      button (PLibrary True) [icon ''BookOpen'', Txt ''Library'']]
     @ map (\<lambda>(name, ctype, ic). button (PQuick ctype (pd_now d)) [icon ic, Txt name]) quickActions
     @ map (command_entry ago parse s) (pd_commands d)
     @ shown (cp_libraryOpen s) (library_view d s)"

text \<open>The environment: new command data and the answers of the server.\<close>

fun panel_env :: "panel \<Rightarrow> panel_msg \<Rightarrow> bool" where
  "panel_env s (PCommands cs) = True"
| "panel_env s PDispatched = cp_pending s"
| "panel_env s PDispatchFailed = cp_pending s"
| "panel_env s PSaved = list_ex (\<lambda>r. rq_path r = ''/saved-commands'') (cp_sent s)"
| "panel_env s m = False"

abbreviation panel_run :: "string \<Rightarrow> (string \<Rightarrow> string) \<Rightarrow> (string \<Rightarrow> json option) \<Rightarrow> panel_msg list \<Rightarrow> panel \<Rightarrow> bool" where
  "panel_run dev ago parse \<equiv> ui_run (panel_view ago parse) panel_env (panel_update dev) panel_init"

section \<open>Lemmas\<close>

lemma JsonTree_inert [simp]: "\<not> offers [JsonTree j] m"
proof (induction j rule: JsonTree.induct)
  case (6 fs)
  then show ?case by (fastforce simp: offers_map)
qed auto

text \<open>
  What a history of events asks for, read from the events alone. \<open>input_line\<close> is what stands in the command
  line: the last text typed, or the text of the last saved shell command taken from the library, and nothing
  after a command has been accepted.
\<close>

definition last_text :: "(panel_msg \<Rightarrow> string option) \<Rightarrow> panel_msg list \<Rightarrow> string" where
  "last_text f ms = foldl (\<lambda>t m. nullish (f m) t) [] ms"

definition saved_text :: "saved_command \<Rightarrow> string" where
  "saved_text c = (case map_of (sv_payload c) ''command'' of Some (JStr t) \<Rightarrow> t | Some JNull \<Rightarrow> [] | None \<Rightarrow> [] | Some j \<Rightarrow> js_string j)"

definition input_line :: "panel_msg list \<Rightarrow> string" where
  "input_line = last_text (\<lambda>m. case m of PText v \<Rightarrow> Some v
     | PRun c \<Rightarrow> (if sv_command_type c = ''shell'' then Some (saved_text c) else None)
     | PDispatched \<Rightarrow> Some [] | _ \<Rightarrow> None)"

definition save_name :: "panel_msg list \<Rightarrow> string" where
  "save_name = last_text (\<lambda>m. case m of PName v \<Rightarrow> Some v | PSaved \<Rightarrow> Some [] | _ \<Rightarrow> None)"

definition save_note :: "panel_msg list \<Rightarrow> string" where
  "save_note = last_text (\<lambda>m. case m of PDescription v \<Rightarrow> Some v | PSaved \<Rightarrow> Some [] | _ \<Rightarrow> None)"

definition to_device :: "string \<Rightarrow> string \<Rightarrow> (string \<times> json) list \<Rightarrow> request" where
  "to_device dev ctype payload = mk_request POST (''/devices/'' @ dev @ ''/commands'') []
     (Some (JObj [(''command_type'', JStr ctype), (''payload'', JObj payload)]))"

definition to_library :: "string \<Rightarrow> string \<Rightarrow> string \<Rightarrow> request" where
  "to_library name note text = mk_request POST ''/saved-commands'' []
     (Some (JObj [(''name'', JStr name), (''description'', if note = [] then JNull else JStr note),
        (''command_type'', JStr ''shell''), (''payload'', JObj [(''command'', JStr text)]),
        (''is_global'', JBool False), (''device_id'', JNull)]))"

text \<open>The requests one event asks for, after the events before it.\<close>

definition asked :: "string \<Rightarrow> panel_msg list \<Rightarrow> panel_msg \<Rightarrow> request list" where
  "asked dev ms m = (case m of
     PEnter \<Rightarrow> (if input_line ms = [] then [] else [to_device dev ''shell'' [(''command'', JStr (input_line ms))]])
   | PSend \<Rightarrow> (if input_line ms = [] then [] else [to_device dev ''shell'' [(''command'', JStr (input_line ms))]])
   | PQuick t now \<Rightarrow> [to_device dev t (if t = ''sync_time'' then [(''target_time'', JStr now)] else [])]
   | PRun c \<Rightarrow> (if sv_command_type c = ''shell'' then [] else [to_device dev (sv_command_type c) (sv_payload c)])
   | PSave \<Rightarrow> [to_library (save_name ms) (save_note ms) (input_line ms)]
   | _ \<Rightarrow> [])"

definition asked_all :: "string \<Rightarrow> panel_msg list \<Rightarrow> request list" where
  "asked_all dev ms = concat (map (\<lambda>k. asked dev (take k ms) (ms ! k)) [0..<length ms])"

lemma last_text_simps [simp]: "last_text f [] = []" "last_text f (ms @ [m]) = nullish (f m) (last_text f ms)"
  by (simp_all add: last_text_def)

lemma history_snoc:
  "map (\<lambda>k. f (take k (ms @ [m])) ((ms @ [m]) ! k)) [0..<length (ms @ [m])] = map (\<lambda>k. f (take k ms) (ms ! k)) [0..<length ms] @ [f ms m]"
  by (auto simp: nth_append)

lemma asked_all_simps [simp]: "asked_all dev [] = []" "asked_all dev (ms @ [m]) = asked_all dev ms @ asked dev ms m"
  unfolding asked_all_def history_snoc by simp_all

lemmas history_defs = input_line_def save_name_def save_note_def

lemma save_request_library: "save_request s = to_library (cp_saveName s) (cp_saveDescription s) (cp_text s)"
  by (simp add: save_request_def saved_create_def to_library_def or_null_def JNullable_def)

lemma run_saved_shell: "sv_command_type c = ''shell'' \<Longrightarrow> cp_text (run_saved dev c s) = saved_text c"
  by (simp add: run_saved_def saved_text_def Let_def split: option.split json.split)

text \<open>The clicks that the view bounds: the four quick actions, and saving under a name that is not blank.\<close>

definition click_ok :: "panel_msg list \<Rightarrow> panel_msg \<Rightarrow> bool" where
  "click_ok ms m = (case m of
     PQuick t now \<Rightarrow> t \<in> {''update_check'', ''reboot'', ''sync_time'', ''diagnostics''}
   | PSave \<Rightarrow> trim (input_line ms) \<noteq> [] \<and> trim (save_name ms) \<noteq> []
   | _ \<Rightarrow> True)"

definition clicks_ok :: "panel_msg list \<Rightarrow> bool" where
  "clicks_ok ms = list_all id (map (\<lambda>k. click_ok (take k ms) (ms ! k)) [0..<length ms])"

lemma clicks_ok_simps [simp]: "clicks_ok []" "clicks_ok (ms @ [m]) \<longleftrightarrow> clicks_ok ms \<and> click_ok ms m"
  unfolding clicks_ok_def history_snoc by simp_all

definition panel_ok :: "string \<Rightarrow> panel_msg list \<Rightarrow> panel \<Rightarrow> bool" where
  "panel_ok dev ms s \<longleftrightarrow> cp_sent s = asked_all dev ms \<and> cp_text s = input_line ms
     \<and> cp_saveName s = save_name ms \<and> cp_saveDescription s = save_note ms \<and> clicks_ok ms"

lemma panel_clicks:
  "offers (panel_view ago parse d s) (PQuick t n) \<Longrightarrow> t \<in> {''update_check'', ''reboot'', ''sync_time'', ''diagnostics''}"
  "offers (panel_view ago parse d s) PSave \<Longrightarrow> trim (cp_text s) \<noteq> [] \<and> trim (cp_saveName s) \<noteq> []"
  by (auto simp: panel_view_def quickActions_def command_entry_def library_view_def saved_entry_def split: if_splits)

lemma panel_step:
  assumes "panel_ok dev ms s" "click_ok ms m"
  shows "panel_ok dev (ms @ [m]) (panel_update dev s m)"
proof (cases m)
  case (PRun c)
  then show ?thesis using assms
    by (cases "sv_command_type c = ''shell''")
      (simp_all add: panel_ok_def history_defs run_saved_shell asked_def click_ok_def,
       simp_all add: run_saved_def panel_dispatch_def commands_dispatch_def to_device_def Let_def)
qed (use assms in \<open>auto simp: panel_ok_def history_defs asked_def click_ok_def send_shell_def panel_dispatch_def
      commands_dispatch_def to_device_def save_request_library refresh_selected_def split: option.splits\<close>)

interpretation command_panel: ui_page "panel_view ago parse" panel_env "panel_update dev" panel_init "panel_ok dev"
proof unfold_locales
  show "panel_ok dev [] panel_init" by (simp add: panel_ok_def panel_init_def history_defs)
  show "panel_ok dev (ms @ [m]) (panel_update dev s m)" if "panel_ok dev ms s" "offers (panel_view ago parse d s) m" for ms s d m
  proof (rule panel_step[OF that(1)])
    show "click_ok ms m"
      using that panel_clicks[of ago parse d s] by (cases m) (simp_all add: click_ok_def panel_ok_def)
  qed
  show "panel_ok dev (ms @ [m]) (panel_update dev s m)" if "panel_ok dev ms s" "panel_env s m" for ms s m
    using that(1) by (rule panel_step) (use that(2) in \<open>cases m; simp add: click_ok_def\<close>)
qed

section \<open>Properties\<close>

text \<open>C29. The panel sends exactly what the user asked for, and nothing else: in every run its requests are, in order,
  one shell command with the text of the input line for each Enter or Send on a line that is not empty, the
  command of each quick action that was clicked (one of the four; Sync Time with the time of the click), the
  type and payload of each saved command of another type that was run, all to the device of the panel, and
  the request for each command that was saved to the library, with the name, description and line at that
  moment, the name and line not blank. The input line is what was typed last, or the text of a saved shell
  command run since: running one sends nothing, it only fills the input line and closes the library.\<close>

theorem panel_sends_what_was_asked:
  assumes "panel_run dev ago parse ms s"
  shows "cp_sent s = asked_all dev ms \<and> cp_text s = input_line ms \<and> clicks_ok ms
    \<and> (sv_command_type c = ''shell'' \<longrightarrow>
        panel_update dev s (PRun c) = s\<lparr>cp_text := saved_text c, cp_libraryOpen := False\<rparr>)"
proof -
  have "panel_ok dev ms s" using command_panel.run_inv[OF assms] .
  moreover have "panel_update dev s (PRun c) = s\<lparr>cp_text := saved_text c, cp_libraryOpen := False\<rparr>" if "sv_command_type c = ''shell''"
    using run_saved_shell[OF that, of dev s] that by (simp add: run_saved_def)
  ultimately show ?thesis by (simp add: panel_ok_def)
qed

theorem panel_sends_what_was_asked_witness:
  "\<exists>s. panel_run ''a'' (\<lambda>t. t) (\<lambda>t. None) [PText ''ls'', PEnter] s
     \<and> cp_sent s = [to_device ''a'' ''shell'' [(''command'', JStr ''ls'')]]"
proof -
  let ?d = "\<lparr>pd_commands = [], pd_savedCommands = [], pd_now = ''t''\<rparr>"
  let ?s1 = "panel_update ''a'' panel_init (PText ''ls'')"
  have "panel_run ''a'' (\<lambda>t. t) (\<lambda>t. None) ([] @ [PText ''ls'']) ?s1"
    by (rule ui_run.user[OF ui_run.mount, where d = ?d]) (simp add: panel_view_def)
  then have run: "panel_run ''a'' (\<lambda>t. t) (\<lambda>t. None) (([] @ [PText ''ls'']) @ [PEnter]) (panel_update ''a'' ?s1 PEnter)"
    by (rule ui_run.user[where d = ?d]) (simp add: panel_view_def)
  have "asked_all ''a'' (([] @ [PText ''ls'']) @ [PEnter]) = [to_device ''a'' ''shell'' [(''command'', JStr ''ls'')]]"
    by (simp only: asked_all_simps) (simp add: asked_def input_line_def last_text_def)
  with panel_sends_what_was_asked[OF run] run show ?thesis by auto
qed

end
