(* ===== verification/AuditLog.thy ===== *)
theory AuditLog
  imports AuthStore Api View Url
begin

text \<open>
  \<open>frontend/src/pages/AuditLog.tsx\<close>: the filtered, paged list of audit entries and its live mode. The
  \<open>EventSource\<close> is the URL it was opened with; its messages are steps of the environment. \<open>local_time\<close>
  is \<open>new Date(_).toLocaleString()\<close>, \<open>stringify\<close> is \<open>JSON.stringify\<close>, \<open>parse\<close> is \<open>JSON.parse\<close>.
\<close>

record audit_entry =
  ad_id :: string
  ad_timestamp :: "string option"
  ad_username :: string
  ad_action :: string
  ad_resource_type :: "string option"
  ad_resource_id :: "string option"
  ad_ip_address :: "string option"
  ad_details :: "((string \<times> json) list) option"

record audit_response =
  ar_total :: nat
  ar_offset :: nat
  ar_limit :: nat
  ar_items :: "audit_entry list"

definition ACTION_COLOR :: "string \<rightharpoonup> string" where
  "ACTION_COLOR = map_of
     [(''login_success'', ''text-green-600''), (''login_failed'', ''text-red-500''),
      (''command_dispatched'', ''text-blue-600''), (''device_deleted'', ''text-red-500''),
      (''device_revoked'', ''text-orange-500''), (''org_created'', ''text-purple-600''), (''org_deleted'', ''text-red-500'')]"

definition actionClass :: "string \<Rightarrow> string" where
  "actionClass action = nullish (ACTION_COLOR action) ''text-slate-600''"

record audit_filters =
  af_action :: string
  af_username :: string
  af_resource_type :: string
  af_since :: string
  af_until :: string

record audit_page =
  au_filters :: audit_filters
  au_page :: nat
  au_live :: "audit_entry list"
  au_liveMode :: bool
  au_stream :: "string option" \<comment> \<open>\<open>sseRef.current\<close>, by its URL\<close>
  au_location :: "string option" \<comment> \<open>assignment to \<open>window.location.href\<close>\<close>

definition audit_init :: audit_page where
  "audit_init = \<lparr>au_filters = \<lparr>af_action = [], af_username = [], af_resource_type = [], af_since = [], af_until = []\<rparr>,
     au_page = 0, au_live = [], au_liveMode = False, au_stream = None, au_location = None\<rparr>"

definition audit_limit :: nat where "audit_limit = 50"

definition if_set :: "string \<Rightarrow> string \<Rightarrow> (string \<times> string) list" where
  "if_set k v = (if v \<noteq> [] then [(k, v)] else [])"

definition audit_request :: "audit_page \<Rightarrow> request" where
  "audit_request s =
     (let f = au_filters s in
      api_get ''/audit'' ([(''limit'', JInt (int audit_limit)), (''offset'', JInt (int (au_page s * audit_limit)))]
        @ map (\<lambda>(k, v). (k, JStr v))
            (if_set ''action'' (af_action f) @ if_set ''username'' (af_username f)
             @ if_set ''resource_type'' (af_resource_type f) @ if_set ''since'' (af_since f) @ if_set ''until'' (af_until f))))"

text \<open>\<open>startLive\<close> is memoised without dependencies: \<open>token\<close> is the access token of the first render.\<close>

definition audit_stream_url :: "string option \<Rightarrow> string" where
  "audit_stream_url token = ''/api/v1/audit/stream?token='' @ nullish token []"

definition startLive :: "string option \<Rightarrow> audit_page \<Rightarrow> audit_page" where
  "startLive token s = s\<lparr>au_stream := Some (audit_stream_url token), au_liveMode := True, au_live := []\<rparr>"

definition stopLive :: "audit_page \<Rightarrow> audit_page" where
  "stopLive s = s\<lparr>au_stream := None, au_liveMode := False\<rparr>"

definition onmessage :: "(string \<Rightarrow> audit_entry option) \<Rightarrow> string \<Rightarrow> audit_page \<Rightarrow> audit_page" where
  "onmessage parse data s = (case parse data of
     None \<Rightarrow> s
   | Some entry \<Rightarrow> s\<lparr>au_live := take 200 (entry # au_live s)\<rparr>)"

definition handleExport :: "audit_page \<Rightarrow> audit_page" where
  "handleExport s =
     (let f = au_filters s;
          params = if_set ''action'' (af_action f) @ if_set ''since'' (af_since f) @ if_set ''until'' (af_until f)
      in s\<lparr>au_location := Some (''/api/v1/audit/export/csv?'' @ search_string params)\<rparr>)"

datatype audit_msg =
    AExport | AStart | AStop | ARefetch
  | AAction string | AUsername string | AResourceType string | ASince string | AUntil string
  | APrevious | ANext
  | AMessage string \<comment> \<open>a message of the open stream\<close>

definition set_filter :: "(audit_filters \<Rightarrow> audit_filters) \<Rightarrow> audit_page \<Rightarrow> audit_page" where
  "set_filter f s = s\<lparr>au_page := 0, au_filters := f (au_filters s)\<rparr>"

fun audit_update :: "(string \<Rightarrow> audit_entry option) \<Rightarrow> string option \<Rightarrow> audit_page \<Rightarrow> audit_msg \<Rightarrow> audit_page" where
  "audit_update parse token s AExport = handleExport s"
| "audit_update parse token s AStart = startLive token s"
| "audit_update parse token s AStop = stopLive s"
| "audit_update parse token s ARefetch = s"
| "audit_update parse token s (AAction v) = set_filter (\<lambda>f. f\<lparr>af_action := v\<rparr>) s"
| "audit_update parse token s (AUsername v) = set_filter (\<lambda>f. f\<lparr>af_username := v\<rparr>) s"
| "audit_update parse token s (AResourceType v) = set_filter (\<lambda>f. f\<lparr>af_resource_type := v\<rparr>) s"
| "audit_update parse token s (ASince v) = set_filter (\<lambda>f. f\<lparr>af_since := v\<rparr>) s"
| "audit_update parse token s (AUntil v) = set_filter (\<lambda>f. f\<lparr>af_until := v\<rparr>) s"
| "audit_update parse token s APrevious = s\<lparr>au_page := max 0 (au_page s - 1)\<rparr>"
| "audit_update parse token s ANext = s\<lparr>au_page := au_page s + 1\<rparr>"
| "audit_update parse token s (AMessage data) = onmessage parse data s"

section \<open>The view\<close>

record audit_data =
  aq_data :: "audit_response option"
  aq_isLoading :: bool

definition audit_items :: "audit_data \<Rightarrow> audit_page \<Rightarrow> audit_entry list" where
  "audit_items d s = (if au_liveMode s then au_live s else (case aq_data d of None \<Rightarrow> [] | Some r \<Rightarrow> ar_items r))"

definition audit_total :: "audit_data \<Rightarrow> audit_page \<Rightarrow> nat" where
  "audit_total d s = (if au_liveMode s then length (au_live s) else (case aq_data d of None \<Rightarrow> 0 | Some r \<Rightarrow> ar_total r))"

definition audit_row :: "(string \<Rightarrow> string) \<Rightarrow> ((string \<times> json) list \<Rightarrow> string) \<Rightarrow> audit_entry \<Rightarrow> audit_msg node" where
  "audit_row local_time stringify e =
     El ''tr'' [] []
       ([label (if truthy (ad_timestamp e) then local_time (the (ad_timestamp e)) else em_dash),
         label (ad_username e),
         El ''span'' [(''color'', actionClass (ad_action e))] [] [Txt (ad_action e)]]
        @ shown (truthy (ad_resource_type e))
            [label (the (ad_resource_type e)
               @ (if truthy (ad_resource_id e) then '' / '' @ take 8 (the (ad_resource_id e)) @ ''...'' else []))]
        @ [label (nullish (ad_ip_address e) em_dash),
           label (case ad_details e of None \<Rightarrow> [] | Some fs \<Rightarrow> stringify fs)])"

definition audit_controls :: "audit_page \<Rightarrow> audit_msg view" where
  "audit_controls s =
     [icon ''ClipboardList'', label ''Audit Log'', button AExport [icon ''Download'', Txt ''Export CSV''],
      if au_liveMode s then button AStop [icon ''Wifi'', Txt ''Stop Live''] else button AStart [icon ''Wifi'', Txt ''Live''],
      button ARefetch [icon ''RefreshCw''],
      input_field (af_action (au_filters s)) AAction, input_field (af_username (au_filters s)) AUsername,
      input_field (af_resource_type (au_filters s)) AResourceType,
      El ''input'' [(''type'', ''datetime-local''), (''value'', af_since (au_filters s)), (''title'', ''Since'')] [(''onChange'', ASince)] [],
      El ''input'' [(''type'', ''datetime-local''), (''value'', af_until (au_filters s)), (''title'', ''Until'')] [(''onChange'', AUntil)] []]"

definition audit_view ::
  "(string \<Rightarrow> string) \<Rightarrow> ((string \<times> json) list \<Rightarrow> string) \<Rightarrow> audit_data \<Rightarrow> audit_page \<Rightarrow> audit_msg view" where
  "audit_view local_time stringify d s =
     audit_controls s
     @ map (\<lambda>h. label h) [''Time'', ''User'', ''Action'', ''Resource'', ''IP'', ''Details'']
     @ shown (aq_isLoading d \<and> \<not> au_liveMode s) [label ''Loading...'']
     @ shown (\<not> aq_isLoading d \<and> audit_items d s = []) [label ''No audit log entries found.'']
     @ map (audit_row local_time stringify) (audit_items d s)
     @ shown (\<not> au_liveMode s)
         [label (nat_str (audit_total d s) @ '' total entries''),
          button_if (au_page s = 0) APrevious [Txt ''Previous''],
          label (''Page '' @ nat_str (au_page s + 1)),
          button_if ((au_page s + 1) * audit_limit \<ge> audit_total d s) ANext [Txt ''Next'']]"

section \<open>Lemmas\<close>

lemma onmessage_fold:
  "au_live (foldl (\<lambda>s data. onmessage parse data s) s msgs) = take 200 (rev (List.map_filter parse msgs) @ au_live s)"
  if "length (au_live s) \<le> 200"
  using that
proof (induction msgs arbitrary: s)
  case (Cons m msgs)
  show ?case
  proof (cases "parse m")
    case None
    then show ?thesis using Cons by (simp add: onmessage_def List.map_filter_def)
  next
    case (Some e)
    then show ?thesis using Cons.IH[of "onmessage parse m s"] by (simp add: onmessage_def List.map_filter_def take_Cons')
  qed
qed (simp add: List.map_filter_def)

section \<open>Properties\<close>

text \<open>The live audit log shows the newest entries: after starting the live mode and any messages of the
  stream, the page shows the latest 200 well-formed entries, the newest first; malformed messages are
  skipped, nothing of an earlier list remains, and stopping closes the stream.\<close>

theorem audit_live_window:
  "let s' = foldl (audit_update parse token) s (AStart # map AMessage msgs) in
     audit_items d s' = take 200 (rev (List.map_filter parse msgs))
     \<and> au_stream s' = Some (audit_stream_url token) \<and> au_stream (audit_update parse token s' AStop) = None"
proof -
  have "foldl (audit_update parse token) s0 (map AMessage msgs) = foldl (\<lambda>s data. onmessage parse data s) s0 msgs" for s0
    by (induction msgs arbitrary: s0) simp_all
  moreover have "au_liveMode (foldl (\<lambda>s data. onmessage parse data s) s0 msgs) = au_liveMode s0
      \<and> au_stream (foldl (\<lambda>s data. onmessage parse data s) s0 msgs) = au_stream s0" for s0
    by (induction msgs arbitrary: s0) (simp_all add: onmessage_def split: option.split)
  ultimately show ?thesis
    using onmessage_fold[of "startLive token s" parse msgs]
    by (simp add: Let_def audit_items_def startLive_def stopLive_def)
qed

text \<open>
  Paging is gapless: Next is offered exactly when there are entries beyond the page, it leads to the page
  that starts right after it, and Previous leads back.
\<close>

lemma audit_paging:
  assumes "\<not> au_liveMode s"
  shows "offers (audit_view lt st d s) ANext \<longleftrightarrow> (au_page s + 1) * audit_limit < audit_total d s"
    and "offers (audit_view lt st d s) APrevious \<longleftrightarrow> au_page s > 0"
    and "audit_update parse token (audit_update parse token s ANext) APrevious = s"
  using assms by (auto simp: audit_view_def audit_controls_def audit_row_def not_le)

end
