(* ===== verification/DeviceParts.thy ===== *)
theory DeviceParts
  imports Chrome Pagination JsNumber
begin

text \<open>
  The parts of the device page in \<open>frontend/src/components/device\<close>: \<open>MetricsChart.tsx\<close>, \<open>NetworkInfo.tsx\<close>,
  \<open>EventLog.tsx\<close>, \<open>ProcessList.tsx\<close> and \<open>SoftwareTable.tsx\<close>. \<open>fmt\<close> stands for date-fns' \<open>format\<close> of a time
  string, \<open>lc\<close> for \<open>String.prototype.localeCompare\<close>, \<open>loc_num\<close> for \<open>toLocaleString\<close> of a number. A query
  that does not poll has interval 0.
\<close>

section \<open>Paged requests\<close>

text \<open>The number of pages of \<open>total\<close> entries, and the parameters of one page.\<close>

definition page_count :: "nat \<Rightarrow> nat \<Rightarrow> int" where
  "page_count pageSize cnt = max 1 \<lceil>of_nat cnt / of_nat pageSize :: rat\<rceil>"

definition page_params :: "nat \<Rightarrow> int \<Rightarrow> (string \<times> json) list" where
  "page_params pageSize p = [(''skip'', JInt ((p - 1) * int pageSize)), (''limit'', JInt (int pageSize))]"

section \<open>MetricsChart.tsx\<close>

record chart_point =
  cpt_time :: string
  cpt_CPU :: "rat option"
  cpt_RAM :: "rat option"
  cpt_Disk :: "rat option"
  cpt_DiskRead :: "rat option"
  cpt_DiskWrite :: "rat option"
  cpt_NetSent :: "rat option"
  cpt_NetRecv :: "rat option"

definition rounded :: "rat option \<Rightarrow> rat option" where
  "rounded x = map_option (\<lambda>v. of_int (math_round v)) x"

definition chart_data :: "(string \<Rightarrow> string) \<Rightarrow> metric list \<Rightarrow> chart_point list" where
  "chart_data fmt metrics =
     map (\<lambda>m. \<lparr>cpt_time = fmt (m_time m), cpt_CPU = rounded (m_cpu_percent m), cpt_RAM = rounded (m_ram_percent m),
               cpt_Disk = rounded (m_disk_percent m), cpt_DiskRead = m_disk_read_mbps m, cpt_DiskWrite = m_disk_write_mbps m,
               cpt_NetSent = m_net_sent_mbps m, cpt_NetRecv = m_net_recv_mbps m\<rparr>) (rev metrics)"

text \<open>A chart of the chart library: its lines over the data, each with a key, a name, a colour and a selector.\<close>

definition line_chart ::
  "string \<Rightarrow> (string \<times> string \<times> string \<times> (chart_point \<Rightarrow> rat option)) list \<Rightarrow> chart_point list \<Rightarrow> 'm node" where
  "line_chart uom lines pts =
     El ''LineChart'' [(''unit'', uom)] []
       (map (\<lambda>(key, name, stroke, sel).
          El ''Line'' [(''dataKey'', key), (''name'', name), (''stroke'', stroke)] []
            (map (\<lambda>p. El ''point'' [(''time'', cpt_time p), (''value'', case sel p of None \<Rightarrow> ''null'' | Some v \<Rightarrow> number_str v)] [] []) pts))
        lines)"

definition MetricsChart :: "(string \<Rightarrow> string) \<Rightarrow> metric list \<Rightarrow> bool \<Rightarrow> unit view" where
  "MetricsChart fmt metrics expanded =
     (let pts = chart_data fmt metrics in
      [line_chart ''%'' [(''CPU'', ''CPU'', ''#3b82f6'', cpt_CPU), (''RAM'', ''RAM'', ''#10b981'', cpt_RAM), (''Disk'', ''Disk'', ''#f59e0b'', cpt_Disk)] pts,
       button () [Txt (if expanded then ''Hide I/O charts'' else ''Expand I/O charts'')]]
      @ shown expanded
          [label ''Disk I/O'',
           line_chart '' MB/s'' [(''DiskRead'', ''Read MB/s'', ''#2563eb'', cpt_DiskRead), (''DiskWrite'', ''Write MB/s'', ''#f97316'', cpt_DiskWrite)] pts,
           label ''Network'',
           line_chart '' MB/s'' [(''NetSent'', ''Sent MB/s'', ''#7c3aed'', cpt_NetSent), (''NetRecv'', ''Recv MB/s'', ''#16a34a'', cpt_NetRecv)] pts])"

section \<open>NetworkInfo.tsx\<close>

definition network_query :: "string \<Rightarrow> query" where
  "network_query deviceId = \<lparr>q_key = [JStr ''device-network'', JStr deviceId], q_request = devices_network deviceId,
     q_interval = 60000, q_enabled = (deviceId \<noteq> [])\<rparr>"

definition interface_row :: "network_interface \<Rightarrow> 'm node" where
  "interface_row i =
     row [label (ni_interface_name i), label (or_else (ni_mac_address i) em_dash),
          label (if length (ni_ipv4 i) > 0 then join '', '' (ni_ipv4 i) else em_dash),
          label (if length (ni_ipv6 i) > 0 then join '', '' (ni_ipv6 i) else em_dash),
          label (case ni_mtu i of None \<Rightarrow> em_dash | Some n \<Rightarrow> int_str n),
          toned (if ni_is_up i then ''emerald'' else ''slate'') (if ni_is_up i then ''up'' else ''down'')]"

definition NetworkInfo :: "device_network_response option \<Rightarrow> bool \<Rightarrow> 'm view" where
  "NetworkInfo d isLoading =
     (let interfaces = (case d of None \<Rightarrow> [] | Some r \<Rightarrow> dn_interfaces r) in
      if isLoading then [label ''Loading network data...'']
      else if interfaces = [] then [label ''No network data'']
      else headings [''Name'', ''MAC'', ''IPv4'', ''IPv6'', ''MTU'', ''Status''] @ map interface_row interfaces)"

section \<open>EventLog.tsx\<close>

datatype event_mode = SystemMode | AgentMode

fun event_mode_str :: "event_mode \<Rightarrow> string" where
  "event_mode_str SystemMode = ''system''"
| "event_mode_str AgentMode = ''agent''"

definition typeColor :: "string \<rightharpoonup> string" where
  "typeColor = map_of
     [(''crash'', ''text-red-400 bg-red-400/10''), (''error'', ''text-orange-400 bg-orange-400/10''),
      (''warning'', ''text-yellow-400 bg-yellow-400/10''), (''info'', ''text-blue-400 bg-blue-400/10''),
      (''agent_log'', ''text-emerald-400 bg-emerald-400/10'')]"

definition events_page_size :: nat where "events_page_size = 50"

definition events_query :: "string \<Rightarrow> event_mode \<Rightarrow> int \<Rightarrow> query" where
  "events_query deviceId mode p =
     \<lparr>q_key = [JStr ''events'', JStr deviceId, JStr (event_mode_str mode), JInt p],
      q_request = (if mode = AgentMode then devices_agentLogs deviceId
                   else api_get (''/devices/'' @ deviceId @ ''/events'') (page_params events_page_size p)),
      q_interval = 30000, q_enabled = True\<rparr>"

record event_data =
  ed_agent :: "event list option" \<comment> \<open>\<open>data\<close> in agent mode\<close>
  ed_system :: "event page option" \<comment> \<open>\<open>data\<close> in system mode\<close>
  ed_isLoading :: bool

definition log_events :: "event_mode \<Rightarrow> event_data \<Rightarrow> event list" where
  "log_events mode d = (if mode = AgentMode then nullish (ed_agent d) [] else (case ed_system d of None \<Rightarrow> [] | Some p \<Rightarrow> pg_data p))"

definition log_total :: "event_mode \<Rightarrow> event_data \<Rightarrow> nat" where
  "log_total mode d = (if mode = AgentMode then length (log_events mode d) else (case ed_system d of None \<Rightarrow> 0 | Some p \<Rightarrow> pg_total p))"

definition log_level :: "event \<Rightarrow> string" where
  "log_level e =
     (if includes_sub (nullish (ev_source e) []) ''error'' then ''ERROR''
      else if includes_sub (nullish (ev_source e) []) ''warn'' then ''WARN'' else ''INFO'')"

definition agent_row :: "(string \<Rightarrow> string) \<Rightarrow> event \<Rightarrow> 'm node" where
  "agent_row fmt e =
     box [label (fmt (ev_time e)),
          toned (if log_level e = ''ERROR'' then ''text-red-400'' else if log_level e = ''WARN'' then ''text-yellow-400'' else ''text-emerald-400'') (log_level e),
          label (nullish (ev_source e) ''agent/main''), label (ev_message e)]"

definition event_row :: "(string \<Rightarrow> string) \<Rightarrow> event \<Rightarrow> 'm node" where
  "event_row fmt e =
     box ([label (fmt (ev_time e)),
           toned (nullish (typeColor (event_type_str (ev_event_type e))) ''bg-slate-200 text-slate-500'')
             (toUpperCase (event_type_str (ev_event_type e))),
           label (ev_message e)]
          @ shown (truthy (ev_source e)) [label (''- '' @ the (ev_source e))])"

text \<open>The state of the log is its page; the pagination raises the page it selects.\<close>

definition EventLog :: "(string \<Rightarrow> string) \<Rightarrow> event_mode \<Rightarrow> event_data \<Rightarrow> int \<Rightarrow> int view" where
  "EventLog fmt mode d p =
     (let events = log_events mode d in
      if ed_isLoading d then [skeleton_table (Some 6)]
      else if events = [] then [label (''No '' @ (if mode = AgentMode then ''agent logs'' else ''events'') @ '' recorded.'')]
      else if mode = AgentMode then map (agent_row fmt) events
      else map (event_row fmt) events @ pagination_view p (page_count events_page_size (log_total mode d)))"

section \<open>ProcessList.tsx\<close>

datatype sort_key = SortPid | SortName | SortCpu | SortMem | SortStatus

record process_list =
  pr_search :: string
  pr_sortKey :: sort_key
  pr_descending :: bool
  pr_pending :: bool \<comment> \<open>\<open>refreshProcesses.isPending\<close>\<close>
  pr_sent :: "request list"

definition process_list_init :: process_list where
  "process_list_init = \<lparr>pr_search = [], pr_sortKey = SortCpu, pr_descending = True, pr_pending = False, pr_sent = []\<rparr>"

definition processes_query :: "string \<Rightarrow> bool \<Rightarrow> query" where
  "processes_query deviceId active =
     \<lparr>q_key = [JStr ''device-processes'', JStr deviceId], q_request = devices_processes deviceId,
      q_interval = (if active then 60000 else 0), q_enabled = active\<rparr>"

text \<open>The comparison: by \<open>localeCompare\<close> on the two string columns, by the difference on the others.\<close>

definition sort_value_compare :: "(string \<Rightarrow> string \<Rightarrow> int) \<Rightarrow> sort_key \<Rightarrow> process_info \<Rightarrow> process_info \<Rightarrow> int" where
  "sort_value_compare lc key left right = (case key of
     SortPid \<Rightarrow> diff_sign (of_int (p_pid left)) (of_int (p_pid right))
   | SortName \<Rightarrow> lc (p_name left) (p_name right)
   | SortCpu \<Rightarrow> diff_sign (p_cpu_percent left) (p_cpu_percent right)
   | SortMem \<Rightarrow> diff_sign (p_mem_percent left) (p_mem_percent right)
   | SortStatus \<Rightarrow> lc (p_status left) (p_status right))"

definition process_compare :: "(string \<Rightarrow> string \<Rightarrow> int) \<Rightarrow> process_list \<Rightarrow> process_info \<Rightarrow> process_info \<Rightarrow> int" where
  "process_compare lc s left right =
     (if pr_descending s then sort_value_compare lc (pr_sortKey s) right left
      else sort_value_compare lc (pr_sortKey s) left right)"

definition process_rows :: "(string \<Rightarrow> string \<Rightarrow> int) \<Rightarrow> process_list_response option \<Rightarrow> process_list \<Rightarrow> process_info list" where
  "process_rows lc d s =
     js_sort (process_compare lc s)
       (filter (\<lambda>proc. includes_sub (toLowerCase (p_name proc)) (toLowerCase (pr_search s)))
          (case d of None \<Rightarrow> [] | Some r \<Rightarrow> pl_processes r))"

definition toggleSort :: "sort_key \<Rightarrow> process_list \<Rightarrow> process_list" where
  "toggleSort key s =
     (if pr_sortKey s = key then s\<lparr>pr_descending := \<not> pr_descending s\<rparr>
      else s\<lparr>pr_sortKey := key, pr_descending := (key \<noteq> SortName \<and> key \<noteq> SortStatus)\<rparr>)"

datatype process_msg = ProcSearch string | ProcRefresh | ProcSort sort_key | ProcRefreshed | ProcRefetch

fun process_update :: "string \<Rightarrow> process_list \<Rightarrow> process_msg \<Rightarrow> process_list" where
  "process_update dev s (ProcSearch v) = s\<lparr>pr_search := v\<rparr>"
| "process_update dev s ProcRefresh =
     s\<lparr>pr_pending := True, pr_sent := pr_sent s @ [commands_dispatch dev ''request_process_list'' []]\<rparr>"
| "process_update dev s (ProcSort key) = toggleSort key s"
| "process_update dev s ProcRefreshed = s\<lparr>pr_pending := False\<rparr>"
| "process_update dev s ProcRefetch = s\<lparr>pr_sent := pr_sent s @ [devices_processes dev]\<rparr>"

definition process_row :: "process_info \<Rightarrow> 'm node" where
  "process_row proc =
     El ''tr'' [(''tone'', if p_cpu_percent proc > 50 then ''red'' else if p_cpu_percent proc > 20 then ''amber'' else [])] []
       [label (int_str (p_pid proc)), label (p_name proc), label (to_fixed 1 (p_cpu_percent proc)),
        label (to_fixed 1 (p_mem_percent proc)), label (p_status proc)]"

definition sort_columns :: "(sort_key \<times> string) list" where
  "sort_columns = [(SortPid, ''PID''), (SortName, ''Name''), (SortCpu, ''CPU%''), (SortMem, ''Mem%''), (SortStatus, ''Status'')]"

record process_data =
  pq_data :: "process_list_response option"
  pq_isLoading :: bool
  pq_error :: bool

definition ProcessList :: "(string \<Rightarrow> string \<Rightarrow> int) \<Rightarrow> process_data \<Rightarrow> process_list \<Rightarrow> process_msg view" where
  "ProcessList lc d s =
     (let rows = process_rows lc (pq_data d) s in
      [input_field (pr_search s) ProcSearch, button_if (pr_pending s) ProcRefresh [Txt ''Refresh'']]
      @ shown (pq_isLoading d) [label ''Loading processes...'']
      @ shown (\<not> pq_isLoading d \<and> pq_error d) [label ''No process list available yet.'']
      @ shown (\<not> pq_isLoading d \<and> \<not> pq_error d)
          (map (\<lambda>(key, name). button (ProcSort key) [Txt name]) sort_columns
           @ map process_row rows @ shown (rows = []) [label ''No matching processes.'']))"

section \<open>SoftwareTable.tsx\<close>

text \<open>
  \<open>handleSearchChange\<close> keeps the timer in a property \<open>_t\<close> of itself, and the component creates a new
  function object on every render: \<open>sw_handler_t\<close> is the property of the current one. A pending timer
  is its identifier and the text it will set.
\<close>

record software_table =
  sw_page :: int
  sw_search :: string
  sw_debounced :: string
  sw_timers :: "(nat \<times> string) list"
  sw_next_timer :: nat
  sw_handler_t :: "nat option"

definition software_table_init :: software_table where
  "software_table_init = \<lparr>sw_page = 1, sw_search = [], sw_debounced = [], sw_timers = [], sw_next_timer = 0, sw_handler_t = None\<rparr>"

definition software_page_size :: nat where "software_page_size = 100"

definition clear_timer :: "nat option \<Rightarrow> software_table \<Rightarrow> software_table" where
  "clear_timer t s = s\<lparr>sw_timers := filter (\<lambda>(i, v). Some i \<noteq> t) (sw_timers s)\<rparr>"

text \<open>A change of a state variable renders the component again; the new handler has no \<open>_t\<close>.\<close>

definition rerender :: "software_table \<Rightarrow> software_table \<Rightarrow> software_table" where
  "rerender before s =
     (if (sw_page s, sw_search s, sw_debounced s) = (sw_page before, sw_search before, sw_debounced before) then s
      else s\<lparr>sw_handler_t := None\<rparr>)"

definition handleSearchChange :: "string \<Rightarrow> software_table \<Rightarrow> software_table" where
  "handleSearchChange value s =
     (let s1 = s\<lparr>sw_search := value, sw_page := 1\<rparr>;
          s2 = clear_timer (sw_handler_t s1) s1;
          t = sw_next_timer s2
      in rerender s (s2\<lparr>sw_timers := sw_timers s2 @ [(t, value)], sw_next_timer := Suc t, sw_handler_t := Some t\<rparr>))"

datatype software_msg = SwSearch string | SwPage int | SwTimer

fun software_update :: "software_table \<Rightarrow> software_msg \<Rightarrow> software_table" where
  "software_update s (SwSearch v) = handleSearchChange v s"
| "software_update s (SwPage p) = rerender s (s\<lparr>sw_page := p\<rparr>)"
| "software_update s SwTimer = (case sw_timers s of
     [] \<Rightarrow> s
   | (i, v) # ts \<Rightarrow> rerender s (s\<lparr>sw_timers := ts, sw_debounced := v\<rparr>))"

definition software_query :: "string \<Rightarrow> software_table \<Rightarrow> query" where
  "software_query deviceId s =
     \<lparr>q_key = [JStr ''software'', JStr deviceId, JInt (sw_page s), JStr (sw_debounced s)],
      q_request = api_get (''/devices/'' @ deviceId @ ''/software'')
        (page_params software_page_size (sw_page s)
         @ (if sw_debounced s \<noteq> [] then [(''search'', JStr (sw_debounced s))] else [])),
      q_interval = 120000, q_enabled = True\<rparr>"

definition package_row :: "software_package \<Rightarrow> 'm node" where
  "package_row pkg =
     row [label (sp_name pkg), label (nullish (sp_version pkg) em_dash),
          if sp_update_available pkg then El ''span'' [] [] [icon ''ArrowUpCircle'', Txt (nullish (sp_latest_version pkg) [])]
          else label em_dash]"

definition SoftwareTable ::
  "(nat \<Rightarrow> string) \<Rightarrow> software_package page option \<Rightarrow> bool \<Rightarrow> software_table \<Rightarrow> software_msg view" where
  "SoftwareTable loc_num d isLoading s =
     (let packages = (case d of None \<Rightarrow> [] | Some p \<Rightarrow> pg_data p);
          cnt = (case d of None \<Rightarrow> 0 | Some p \<Rightarrow> pg_total p);
          updates = length (filter sp_update_available packages)
      in if isLoading then [skeleton_table (Some 6)]
         else [icon ''Search'', input_field (sw_search s) SwSearch]
           @ shown (sw_search s \<noteq> []) [button (SwSearch []) [icon ''X'']]
           @ [label (loc_num cnt @ '' package'' @ (if cnt \<noteq> 1 then ''s'' else []))]
           @ shown (updates > 0)
               [label (nat_str updates @ '' update'' @ (if updates > 1 then ''s'' else []) @ '' available'')]
           @ (if packages = []
              then [label (if sw_debounced s \<noteq> [] then ''No packages matching '' @ [dquote] @ sw_debounced s @ [dquote]
                           else ''No software inventory recorded.'')]
              else headings [''Name'', ''Version'', ''Update''] @ map package_row packages
                   @ map (map_node SwPage) (pagination_view (sw_page s) (page_count software_page_size cnt))))"

section \<open>Lemmas\<close>

lemma page_count_pos: "1 \<le> page_count n cnt"
  by (simp add: page_count_def)

text \<open>Every entry is on a page, and on one only.\<close>

lemma page_of_entry:
  assumes "0 < n" "i < cnt"
  shows "1 \<le> int (i div n) + 1 \<and> int (i div n) + 1 \<le> page_count n cnt"
    and "(p - 1) * int n \<le> int i \<and> int i < (p - 1) * int n + int n \<longleftrightarrow> p = int (i div n) + 1"
proof -
  have "(of_nat (i div n) :: rat) * of_nat n \<le> of_nat i"
    by (metis div_times_less_eq_dividend of_nat_le_iff of_nat_mult)
  also have "\<dots> < of_nat cnt" using assms(2) by simp
  finally have "(of_nat (i div n) :: rat) < of_nat cnt / of_nat n" using assms(1) by (simp add: pos_less_divide_eq)
  then have "int (i div n) < \<lceil>of_nat cnt / of_nat n :: rat\<rceil>" by (simp add: less_ceiling_iff)
  then show "1 \<le> int (i div n) + 1 \<and> int (i div n) + 1 \<le> page_count n cnt" by (simp add: page_count_def)
  have q: "int i div int n = int (i div n)" by (simp add: zdiv_int)
  have "(p - 1) * int n \<le> int i \<and> int i < (p - 1) * int n + int n \<longleftrightarrow> int i div int n = p - 1" (is "?l \<longleftrightarrow> ?r")
  proof
    assume ?l
    then show ?r using int_div_pos_eq[of "int i" "int n" "p - 1" "int i - (p - 1) * int n"] by (simp add: mult.commute)
  next
    assume ?r
    moreover have "int i div int n * int n + int i mod int n = int i" "0 \<le> int i mod int n" "int i mod int n < int n"
      using assms(1) by simp_all
    ultimately show ?l by simp
  qed
  then show "(p - 1) * int n \<le> int i \<and> int i < (p - 1) * int n + int n \<longleftrightarrow> p = int (i div n) + 1"
    unfolding q by auto
qed

lemma page_unique:
  assumes "0 < n" "i < cnt"
  shows "\<exists>!p. 1 \<le> p \<and> p \<le> page_count n cnt \<and> (p - 1) * int n \<le> int i \<and> int i < (p - 1) * int n + int n"
  unfolding page_of_entry(2)[OF assms] using page_of_entry(1)[OF assms] by auto

text \<open>The entry \<open>i\<close> of the list is among those a paged request asks for.\<close>

definition in_window :: "request \<Rightarrow> nat \<Rightarrow> bool" where
  "in_window r i = (case (map_of (rq_params r) ''skip'', map_of (rq_params r) ''limit'') of
     (Some (JNum skip), Some (JNum limit)) \<Rightarrow> skip \<le> of_nat i \<and> of_nat i < skip + limit
   | _ \<Rightarrow> False)"

lemma in_window_page:
  assumes "rq_params r = page_params n p @ rest"
  shows "in_window r i \<longleftrightarrow> (p - 1) * int n \<le> int i \<and> int i < (p - 1) * int n + int n"
proof -
  have c: "(of_nat i :: rat) = of_int (int i)" by simp
  have "in_window r i \<longleftrightarrow> (of_int ((p - 1) * int n) :: rat) \<le> of_nat i \<and> (of_nat i :: rat) < of_int ((p - 1) * int n + int n)"
    unfolding in_window_def assms page_params_def by simp
  then show ?thesis unfolding c of_int_le_iff of_int_less_iff .
qed

text \<open>The table comparator is consistent whenever \<open>localeCompare\<close> is, so the sort is a stable sort.\<close>

lemma process_comparator:
  assumes "comparator lc"
  shows "comparator (process_compare lc s)"
proof -
  have k: "comparator (sort_value_compare lc key)" for key
    unfolding sort_value_compare_def[abs_def]
    using comparator_key[OF numbers.comparator_axioms, of "\<lambda>proc. of_int (p_pid proc)"]
    by (cases key) (simp_all add: comparator_key numbers.comparator_axioms assms)
  show ?thesis
    unfolding process_compare_def[abs_def]
    by (cases "pr_descending s") (simp_all add: k comparator_flip[OF k, of "pr_sortKey s"])
qed

text \<open>The order of two rows in a column, smaller first.\<close>

definition column_le :: "(string \<Rightarrow> string \<Rightarrow> int) \<Rightarrow> sort_key \<Rightarrow> process_info \<Rightarrow> process_info \<Rightarrow> bool" where
  "column_le lc key a b = (case key of
     SortPid \<Rightarrow> p_pid a \<le> p_pid b
   | SortName \<Rightarrow> lc (p_name a) (p_name b) \<le> 0
   | SortCpu \<Rightarrow> p_cpu_percent a \<le> p_cpu_percent b
   | SortMem \<Rightarrow> p_mem_percent a \<le> p_mem_percent b
   | SortStatus \<Rightarrow> lc (p_status a) (p_status b) \<le> 0)"

lemma sort_value_compare_le: "sort_value_compare lc key a b \<le> 0 \<longleftrightarrow> column_le lc key a b"
  by (cases key) (auto simp: sort_value_compare_def column_le_def diff_sign_def)

text \<open>One keystroke: the current handler has no timer to cancel, so every pending timer stays.\<close>

lemma handleSearchChange_keeps:
  assumes "value \<noteq> sw_search s" "sw_handler_t s = None"
  shows "map snd (sw_timers (handleSearchChange value s)) = map snd (sw_timers s) @ [value]"
    and "sw_handler_t (handleSearchChange value s) = None" and "sw_search (handleSearchChange value s) = value"
    and "sw_debounced (handleSearchChange value s) = sw_debounced s"
  using assms by (simp_all add: handleSearchChange_def Let_def clear_timer_def rerender_def)

lemma typing_keeps_timers:
  assumes "distinct_adj (sw_search s # vs)" "sw_handler_t s = None"
  shows "map snd (sw_timers (foldl software_update s (map SwSearch vs))) = map snd (sw_timers s) @ vs"
  using assms
proof (induction vs arbitrary: s)
  case (Cons v vs)
  then have "v \<noteq> sw_search s" by auto
  note k = handleSearchChange_keeps[OF this Cons.prems(2)]
  have "distinct_adj (sw_search (handleSearchChange v s) # vs)" using Cons.prems(1) k(3) by simp
  from Cons.IH[OF this k(2)] k(1) show ?case by simp
qed simp

lemma timer_fires:
  "map snd (sw_timers s) = v # vs \<Longrightarrow>
     sw_debounced (software_update s SwTimer) = v \<and> map snd (sw_timers (software_update s SwTimer)) = vs"
  by (cases "sw_timers s") (auto simp: rerender_def)

lemma timers_fire:
  "map snd (sw_timers s) = vs \<Longrightarrow> k < length vs \<Longrightarrow>
     sw_debounced (foldl software_update s (replicate (Suc k) SwTimer)) = vs ! k"
proof (induction k arbitrary: s vs)
  case 0
  then show ?case using timer_fires by (cases vs) auto
next
  case (Suc k)
  then obtain v ws where vs: "vs = v # ws" by (cases vs) auto
  with Suc.prems(1) timer_fires[of s v ws] have "map snd (sw_timers (software_update s SwTimer)) = ws" by simp
  from Suc.IH[OF this] Suc.prems(2) vs show ?case by simp
qed

section \<open>Properties\<close>

text \<open>C25. Paging is complete and without overlap: of \<open>cnt\<close> entries, each one lies in the window of skip and
  limit of exactly one of the pages the bar can show, for the event log and for the software table.\<close>

theorem pages_partition:
  assumes "i < cnt"
  shows "(\<exists>!p. 1 \<le> p \<and> p \<le> page_count events_page_size cnt \<and> in_window (q_request (events_query dev SystemMode p)) i)
    \<and> (\<exists>!p. 1 \<le> p \<and> p \<le> page_count software_page_size cnt \<and> in_window (q_request (software_query dev (s\<lparr>sw_page := p\<rparr>))) i)"
proof (intro conjI)
  have e: "in_window (q_request (events_query dev SystemMode p)) i \<longleftrightarrow> (p - 1) * int 50 \<le> int i \<and> int i < (p - 1) * int 50 + int 50" for p
    by (rule in_window_page[where rest = "[]"]) (simp add: events_query_def events_page_size_def mk_request_def)
  have w: "in_window (q_request (software_query dev (s\<lparr>sw_page := p\<rparr>))) i \<longleftrightarrow> (p - 1) * int 100 \<le> int i \<and> int i < (p - 1) * int 100 + int 100" for p
    by (rule in_window_page[where rest = "if sw_debounced s \<noteq> [] then [(''search'', JStr (sw_debounced s))] else []"])
      (simp add: software_query_def software_page_size_def mk_request_def)
  show "\<exists>!p. 1 \<le> p \<and> p \<le> page_count events_page_size cnt \<and> in_window (q_request (events_query dev SystemMode p)) i"
    unfolding e events_page_size_def by (rule page_unique) (use assms in simp_all)
  show "\<exists>!p. 1 \<le> p \<and> p \<le> page_count software_page_size cnt \<and> in_window (q_request (software_query dev (s\<lparr>sw_page := p\<rparr>))) i"
    unfolding w software_page_size_def by (rule page_unique) (use assms in simp_all)
qed

theorem pages_partition_witness:
  "\<exists>!p. 1 \<le> p \<and> p \<le> page_count events_page_size 120 \<and> in_window (q_request (events_query ''d'' SystemMode p)) 70"
  using pages_partition[of 70 120 "''d''"] by simp

text \<open>C24. The process table is a stable sort of the matching processes: for any consistent collation the rows
  are the processes whose name holds the search text, without regard to case, ordered by the chosen column
  (process number, name, CPU load, memory, status) in the chosen direction, and rows that are equal in that
  column keep the order of the server. A click on another column chooses it, descending for numbers and
  ascending for the two texts; a second click turns the direction.\<close>

theorem process_rows_sorted:
  assumes "comparator lc"
  shows "sorted_wrt (\<lambda>a b. if pr_descending s then column_le lc (pr_sortKey s) b a else column_le lc (pr_sortKey s) a b)
      (process_rows lc (Some r) s)
    \<and> mset (process_rows lc (Some r) s) =
        mset (filter (\<lambda>q. includes_sub (toLowerCase (p_name q)) (toLowerCase (pr_search s))) (pl_processes r))
    \<and> filter (\<lambda>q. column_le lc (pr_sortKey s) q k \<and> column_le lc (pr_sortKey s) k q) (process_rows lc (Some r) s) =
        filter (\<lambda>q. column_le lc (pr_sortKey s) q k \<and> column_le lc (pr_sortKey s) k q)
          (filter (\<lambda>q. includes_sub (toLowerCase (p_name q)) (toLowerCase (pr_search s))) (pl_processes r))
    \<and> process_update dev s (ProcSort key) = s\<lparr>pr_sortKey := key,
        pr_descending := (if pr_sortKey s = key then \<not> pr_descending s else key \<in> {SortPid, SortCpu, SortMem})\<rparr>"
proof (intro conjI)
  note c = process_comparator[OF assms, of s]
  have le: "process_compare lc s a b \<le> 0 \<longleftrightarrow>
      (if pr_descending s then column_le lc (pr_sortKey s) b a else column_le lc (pr_sortKey s) a b)" for a b
    by (simp add: process_compare_def sort_value_compare_le)
  have eq: "process_compare lc s q k = 0 \<longleftrightarrow> column_le lc (pr_sortKey s) q k \<and> column_le lc (pr_sortKey s) k q" for q
    unfolding comparator.zero_iff[OF c] le by auto
  show "sorted_wrt (\<lambda>a b. if pr_descending s then column_le lc (pr_sortKey s) b a else column_le lc (pr_sortKey s) a b)
      (process_rows lc (Some r) s)"
    using comparator.sorted_js_sort[OF c] unfolding le by (simp add: process_rows_def)
  show "filter (\<lambda>q. column_le lc (pr_sortKey s) q k \<and> column_le lc (pr_sortKey s) k q) (process_rows lc (Some r) s) =
        filter (\<lambda>q. column_le lc (pr_sortKey s) q k \<and> column_le lc (pr_sortKey s) k q)
          (filter (\<lambda>q. includes_sub (toLowerCase (p_name q)) (toLowerCase (pr_search s))) (pl_processes r))"
    using comparator.stable[OF c, of k] unfolding eq by (simp add: process_rows_def)
  show "process_update dev s (ProcSort key) = s\<lparr>pr_sortKey := key,
        pr_descending := (if pr_sortKey s = key then \<not> pr_descending s else key \<in> {SortPid, SortCpu, SortMem})\<rparr>"
    by (cases key) (auto simp: toggleSort_def)
qed (simp add: process_rows_def)

text \<open>The names of the processes \<open>a\<close> and \<open>b\<close> with their load, sorted by it.\<close>

definition sample_processes :: "(string \<times> rat) list \<Rightarrow> process_list_response" where
  "sample_processes ps = \<lparr>pl_processes = map (\<lambda>(n, c). \<lparr>p_pid = 1, p_name = n, p_cpu_percent = c, p_mem_percent = 0, p_status = []\<rparr>) ps,
     pl_captured_at = []\<rparr>"

theorem process_rows_sorted_witness:
  "let rows = process_rows str_compare (Some (sample_processes [(''a'', 3), (''b'', 7)])) process_list_init in
   map p_name rows = [''b'', ''a''] \<and> sorted_wrt (\<lambda>a b. p_cpu_percent b \<le> p_cpu_percent a) rows"
proof -
  have "map p_name (process_rows str_compare (Some (sample_processes [(''a'', 3), (''b'', 7)])) process_list_init) = [''b'', ''a'']"
    by code_simp
  moreover note process_rows_sorted[OF strings.comparator_axioms, THEN conjunct1, of process_list_init "sample_processes [(''a'', 3), (''b'', 7)]"]
  ultimately show ?thesis by (simp add: Let_def process_list_init_def column_le_def)
qed

text \<open>The delay of the software search cancels nothing: from a freshly rendered table, typing texts that
  each differ from the one before leaves one pending timer per keystroke, and when they fire each of the
  texts becomes the search of a request in turn; the comment in the code promises the opposite.\<close>

theorem every_keystroke_queries:
  assumes "sw_timers s = []" "sw_handler_t s = None" "distinct_adj (sw_search s # vs)" "k < length vs"
  shows "sw_debounced (foldl software_update s (map SwSearch vs @ replicate (Suc k) SwTimer)) = vs ! k"
  using typing_keeps_timers[OF assms(3,2)] assms(1,4) timers_fire[of "foldl software_update s (map SwSearch vs)" vs k]
  by simp

theorem every_keystroke_queries_witness:
  "sw_debounced (foldl software_update software_table_init (map SwSearch [''v'', ''vi'', ''vim''] @ replicate 2 SwTimer)) = ''vi''"
  using every_keystroke_queries[of software_table_init "[''v'', ''vi'', ''vim'']" 1]
  by (simp add: software_table_init_def numeral_2_eq_2)

end
