(* ===== verification/DeviceDetail.thy ===== *)
theory DeviceDetail
  imports DeviceParts CommandPanel Utils JsDate
begin

text \<open>
  \<open>frontend/src/pages/DeviceDetail.tsx\<close>: the page of one device as a state machine with its view. The
  parts of the page (\<open>DeviceParts\<close>, \<open>CommandPanel\<close>) are placed in it: their states are fields of the page
  and their messages are wrapped. A part that leaves the screen is unmounted and loses its state.
  \<open>formats\<close> collects date-fns and the locale functions; \<open>dd_zone\<close> is the browser's time zone and \<open>dd_now\<close>
  the current time value; \<open>parse_time\<close> is \<open>new Date(_).getTime()\<close> with \<open>None\<close> for \<open>NaN\<close>.
\<close>

record formats =
  fm_ago :: "string \<Rightarrow> string" \<comment> \<open>\<open>formatDistanceToNow(new Date(_), { addSuffix: true })\<close>\<close>
  fm_ago_time :: "rat \<Rightarrow> string" \<comment> \<open>the same of a time value\<close>
  fm_full :: "string \<Rightarrow> string" \<comment> \<open>\<open>format(new Date(_), 'PPpp')\<close>\<close>
  fm_clock :: "string \<Rightarrow> string" \<comment> \<open>\<open>format(new Date(_), 'HH:mm')\<close>\<close>
  fm_stamp :: "string \<Rightarrow> string" \<comment> \<open>\<open>format(new Date(_), 'MM-dd HH:mm:ss')\<close>\<close>
  fm_collate :: "string \<Rightarrow> string \<Rightarrow> int" \<comment> \<open>\<open>localeCompare\<close>\<close>
  fm_number :: "nat \<Rightarrow> string" \<comment> \<open>\<open>toLocaleString\<close>\<close>
  fm_parse :: "string \<Rightarrow> json option" \<comment> \<open>\<open>JSON.parse\<close>\<close>

section \<open>Helpers of the page\<close>

definition uptimeTone :: "rat \<Rightarrow> string" where
  "uptimeTone value = (if value \<ge> 99 then ''text-emerald-500'' else if value \<ge> 95 then ''text-amber-500'' else ''text-red-500'')"

definition mapPlatform :: "string option \<Rightarrow> string" where
  "mapPlatform osType =
     (if \<not> truthy osType then ''linux''
      else let lower = toLowerCase (the osType) in
        if includes_sub lower ''windows'' then ''windows''
        else if includes_sub lower ''darwin'' \<or> includes_sub lower ''mac'' then ''darwin''
        else ''linux'')"

text \<open>\<open>parts[index] ?? 0\<close>.\<close>

definition version_part :: "js_number list \<Rightarrow> nat \<Rightarrow> js_number" where
  "version_part parts i = (if i < length parts then parts ! i else Fin 0)"

fun semver_loop :: "js_number list \<Rightarrow> js_number list \<Rightarrow> nat list \<Rightarrow> int" where
  "semver_loop aParts bParts [] = 0"
| "semver_loop aParts bParts (i # is') =
     (if js_less (version_part bParts i) (version_part aParts i) then 1
      else if js_less (version_part aParts i) (version_part bParts i) then -1
      else semver_loop aParts bParts is')"

definition version_parts :: "string \<Rightarrow> js_number list" where
  "version_parts v = map to_number (split_str ''.'' v)"

definition compareSemver :: "string \<Rightarrow> string option \<Rightarrow> int" where
  "compareSemver a b = (if \<not> truthy b then 1 else semver_loop (version_parts a) (version_parts (the b)) [0, 1, 2])"

record day_entry =
  de_key :: string
  de_downtime :: rat

record day_segment =
  sg_date :: string
  sg_label :: string
  sg_tone :: string

definition uptime_days :: "zone \<Rightarrow> int \<Rightarrow> day_entry list" where
  "uptime_days z now = map (\<lambda>index.
     \<lparr>de_key = take 10 (iso_date (setDate z (getDate z now - (29 - int index)) now)), de_downtime = 0\<rparr>) [0..<30]"

text \<open>\<open>map.get(key)\<close> is the last entry with the key; adding to its downtime changes it in \<open>days\<close>.\<close>

fun add_downtime :: "string \<Rightarrow> rat \<Rightarrow> day_entry list \<Rightarrow> day_entry list" where
  "add_downtime key secs [] = []"
| "add_downtime key secs (e # es) =
     (if de_key e = key \<and> key \<notin> de_key ` set es then e\<lparr>de_downtime := de_downtime e + secs\<rparr> # es
      else e # add_downtime key secs es)"

definition uptime_event_step :: "day_entry list \<Rightarrow> uptime_history_event \<Rightarrow> day_entry list" where
  "uptime_event_step days e =
     (if ue_event_type e = WentOnline then add_downtime (take 10 (ue_timestamp e)) (nullish (ue_duration_secs e) 0) days
      else days)"

definition uptime_segment :: "day_entry \<Rightarrow> day_segment" where
  "uptime_segment e =
     (let uptimePercent = max 0 (86400 - de_downtime e) / 86400
      in \<lparr>sg_date = de_key e, sg_label = int_str (math_round (uptimePercent * 100)) @ ''% uptime'',
          sg_tone = (if uptimePercent \<ge> 999 / 1000 then ''bg-emerald-500'' else if uptimePercent > 0 then ''bg-amber-500''
                     else ''bg-slate-300 dark:bg-gray-700'')\<rparr>)"

definition buildUptimeSegments :: "zone \<Rightarrow> int \<Rightarrow> uptime_history_event list \<Rightarrow> day_segment list" where
  "buildUptimeSegments z now events = map uptime_segment (foldl uptime_event_step (uptime_days z now) events)"

section \<open>State\<close>

datatype dtab = OverviewTab | SoftwareTab | EventsTab | CommandsTab | NetworkTab | ProcessesTab | ConfigTab

fun dtab_str :: "dtab \<Rightarrow> string" where
  "dtab_str OverviewTab = ''overview''"
| "dtab_str SoftwareTab = ''software''"
| "dtab_str EventsTab = ''events''"
| "dtab_str CommandsTab = ''commands''"
| "dtab_str NetworkTab = ''network''"
| "dtab_str ProcessesTab = ''processes''"
| "dtab_str ConfigTab = ''config''"

definition MOBILE_SECTIONS :: "dtab list" where
  "MOBILE_SECTIONS = [OverviewTab, SoftwareTab, EventsTab, CommandsTab, NetworkTab, ProcessesTab, ConfigTab]"

definition DEFAULT_DEVICE_CONFIG :: device_config where
  "DEFAULT_DEVICE_CONFIG = \<lparr>dc_telemetry_interval_secs = 60, dc_software_scan_interval_m = 60, dc_event_poll_interval_secs = 120\<rparr>"

record maintenance_form =
  mf_enabled :: bool
  mf_reason :: string
  mf_until :: string

record detail_page =
  dd_tab :: dtab
  dd_eventMode :: event_mode
  dd_copied :: bool
  dd_newTag :: string
  dd_selectedGroupId :: string
  dd_configForm :: device_config
  dd_isCapturing :: bool
  dd_captureStartedAt :: "int option"
  dd_maintenanceOpen :: bool
  dd_maintenanceForm :: maintenance_form
  dd_editingField :: "string option"
  dd_fieldDraft :: string
  dd_openSections :: "dtab \<Rightarrow> bool"
  dd_isMobile :: bool
  dd_captureTimer :: "int option" \<comment> \<open>the time the 30 s timeout fires\<close>
  dd_groupPending :: bool
  dd_shotPending :: bool
  dd_agentPending :: bool
  dd_sent :: "request list"
  dd_clipboard :: "string list"
  dd_backs :: nat \<comment> \<open>calls of \<open>navigate(-1)\<close>\<close>
  dd_expanded :: bool \<comment> \<open>the chart\<close>
  dd_software :: software_table
  dd_eventPage :: int
  dd_panel :: panel
  dd_processes :: process_list

definition mobile_width :: "int \<Rightarrow> bool" where
  "mobile_width innerWidth = (innerWidth < 768)"

definition detail_init :: "int \<Rightarrow> detail_page" where
  "detail_init innerWidth =
     \<lparr>dd_tab = OverviewTab, dd_eventMode = SystemMode, dd_copied = False, dd_newTag = [], dd_selectedGroupId = [],
      dd_configForm = DEFAULT_DEVICE_CONFIG, dd_isCapturing = False, dd_captureStartedAt = None, dd_maintenanceOpen = False,
      dd_maintenanceForm = \<lparr>mf_enabled = False, mf_reason = [], mf_until = []\<rparr>, dd_editingField = None, dd_fieldDraft = [],
      dd_openSections = (\<lambda>t. t = OverviewTab), dd_isMobile = mobile_width innerWidth, dd_captureTimer = None,
      dd_groupPending = False, dd_shotPending = False, dd_agentPending = False, dd_sent = [], dd_clipboard = [], dd_backs = 0,
      dd_expanded = False, dd_software = software_table_init, dd_eventPage = 1, dd_panel = panel_init,
      dd_processes = process_list_init\<rparr>"

section \<open>Queries\<close>

definition polled :: "json list \<Rightarrow> request \<Rightarrow> nat \<Rightarrow> bool \<Rightarrow> query" where
  "polled key req interval enabled = \<lparr>q_key = key, q_request = req, q_interval = interval, q_enabled = enabled\<rparr>"

definition detail_queries :: "string \<Rightarrow> device option \<Rightarrow> detail_page \<Rightarrow> query list" where
  "detail_queries i dev s =
     [useDevice i, useMetrics i 24, useLatestMetric i,
      polled [JStr ''device-config'', JStr i] (devices_config i) 0 (i \<noteq> []),
      polled [JStr ''groups''] groups_list 0 True,
      polled [JStr ''device-groups'', JStr i] (groups_deviceGroups i) 0 (i \<noteq> []),
      polled [JStr ''device-screenshot'', JStr i] (devices_screenshot i) (if dd_isCapturing s then 3000 else 0) (i \<noteq> []),
      polled [JStr ''device-uptime-history'', JStr i] (devices_uptimeHistory i None) 0 (i \<noteq> []),
      polled [JStr ''device-ssh-keys'', JStr i] (devices_sshKeys i) 0 (i \<noteq> []),
      polled [JStr ''agent-version'', JNullable (map_option (os_type_str \<circ> d_os_type) dev), JNullable (Option.bind dev d_arch)]
        (agent_version (Some (mapPlatform (map_option (os_type_str \<circ> d_os_type) dev)))
           (Some (nullish (Option.bind dev d_arch) ''amd64''))) 0 (dev \<noteq> None)]"

definition updateAvailable :: "device option \<Rightarrow> string option \<Rightarrow> bool" where
  "updateAvailable dev agentVersion =
     (let installed = Option.bind dev d_agent_version
      in truthy installed \<and> truthy agentVersion \<and> compareSemver (the agentVersion) installed > 0)"

section \<open>Operations\<close>

datatype config_field = TelemetryField | SoftwareField | EventField

fun set_config :: "config_field \<Rightarrow> rat \<Rightarrow> device_config \<Rightarrow> device_config" where
  "set_config TelemetryField v c = c\<lparr>dc_telemetry_interval_secs := v\<rparr>"
| "set_config SoftwareField v c = c\<lparr>dc_software_scan_interval_m := v\<rparr>"
| "set_config EventField v c = c\<lparr>dc_event_poll_interval_secs := v\<rparr>"

datatype detail_msg =
    DdTab dtab | DdSection dtab | DdResize int | DdBack
  | DdEventMode event_mode
  | DdCopy string | DdCopied | DdCopiedTimeout
  | DdNewTag string
  | DdAddTag "string list" \<comment> \<open>the tags of the device\<close>
  | DdTagSaved
  | DdGroup string | DdAddGroup | DdGroupAdded | DdGroupFailed
  | DdNumber config_field string | DdSaveConfig
  | DdConfigData "device_config option" \<comment> \<open>the effect on \<open>configData\<close>\<close>
  | DdShot | DdShotAccepted int "screenshot_response option" \<comment> \<open>\<open>Date.now()\<close> and the data held\<close>
  | DdShotFailed | DdShotData "screenshot_response option" | DdClock int \<comment> \<open>time passes\<close>
  | DdUpdateAgent | DdAgentSettled
  | DdMaintenance bool | DdEnabled bool | DdReason string | DdUntil string | DdSaveMaintenance | DdMaintenanceSaved
  | DdDeviceData "bool option" "string option" "string option" \<comment> \<open>the effect on the maintenance fields\<close>
  | DdEdit string string | DdDraft string | DdCommit string | DdCommitted
  | DdRemoveKey string
  | DdChart | DdSoftware software_msg | DdEventPage int | DdPanel panel_msg | DdProcess process_msg

definition dd_send :: "request \<Rightarrow> detail_page \<Rightarrow> detail_page" where
  "dd_send r s = s\<lparr>dd_sent := dd_sent s @ [r]\<rparr>"

definition addTag :: "string \<Rightarrow> string list \<Rightarrow> detail_page \<Rightarrow> detail_page" where
  "addTag i tags s =
     (let tag = trim (dd_newTag s) in
      if tag = [] then s else dd_send (devices_update i [(''tags'', JStrs (unique (tags @ [tag])))]) s)"

definition maintenance_request :: "string \<Rightarrow> maintenance_form \<Rightarrow> request" where
  "maintenance_request i f =
     devices_maintenance i (mf_enabled f)
       [(''reason'', JNullable (or_null (mf_reason f))), (''until'', JNullable (or_null (mf_until f)))]"

definition sync_maintenance :: "bool option \<Rightarrow> string option \<Rightarrow> string option \<Rightarrow> maintenance_form" where
  "sync_maintenance mode reason until =
     \<lparr>mf_enabled = (mode = Some True), mf_reason = nullish reason [],
      mf_until = (if truthy until then take 16 (the until) else [])\<rparr>"

text \<open>The effect that ends a capture when a new enough screenshot is there.\<close>

definition capture_effect :: "(string \<Rightarrow> int option) \<Rightarrow> screenshot_response option \<Rightarrow> detail_page \<Rightarrow> detail_page" where
  "capture_effect parse_time shot s =
     (case Option.bind shot sh_captured_at of
        None \<Rightarrow> s
      | Some captured \<Rightarrow>
          if \<not> dd_isCapturing s \<or> captured = [] then s
          else if dd_captureStartedAt s = None \<or> dd_captureStartedAt s = Some 0
               \<or> (case parse_time captured of None \<Rightarrow> False | Some t \<Rightarrow> t \<ge> the (dd_captureStartedAt s))
          then s\<lparr>dd_isCapturing := False, dd_captureTimer := None\<rparr> else s)"

definition start_capture :: "int \<Rightarrow> detail_page \<Rightarrow> detail_page" where
  "start_capture now s =
     s\<lparr>dd_captureStartedAt := Some now, dd_isCapturing := True, dd_shotPending := False,
       dd_captureTimer := (if dd_isCapturing s then dd_captureTimer s else Some (now + 30000))\<rparr>"

definition capture_timeout :: "int \<Rightarrow> detail_page \<Rightarrow> detail_page" where
  "capture_timeout now s = (case dd_captureTimer s of
     None \<Rightarrow> s
   | Some due \<Rightarrow> if due \<le> now then s\<lparr>dd_isCapturing := False, dd_captureTimer := None\<rparr> else s)"

text \<open>The sections on the screen; a part whose section leaves it starts again from its initial state.\<close>

definition visible :: "detail_page \<Rightarrow> dtab \<Rightarrow> bool" where
  "visible s t = (if dd_isMobile s then dd_openSections s t else dd_tab s = t)"

definition unmount_hidden :: "detail_page \<Rightarrow> detail_page" where
  "unmount_hidden s =
     s\<lparr>dd_expanded := (visible s OverviewTab \<and> dd_expanded s),
       dd_software := (if visible s SoftwareTab then dd_software s else software_table_init),
       dd_eventPage := (if visible s EventsTab then dd_eventPage s else 1),
       dd_panel := (if visible s CommandsTab then dd_panel s
                    else panel_init\<lparr>cp_sent := cp_sent (dd_panel s)\<rparr>),
       dd_processes := (if visible s ProcessesTab then dd_processes s
                        else process_list_init\<lparr>pr_sent := pr_sent (dd_processes s)\<rparr>)\<rparr>"

definition set_form :: "(maintenance_form \<Rightarrow> maintenance_form) \<Rightarrow> detail_page \<Rightarrow> detail_page" where
  "set_form f s = s\<lparr>dd_maintenanceForm := f (dd_maintenanceForm s)\<rparr>"

fun detail_page_update :: "(string \<Rightarrow> int option) \<Rightarrow> string \<Rightarrow> detail_page \<Rightarrow> detail_msg \<Rightarrow> detail_page" where
  "detail_page_update pt i s (DdTab t) = unmount_hidden (s\<lparr>dd_tab := t\<rparr>)"
| "detail_page_update pt i s (DdSection t) =
     unmount_hidden (s\<lparr>dd_openSections := (dd_openSections s)(t := \<not> dd_openSections s t)\<rparr>)"
| "detail_page_update pt i s (DdResize w) = unmount_hidden (s\<lparr>dd_isMobile := mobile_width w\<rparr>)"
| "detail_page_update pt i s DdBack = s\<lparr>dd_backs := Suc (dd_backs s)\<rparr>"
| "detail_page_update pt i s (DdEventMode m) = s\<lparr>dd_eventMode := m\<rparr>"
| "detail_page_update pt i s (DdCopy devId) = s\<lparr>dd_clipboard := dd_clipboard s @ [devId]\<rparr>"
| "detail_page_update pt i s DdCopied = s\<lparr>dd_copied := True\<rparr>"
| "detail_page_update pt i s DdCopiedTimeout = s\<lparr>dd_copied := False\<rparr>"
| "detail_page_update pt i s (DdNewTag v) = s\<lparr>dd_newTag := v\<rparr>"
| "detail_page_update pt i s (DdAddTag tags) = addTag i tags s"
| "detail_page_update pt i s DdTagSaved = s\<lparr>dd_newTag := []\<rparr>"
| "detail_page_update pt i s (DdGroup g) = s\<lparr>dd_selectedGroupId := g\<rparr>"
| "detail_page_update pt i s DdAddGroup = dd_send (groups_addDevices (dd_selectedGroupId s) [i]) (s\<lparr>dd_groupPending := True\<rparr>)"
| "detail_page_update pt i s DdGroupAdded = s\<lparr>dd_selectedGroupId := [], dd_groupPending := False\<rparr>"
| "detail_page_update pt i s DdGroupFailed = s\<lparr>dd_groupPending := False\<rparr>"
| "detail_page_update pt i s (DdNumber f v) = s\<lparr>dd_configForm := set_config f (number_input v) (dd_configForm s)\<rparr>"
| "detail_page_update pt i s DdSaveConfig = dd_send (devices_updateConfig i (dd_configForm s)) s"
| "detail_page_update pt i s (DdConfigData c) = (case c of None \<Rightarrow> s | Some cfg \<Rightarrow> s\<lparr>dd_configForm := cfg\<rparr>)"
| "detail_page_update pt i s DdShot = dd_send (devices_requestScreenshot i) (s\<lparr>dd_shotPending := True\<rparr>)"
| "detail_page_update pt i s (DdShotAccepted now shot) = capture_effect pt shot (start_capture now s)"
| "detail_page_update pt i s DdShotFailed = s\<lparr>dd_shotPending := False\<rparr>"
| "detail_page_update pt i s (DdShotData shot) = capture_effect pt shot s"
| "detail_page_update pt i s (DdClock now) = capture_timeout now s"
| "detail_page_update pt i s DdUpdateAgent = dd_send (commands_dispatch i ''update'' []) (s\<lparr>dd_agentPending := True\<rparr>)"
| "detail_page_update pt i s DdAgentSettled = s\<lparr>dd_agentPending := False\<rparr>"
| "detail_page_update pt i s (DdMaintenance b) = s\<lparr>dd_maintenanceOpen := b\<rparr>"
| "detail_page_update pt i s (DdEnabled b) = set_form (\<lambda>f. f\<lparr>mf_enabled := b\<rparr>) s"
| "detail_page_update pt i s (DdReason v) = set_form (\<lambda>f. f\<lparr>mf_reason := v\<rparr>) s"
| "detail_page_update pt i s (DdUntil v) = set_form (\<lambda>f. f\<lparr>mf_until := v\<rparr>) s"
| "detail_page_update pt i s DdSaveMaintenance = dd_send (maintenance_request i (dd_maintenanceForm s)) s"
| "detail_page_update pt i s DdMaintenanceSaved = s\<lparr>dd_maintenanceOpen := False\<rparr>"
| "detail_page_update pt i s (DdDeviceData mode reason until) = s\<lparr>dd_maintenanceForm := sync_maintenance mode reason until\<rparr>"
| "detail_page_update pt i s (DdEdit field value) = s\<lparr>dd_editingField := Some field, dd_fieldDraft := value\<rparr>"
| "detail_page_update pt i s (DdDraft v) = s\<lparr>dd_fieldDraft := v\<rparr>"
| "detail_page_update pt i s (DdCommit field) = dd_send (devices_update i [(field, JNullable (or_null (dd_fieldDraft s)))]) s"
| "detail_page_update pt i s DdCommitted = s\<lparr>dd_editingField := None\<rparr>"
| "detail_page_update pt i s (DdRemoveKey k) = dd_send (devices_deleteSSHKey i k) s"
| "detail_page_update pt i s DdChart = s\<lparr>dd_expanded := \<not> dd_expanded s\<rparr>"
| "detail_page_update pt i s (DdSoftware m) = s\<lparr>dd_software := software_update (dd_software s) m\<rparr>"
| "detail_page_update pt i s (DdEventPage p) = s\<lparr>dd_eventPage := p\<rparr>"
| "detail_page_update pt i s (DdPanel m) = s\<lparr>dd_panel := panel_update i (dd_panel s) m\<rparr>"
| "detail_page_update pt i s (DdProcess m) = s\<lparr>dd_processes := process_update i (dd_processes s) m\<rparr>"

end
