(* ===== verification/DevicePage.thy ===== *)
theory DevicePage
  imports DeviceDetail Dashboard
begin

text \<open>
  The view of \<open>frontend/src/pages/DeviceDetail.tsx\<close> over the state machine of \<open>DeviceDetail\<close>, and what holds
  in every run of the page.
\<close>

section \<open>The view\<close>

record detail_data =
  dq_role :: "string option"
  dq_device :: "device option"
  dq_isLoading :: bool
  dq_metrics :: "metric list"
  dq_latest :: "metric option"
  dq_groups :: "device_group list"
  dq_deviceGroups :: "device_group list"
  dq_screenshot :: "screenshot_response option"
  dq_uptime :: "uptime_history_response option"
  dq_sshKeys :: "ssh_key_info list"
  dq_agentVersion :: "string option"
  dq_zone :: zone
  dq_now :: int
  dq_network :: "device_network_response option"
  dq_networkLoading :: bool
  dq_events :: event_data
  dq_software :: "software_package page option"
  dq_softwareLoading :: bool
  dq_panel :: panel_data
  dq_processes :: process_data

abbreviation mid_dot :: string where "mid_dot \<equiv> '' '' @ [CHR 0xB7] @ '' ''"

definition latest_of :: "detail_data \<Rightarrow> metric option" where
  "latest_of d = (case dq_latest d of Some m \<Rightarrow> Some m | None \<Rightarrow> (case dq_metrics d of [] \<Rightarrow> None | m # _ \<Rightarrow> Some m))"

definition percent_text :: "string \<Rightarrow> rat option \<Rightarrow> string" where
  "percent_text uom v = (case v of None \<Rightarrow> em_dash | Some x \<Rightarrow> int_str (math_round x) @ uom)"

definition statCards :: "formats \<Rightarrow> int \<Rightarrow> metric option \<Rightarrow> (string \<times> string \<times> string \<times> bool) list" where
  "statCards fm now latest =
     (let get = (\<lambda>sel. Option.bind latest sel); uptimeSecs = get m_uptime_secs in
      [(''CPU'', percent_text ''%'' (get m_cpu_percent), ''Cpu'', nullish (get m_cpu_percent) 0 > 80),
       (''RAM'', percent_text ''%'' (get m_ram_percent), ''MemoryStick'', nullish (get m_ram_percent) 0 > 80),
       (''Disk'', percent_text ''%'' (get m_disk_percent), ''HardDrive'', nullish (get m_disk_percent) 0 > 85),
       (''Temp'', percent_text ([CHR 0xB0] @ ''C'') (get m_cpu_temp), ''Thermometer'', nullish (get m_cpu_temp) 0 > 80),
       (''Uptime'', case uptimeSecs of None \<Rightarrow> em_dash | Some u \<Rightarrow> formatUptime u, ''Clock3'', False),
       (''Last Boot'', case uptimeSecs of None \<Rightarrow> em_dash | Some u \<Rightarrow> fm_ago_time fm (lastBootTime (of_int now) u), ''History'', False)])"

definition stat_card :: "string \<times> string \<times> string \<times> bool \<Rightarrow> 'm node" where
  "stat_card c = (case c of (name, value, ic, warning) \<Rightarrow>
     box [label name, icon ic, toned (if warning then ''text-amber-400'' else ''text-slate-900'') value])"

definition uptime_panel :: "detail_data \<Rightarrow> 'm view" where
  "uptime_panel d =
     (let h = dq_uptime d;
          percent = (case h of None \<Rightarrow> 100 | Some u \<Rightarrow> uh_uptime_percent_30d u)
      in [label ''Uptime History (30d)'', label ''Recent outages and downtime trends.'',
          toned (uptimeTone percent) (to_fixed 1 percent @ ''% uptime'')]
         @ map (\<lambda>sg. El ''div'' [(''title'', sg_date sg @ '': '' @ sg_label sg), (''tone'', sg_tone sg)] [] [])
             (buildUptimeSegments (dq_zone d) (dq_now d) (case h of None \<Rightarrow> [] | Some u \<Rightarrow> uh_events u))
         @ [label (int_str (case h of None \<Rightarrow> 0 | Some u \<Rightarrow> uh_outage_count u) @ '' outages in last 30 days'' @ mid_dot
              @ ''Total downtime: '' @ formatUptime (case h of None \<Rightarrow> 0 | Some u \<Rightarrow> uh_total_downtime_secs u))])"

definition InfoRow :: "string \<Rightarrow> string \<Rightarrow> 'm node" where
  "InfoRow name value = box [label name, label value]"

definition EditableInfoRow :: "detail_page \<Rightarrow> string \<Rightarrow> string \<Rightarrow> string \<Rightarrow> detail_msg node" where
  "EditableInfoRow s name field value =
     box [label name,
          if dd_editingField s = Some field
          then El ''input'' [(''value'', dd_fieldDraft s)]
                 [(''onChange'', DdDraft), (''onBlur'', \<lambda>_. DdCommit field), (''onKeyDown Enter'', \<lambda>_. DdCommit field)] []
          else button (DdEdit field value) [Txt (if value \<noteq> [] then value else em_dash)]]"

definition editable_fields :: "(string \<times> string \<times> (device \<Rightarrow> string option)) list" where
  "editable_fields =
     [(''Serial Number'', ''serial_number'', d_serial_number), (''Manufacturer'', ''manufacturer'', d_manufacturer),
      (''Model'', ''model_name'', d_model_name), (''Location'', ''location'', d_location),
      (''Assigned To'', ''assigned_to'', d_assigned_to), (''Asset Tag'', ''asset_tag'', d_asset_tag)]"

definition NumberField :: "string \<Rightarrow> rat \<Rightarrow> (string \<Rightarrow> 'm) \<Rightarrow> 'm node" where
  "NumberField name value h =
     box [label name, El ''input'' [(''type'', ''number''), (''min'', ''1''), (''value'', number_str value)] [(''onChange'', h)] []]"

definition tag_chip :: "string \<Rightarrow> 'm node" where
  "tag_chip tag = toned (nullish (getTagColor (map (\<lambda>c. word_of_nat (of_char c)) tag)) ''undefined'') tag"

definition availableGroups :: "detail_data \<Rightarrow> device_group list" where
  "availableGroups d = filter (\<lambda>group. \<not> list_ex (\<lambda>member. g_id member = g_id group) (dq_deviceGroups d)) (dq_groups d)"

definition groups_panel :: "detail_data \<Rightarrow> detail_page \<Rightarrow> detail_msg view" where
  "groups_panel d s =
     [label ''Groups''] @ map (\<lambda>g. toned (g_color g) (g_name g)) (dq_deviceGroups d)
     @ shown (dq_deviceGroups d = []) [label ''No groups assigned'']
     @ shown (dq_role d = Some ''admin'')
         [select_field (dd_selectedGroupId s) DdGroup
            (([], ''Add to group'') # map (\<lambda>g. (g_id g, g_name g)) (availableGroups d)),
          button_if (dd_selectedGroupId s = [] \<or> dd_groupPending s) DdAddGroup [Txt ''Add'']]"

definition system_info :: "formats \<Rightarrow> detail_data \<Rightarrow> device \<Rightarrow> detail_page \<Rightarrow> detail_msg view" where
  "system_info fm d device s =
     [label ''System Info'']
     @ shown (updateAvailable (Some device) (dq_agentVersion d)) [label ''Update Available'']
     @ [button_if (dd_agentPending s) DdUpdateAgent [Txt ''Update Agent''],
        InfoRow ''OS'' (nullish (d_os_version device) (os_type_str (d_os_type device))),
        InfoRow ''Architecture'' (nullish (d_arch device) em_dash), InfoRow ''Hostname'' (d_hostname device),
        InfoRow ''IP Address'' (nullish (d_ip_address device) em_dash),
        InfoRow ''Enrolled'' (fm_full fm (d_enrolled_at device)),
        InfoRow ''Agent Version'' (nullish (d_agent_version device) em_dash)]
     @ map (\<lambda>(name, field, sel). EditableInfoRow s name field (nullish (sel device) [])) editable_fields
     @ [label ''Device ID'', label (d_id device),
        button (DdCopy (d_id device)) [icon ''Copy'', Txt (if dd_copied s then ''Copied'' else ''Copy'')], label ''Tags'']
     @ map tag_chip (d_tags device)
     @ [input_field (dd_newTag s) DdNewTag, button (DdAddTag (d_tags device)) [icon ''Plus'', Txt ''Add Tag'']]
     @ groups_panel d s"

definition screenshot_panel :: "formats \<Rightarrow> detail_data \<Rightarrow> device \<Rightarrow> detail_page \<Rightarrow> detail_msg view" where
  "screenshot_panel fm d device s =
     (let shot = dq_screenshot d; captured = Option.bind shot sh_captured_at; image = Option.bind shot sh_image_b64 in
      [label ''Live Screenshot'', label ''Screenshot requires user to be logged in on the device.'',
       button_if (dd_shotPending s \<or> dd_isCapturing s) DdShot
         [icon ''Camera'', Txt (if dd_isCapturing s then ''Capturing...'' else ''Request Screenshot'')],
       if truthy image
       then El ''img'' [(''src'', ''data:image/jpeg;base64,'' @ the image), (''alt'', ''Screenshot for '' @ d_hostname device)] [] []
       else label (if dd_isCapturing s then ''Capturing screenshot...'' else ''No screenshot yet -- click Request Screenshot''),
       label (if truthy captured then ''Last captured '' @ fm_ago fm (the captured)
              else if dd_isCapturing s then ''Waiting for capture...'' else ''No capture yet'')]
      @ shown (truthy (Option.bind shot sh_error)) [label (the (Option.bind shot sh_error))])"

definition overviewContent :: "formats \<Rightarrow> detail_data \<Rightarrow> device \<Rightarrow> detail_page \<Rightarrow> detail_msg view" where
  "overviewContent fm d device s =
     map stat_card (statCards fm (dq_now d) (latest_of d))
     @ [label ''Last 24h Performance''] @ map (map_node (\<lambda>_. DdChart)) (MetricsChart (fm_clock fm) (dq_metrics d) (dd_expanded s))
     @ uptime_panel d @ system_info fm d device s @ screenshot_panel fm d device s"

definition ssh_keys_table :: "formats \<Rightarrow> ssh_key_info list \<Rightarrow> detail_msg view" where
  "ssh_keys_table fm sshKeys =
     [label ''SSH Keys'', label ''Removing a key here does not remove it from the device.'']
     @ headings [''Type'', ''Fingerprint'', ''Comment'', ''Discovered'']
     @ map (\<lambda>key. row [label (ssh_key_type key), label (ssh_fingerprint key), label (nullish (ssh_comment key) em_dash),
           label (if truthy (ssh_discovered_at key) then fm_ago fm (the (ssh_discovered_at key)) else em_dash),
           button (DdRemoveKey (ssh_id key)) [Txt ''Remove from inventory'']]) sshKeys
     @ shown (sshKeys = []) [label ''No SSH keys reported yet.'']"

definition config_tab :: "device \<Rightarrow> detail_page \<Rightarrow> detail_msg view" where
  "config_tab device s =
     [label ''Agent Config'']
     @ shown (d_status device = Offline) [label ''Device is offline -- config will apply on next connection.'']
     @ [NumberField ''Telemetry Interval (secs)'' (dc_telemetry_interval_secs (dd_configForm s)) (DdNumber TelemetryField),
        NumberField ''Software Scan (mins)'' (dc_software_scan_interval_m (dd_configForm s)) (DdNumber SoftwareField),
        NumberField ''Event Poll (secs)'' (dc_event_poll_interval_secs (dd_configForm s)) (DdNumber EventField),
        button DdSaveConfig [Txt ''Save Config'']]"

definition events_tab :: "formats \<Rightarrow> detail_data \<Rightarrow> detail_page \<Rightarrow> detail_msg view" where
  "events_tab fm d s =
     [label ''Event Log'']
     @ map (\<lambda>mode. El ''button'' [(''current'', if dd_eventMode s = mode then ''true'' else ''false'')] [(''onClick'', \<lambda>_. DdEventMode mode)]
              [Txt (if mode = SystemMode then ''System Events'' else ''Agent Logs'')]) [SystemMode, AgentMode]
     @ map (map_node DdEventPage) (EventLog (fm_stamp fm) (dd_eventMode s) (dq_events d) (dd_eventPage s))"

fun contentByTab :: "formats \<Rightarrow> detail_data \<Rightarrow> device \<Rightarrow> detail_page \<Rightarrow> dtab \<Rightarrow> detail_msg view" where
  "contentByTab fm d device s OverviewTab = overviewContent fm d device s"
| "contentByTab fm d device s SoftwareTab =
     label ''Installed Software'' # map (map_node DdSoftware) (SoftwareTable (fm_number fm) (dq_software d) (dq_softwareLoading d) (dd_software s))"
| "contentByTab fm d device s EventsTab = events_tab fm d s"
| "contentByTab fm d device s CommandsTab =
     label ''Remote Commands'' # map (map_node DdPanel) (panel_view (fm_ago fm) (fm_parse fm) (dq_panel d) (dd_panel s))"
| "contentByTab fm d device s NetworkTab =
     [icon ''Network'', label ''Network Interfaces''] @ NetworkInfo (dq_network d) (dq_networkLoading d) @ ssh_keys_table fm (dq_sshKeys d)"
| "contentByTab fm d device s ProcessesTab =
     [icon ''Activity'', label ''Top Processes'']
     @ map (map_node DdProcess) (ProcessList (fm_collate fm) (dq_processes d) (dd_processes s))"
| "contentByTab fm d device s ConfigTab = config_tab device s"

definition maintenance_dialog :: "maintenance_form \<Rightarrow> detail_msg view" where
  "maintenance_dialog f =
     [label ''Maintenance Mode'', button (DdMaintenance False) [Txt ''Close''],
      checkbox (mf_enabled f) (DdEnabled (\<not> mf_enabled f)), label ''Enable maintenance mode'',
      El ''textarea'' [(''value'', mf_reason f)] [(''onChange'', DdReason)] [],
      El ''input'' [(''type'', ''datetime-local''), (''value'', mf_until f)] [(''onChange'', DdUntil)] [],
      button (DdMaintenance False) [Txt ''Cancel''], button DdSaveMaintenance [Txt ''Save'']]"

definition detail_header :: "formats \<Rightarrow> device \<Rightarrow> detail_msg view" where
  "detail_header fm device =
     shown (d_maintenance_mode device = Some True)
       [label (''Maintenance mode active''
          @ (if truthy (d_maintenance_reason device) then mid_dot @ the (d_maintenance_reason device) else [])
          @ (if truthy (d_maintenance_until device) then mid_dot @ ''until '' @ fm_full fm (the (d_maintenance_until device)) else []))]
     @ [button DdBack [icon ''ArrowLeft''], label (nullish (d_label device) (d_hostname device)), status_badge (d_status device),
        label (d_hostname device @ mid_dot @ nullish (d_os_version device) (os_type_str (d_os_type device)) @ mid_dot
           @ nullish (d_ip_address device) ''No IP''
           @ (if truthy (d_last_seen device) then mid_dot @ ''Last seen '' @ fm_ago fm (the (d_last_seen device)) else [])),
        button (DdMaintenance True) [icon ''Wrench'', Txt ''Maintenance'']]"

definition section_node :: "formats \<Rightarrow> detail_data \<Rightarrow> device \<Rightarrow> detail_page \<Rightarrow> dtab \<Rightarrow> detail_msg node" where
  "section_node fm d device s t =
     box (button (DdSection t) [Txt (if t = EventsTab then ''Events & Logs'' else dtab_str t),
            icon (if dd_openSections s t then ''ChevronUp'' else ''ChevronDown'')]
          # shown (dd_openSections s t) (contentByTab fm d device s t))"

definition tab_button :: "detail_page \<Rightarrow> dtab \<Rightarrow> detail_msg node" where
  "tab_button s t = El ''button'' [(''current'', if dd_tab s = t then ''true'' else ''false'')] [(''onClick'', \<lambda>_. DdTab t)] [Txt (dtab_str t)]"

definition detail_page_view :: "formats \<Rightarrow> detail_data \<Rightarrow> detail_page \<Rightarrow> detail_msg view" where
  "detail_page_view fm d s =
     (if dq_isLoading d then replicate 6 skeleton_metric
      else case dq_device d of
        None \<Rightarrow> [label ''Device not found'']
      | Some device \<Rightarrow>
          detail_header fm device
          @ (if dd_isMobile s then map (section_node fm d device s) MOBILE_SECTIONS
             else map (tab_button s) MOBILE_SECTIONS @ contentByTab fm d device s (dd_tab s))
          @ shown (dd_maintenanceOpen s) (maintenance_dialog (dd_maintenanceForm s)))"

text \<open>
  The environment: resizing, new data, time, and the answers of the server to what is pending (a capture
  is accepted only after it was requested).
\<close>

fun detail_env :: "detail_page \<Rightarrow> detail_msg \<Rightarrow> bool" where
  "detail_env s (DdShotAccepted now shot) = dd_shotPending s"
| "detail_env s DdShotFailed = dd_shotPending s"
| "detail_env s DdGroupAdded = dd_groupPending s"
| "detail_env s DdGroupFailed = dd_groupPending s"
| "detail_env s DdAgentSettled = dd_agentPending s"
| "detail_env s (DdPanel m) = panel_env (dd_panel s) m"
| "detail_env s (DdProcess ProcRefreshed) = pr_pending (dd_processes s)"
| "detail_env s (DdProcess ProcRefetch) = (pr_sent (dd_processes s) \<noteq> [])"
| "detail_env s (DdSoftware SwTimer) = True"
| "detail_env s DdCopied = True"
| "detail_env s DdCopiedTimeout = True"
| "detail_env s DdTagSaved = True"
| "detail_env s DdMaintenanceSaved = True"
| "detail_env s DdCommitted = True"
| "detail_env s (DdResize w) = True"
| "detail_env s (DdConfigData c) = True"
| "detail_env s (DdShotData shot) = True"
| "detail_env s (DdClock t) = True"
| "detail_env s (DdDeviceData mode reason until) = True"
| "detail_env s m = False"

abbreviation detail_run :: "formats \<Rightarrow> (string \<Rightarrow> int option) \<Rightarrow> string \<Rightarrow> int \<Rightarrow> detail_msg list \<Rightarrow> detail_page \<Rightarrow> bool" where
  "detail_run fm pt i w \<equiv> ui_run (detail_page_view fm) detail_env (detail_page_update pt i) (detail_init w)"

section \<open>Lemmas: versions\<close>

definition version_str :: "nat list \<Rightarrow> string" where
  "version_str ns = join ''.'' (map nat_str ns)"

lemma version_parts_str: "ns \<noteq> [] \<Longrightarrow> version_parts (version_str ns) = map (\<lambda>n. Fin (of_nat n)) ns"
proof -
  assume "ns \<noteq> []"
  then have "split_str ''.'' (version_str ns) = map nat_str ns"
    unfolding version_str_def by (intro split_join) (auto simp: nat_str_no_symbol)
  then show ?thesis by (simp add: version_parts_def)
qed

lemma version_str_truthy: "ns \<noteq> [] \<Longrightarrow> truthy (Some (version_str ns))"
  by (cases ns; cases "tl ns") (auto simp: version_str_def)

lemma semver_loop_nats:
  "length as = length bs \<Longrightarrow>
   semver_loop (map (\<lambda>n. Fin (of_nat n)) as) (map (\<lambda>n. Fin (of_nat n)) bs) [k..<length as] = code_compare (drop k as) (drop k bs)"
proof (induction "length as - k" arbitrary: k)
  case (Suc m)
  then have k: "k < length as" "k < length bs" by simp_all
  then have "drop k as = as ! k # drop (Suc k) as" "drop k bs = bs ! k # drop (Suc k) bs"
    by (simp_all add: Cons_nth_drop_Suc)
  moreover have "[k..<length as] = k # [Suc k..<length as]" using k by (simp add: upt_conv_Cons)
  moreover have "m = length as - Suc k" using Suc.hyps(2) by simp
  ultimately show ?case using Suc.hyps(1)[of "Suc k"] Suc.prems k by (simp add: version_part_def)
qed simp

section \<open>Lemmas: uptime\<close>

definition day_downtime :: "string \<Rightarrow> uptime_history_event list \<Rightarrow> rat" where
  "day_downtime key events =
     sum_list (map (\<lambda>e. nullish (ue_duration_secs e) 0)
       (filter (\<lambda>e. ue_event_type e = WentOnline \<and> take 10 (ue_timestamp e) = key) events))"

lemma add_downtime_distinct:
  "distinct (map de_key es) \<Longrightarrow>
   add_downtime key secs es = map (\<lambda>e. if de_key e = key then e\<lparr>de_downtime := de_downtime e + secs\<rparr> else e) es"
proof (induction es)
  case (Cons e es)
  have "map (\<lambda>e. if de_key e = key then e\<lparr>de_downtime := de_downtime e + secs\<rparr> else e) es = es" if "key \<notin> de_key ` set es"
    using that by (intro map_idI) auto
  with Cons show ?case by auto
qed simp

lemma uptime_event_step_map:
  "distinct (map de_key es) \<Longrightarrow>
   uptime_event_step es e = map (\<lambda>x. x\<lparr>de_downtime := de_downtime x + day_downtime (de_key x) [e]\<rparr>) es"
  by (auto simp: uptime_event_step_def add_downtime_distinct day_downtime_def)

lemma day_downtime_Cons: "day_downtime k (e # es) = day_downtime k [e] + day_downtime k es"
  by (simp add: day_downtime_def)

lemma uptime_segment_display:
  "uptime_segment \<lparr>de_key = day, de_downtime = down\<rparr> =
     \<lparr>sg_date = day,
      sg_label = (if down \<ge> 86400 then ''0'' else int_str \<lfloor>(86400 - down) / 864 + 1 / 2\<rfloor>) @ ''% uptime'',
      sg_tone = (if down \<ge> 86400 then ''bg-slate-300 dark:bg-gray-700''
                 else if 10 * down \<le> 864 then ''bg-emerald-500'' else ''bg-amber-500'')\<rparr>"
proof -
  have "int_str 0 = ''0''" by code_simp
  moreover have "\<lfloor>1 / 2 :: rat\<rfloor> = 0" by (simp add: floor_eq_iff)
  ultimately show ?thesis by (auto simp: uptime_segment_def Let_def math_round_def max_def field_simps)
qed

lemma foldl_uptime_events:
  "distinct (map de_key es) \<Longrightarrow>
   foldl uptime_event_step es events = map (\<lambda>x. x\<lparr>de_downtime := de_downtime x + day_downtime (de_key x) events\<rparr>) es"
proof (induction events arbitrary: es)
  case (Cons e events)
  let ?es = "uptime_event_step es e"
  have keys: "map de_key ?es = map de_key es" using Cons.prems by (simp add: uptime_event_step_map)
  then have "distinct (map de_key ?es)" using Cons.prems by simp
  from Cons.IH[OF this] have "foldl uptime_event_step es (e # events) =
      map (\<lambda>x. x\<lparr>de_downtime := de_downtime x + day_downtime (de_key x) events\<rparr>) ?es" by simp
  then show ?case using Cons.prems by (simp add: uptime_event_step_map comp_def day_downtime_Cons[of _ e events] add.assoc)
qed (simp add: day_downtime_def)

text \<open>In a zone with a fixed offset the thirty keys are thirty different days.\<close>

lemma uptime_key_fixed: "setDate (fixed_zone off) (getDate (fixed_zone off) now - k) now = now - k * ms_per_day"
  by (simp add: setDate_back fixed_zone_def)

lemma Day_back: "Day (now - k * ms_per_day) = Day now - k"
proof -
  have "now - k * ms_per_day = now + (- k) * ms_per_day" by simp
  moreover have "(now + (- k) * ms_per_day) div ms_per_day = - k + now div ms_per_day"
    by (rule div_mult_self1) (simp add: ms_per_day_def)
  ultimately show ?thesis unfolding Day_def by simp
qed

lemma iso_date_10: "iso_day (Day t) \<Longrightarrow> take 10 (iso_date t) = iso_date t"
  by (simp add: iso_date_length)

lemma uptime_days_fixed:
  assumes "\<And>k. 0 \<le> k \<Longrightarrow> k < 30 \<Longrightarrow> iso_day (Day now - k)"
  shows "map de_key (uptime_days (fixed_zone off) now) = map (\<lambda>j. iso_date (now - (29 - int j) * ms_per_day)) [0..<30]"
    and "distinct (map de_key (uptime_days (fixed_zone off) now))"
proof -
  have iso: "iso_day (Day (now - (29 - int j) * ms_per_day))" if "j < 30" for j
    using assms[of "29 - int j"] that by (simp add: Day_back)
  show keys: "map de_key (uptime_days (fixed_zone off) now) = map (\<lambda>j. iso_date (now - (29 - int j) * ms_per_day)) [0..<30]"
  proof (unfold uptime_days_def map_map, rule map_cong[OF refl])
    fix j assume "j \<in> set [0..<30::nat]"
    then have "j < 30" by (simp only: set_upt atLeastLessThan_iff)
    show "(de_key \<circ> (\<lambda>index. \<lparr>de_key = take 10 (iso_date (setDate (fixed_zone off) (getDate (fixed_zone off) now - (29 - int index)) now)),
        de_downtime = 0\<rparr>)) j = iso_date (now - (29 - int j) * ms_per_day)"
      unfolding comp_def uptime_key_fixed using iso_date_10[OF iso[OF \<open>j < 30\<close>]] by simp
  qed
  have "inj_on (\<lambda>j. iso_date (now - (29 - int j) * ms_per_day)) (set [0..<30])"
  proof (rule inj_onI)
    fix j k :: nat
    assume "j \<in> set [0..<30]" "k \<in> set [0..<30]" "iso_date (now - (29 - int j) * ms_per_day) = iso_date (now - (29 - int k) * ms_per_day)"
    then have "Day (now - (29 - int j) * ms_per_day) = Day (now - (29 - int k) * ms_per_day)"
      using iso[of j] iso[of k] by (intro iso_date_inj) simp_all
    then show "j = k" by (simp add: Day_back)
  qed
  then show "distinct (map de_key (uptime_days (fixed_zone off) now))"
    unfolding keys by (simp add: distinct_map)
qed

section \<open>Lemmas: runs of the page\<close>

lemmas detail_parts = EditableInfoRow_def NumberField_def InfoRow_def tag_chip_def stat_card_def status_badge_def
  skeleton_metric_def skeleton_text_def skeleton_table_def line_chart_def interface_row_def agent_row_def event_row_def process_row_def package_row_def

lemma offers_inert [simp]:
  "\<not> offers [line_chart u ls ps] m" "\<not> offers [stat_card c] m" "\<not> offers [InfoRow n v] m" "\<not> offers [tag_chip t] m"
  "\<not> offers [status_badge st] m" "\<not> offers [skeleton_metric] m" "\<not> offers [skeleton_table rs] m" "\<not> offers [interface_row ni] m"
  by (auto simp: detail_parts split: prod.splits option.splits)

lemma offers_inert_Cons [simp]:
  "offers (InfoRow n v # w) m \<longleftrightarrow> offers w m" "offers (status_badge st # w) m \<longleftrightarrow> offers w m"
  "offers (line_chart u ls ps # w) m \<longleftrightarrow> offers w m" "offers (skeleton_table rs # w) m \<longleftrightarrow> offers w m"
  using offers_append[of "[InfoRow n v]" w m] offers_append[of "[status_badge st]" w m]
    offers_append[of "[line_chart u ls ps]" w m] offers_append[of "[skeleton_table rs]" w m] by simp_all

lemma skeletons_inert [simp]: "\<not> offers (replicate n skeleton_metric) m"
  using offers_map[of "\<lambda>_. skeleton_metric" "[0..<n]" m] by (simp add: map_replicate_const)

lemma NetworkInfo_inert [simp]: "\<not> offers (NetworkInfo d l) m"
  by (auto simp: NetworkInfo_def Let_def)

lemma uptime_panel_inert [simp]: "\<not> offers (uptime_panel d) m"
  by (auto simp: uptime_panel_def Let_def)

text \<open>A message that only one panel raises: where it comes from.\<close>

lemma offers_own:
  assumes "offers (detail_page_view fm d s) m" "m = DdShot \<or> m = DdAddGroup \<or> (\<exists>f. m = DdCommit f) \<or> (\<exists>now shot. m = DdShotAccepted now shot)"
  obtains device where "dq_device d = Some device" "offers (overviewContent fm d device s) m"
proof -
  have c: "offers (contentByTab fm d device s t) m \<Longrightarrow> t = OverviewTab" for device t
    using assms(2) by (cases t) (auto simp: events_tab_def ssh_keys_table_def config_tab_def NumberField_def)
  from assms(1) obtain device where dev: "dq_device d = Some device"
    and "offers (detail_page_view fm d s) m" by (cases "dq_device d") (auto simp: detail_page_view_def split: if_splits)
  then have "\<exists>t. offers (contentByTab fm d device s t) m"
    using assms(2)
    by (auto simp: detail_page_view_def detail_header_def section_node_def tab_button_def maintenance_dialog_def split: if_splits)
  with c dev that show thesis by (metis contentByTab.simps(1))
qed

lemma overview_messages:
  "offers (overviewContent fm d device s) DdShot \<Longrightarrow> \<not> dd_shotPending s \<and> \<not> dd_isCapturing s"
  "offers (overviewContent fm d device s) DdAddGroup \<Longrightarrow>
     dq_role d = Some ''admin'' \<and> dd_selectedGroupId s \<noteq> [] \<and> \<not> dd_groupPending s"
  "\<not> offers (overviewContent fm d device s) (DdShotAccepted now shot)"
  by (auto simp: overviewContent_def system_info_def groups_panel_def screenshot_panel_def EditableInfoRow_def Let_def split: if_splits)

text \<open>What the page keeps in every run: a capture has its timer, and is not requested again while it lasts.\<close>

definition capture_ok :: "detail_page \<Rightarrow> bool" where
  "capture_ok s \<longleftrightarrow>
     (dd_isCapturing s \<longrightarrow> (\<exists>start. dd_captureStartedAt s = Some start \<and> dd_captureTimer s = Some (start + 30000)))
     \<and> (dd_shotPending s \<longrightarrow> \<not> dd_isCapturing s)"

lemmas detail_step_defs = unmount_hidden_def addTag_def dd_send_def capture_effect_def start_capture_def capture_timeout_def
  set_form_def Let_def

lemma capture_ok_step:
  assumes "capture_ok s" "\<And>now shot. m = DdShotAccepted now shot \<Longrightarrow> dd_shotPending s" "m = DdShot \<Longrightarrow> \<not> dd_isCapturing s"
  shows "capture_ok (detail_page_update pt i s m)"
proof (cases "(\<exists>now shot. m = DdShotAccepted now shot) \<or> m = DdShot \<or> (\<exists>shot. m = DdShotData shot) \<or> (\<exists>t. m = DdClock t)")
  case True
  then show ?thesis
    using assms by (auto simp: capture_ok_def detail_step_defs split: option.splits if_splits)
next
  case False
  then have "dd_isCapturing (detail_page_update pt i s m) = dd_isCapturing s
      \<and> dd_captureStartedAt (detail_page_update pt i s m) = dd_captureStartedAt s
      \<and> dd_captureTimer (detail_page_update pt i s m) = dd_captureTimer s
      \<and> (dd_shotPending (detail_page_update pt i s m) \<longrightarrow> dd_shotPending s)"
    by (cases m) (simp_all add: detail_step_defs split: option.split)
  with assms(1) show ?thesis unfolding capture_ok_def by simp
qed

interpretation device_page: ui_page "detail_page_view fm" detail_env "detail_page_update pt i" "detail_init w" "\<lambda>ms. capture_ok"
proof unfold_locales
  show "capture_ok (detail_init w)" by (simp add: capture_ok_def detail_init_def)
  show "capture_ok (detail_page_update pt i s m)" if "capture_ok s" "offers (detail_page_view fm d s) m" for s d m
  proof (rule capture_ok_step[OF that(1)])
    show "\<not> dd_isCapturing s" if "m = DdShot"
      using \<open>offers (detail_page_view fm d s) m\<close> that overview_messages(1) by (metis offers_own)
    show "dd_shotPending s" if "m = DdShotAccepted now shot" for now shot
      using \<open>offers (detail_page_view fm d s) m\<close> that overview_messages(3) by (metis offers_own)
  qed
  show "capture_ok (detail_page_update pt i s m)" if "capture_ok s" "detail_env s m" for s m
    using that(1) by (rule capture_ok_step) (use that(2) in auto)
qed

text \<open>
  A request about the device \<open>i\<close>: below its path, or adding just it to a group. The one other request of
  the page saves a shell command to the library of the user, for no device in particular.
\<close>

definition about_device :: "string \<Rightarrow> request \<Rightarrow> bool" where
  "about_device i r \<longleftrightarrow>
     (let p = ''/devices/'' @ i in startsWith (rq_path r) p \<and> sub_path (drop (length p) (rq_path r)))
     \<or> (\<exists>g. r = mk_request POST (''/groups/'' @ g @ ''/devices'') [] (Some (JObj [(''device_ids'', JStrs [i])])))"

definition page_request_ok :: "string \<Rightarrow> request \<Rightarrow> bool" where
  "page_request_ok i r \<longleftrightarrow> about_device i r \<or> (\<exists>name note text. r = to_library name note text)"

text \<open>All requests the page has sent on an action of the user, by itself and by its parts.\<close>

definition page_requests :: "detail_page \<Rightarrow> request list" where
  "page_requests s = dd_sent s @ cp_sent (dd_panel s) @ pr_sent (dd_processes s)"

lemma about_device_path:
  assumes "rq_path r = (''/devices/'' @ i) @ sub" "sub_path sub"
  shows "about_device i r"
proof -
  have "startsWith (p @ sub) p \<and> sub_path (drop (length p) (p @ sub))" for p
    using assms(2) by (simp add: startsWith_def)
  then show ?thesis unfolding about_device_def assms(1) Let_def by blast
qed

lemma about_device_calls [simp]:
  "about_device i (devices_update i x)" "about_device i (devices_updateConfig i c)" "about_device i (devices_requestScreenshot i)"
  "about_device i (devices_maintenance i b r)" "about_device i (devices_deleteSSHKey i k)" "about_device i (devices_processes i)"
  "about_device i (commands_dispatch i t p)"
  by (rule about_device_path, simp add: devices_api_defs commands_dispatch_def mk_request_def device_path_def,
      simp add: sub_path_def)+

lemma about_device_group [simp]: "about_device i (groups_addDevices g [i])"
  by (auto simp: about_device_def groups_addDevices_def)

lemma page_request_ok_simps [simp]: "about_device i r \<Longrightarrow> page_request_ok i r" "page_request_ok i (to_library name note text)"
  by (auto simp: page_request_ok_def)

lemma panel_sent_step:
  "list_all (page_request_ok i) (cp_sent s) \<Longrightarrow> list_all (page_request_ok i) (cp_sent (panel_update i s m))"
  by (cases m) (simp_all add: send_shell_def panel_dispatch_def run_saved_def refresh_selected_def save_request_library Let_def
      split: option.split)

lemma dd_panel_step:
  "list_all (page_request_ok i) (cp_sent (dd_panel s)) \<Longrightarrow>
   list_all (page_request_ok i) (cp_sent (dd_panel (detail_page_update pt i s m)))"
  by (cases m) (simp_all add: detail_step_defs panel_sent_step split: option.split)

lemma process_sent_step:
  "list_all (page_request_ok i) (pr_sent s) \<Longrightarrow> list_all (page_request_ok i) (pr_sent (process_update i s m))"
  by (cases m) (simp_all add: toggleSort_def)

lemma dd_sent_step:
  "list_all (page_request_ok i) (dd_sent s) \<Longrightarrow> list_all (page_request_ok i) (dd_sent (detail_page_update pt i s m))"
  by (cases m) (simp_all add: detail_step_defs maintenance_request_def split: option.split)

lemma dd_processes_step:
  "list_all (page_request_ok i) (pr_sent (dd_processes s)) \<Longrightarrow>
   list_all (page_request_ok i) (pr_sent (dd_processes (detail_page_update pt i s m)))"
  by (cases m) (simp_all add: detail_step_defs process_sent_step split: option.split)

lemma page_requests_step:
  "list_all (page_request_ok i) (page_requests s) \<Longrightarrow> list_all (page_request_ok i) (page_requests (detail_page_update pt i s m))"
  by (simp add: page_requests_def dd_sent_step dd_processes_step dd_panel_step)

section \<open>Properties\<close>

text \<open>C7. The comparison behind "Update Available" is the order of versions: on versions of three numbers it is
  their lexicographic comparison, and the notice is shown exactly when the offered version is the
  greater one.\<close>

theorem compareSemver_numeric:
  "compareSemver (version_str [a, b, c]) (Some (version_str [a', b', c'])) = code_compare [a, b, c] [a', b', c']
   \<and> (updateAvailable (Some (dev\<lparr>d_agent_version := Some (version_str [a', b', c'])\<rparr>)) (Some (version_str [a, b, c]))
      \<longleftrightarrow> a > a' \<or> a = a' \<and> (b > b' \<or> b = b' \<and> c > c'))"
proof -
  have "compareSemver (version_str [a, b, c]) (Some (version_str [a', b', c'])) = code_compare [a, b, c] [a', b', c']"
  proof -
    have "[0..<length [a, b, c]] = [0, 1, 2]" by (simp add: upt_rec)
    then have "semver_loop (map (\<lambda>n. Fin (of_nat n)) [a, b, c]) (map (\<lambda>n. Fin (of_nat n)) [a', b', c']) [0, 1, 2] =
        code_compare [a, b, c] [a', b', c']"
      using semver_loop_nats[of "[a, b, c]" "[a', b', c']" 0] by (metis drop0 length_Cons)
    moreover note version_str_truthy[of "[a', b', c']"] version_parts_str[of "[a, b, c]"] version_parts_str[of "[a', b', c']"]
    ultimately show ?thesis unfolding compareSemver_def by (metis list.distinct(1) option.sel)
  qed
  then show ?thesis using version_str_truthy[of "[a', b', c']"] version_str_truthy[of "[a, b, c]"]
    by (auto simp: updateAvailable_def)
qed

text \<open>A part that is not a number compares equal to everything: such an update is never offered.\<close>

lemma semver_prefix_ignored:
  "compareSemver ''v2.0.0'' (Some ''1.0.0'') = 0" "compareSemver ''1.2.0'' (Some ''1.2.0-beta'') = 0"
  by code_simp+

text \<open>C8. A screenshot capture always ends: in every run, while the page shows a capture it polls every three
  seconds, no second capture can be requested, and at the latest thirty seconds after the server accepted
  the request the page leaves the capturing state, whatever the server sends.\<close>

theorem capture_ends:
  assumes "detail_run fm pt i w ms s" "dd_isCapturing s"
  shows "\<exists>start. dd_captureStartedAt s = Some start \<and>
      (start + 30000 \<le> now \<longrightarrow> \<not> dd_isCapturing (detail_page_update pt i s (DdClock now)))
    \<and> q_interval (detail_queries i dev s ! 6) = 3000 \<and> \<not> offers (detail_page_view fm d s) DdShot"
proof -
  have "capture_ok s" using device_page.run_inv[OF assms(1)] .
  then obtain start where "dd_captureStartedAt s = Some start" "dd_captureTimer s = Some (start + 30000)"
    using assms(2) by (auto simp: capture_ok_def)
  moreover have "\<not> offers (detail_page_view fm d s) DdShot"
    using overview_messages(1) assms(2) by (metis offers_own)
  ultimately show ?thesis using assms(2) by (simp add: capture_timeout_def detail_queries_def polled_def)
qed

text \<open>Concrete data for the witnesses.\<close>

definition sample_formats :: formats where
  "sample_formats = \<lparr>fm_ago = (\<lambda>t. t), fm_ago_time = (\<lambda>t. []), fm_full = (\<lambda>t. t), fm_clock = (\<lambda>t. t), fm_stamp = (\<lambda>t. t),
     fm_collate = str_compare, fm_number = nat_str, fm_parse = (\<lambda>t. None)\<rparr>"

definition sample_detail_data :: "string option \<Rightarrow> detail_data" where
  "sample_detail_data rl =
     \<lparr>dq_role = rl, dq_device = Some (sample_device ''a''), dq_isLoading = False, dq_metrics = [], dq_latest = None, dq_groups = [],
      dq_deviceGroups = [], dq_screenshot = None, dq_uptime = None, dq_sshKeys = [], dq_agentVersion = None, dq_zone = fixed_zone 0,
      dq_now = 0, dq_network = None, dq_networkLoading = False, dq_events = \<lparr>ed_agent = None, ed_system = None, ed_isLoading = False\<rparr>,
      dq_software = None, dq_softwareLoading = False, dq_panel = \<lparr>pd_commands = [], pd_savedCommands = [], pd_now = []\<rparr>,
      dq_processes = \<lparr>pq_data = None, pq_isLoading = False, pq_error = False\<rparr>\<rparr>"

theorem capture_ends_witness:
  "\<exists>s. detail_run sample_formats (\<lambda>t. None) ''a'' 1000 [DdShot, DdShotAccepted 5 None] s \<and> dd_isCapturing s
     \<and> \<not> dd_isCapturing (detail_page_update (\<lambda>t. None) ''a'' s (DdClock 30005))"
proof -
  let ?u = "detail_page_update (\<lambda>t. None) ''a''"
  let ?s1 = "?u (detail_init 1000) DdShot" let ?s2 = "?u ?s1 (DdShotAccepted 5 None)"
  have off: "offers (detail_page_view sample_formats (sample_detail_data None) (detail_init 1000)) DdShot"
    by (simp add: detail_page_view_def sample_detail_data_def detail_init_def mobile_width_def overviewContent_def
        screenshot_panel_def Let_def)
  have "detail_run sample_formats (\<lambda>t. None) ''a'' 1000 ([] @ [DdShot]) ?s1"
    by (rule ui_run.user[OF ui_run.mount, where d = "sample_detail_data None"]) (rule off)
  then have run: "detail_run sample_formats (\<lambda>t. None) ''a'' 1000 (([] @ [DdShot]) @ [DdShotAccepted 5 None]) ?s2"
    by (rule ui_run.environment) (simp add: dd_send_def)
  have cap: "dd_isCapturing ?s2" "dd_captureStartedAt ?s2 = Some 5"
    by (simp_all add: start_capture_def capture_effect_def)
  from capture_ends[OF run cap(1), of 30005] cap(2) have "\<not> dd_isCapturing (?u ?s2 (DdClock 30005))" by simp
  with run cap(1) show ?thesis by (metis append_Cons append_Nil)
qed

text \<open>C15. The page acts on its own device only: after any events, every request its actions have sent, by
  the page itself, by the command panel or by the process list, is below the path of the device it was
  opened for, or adds exactly this device to a group; the only other request saves a shell command to the
  library, for no device.\<close>

theorem detail_page_targets_device:
  "list_all (page_request_ok i) (page_requests (foldl (detail_page_update pt i) (detail_init w) ms))"
proof (induction ms rule: rev_induct)
  case Nil
  show ?case by (simp add: page_requests_def detail_init_def process_list_init_def panel_init_def)
next
  case (snoc m ms)
  then show ?case by (simp add: page_requests_step)
qed



text \<open>Adding a tag keeps the tags a set: a blank text sends nothing; any other text sends the tags of the
  device without duplicates, in their order, with the trimmed text among them, and a tag that is already
  there changes nothing.\<close>

theorem addTag_exact:
  "trim (dd_newTag s) = [] \<Longrightarrow> addTag i tags s = s"
  "trim (dd_newTag s) \<noteq> [] \<Longrightarrow> \<exists>ts. dd_sent (addTag i tags s) = dd_sent s @ [devices_update i [(''tags'', JStrs ts)]]
     \<and> distinct ts \<and> set ts = insert (trim (dd_newTag s)) (set tags)
     \<and> (distinct tags \<longrightarrow> ts = (if trim (dd_newTag s) \<in> set tags then tags else tags @ [trim (dd_newTag s)]))"
proof -
  show "trim (dd_newTag s) = [] \<Longrightarrow> addTag i tags s = s" by (simp add: addTag_def)
  assume "trim (dd_newTag s) \<noteq> []"
  then show "\<exists>ts. dd_sent (addTag i tags s) = dd_sent s @ [devices_update i [(''tags'', JStrs ts)]]
     \<and> distinct ts \<and> set ts = insert (trim (dd_newTag s)) (set tags)
     \<and> (distinct tags \<longrightarrow> ts = (if trim (dd_newTag s) \<in> set tags then tags else tags @ [trim (dd_newTag s)]))"
    by (intro exI[of _ "unique (tags @ [trim (dd_newTag s)])"]) (auto simp: addTag_def dd_send_def Let_def split: if_splits)
qed

theorem addTag_exact_witness:
  "\<exists>ts. dd_sent (addTag ''a'' [''x''] ((detail_init 1000)\<lparr>dd_newTag := '' y ''\<rparr>)) = [devices_update ''a'' [(''tags'', JStrs ts)]]
     \<and> set ts = {''y'', ''x''}"
proof -
  let ?s = "(detail_init 1000)\<lparr>dd_newTag := '' y ''\<rparr>"
  have y: "trim '' y '' = ''y''" by code_simp
  have n: "dd_newTag ?s = '' y ''" by simp
  have t: "trim (dd_newTag ?s) = ''y''" unfolding n by (rule y)
  have e: "dd_sent ?s = []" by (simp add: detail_init_def)
  have "trim (dd_newTag ?s) \<noteq> []" unfolding t by simp
  from addTag_exact(2)[OF this, of "''a''" "[''x'']"] obtain ts where
    ts: "dd_sent (addTag ''a'' [''x''] ?s) = [] @ [devices_update ''a'' [(''tags'', JStrs ts)]]" "set ts = insert ''y'' (set [''x''])"
    unfolding t e by blast
  have "set ts = {''y'', ''x''}" unfolding ts(2) by simp
  moreover have "dd_sent (addTag ''a'' [''x''] ?s) = [devices_update ''a'' [(''tags'', JStrs ts)]]"
    using ts(1) unfolding append_Nil .
  ultimately show ?thesis by blast
qed

text \<open>Only an administrator can add the device to a group, and only to a chosen one.\<close>

lemma group_add_guarded:
  "offers (detail_page_view fm d s) DdAddGroup \<Longrightarrow> dq_role d = Some ''admin'' \<and> dd_selectedGroupId s \<noteq> []"
  using overview_messages(2) by (metis offers_own)

text \<open>
  Two flaws. The answer to saving one field closes the editor of another one that was opened in the
  meantime, and its draft is not sent. Clearing a number field of the agent configuration saves 0.
\<close>

lemma late_answer_closes_other_editor:
  "let s' = foldl (detail_page_update pt i) s [DdCommit a, DdEdit b v, DdDraft w, DdCommitted] in
   dd_editingField s' = None \<and> dd_sent s' = dd_sent s @ [devices_update i [(a, JNullable (or_null (dd_fieldDraft s)))]]"
  by (simp add: Let_def dd_send_def)

lemma cleared_interval_is_zero:
  "dc_telemetry_interval_secs (dd_configForm (detail_page_update pt i s (DdNumber TelemetryField []))) = 0"
  by (simp add: number_input_def to_number_def trim_def)

end
