(* ===== verification/Schedules.thy ===== *)
theory Schedules
  imports Cron Queries View
begin

text \<open>
  \<open>frontend/src/pages/ScheduledCommands.tsx\<close>: the list of schedules and the form for a new one. The page
  computes the preview of the next runs whenever it renders, so a cron expression whose parsing throws
  makes the whole page throw: the view is a result. \<open>local_time\<close> is \<open>toLocaleString\<close> of a time value.
\<close>

record schedule_form =
  sf_target :: string
  sf_device_id :: string
  sf_command_type :: string
  sf_cron_expression :: string
  sf_shell_command :: string

record schedules_page =
  scp_isOpen :: bool
  scp_form :: schedule_form
  scp_sent :: "request list"

definition schedules_init :: schedules_page where
  "schedules_init = \<lparr>scp_isOpen = False,
     scp_form = \<lparr>sf_target = ''all'', sf_device_id = [], sf_command_type = ''sync_time'',
       sf_cron_expression = ''0 3 * * *'', sf_shell_command = []\<rparr>, scp_sent = []\<rparr>"

definition schedules_queries :: "query list" where
  "schedules_queries =
     [\<lparr>q_key = [JStr ''scheduled-commands''], q_request = scheduled_list, q_interval = 0, q_enabled = True\<rparr>,
      \<lparr>q_key = [JStr ''devices'', JStr ''scheduled''], q_request = devices_list None None, q_interval = 0, q_enabled = True\<rparr>]"

definition schedule_request :: "schedule_form \<Rightarrow> request" where
  "schedule_request f = scheduled_create
     [(''device_id'', if sf_target f = ''all'' then JNull else JStr (sf_device_id f)),
      (''command_type'', JStr (sf_command_type f)), (''cron_expression'', JStr (sf_cron_expression f)),
      (''payload'', JObj (if sf_command_type f = ''shell'' then [(''command'', JStr (sf_shell_command f))] else [])),
      (''is_enabled'', JBool True)]"

definition createSchedule :: "schedule_form \<Rightarrow> mutation" where
  "createSchedule f = \<lparr>mu_request = schedule_request f, mu_invalidates = [[JStr ''scheduled-commands'']]\<rparr>"

definition toggleSchedule :: "string \<Rightarrow> bool \<Rightarrow> mutation" where
  "toggleSchedule i enabled =
     \<lparr>mu_request = scheduled_update i [(''is_enabled'', JBool enabled)], mu_invalidates = [[JStr ''scheduled-commands'']]\<rparr>"

datatype schedule_msg =
    ScOpen bool | ScTarget string | ScDevice string | ScType string | ScCron string | ScShell string
  | ScCreate | ScCreated | ScToggle string bool

definition set_schedule :: "(schedule_form \<Rightarrow> schedule_form) \<Rightarrow> schedules_page \<Rightarrow> schedules_page" where
  "set_schedule f s = s\<lparr>scp_form := f (scp_form s)\<rparr>"

fun schedules_update :: "schedules_page \<Rightarrow> schedule_msg \<Rightarrow> schedules_page" where
  "schedules_update s (ScOpen b) = s\<lparr>scp_isOpen := b\<rparr>"
| "schedules_update s (ScTarget v) = set_schedule (\<lambda>f. f\<lparr>sf_target := v\<rparr>) s"
| "schedules_update s (ScDevice v) = set_schedule (\<lambda>f. f\<lparr>sf_device_id := v\<rparr>) s"
| "schedules_update s (ScType v) = set_schedule (\<lambda>f. f\<lparr>sf_command_type := v\<rparr>) s"
| "schedules_update s (ScCron v) = set_schedule (\<lambda>f. f\<lparr>sf_cron_expression := v\<rparr>) s"
| "schedules_update s (ScShell v) = set_schedule (\<lambda>f. f\<lparr>sf_shell_command := v\<rparr>) s"
| "schedules_update s ScCreate = s\<lparr>scp_sent := scp_sent s @ [mu_request (createSchedule (scp_form s))]\<rparr>"
| "schedules_update s ScCreated = s\<lparr>scp_isOpen := False\<rparr>"
| "schedules_update s (ScToggle i b) = s\<lparr>scp_sent := scp_sent s @ [mu_request (toggleSchedule i b)]\<rparr>"

record schedules_data =
  scd_schedules :: "scheduled_command list"
  scd_devices :: "device list"
  scd_zone :: zone
  scd_now :: int

definition device_name :: "device \<Rightarrow> string" where
  "device_name d = nullish (d_label d) (d_hostname d)"

definition target_name :: "device list \<Rightarrow> scheduled_command \<Rightarrow> string" where
  "target_name devices sc =
     (case find_first (\<lambda>d. Some (d_id d) = sc_device_id sc) devices of None \<Rightarrow> ''All devices'' | Some d \<Rightarrow> device_name d)"

definition schedule_row :: "device list \<Rightarrow> scheduled_command \<Rightarrow> schedule_msg node" where
  "schedule_row devices sc =
     row [label (target_name devices sc), label (sc_command_type sc), label (parseCron (sc_cron_expression sc)),
          El ''button'' [(''tone'', if sc_is_enabled sc then ''emerald'' else ''slate'')]
            [(''onClick'', \<lambda>_. ScToggle (sc_id sc) (\<not> sc_is_enabled sc))]
            [Txt (if sc_is_enabled sc then ''Enabled'' else ''Disabled'')],
          label (nullish (sc_last_run_at sc) ''Never''), label (nullish (sc_next_run_at sc) ''Not scheduled'')]"

definition schedule_dialog :: "(int \<Rightarrow> string) \<Rightarrow> device list \<Rightarrow> int list \<Rightarrow> schedule_form \<Rightarrow> schedule_msg view" where
  "schedule_dialog local_time devices previewRuns f =
     [icon ''Clock3'', label ''New Schedule'',
      select_field (sf_target f) ScTarget [(''all'', ''All devices''), (''device'', ''Specific device'')]]
     @ shown (sf_target f = ''device'')
         [select_field (sf_device_id f) ScDevice (([], ''Choose a device'') # map (\<lambda>d. (d_id d, device_name d)) devices)]
     @ [select_field (sf_command_type f) ScType
          [(''shell'', ''Shell''), (''update_check'', ''Check Updates''), (''reboot'', ''Reboot''), (''sync_time'', ''Sync Time'')]]
     @ shown (sf_command_type f = ''shell'') [input_field (sf_shell_command f) ScShell]
     @ [input_field (sf_cron_expression f) ScCron, label (parseCron (sf_cron_expression f)),
        label (''Next runs: '' @ join ('' '' @ [CHR 0xB7] @ '' '') (map local_time previewRuns)),
        button (ScOpen False) [Txt ''Cancel''], button ScCreate [Txt ''Create'']]"

definition schedules_view :: "(int \<Rightarrow> string) \<Rightarrow> schedules_data \<Rightarrow> schedules_page \<Rightarrow> schedule_msg view js_result" where
  "schedules_view local_time d s =
     bind_result (nextRuns (scd_zone d) (scd_now d) (sf_cron_expression (scp_form s)) 3) (\<lambda>previewRuns.
       Inr ([label ''Scheduled Commands'', label ''Automate recurring maintenance tasks across one device or the full fleet.'',
             button (ScOpen True) [icon ''Plus'', Txt ''New Schedule'']]
            @ headings [''Target'', ''Type'', ''Schedule'', ''Enabled'', ''Last Run'', ''Next Run'']
            @ map (schedule_row (scd_devices d)) (scd_schedules d)
            @ shown (scp_isOpen s) (schedule_dialog local_time (scd_devices d) previewRuns (scp_form s))))"

section \<open>Lemmas\<close>

lemma preview_throws:
  assumes "matches z expr (next_minute z (setSeconds z 0 0 now)) = Inl e" "0 < count"
  shows "nextRuns z now expr count = Inl e"
  unfolding nextRuns_def by (subst next_runs_loop.simps) (simp add: assms max_attempts_def Let_def)

lemma huge_part_throws:
  assumes "2 ^ 32 \<le> b"
  shows "parse_part (nat_str 0 @ ''-'' @ nat_str b) mn mx = Inl RangeError"
proof -
  have s: "split_str ''-'' (nat_str 0 @ ''-'' @ nat_str b) = [nat_str 0, nat_str b]"
    using split_char_append[of "CHR ''-''" "nat_str 0" "nat_str b"] by (simp add: split_no_char nat_str_no_symbol)
  have "\<not> (of_nat b + 1 :: rat) \<le> 0" by (simp add: not_le add_pos_pos add_nonneg_pos)
  moreover have "\<lfloor>of_nat b + 1 :: rat\<rfloor> = int b + 1" by (metis floor_of_int of_int_1 of_int_add of_int_of_nat_eq)
  ultimately have "array_length (Fin (of_nat b + 1)) = Inl RangeError" using assms by (simp add: array_length_def)
  then show ?thesis
    using s by (simp add: parse_part_def includes_char nat_str_no_symbol nth_number_def array_range_def)
qed

lemma huge_range_throws: "matches z ''0-4294967296 * * * *'' c = Inl RangeError"
proof -
  have s: "split_spaces (trim ''0-4294967296 * * * *'') = [''0-4294967296'', ''*'', ''*'', ''*'', ''*'']" by code_simp
  have f: "''0-4294967296'' = nat_str 0 @ ''-'' @ nat_str 4294967296" by (simp add: nat_str.simps digit_char_def, code_simp)
  have c: "split_str '','' ''0-4294967296'' = [''0-4294967296'']" by (rule split_no_char) simp
  have "parse_part ''0-4294967296'' 0 59 = Inl RangeError" unfolding f by (rule huge_part_throws) simp
  then have p: "parseField ''0-4294967296'' 0 59 = Inl RangeError" by (simp add: parseField_def c startsWith_def)
  show ?thesis unfolding matches_def s Let_def by (simp add: p)
qed

section \<open>Properties\<close>

text \<open>What is scheduled is what the form shows: creating a schedule in an open form sends exactly one
  request, enabled, with the command and the expression of the form; it names no device exactly when the
  form says all devices, and carries the shell text exactly for a shell command. The answer closes the
  form and refreshes the list.\<close>

theorem schedule_request_exact:
  "scp_sent (schedules_update s ScCreate) = scp_sent s @ [schedule_request (scp_form s)]
   \<and> (\<exists>fields. schedule_request f = scheduled_create fields
      \<and> map_of fields ''is_enabled'' = Some (JBool True)
      \<and> map_of fields ''command_type'' = Some (JStr (sf_command_type f))
      \<and> map_of fields ''cron_expression'' = Some (JStr (sf_cron_expression f))
      \<and> (map_of fields ''device_id'' = Some JNull \<longleftrightarrow> sf_target f = ''all'')
      \<and> (map_of fields ''payload'' = Some (JObj [(''command'', JStr (sf_shell_command f))]) \<longleftrightarrow> sf_command_type f = ''shell''))
   \<and> \<not> scp_isOpen (schedules_update s ScCreated) \<and> refetched (createSchedule f) (schedules_queries ! 0)"
  by (auto simp: createSchedule_def schedule_request_def refetched_def invalidates_def schedules_queries_def)

text \<open>C39. One expression takes the page down: for every state, time and zone, after the user types a minute
  range longer than the largest array, rendering throws a RangeError instead of showing a form.\<close>

theorem schedule_form_crashes:
  "schedules_view local_time d (schedules_update s (ScCron ''0-4294967296 * * * *'')) = Inl RangeError"
proof -
  have e: "sf_cron_expression (scp_form (schedules_update s (ScCron v))) = v" for v by (simp add: set_schedule_def)
  have "nextRuns (scd_zone d) (scd_now d) ''0-4294967296 * * * *'' 3 = Inl RangeError"
    by (rule preview_throws[OF huge_range_throws]) simp
  then show ?thesis unfolding schedules_view_def e by simp
qed

text \<open>
  With \<open>Specific device\<close> and no device chosen, nothing keeps the user from creating: the request carries an
  empty identifier.
\<close>

lemma empty_device_sent:
  "let s = foldl schedules_update schedules_init [ScOpen True, ScTarget ''device'', ScCreate] in
   \<exists>rest. scp_sent s = [scheduled_create ((''device_id'', JStr []) # rest)]"
  by (simp add: schedules_init_def set_schedule_def createSchedule_def schedule_request_def) blast

end
