(* ===== verification/AlertsPage.thy ===== *)
theory AlertsPage
  imports DeviceParts
begin

text \<open>
  \<open>frontend/src/pages/Alerts.tsx\<close>: the paged list of alerts, grouped by device, with single and bulk
  resolution. \<open>Object.entries\<close> lists the groups in the order of their first alert (device identifiers are
  UUIDs, not array indices).
\<close>

definition severityConfig :: "severity \<Rightarrow> string \<times> string" where
  "severityConfig sev = (case sev of
     Critical \<Rightarrow> (''bg-red-500/15 text-red-400 border-red-500/30'', ''bg-red-500'')
   | Warning \<Rightarrow> (''bg-amber-500/15 text-amber-400 border-amber-500/30'', ''bg-amber-500'')
   | Info \<Rightarrow> (''bg-blue-500/15 text-blue-400 border-blue-500/30'', ''bg-blue-500''))"

record alerts_page =
  alp_showResolved :: bool
  alp_page :: int
  alp_pending :: bool \<comment> \<open>\<open>resolve.isPending\<close>\<close>
  alp_sent :: "request list"
  alp_downloads :: "(string \<times> string list \<times> string list list) list"

definition alerts_page_init :: alerts_page where
  "alerts_page_init = \<lparr>alp_showResolved = False, alp_page = 1, alp_pending = False, alp_sent = [], alp_downloads = []\<rparr>"

definition alerts_page_size :: nat where "alerts_page_size = 20"

definition alerts_page_query :: "alerts_page \<Rightarrow> query" where
  "alerts_page_query s =
     \<lparr>q_key = [JStr ''alerts'', JStr ''page'', JInt (alp_page s), JBool (alp_showResolved s)],
      q_request = alerts_list None (if alp_showResolved s then None else Some False) None (Some (int alerts_page_size))
        (Some ((alp_page s - 1) * int alerts_page_size)),
      q_interval = 0, q_enabled = True\<rparr>"

definition deviceNames :: "device list \<Rightarrow> string \<rightharpoonup> string" where
  "deviceNames devices = from_entries (map (\<lambda>d. (d_id d, nullish (d_label d) (d_hostname d))) devices)"

definition name_or_id :: "device list \<Rightarrow> string \<Rightarrow> string" where
  "name_or_id devices i = nullish (deviceNames devices i) i"

definition groupedByDevice :: "alert list \<Rightarrow> (string \<times> alert list) list" where
  "groupedByDevice alerts = group_by a_device_id alerts"

definition summary_step :: "nat \<times> nat \<times> nat \<Rightarrow> alert \<Rightarrow> nat \<times> nat \<times> nat" where
  "summary_step acc a = (case acc of (c, w, i) \<Rightarrow> (case a_severity a of
     Critical \<Rightarrow> (Suc c, w, i) | Warning \<Rightarrow> (c, Suc w, i) | Info \<Rightarrow> (c, w, Suc i)))"

definition alert_summary :: "alert list \<Rightarrow> nat \<times> nat \<times> nat" where
  "alert_summary alerts = foldl summary_step (0, 0, 0) alerts"

definition alerts_csv :: "device list \<Rightarrow> alert list \<Rightarrow> string \<times> string list \<times> string list list" where
  "alerts_csv devices alerts =
     (''alerts.csv'', [''Alert Type'', ''Severity'', ''Device'', ''Message'', ''Created At''],
      map (\<lambda>a. [a_alert_type a, severity_str (a_severity a), name_or_id devices (a_device_id a), a_message a, a_created_at a]) alerts)"

datatype alerts_page_msg =
    AlShow bool | AlPage int
  | AlExport "device list" "alert list" | AlOpen string
  | AlResolve string
  | AlResolveAll "alert list" \<comment> \<open>the alerts of the group\<close>
  | AlSettled

fun alerts_page_update :: "alerts_page \<Rightarrow> alerts_page_msg \<Rightarrow> alerts_page" where
  "alerts_page_update s (AlShow b) = s\<lparr>alp_showResolved := b\<rparr>"
| "alerts_page_update s (AlPage p) = s\<lparr>alp_page := p\<rparr>"
| "alerts_page_update s (AlExport devices alerts) = s\<lparr>alp_downloads := alp_downloads s @ [alerts_csv devices alerts]\<rparr>"
| "alerts_page_update s (AlOpen i) = s"
| "alerts_page_update s (AlResolve i) =
     s\<lparr>alp_pending := True, alp_sent := alp_sent s @ [mu_request (useResolveAlert i)]\<rparr>"
| "alerts_page_update s (AlResolveAll grp) =
     (let open_alerts = filter (\<lambda>a. \<not> a_is_resolved a) grp
      in s\<lparr>alp_pending := (open_alerts \<noteq> [] \<or> alp_pending s),
           alp_sent := alp_sent s @ map (\<lambda>a. mu_request (useResolveAlert (a_id a))) open_alerts\<rparr>)"
| "alerts_page_update s AlSettled = s\<lparr>alp_pending := False\<rparr>"

definition alert_item :: "(string \<Rightarrow> string) \<Rightarrow> alert \<Rightarrow> alerts_page_msg node" where
  "alert_item ago a =
     El ''div'' [(''faded'', if a_is_resolved a then ''true'' else ''false'')] []
       ([El ''dot'' [(''color'', snd (severityConfig (a_severity a)))] [] [],
         toned (fst (severityConfig (a_severity a))) (severity_str (a_severity a)),
         label (replace_all (CHR ''_'') '' '' (a_alert_type a)), label (ago (a_created_at a)), label (a_message a)]
        @ shown (\<not> a_is_resolved a)
            [El ''button'' [(''title'', ''Resolve'')] [(''onClick'', \<lambda>_. AlResolve (a_id a))] [icon ''CheckCircle'']])"

definition alert_section ::
  "(string \<Rightarrow> string) \<Rightarrow> device list \<Rightarrow> alerts_page \<Rightarrow> string \<times> alert list \<Rightarrow> alerts_page_msg node" where
  "alert_section ago devices s g =
     box ([El ''a'' [(''href'', ''/devices/'' @ fst g)] [(''onClick'', \<lambda>_. AlOpen (fst g))] [Txt (name_or_id devices (fst g))],
           button_if (list_all a_is_resolved (snd g) \<or> alp_pending s) (AlResolveAll (snd g)) [Txt ''Resolve All'']]
          @ map (alert_item ago) (snd g))"

record alerts_page_data =
  ald_response :: "alert page option"
  ald_devices :: "device list"

definition page_alerts :: "alerts_page_data \<Rightarrow> alert list" where
  "page_alerts d = (case ald_response d of None \<Rightarrow> [] | Some p \<Rightarrow> pg_data p)"

definition alerts_page_view :: "(string \<Rightarrow> string) \<Rightarrow> alerts_page_data \<Rightarrow> alerts_page \<Rightarrow> alerts_page_msg view" where
  "alerts_page_view ago d s =
     (let alerts = page_alerts d;
          cnt = (case ald_response d of None \<Rightarrow> 0 | Some p \<Rightarrow> pg_total p)
      in [label ''Alerts'', label (nat_str (length (filter (\<lambda>a. \<not> a_is_resolved a) alerts)) @ '' unresolved''),
          button (AlExport (ald_devices d) alerts) [Txt ''Export CSV''],
          checkbox (alp_showResolved s) (AlShow (\<not> alp_showResolved s)), label ''Show resolved'']
         @ (case alert_summary alerts of (c, w, i) \<Rightarrow>
              [label (nat_str c @ '' critical''), label (nat_str w @ '' warnings''), label (nat_str i @ '' info'')])
         @ (if alerts = [] then [icon ''AlertTriangle'', label ''No alerts'']
            else map (alert_section ago (ald_devices d) s) (groupedByDevice alerts))
         @ map (map_node AlPage) (pagination_view (alp_page s) (page_count alerts_page_size cnt)))"

section \<open>Lemmas\<close>

lemma alert_summary_counts:
  "alert_summary alerts =
     (length (filter (\<lambda>a. a_severity a = Critical) alerts), length (filter (\<lambda>a. a_severity a = Warning) alerts),
      length (filter (\<lambda>a. a_severity a = Info) alerts))"
  by (induction alerts rule: rev_induct) (simp_all add: alert_summary_def summary_step_def split: severity.split)

section \<open>Properties\<close>

text \<open>C34. Grouping loses and invents nothing: the sections of the page are the devices in the order of their first
  alert, each once and with exactly its alerts in their order; the summary counts every alert once; and
  "Resolve All" of a section resolves exactly its open alerts, each once.\<close>

theorem alert_groups_exact:
  "groupedByDevice alerts = map (\<lambda>k. (k, filter (\<lambda>a. a_device_id a = k) alerts)) (unique (map a_device_id alerts))
   \<and> (case alert_summary alerts of (c, w, i) \<Rightarrow> c + w + i = length alerts)
   \<and> alp_sent (alerts_page_update s (AlResolveAll (filter (\<lambda>a. a_device_id a = k) alerts))) =
       alp_sent s @ map (\<lambda>a. alerts_resolve (a_id a)) (filter (\<lambda>a. a_device_id a = k \<and> \<not> a_is_resolved a) alerts)"
proof (intro conjI)
  show "groupedByDevice alerts = map (\<lambda>k. (k, filter (\<lambda>a. a_device_id a = k) alerts)) (unique (map a_device_id alerts))"
    unfolding groupedByDevice_def by (rule group_by_spec)
  have "length (filter (\<lambda>a. a_severity a = Critical) alerts) + length (filter (\<lambda>a. a_severity a = Warning) alerts)
      + length (filter (\<lambda>a. a_severity a = Info) alerts) = length alerts"
  proof (induction alerts)
    case (Cons a alerts)
    then show ?case by (cases "a_severity a") simp_all
  qed simp
  then show "case alert_summary alerts of (c, w, i) \<Rightarrow> c + w + i = length alerts" by (simp add: alert_summary_counts)
  show "alp_sent (alerts_page_update s (AlResolveAll (filter (\<lambda>a. a_device_id a = k) alerts))) =
       alp_sent s @ map (\<lambda>a. alerts_resolve (a_id a)) (filter (\<lambda>a. a_device_id a = k \<and> \<not> a_is_resolved a) alerts)"
    by (simp add: Let_def useResolveAlert_def comp_def conj_commute)
qed

text \<open>Resolving the last alert of the last page is a dead end: on page two with twenty alerts left, the page
  asks for the entries after the twentieth, says there are no alerts, and offers no way to another page.\<close>

theorem alerts_page_stuck:
  assumes "alp_page s = 2" "ald_response d = Some \<lparr>pg_data = [], pg_total = 20\<rparr>"
  shows "in_window (q_request (alerts_page_query s)) 20 \<and> \<not> in_window (q_request (alerts_page_query s)) 19
    \<and> ''No alerts'' \<in> set (view_texts (alerts_page_view ago d s)) \<and> (\<nexists>p. offers (alerts_page_view ago d s) (AlPage p))"
proof -
  have one: "page_count alerts_page_size 20 = 1" by (simp add: page_count_def alerts_page_size_def)
  have "in_window (q_request (alerts_page_query s)) 20 \<and> \<not> in_window (q_request (alerts_page_query s)) 19"
    using assms(1) by (simp add: in_window_def alerts_page_query_def alerts_list_def mk_request_def opt_param_def alerts_page_size_def)
  moreover have "''No alerts'' \<in> set (view_texts (alerts_page_view ago d s)) \<and> (\<nexists>p. offers (alerts_page_view ago d s) (AlPage p))"
    using assms(2) by (simp add: alerts_page_view_def page_alerts_def one pagination_view_def alert_summary_def)
  ultimately show ?thesis by blast
qed

theorem alerts_page_stuck_witness:
  "let d = \<lparr>ald_response = Some \<lparr>pg_data = [], pg_total = 20\<rparr>, ald_devices = []\<rparr>; s = alerts_page_update alerts_page_init (AlPage 2) in
   ''No alerts'' \<in> set (view_texts (alerts_page_view (\<lambda>t. t) d s)) \<and> (\<nexists>p. offers (alerts_page_view (\<lambda>t. t) d s) (AlPage p))"
  using alerts_page_stuck[of "alerts_page_update alerts_page_init (AlPage 2)" "\<lparr>ald_response = Some \<lparr>pg_data = [], pg_total = 20\<rparr>, ald_devices = []\<rparr>" "\<lambda>t. t"]
  by (simp add: Let_def)

end
