(* ===== verification/SoftwareUpdatesPage.thy ===== *)
theory SoftwareUpdatesPage
  imports AlertsPage
begin

text \<open>
  \<open>frontend/src/pages/SoftwareUpdates.tsx\<close>: the packages with pending updates, a search that may come from
  the address, a selection, and the dispatch of updates to the affected devices. \<open>su_init\<close> takes the query
  part of the address (\<open>useSearchParams\<close>).
\<close>

record updates_page =
  su_selected :: "string list"
  su_expanded :: "string list"
  su_search :: string
  su_page :: int
  su_pending :: bool
  su_sent :: "request list"
  su_downloads :: "(string \<times> string list \<times> string list list) list"

definition su_init :: "string \<Rightarrow> updates_page" where
  "su_init search = \<lparr>su_selected = [], su_expanded = [], su_search = nullish (search_get search ''search'') [], su_page = 1,
     su_pending = False, su_sent = [], su_downloads = []\<rparr>"

definition updates_query :: query where
  "updates_query = \<lparr>q_key = [JStr ''software-updates'', JStr ''pending''], q_request = updates_pending, q_interval = 60000, q_enabled = True\<rparr>"

definition updates_page_size :: nat where "updates_page_size = 25"

definition matching_updates :: "pending_software_update list \<Rightarrow> updates_page \<Rightarrow> pending_software_update list" where
  "matching_updates pending s =
     filter (\<lambda>entry. includes_sub (toLowerCase (pu_software_name entry)) (toLowerCase (su_search s))) pending"

definition paged_updates :: "pending_software_update list \<Rightarrow> updates_page \<Rightarrow> pending_software_update list" where
  "paged_updates pending s =
     slice (nat ((su_page s - 1) * int updates_page_size)) (nat (su_page s * int updates_page_size)) (matching_updates pending s)"

definition totalDevices :: "pending_software_update list \<Rightarrow> nat" where
  "totalDevices entries = length (unique (concat (map pu_affected_device_ids entries)))"

definition severityColor :: "int \<Rightarrow> string" where
  "severityColor n = (if n > 10 then ''bg-red-100'' else if n > 3 then ''bg-amber-100'' else ''bg-emerald-100'')"

definition update_devices :: "string list \<Rightarrow> pending_software_update list \<Rightarrow> string list" where
  "update_devices softwareNames visible =
     unique (concat (map pu_affected_device_ids (filter (\<lambda>entry. pu_software_name entry \<in> set softwareNames) visible)))"

definition runUpdate :: "string list \<Rightarrow> pending_software_update list \<Rightarrow> updates_page \<Rightarrow> updates_page" where
  "runUpdate softwareNames visible s =
     s\<lparr>su_pending := True, su_sent := su_sent s @ [updates_dispatch softwareNames (update_devices softwareNames visible)]\<rparr>"

definition updates_csv :: "pending_software_update list \<Rightarrow> string \<times> string list \<times> string list list" where
  "updates_csv entries = (''software-updates.csv'', [''Package'', ''Affected Count'', ''Device IDs''],
     map (\<lambda>e. [pu_software_name e, int_str (pu_affected_count e), join '' '' (pu_affected_device_ids e)]) entries)"

text \<open>Messages that read the filtered list of the render carry it.\<close>

datatype updates_msg =
    SuSearch string | SuToggle string | SuExpand string | SuPage int
  | SuRun "string list" "pending_software_update list" | SuExport "pending_software_update list" | SuSettled

fun updates_update :: "updates_page \<Rightarrow> updates_msg \<Rightarrow> updates_page" where
  "updates_update s (SuSearch v) = s\<lparr>su_search := v\<rparr>"
| "updates_update s (SuToggle name) = s\<lparr>su_selected := toggle_member name (su_selected s)\<rparr>"
| "updates_update s (SuExpand name) = s\<lparr>su_expanded := toggle_member name (su_expanded s)\<rparr>"
| "updates_update s (SuPage p) = s\<lparr>su_page := p\<rparr>"
| "updates_update s (SuRun names visible) = runUpdate names visible s"
| "updates_update s (SuExport visible) = s\<lparr>su_downloads := su_downloads s @ [updates_csv visible]\<rparr>"
| "updates_update s SuSettled = s\<lparr>su_pending := False\<rparr>"

definition versions_text :: "pending_software_update \<Rightarrow> string" where
  "versions_text e = or_else (Some (join '', '' (pu_current_versions e))) ''Unknown''"

definition update_row ::
  "device list \<Rightarrow> pending_software_update list \<Rightarrow> updates_page \<Rightarrow> pending_software_update \<Rightarrow> updates_msg node" where
  "update_row devices visible s e =
     (let name = pu_software_name e; isExpanded = (name \<in> set (su_expanded s)) in
      box ([checkbox (name \<in> set (su_selected s)) (SuToggle name),
            button (SuExpand name) [icon (if isExpanded then ''ChevronDown'' else ''ChevronRight''), label name],
            toned (severityColor (pu_affected_count e)) (int_str (pu_affected_count e)), label (versions_text e),
            button (SuRun [name] visible) [Txt ''Update All'']]
           @ shown isExpanded
               (map (\<lambda>i. box [label (name_or_id devices i), label (versions_text e)]) (pu_affected_device_ids e))))"

record updates_data =
  sud_pending :: "pending_software_update list"
  sud_devices :: "device list"

definition updates_view :: "updates_data \<Rightarrow> updates_page \<Rightarrow> updates_msg view" where
  "updates_view d s =
     (let visible = matching_updates (sud_pending d) s; paged = paged_updates (sud_pending d) s in
      [label ''Software Updates'',
       label (nat_str (length visible) @ '' packages have updates available across '' @ nat_str (totalDevices visible) @ '' devices''),
       input_field (su_search s) SuSearch,
       button_if (su_selected s = [] \<or> su_pending s) (SuRun (su_selected s) visible) [Txt ''Update Selected''],
       button (SuExport visible) [Txt ''Export CSV'']]
      @ headings [''Package'', ''Affected Devices'', ''Versions in Use'', ''Action'']
      @ map (update_row (sud_devices d) visible s) paged
      @ shown (paged = []) [icon ''PackageOpen'', label ''No pending software updates found.'']
      @ map (map_node SuPage) (pagination_view (su_page s) (page_count updates_page_size (length visible))))"

section \<open>Lemmas\<close>

lemma includes_self [simp]: "includes_sub s s"
  by (cases s) (simp_all add: startsWith_def)

text \<open>The query part of an address that is navigated to: the router splits off a fragment first.\<close>

definition query_part :: "string \<Rightarrow> string" where
  "query_part path = dropWhile (\<lambda>c. c \<noteq> CHR ''?'') (takeWhile (\<lambda>c. c \<noteq> CHR ''#'') path)"

lemma query_part_clean: "CHR ''#'' \<notin> set path \<Longrightarrow> query_part path = dropWhile (\<lambda>c. c \<noteq> CHR ''?'') path"
proof -
  assume "CHR ''#'' \<notin> set path"
  then have "takeWhile (\<lambda>c. c \<noteq> CHR ''#'') path = path" unfolding takeWhile_eq_all_conv by blast
  then show ?thesis unfolding query_part_def by (simp only:)
qed

lemma search_key_plain: "form_decode ''search'' = ''search''" "form_decode ''ids'' = ''ids''"
  by code_simp+

text \<open>Ticking a package twice takes it out of the selection.\<close>

definition ticks :: "string \<Rightarrow> updates_msg list \<Rightarrow> nat" where
  "ticks name ms = length (filter (\<lambda>m. m = SuToggle name) ms)"

lemma selected_ticks:
  "name \<in> set (su_selected (foldl updates_update (su_init q) ms)) \<longleftrightarrow> odd (ticks name ms)"
proof (induction ms rule: rev_induct)
  case Nil
  show ?case by (simp add: su_init_def ticks_def)
next
  case (snoc m ms)
  then show ?case by (cases m) (auto simp: ticks_def runUpdate_def)
qed

lemma selected_distinct: "distinct (su_selected (foldl updates_update (su_init q) ms))"
proof (induction ms rule: rev_induct)
  case Nil
  show ?case by (simp add: su_init_def)
next
  case (snoc m ms)
  then show ?case by (cases m) (simp_all add: runUpdate_def)
qed

lemma offers_update_row:
  "offers [update_row devices visible s e] (SuRun names vis) \<longleftrightarrow> names = [pu_software_name e] \<and> vis = visible"
  by (auto simp: update_row_def Let_def severityColor_def)

lemma offers_run:
  "offers (updates_view d s) (SuRun names visible) \<longleftrightarrow> visible = matching_updates (sud_pending d) s
     \<and> (names = su_selected s \<and> names \<noteq> [] \<and> \<not> su_pending s
        \<or> (\<exists>e \<in> set (paged_updates (sud_pending d) s). names = [pu_software_name e]))"
  by (auto simp: updates_view_def Let_def offers_update_row)

section \<open>Properties\<close>

text \<open>C35. An update names the devices of the chosen packages: after any events, a click on an update button
  sends one request. Its packages are those that are ticked (an odd number of times), each once, when the
  button is "Update Selected" (which needs one, and no update under way), or the one package of a row of the
  page. Its devices are, each once, exactly those affected by a chosen package that matches the search,
  whichever page is shown; a chosen package that the search hides contributes none.\<close>

theorem updates_target_affected:
  assumes "s = foldl updates_update (su_init q) ms" "offers (updates_view d s) (SuRun names visible)"
  shows "\<exists>devices. su_sent (updates_update s (SuRun names visible)) = su_sent s @
        [mk_request POST ''/software-updates/dispatch'' []
          (Some (JObj [(''software_names'', JStrs names), (''device_ids'', JStrs devices)]))]
     \<and> distinct devices
     \<and> (\<forall>i. i \<in> set devices \<longleftrightarrow> (\<exists>e \<in> set (sud_pending d). pu_software_name e \<in> set names
            \<and> includes_sub (toLowerCase (pu_software_name e)) (toLowerCase (su_search s)) \<and> i \<in> set (pu_affected_device_ids e)))
     \<and> ((\<forall>name. name \<in> set names \<longleftrightarrow> odd (ticks name ms)) \<and> distinct names \<and> names \<noteq> [] \<and> \<not> su_pending s
        \<or> (\<exists>e \<in> set (paged_updates (sud_pending d) s). names = [pu_software_name e]))"
proof -
  have vis: "visible = matching_updates (sud_pending d) s" using assms(2) by (simp add: offers_run)
  have "su_sent (updates_update s (SuRun names visible)) = su_sent s @
        [mk_request POST ''/software-updates/dispatch'' []
          (Some (JObj [(''software_names'', JStrs names), (''device_ids'', JStrs (update_devices names visible))]))]"
    by (simp add: runUpdate_def updates_dispatch_def)
  moreover have "distinct (update_devices names visible)" by (simp add: update_devices_def)
  moreover have "i \<in> set (update_devices names visible) \<longleftrightarrow> (\<exists>e \<in> set (sud_pending d). pu_software_name e \<in> set names
            \<and> includes_sub (toLowerCase (pu_software_name e)) (toLowerCase (su_search s)) \<and> i \<in> set (pu_affected_device_ids e))" for i
    by (auto simp: update_devices_def vis matching_updates_def)
  moreover have "(\<forall>name. name \<in> set names \<longleftrightarrow> odd (ticks name ms)) \<and> distinct names \<and> names \<noteq> [] \<and> \<not> su_pending s
        \<or> (\<exists>e \<in> set (paged_updates (sud_pending d) s). names = [pu_software_name e])"
    using assms(2) selected_ticks[of _ q ms] selected_distinct[of q ms] unfolding assms(1)[symmetric] offers_run by blast
  ultimately show ?thesis by blast
qed

theorem updates_target_affected_witness:
  "let d = \<lparr>sud_pending = [\<lparr>pu_software_name = ''vim'', pu_current_versions = [], pu_affected_device_ids = [''b''], pu_affected_count = 1\<rparr>],
        sud_devices = []\<rparr>;
       s = foldl updates_update (su_init []) [SuToggle ''vim''] in
   offers (updates_view d s) (SuRun [''vim''] (sud_pending d)) \<and>
   (\<exists>devices. su_sent (updates_update s (SuRun [''vim''] (sud_pending d))) = [updates_dispatch [''vim''] devices] \<and> set devices = {''b''})"
proof -
  let ?d = "\<lparr>sud_pending = [\<lparr>pu_software_name = ''vim'', pu_current_versions = [], pu_affected_device_ids = [''b''], pu_affected_count = 1\<rparr>],
        sud_devices = []\<rparr> :: updates_data"
  let ?s = "foldl updates_update (su_init []) [SuToggle ''vim'']"
  have sel: "su_selected ?s = [''vim'']" "\<not> su_pending ?s" "su_sent ?s = []" by (simp_all add: su_init_def toggle_member_def)
  have "su_search ?s = []" "matching_updates (sud_pending ?d) ?s = sud_pending ?d" by code_simp+
  then have off: "offers (updates_view ?d ?s) (SuRun [''vim''] (sud_pending ?d))"
    unfolding offers_run using sel by simp
  from updates_target_affected[OF refl off] obtain devices where
    "su_sent (updates_update ?s (SuRun [''vim''] (sud_pending ?d))) = [updates_dispatch [''vim''] devices]"
    "\<forall>i. i \<in> set devices \<longleftrightarrow> i = ''b''"
    unfolding sel(3) \<open>su_search ?s = []\<close> updates_dispatch_def by (auto simp: toLowerCase_def startsWith_def)
  then show ?thesis unfolding Let_def using off by blast
qed


text \<open>A selection that the search hides is updated on the wrong devices: when the search matches no selected
  package the button still sends the names, with no device at all.\<close>

theorem hidden_selection_untargeted:
  assumes "su_selected s \<noteq> []" "\<not> su_pending s"
    and "\<forall>e \<in> set (matching_updates (sud_pending d) s). pu_software_name e \<notin> set (su_selected s)"
  shows "offers (updates_view d s) (SuRun (su_selected s) (matching_updates (sud_pending d) s))"
    and "su_sent (updates_update s (SuRun (su_selected s) (matching_updates (sud_pending d) s))) =
      su_sent s @ [updates_dispatch (su_selected s) []]"
proof -
  show "offers (updates_view d s) (SuRun (su_selected s) (matching_updates (sud_pending d) s))"
    using assms(1,2) by (simp add: updates_view_def Let_def)
  have "filter (\<lambda>e. pu_software_name e \<in> set (su_selected s)) (matching_updates (sud_pending d) s) = []"
    using assms(3) by (simp add: filter_empty_conv)
  then show "su_sent (updates_update s (SuRun (su_selected s) (matching_updates (sud_pending d) s))) =
      su_sent s @ [updates_dispatch (su_selected s) []]"
    by (simp add: runUpdate_def update_devices_def)
qed

theorem hidden_selection_untargeted_witness:
  "let d = \<lparr>sud_pending = [\<lparr>pu_software_name = ''vim'', pu_current_versions = [], pu_affected_device_ids = [''a''], pu_affected_count = 1\<rparr>],
        sud_devices = []\<rparr>;
       s = foldl updates_update (su_init []) [SuToggle ''vim'', SuSearch ''x''] in
   su_sent (updates_update s (SuRun (su_selected s) (matching_updates (sud_pending d) s))) = [updates_dispatch [''vim''] []]"
proof -
  let ?d = "\<lparr>sud_pending = [\<lparr>pu_software_name = ''vim'', pu_current_versions = [], pu_affected_device_ids = [''a''], pu_affected_count = 1\<rparr>],
        sud_devices = []\<rparr> :: updates_data"
  let ?s = "foldl updates_update (su_init []) [SuToggle ''vim'', SuSearch ''x'']"
  have sel: "su_selected ?s = [''vim'']" "\<not> su_pending ?s" "su_sent ?s = []" by (simp_all add: su_init_def toggle_member_def)
  have "matching_updates (sud_pending ?d) ?s = []" by code_simp
  then show ?thesis using hidden_selection_untargeted(2)[of ?s ?d] sel by (simp add: Let_def)
qed

text \<open>
  Changing the search keeps the page number, so a search with at most one page of results shows nothing
  from page two on, and no page bar.
\<close>

lemma search_keeps_page:
  assumes "su_page s = 2" "length (matching_updates (sud_pending d) s) \<le> 25"
  shows "su_page (updates_update s (SuSearch v)) = 2" "paged_updates (sud_pending d) s = []"
    "\<nexists>p. offers (updates_view d s) (SuPage p)"
proof -
  have one: "page_count updates_page_size (length (matching_updates (sud_pending d) s)) = 1"
    using assms(2) by (simp add: page_count_def updates_page_size_def max_absorb1)
  show "su_page (updates_update s (SuSearch v)) = 2" using assms(1) by simp
  show none: "paged_updates (sud_pending d) s = []" using assms by (simp add: paged_updates_def slice_def updates_page_size_def)
  show "\<nexists>p. offers (updates_view d s) (SuPage p)" by (simp add: updates_view_def Let_def none one pagination_view_def)
qed

end
