(* ===== verification/Compare.thy ===== *)
theory Compare
  imports SoftwareUpdatesPage Dashboard
begin

text \<open>
  \<open>frontend/src/pages/DeviceCompare.tsx\<close>: up to four devices of the address side by side. The data of the
  queries at index \<open>i\<close> are the \<open>i\<close>-th entries of the lists in \<open>compare_data\<close>.
\<close>

definition metricColor :: "rat option \<Rightarrow> rat \<Rightarrow> rat \<Rightarrow> string" where
  "metricColor value warning danger = (case value of
     None \<Rightarrow> ''text-slate-400''
   | Some v \<Rightarrow> if v \<ge> danger then ''text-red-500'' else if v \<ge> warning then ''text-amber-500'' else ''text-emerald-500'')"

definition compare_ids :: "string \<Rightarrow> string list" where
  "compare_ids search =
     take 4 (filter (\<lambda>v. v \<noteq> []) (map trim (split_str '','' (nullish (search_get search ''ids'') []))))"

definition compare_queries :: "string list \<Rightarrow> query list" where
  "compare_queries ids =
     map (\<lambda>i. \<lparr>q_key = [JStr ''device'', JStr ''compare'', JStr i], q_request = devices_get i, q_interval = 0, q_enabled = (length ids > 0)\<rparr>) ids
     @ map (\<lambda>i. \<lparr>q_key = [JStr ''alerts'', JStr ''compare'', JStr i],
          q_request = api_get ''/alerts'' [(''device_id'', JStr i), (''resolved'', JBool False), (''limit'', JInt 200)],
          q_interval = 0, q_enabled = (length ids > 0)\<rparr>) ids
     @ map (\<lambda>i. \<lparr>q_key = [JStr ''metrics'', JStr ''compare'', JStr i, JStr ''latest''], q_request = metrics_latest i,
          q_interval = 0, q_enabled = (length ids > 0)\<rparr>) ids
     @ map (\<lambda>i. \<lparr>q_key = [JStr ''software'', JStr ''compare'', JStr i], q_request = api_get (''/devices/'' @ i @ ''/software'') [],
          q_interval = 0, q_enabled = (length ids > 0)\<rparr>) ids"

record compare_data =
  cmp_devices :: "device option list"
  cmp_metrics :: "metric option list"
  cmp_alerts :: "alert list option list"
  cmp_software :: "software_package list option list"

record compare_row =
  cr_device :: device
  cr_metric :: "metric option"
  cr_alerts :: "alert list"
  cr_softwareCount :: nat
  cr_pendingUpdates :: nat

definition data_at :: "'a option list \<Rightarrow> nat \<Rightarrow> 'a option" where
  "data_at xs i = (if i < length xs then xs ! i else None)"

definition compare_row_at :: "compare_data \<Rightarrow> nat \<Rightarrow> compare_row option" where
  "compare_row_at d i = (case data_at (cmp_devices d) i of
     None \<Rightarrow> None
   | Some device \<Rightarrow>
       (let software = nullish (data_at (cmp_software d) i) [] in
        Some \<lparr>cr_device = device, cr_metric = data_at (cmp_metrics d) i, cr_alerts = nullish (data_at (cmp_alerts d) i) [],
              cr_softwareCount = length software, cr_pendingUpdates = length (filter sp_update_available software)\<rparr>))"

definition compareRows :: "string list \<Rightarrow> compare_data \<Rightarrow> compare_row list" where
  "compareRows ids d = List.map_filter (compare_row_at d) [0..<length ids]"

definition differs :: "'b list \<Rightarrow> bool" where
  "differs xs = (length (unique xs) > 1)"

definition metric_of :: "(metric \<Rightarrow> rat option) \<Rightarrow> compare_row \<Rightarrow> rat option" where
  "metric_of sel r = Option.bind (cr_metric r) sel"

definition far_apart :: "(metric \<Rightarrow> rat option) \<Rightarrow> rat \<Rightarrow> compare_row list \<Rightarrow> compare_row \<Rightarrow> bool" where
  "far_apart sel gap rows r = list_ex (\<lambda>e. \<bar>nullish (metric_of sel e) 0 - nullish (metric_of sel r) 0\<bar> \<ge> gap) rows"

definition os_text :: "compare_row \<Rightarrow> string" where
  "os_text r = nullish (d_os_version (cr_device r)) (os_type_str (d_os_type (cr_device r)))"

definition CompareCell :: "string \<Rightarrow> string \<Rightarrow> bool \<Rightarrow> string \<Rightarrow> 'm node" where
  "CompareCell name value highlight valueClassName =
     El ''div'' [(''highlight'', if highlight then ''true'' else ''false'')] [] [label name, toned valueClassName value]"

definition metric_cell ::
  "bool \<Rightarrow> compare_row list \<Rightarrow> compare_row \<Rightarrow> string \<times> (metric \<Rightarrow> rat option) \<times> string \<times> rat \<times> rat \<times> rat \<Rightarrow> 'm node" where
  "metric_cell highlightDiffs rows r c = (case c of (name, sel, uom, gap, warning, danger) \<Rightarrow>
     CompareCell name (case metric_of sel r of None \<Rightarrow> em_dash | Some v \<Rightarrow> to_fixed 1 v @ uom)
       (highlightDiffs \<and> far_apart sel gap rows r) (metricColor (metric_of sel r) warning danger))"

definition metric_cells :: "(string \<times> (metric \<Rightarrow> rat option) \<times> string \<times> rat \<times> rat \<times> rat) list" where
  "metric_cells =
     [(''CPU'', m_cpu_percent, ''%'', 10, 70, 90), (''RAM'', m_ram_percent, ''%'', 10, 70, 90),
      (''Disk'', m_disk_percent, ''%'', 10, 75, 90), (''Temp'', m_cpu_temp, [CHR 0xB0] @ ''C'', 8, 70, 85)]"

definition compare_article :: "(string \<Rightarrow> string) \<Rightarrow> bool \<Rightarrow> compare_row list \<Rightarrow> compare_row \<Rightarrow> 'm node" where
  "compare_article ago hl rows r =
     (let device = cr_device r in
      box ([label (nullish (d_label device) (d_hostname device)), label (d_hostname device), status_badge (d_status device)]
           @ map (metric_cell hl rows r) metric_cells
           @ [CompareCell ''OS'' (os_text r) (hl \<and> differs (map os_text rows)) [],
              CompareCell ''Uptime'' (case metric_of m_uptime_secs r of None \<Rightarrow> em_dash | Some u \<Rightarrow> formatUptime u)
                (hl \<and> differs (map (\<lambda>e. nullish (metric_of m_uptime_secs e) 0) rows)) [],
              CompareCell ''Alerts'' (nat_str (length (cr_alerts r))) (hl \<and> differs (map (\<lambda>e. length (cr_alerts e)) rows)) [],
              CompareCell ''Software''
                (nat_str (cr_softwareCount r) @ '' packages '' @ [CHR 0xB7] @ '' '' @ nat_str (cr_pendingUpdates r) @ '' updates pending'')
                (hl \<and> differs (map cr_softwareCount rows)) [],
              CompareCell ''Last Seen'' (if truthy (d_last_seen device) then ago (the (d_last_seen device)) else ''Never'') False []]))"

text \<open>The state is the check box; its message is its new value.\<close>

definition compare_view :: "(string \<Rightarrow> string) \<Rightarrow> string list \<Rightarrow> compare_data \<Rightarrow> bool \<Rightarrow> bool view" where
  "compare_view ago ids d highlightDiffs =
     (if length ids < 2 then [label ''Select 2 to 4 devices from the dashboard and use Compare to open this view.'']
      else [label ''Device Compare'', label ''Side-by-side comparison for up to four devices.'',
            checkbox highlightDiffs (\<not> highlightDiffs), label ''Difference highlight'']
           @ map (compare_article ago highlightDiffs (compareRows ids d)) (compareRows ids d))"

section \<open>Lemmas\<close>

lemma form_bytes_clean: "CHR ''%'' \<notin> set s \<Longrightarrow> CHR ''+'' \<notin> set s \<Longrightarrow> form_bytes s = concat (map utf8 s)"
  by (induction s) (auto simp: form_bytes_plain)

lemma form_decode_clean: "CHR ''%'' \<notin> set s \<Longrightarrow> CHR ''+'' \<notin> set s \<Longrightarrow> form_decode s = s"
  by (simp add: form_decode_def form_bytes_clean utf8_decode_encode)

text \<open>An identifier that stands for itself in an address: not empty, no separator, no white space.\<close>

definition plain_id :: "string \<Rightarrow> bool" where
  "plain_id i \<longleftrightarrow> i \<noteq> [] \<and> (\<forall>c \<in> set i. \<not> is_space c \<and> c \<notin> {CHR ''%'', CHR ''+'', CHR ''&'', CHR '','', CHR ''#''})"

lemma set_join: "set (join sep xs) \<subseteq> set sep \<union> \<Union> (set ` set xs)"
  by (induction sep xs rule: join.induct) auto

lemma join_ids_chars:
  assumes "\<forall>i \<in> set ids. plain_id i" "c \<in> {CHR ''%'', CHR ''+'', CHR ''&'', CHR ''#''}"
  shows "c \<notin> set (join '','' ids)"
  using set_join[of "'',''" ids] assms unfolding plain_id_def by fastforce

lemma compare_ids_join:
  assumes "\<forall>i \<in> set ids. plain_id i"
  shows "compare_ids (''?ids='' @ join '','' ids) = take 4 ids"
proof -
  note chars = join_ids_chars[OF assms]
  have "split_str ''&'' (''ids='' @ join '','' ids) = [''ids='' @ join '','' ids]"
    using chars[of "CHR ''&''"] by (intro split_no_char) auto
  moreover have "form_decode (join '','' ids) = join '','' ids" using chars by (intro form_decode_clean) auto
  ultimately have g: "search_get (''?ids='' @ join '','' ids) ''ids'' = Some (join '','' ids)"
    by (simp add: search_get_def startsWith_def param_pair_def search_key_plain)
  show ?thesis
  proof (cases "ids = []")
    case True
    then show ?thesis using g by (simp add: compare_ids_def trim_def)
  next
    case False
    have "split_str '','' (join '','' ids) = ids" using False assms by (intro split_join) (auto simp: plain_id_def)
    moreover have "map trim ids = ids" using assms by (intro map_idI) (auto simp: plain_id_def trim_nonspace)
    moreover have "filter (\<lambda>v. v \<noteq> []) ids = ids" using assms by (auto simp: plain_id_def filter_id_conv)
    ultimately show ?thesis using g by (simp add: compare_ids_def)
  qed
qed

section \<open>Properties\<close>

text \<open>C37. Compare opens the selected devices: for device ids that hold no white space and none of the
  characters percent, plus, ampersand, comma and hash (as the UUIDs of the server do not), the address that
  the overview page navigates to when the user presses Compare belongs to this page, which reads it back as
  the first four selected devices, in the order of selection. (The link is built without encoding, so an id
  with one of these characters could be cut or changed.)\<close>

theorem compare_link_roundtrip:
  assumes "\<forall>i \<in> set (ds_selected s). plain_id i"
  shows "\<exists>path. ds_navigated (dashboard_update s (DBulk BCompare)) = ds_navigated s @ [path]
    \<and> match_route (takeWhile (\<lambda>c. c \<noteq> CHR ''?'') path) = Some (ProtectedLayout DeviceComparePage)
    \<and> compare_ids (query_part path) = take 4 (ds_selected s)"
proof (intro exI conjI)
  let ?ids = "take 4 (ds_selected s)"
  have ids: "\<forall>i \<in> set ?ids. plain_id i" using assms by (meson in_set_takeD)
  show "ds_navigated (dashboard_update s (DBulk BCompare)) = ds_navigated s @ [compare_link (ds_selected s)]" by simp
  have "takeWhile (\<lambda>c. c \<noteq> CHR ''?'') (compare_link (ds_selected s)) = ''/compare''" by (simp add: compare_link_def)
  moreover have "match_route ''/compare'' = Some (ProtectedLayout DeviceComparePage)" by code_simp
  ultimately show "match_route (takeWhile (\<lambda>c. c \<noteq> CHR ''?'') (compare_link (ds_selected s))) = Some (ProtectedLayout DeviceComparePage)"
    by (simp only:)
  have "CHR ''#'' \<notin> set (join '','' ?ids)" by (rule join_ids_chars[OF ids]) simp
  then have "query_part (compare_link (ds_selected s)) = ''?ids='' @ join '','' ?ids"
    by (subst query_part_clean) (simp_all add: compare_link_def)
  then show "compare_ids (query_part (compare_link (ds_selected s))) = take 4 (ds_selected s)"
    using compare_ids_join[OF ids] by simp
qed

theorem compare_link_roundtrip_witness:
  "compare_ids (query_part (compare_link [''a1'', ''b2''])) = [''a1'', ''b2'']"
proof -
  let ?s = "dashboard_init\<lparr>ds_selected := [''a1'', ''b2'']\<rparr>"
  have "\<forall>i \<in> set (ds_selected ?s). plain_id i" by (simp add: plain_id_def is_space_def)
  from compare_link_roundtrip[OF this] show ?thesis by simp
qed

text \<open>One column per device whose data has arrived, in the order of the address; none is shown for fewer than
  two devices.\<close>

lemma compare_columns:
  "map (d_id \<circ> cr_device) (compareRows ids d) = List.map_filter (\<lambda>i. map_option d_id (data_at (cmp_devices d) i)) [0..<length ids]"
proof -
  have "map (d_id \<circ> cr_device) (List.map_filter (compare_row_at d) is') = List.map_filter (\<lambda>i. map_option d_id (data_at (cmp_devices d) i)) is'" for is'
    by (induction is') (auto simp: List.map_filter_simps compare_row_at_def Let_def split: option.split)
  then show ?thesis by (simp add: compareRows_def)
qed

end
