(* ===== verification/InventoryPage.thy ===== *)
theory InventoryPage
  imports Queries View JsSort Utils
begin

text \<open>
  \<open>frontend/src/pages/Inventory.tsx\<close>: the asset table with its filters, the editing of single cells, and the
  CSV export and import. \<open>days_left\<close> stands for date-fns' \<open>differenceInCalendarDays(new Date(_), new Date())\<close>,
  \<open>fmt\<close> for \<open>format(new Date(_), 'PP')\<close>.
\<close>

definition FIELDS :: "(string \<times> (inventory_device \<Rightarrow> string option)) list" where
  "FIELDS = [(''serial_number'', inv_serial_number), (''manufacturer'', inv_manufacturer), (''model_name'', inv_model_name),
     (''location'', inv_location), (''assigned_to'', inv_assigned_to), (''asset_tag'', inv_asset_tag)]"

record inventory_page =
  ip_assignedTo :: string
  ip_expiringOnly :: bool
  ip_editing :: "(string \<times> string) option" \<comment> \<open>device and field\<close>
  ip_draft :: string
  ip_location :: string
  ip_sent :: "request list"
  ip_downloads :: "dom_effect list"
  ip_error :: "js_error option" \<comment> \<open>an import that was rejected\<close>

definition inventory_init :: inventory_page where
  "inventory_init = \<lparr>ip_assignedTo = [], ip_expiringOnly = False, ip_editing = None, ip_draft = [], ip_location = [], ip_sent = [],
     ip_downloads = [], ip_error = None\<rparr>"

definition inventory_query :: "inventory_page \<Rightarrow> query" where
  "inventory_query s =
     \<lparr>q_key = [JStr ''inventory'', JStr (ip_assignedTo s), JBool (ip_expiringOnly s)],
      q_request = inventory_list None (or_null (ip_assignedTo s)) (if ip_expiringOnly s then Some 90 else None),
      q_interval = 0, q_enabled = True\<rparr>"

definition updateField :: "string \<Rightarrow> string \<Rightarrow> string \<Rightarrow> mutation" where
  "updateField i field value =
     \<lparr>mu_request = devices_update i [(field, JNullable (or_null value))],
      mu_invalidates = [[JStr ''inventory''], [JStr ''device'']]\<rparr>"

definition inventory_locations :: "inventory_device list \<Rightarrow> string list" where
  "inventory_locations devices = js_sort str_compare (unique (map the (filter truthy (map inv_location devices))))"

definition inventory_filtered :: "inventory_device list \<Rightarrow> inventory_page \<Rightarrow> inventory_device list" where
  "inventory_filtered devices s = filter (\<lambda>d. ip_location s = [] \<or> inv_location d = Some (ip_location s)) devices"

definition exportCsv :: "string \<Rightarrow> string \<Rightarrow> string \<Rightarrow> dom_effect list" where
  "exportCsv url blob mime = download_effects url ''dtsys-inventory.csv'' blob mime"

section \<open>Import\<close>

text \<open>\<open>text.split(/\r?\n/)\<close>: a carriage return right before a line feed belongs to the separator.\<close>

definition chop_cr :: "string \<Rightarrow> string" where
  "chop_cr s = (if s \<noteq> [] \<and> last s = CHR 0x0D then butlast s else s)"

definition split_lines :: "string \<Rightarrow> string list" where
  "split_lines s = (let ps = split_str [newline] s in map chop_cr (butlast ps) @ [last ps])"

definition csv_record :: "string list \<Rightarrow> string \<Rightarrow> string \<rightharpoonup> string" where
  "csv_record headers line =
     (let columns = split_str '','' line
      in from_entries (map (\<lambda>(index, header). (header, if index < length columns then columns ! index else [])) (enumerate 0 headers)))"

definition cell_value :: "(string \<rightharpoonup> string) \<Rightarrow> string \<Rightarrow> json" where
  "cell_value rec k = JNullable (or_null (nullish (rec k) []))"

definition import_update :: "inventory_device \<Rightarrow> (string \<rightharpoonup> string) \<Rightarrow> request" where
  "import_update device rec = devices_update (inv_id device)
     [(''serial_number'', cell_value rec ''serial''), (''manufacturer'', cell_value rec ''manufacturer''),
      (''model_name'', cell_value rec ''model''), (''purchase_date'', cell_value rec ''purchase_date''),
      (''warranty_expires'', cell_value rec ''warranty_expires''), (''location'', cell_value rec ''location''),
      (''assigned_to'', cell_value rec ''assigned_to''), (''asset_tag'', cell_value rec ''asset_tag'')]"

definition import_row :: "inventory_device list \<Rightarrow> (string \<rightharpoonup> string) \<Rightarrow> request option" where
  "import_row devices rec =
     map_option (\<lambda>device. import_update device rec) (find_first (\<lambda>e. Some (inv_hostname e) = rec ''hostname'') devices)"

text \<open>The requests of an import, in order. A file without a line has no header: \<open>headerLine.split\<close> throws.\<close>

definition importCsv :: "inventory_device list \<Rightarrow> string \<Rightarrow> request list js_result" where
  "importCsv devices text = (case filter (\<lambda>l. l \<noteq> []) (split_lines text) of
     [] \<Rightarrow> Inl TypeError
   | headerLine # rows \<Rightarrow>
       (let headers = map trim (split_str '','' headerLine)
        in Inr (List.map_filter (\<lambda>line. import_row devices (csv_record headers line)) rows)))"

text \<open>Each request waits for the answer to the one before; the first failure ends the import.\<close>

fun await_all :: "bool list \<Rightarrow> request list \<Rightarrow> request list" where
  "await_all oks [] = []"
| "await_all [] (r # rs) = [r]"
| "await_all (ok # oks) (r # rs) = r # (if ok then await_all oks rs else [])"

datatype inventory_msg =
    InvLocation string | InvAssigned string | InvExpiring bool
  | InvStart string string string \<comment> \<open>device, field and value\<close>
  | InvDraft string | InvSave string string | InvSaved
  | InvExport | InvBlob string string string
  | InvPickFile | InvImport "inventory_device list" string "bool list" \<comment> \<open>the filtered list, the text, the answers\<close>

fun inventory_update :: "inventory_page \<Rightarrow> inventory_msg \<Rightarrow> inventory_page" where
  "inventory_update s (InvLocation v) = s\<lparr>ip_location := v\<rparr>"
| "inventory_update s (InvAssigned v) = s\<lparr>ip_assignedTo := v\<rparr>"
| "inventory_update s (InvExpiring b) = s\<lparr>ip_expiringOnly := b\<rparr>"
| "inventory_update s (InvStart i field value) = s\<lparr>ip_editing := Some (i, field), ip_draft := value\<rparr>"
| "inventory_update s (InvDraft v) = s\<lparr>ip_draft := v\<rparr>"
| "inventory_update s (InvSave i field) = s\<lparr>ip_sent := ip_sent s @ [mu_request (updateField i field (ip_draft s))]\<rparr>"
| "inventory_update s InvSaved = s\<lparr>ip_editing := None, ip_draft := []\<rparr>"
| "inventory_update s InvExport = s\<lparr>ip_sent := ip_sent s @ [inventory_exportCsv]\<rparr>"
| "inventory_update s (InvBlob url blob mime) = s\<lparr>ip_downloads := ip_downloads s @ exportCsv url blob mime\<rparr>"
| "inventory_update s InvPickFile = s"
| "inventory_update s (InvImport devices text oks) = (case importCsv devices text of
     Inl e \<Rightarrow> s\<lparr>ip_error := Some e\<rparr>
   | Inr rs \<Rightarrow> s\<lparr>ip_sent := ip_sent s @ await_all oks rs\<rparr>)"

section \<open>The view\<close>

definition EditableCell :: "inventory_page \<Rightarrow> inventory_device \<Rightarrow> string \<times> (inventory_device \<Rightarrow> string option) \<Rightarrow> inventory_msg node" where
  "EditableCell s device f =
     (let i = inv_id device; field = fst f; value = nullish (snd f device) [] in
      if ip_editing s = Some (i, field)
      then El ''td'' [] [] [El ''input'' [(''defaultValue'', value)]
             [(''onChange'', InvDraft), (''onBlur'', \<lambda>_. InvSave i field), (''onKeyDown Enter'', \<lambda>_. InvSave i field)] []]
      else El ''td'' [] [(''onClick'', \<lambda>_. InvStart i field value)] [Txt (if value \<noteq> [] then value else em_dash)])"

definition warranty_tone :: "(string \<Rightarrow> int) \<Rightarrow> inventory_device \<Rightarrow> string" where
  "warranty_tone days_left device =
     (if truthy (inv_warranty_expires device) then
        let n = days_left (the (inv_warranty_expires device)) in if n < 30 then ''bg-red-50'' else if n < 90 then ''bg-amber-50'' else []
      else [])"

definition inventory_row :: "(string \<Rightarrow> string) \<Rightarrow> (string \<Rightarrow> int) \<Rightarrow> inventory_page \<Rightarrow> inventory_device \<Rightarrow> inventory_msg node" where
  "inventory_row fmt days_left s device =
     El ''tr'' [(''tone'', warranty_tone days_left device)] []
       ([icon ''Package'', label (nullish (inv_label device) (inv_hostname device))]
        @ map (EditableCell s device) FIELDS
        @ [label (if truthy (inv_purchase_date device) then fmt (the (inv_purchase_date device)) else em_dash),
           label (if truthy (inv_warranty_expires device) then fmt (the (inv_warranty_expires device)) else em_dash)])"

definition inventory_view ::
  "(string \<Rightarrow> string) \<Rightarrow> (string \<Rightarrow> int) \<Rightarrow> (string \<times> bool list) \<Rightarrow> inventory_device list \<Rightarrow> inventory_page \<Rightarrow> inventory_msg view" where
  "inventory_view fmt days_left file devices s =
     (let visible = inventory_filtered devices s in
      [label ''Inventory'', label ''Track asset metadata, ownership, and warranty status.'',
       button InvExport [icon ''Download'', Txt ''Export CSV''], button InvPickFile [icon ''Upload'', Txt ''Import CSV''],
       El ''input'' [(''type'', ''file''), (''accept'', ''.csv'')] [(''onChange'', \<lambda>_. InvImport visible (fst file) (snd file))] [],
       select_field (ip_location s) InvLocation (([], ''All locations'') # map (\<lambda>l. (l, l)) (inventory_locations devices)),
       input_field (ip_assignedTo s) InvAssigned, checkbox (ip_expiringOnly s) (InvExpiring (\<not> ip_expiringOnly s)),
       label ''Expiring warranty'']
      @ headings [''Hostname'', ''Serial'', ''Manufacturer'', ''Model'', ''Location'', ''Assigned To'', ''Asset Tag'', ''Purchase Date'', ''Warranty'']
      @ map (inventory_row fmt days_left s) visible)"

section \<open>Lemmas\<close>

text \<open>A table in the format of the server's export: comma between cells, carriage return and line feed after lines.\<close>

definition crlf_text :: "string list list \<Rightarrow> string" where
  "crlf_text table = concat (map (\<lambda>cells. join '','' cells @ [CHR 0x0D, newline]) table)"

text \<open>A cell that needs no quoting.\<close>

definition plain_cell :: "string \<Rightarrow> bool" where
  "plain_cell c \<longleftrightarrow> CHR '','' \<notin> set c \<and> newline \<notin> set c \<and> CHR 0x0D \<notin> set c"

lemma join_plain:
  assumes "list_all plain_cell cells"
  shows "newline \<notin> set (join '','' cells)" "CHR 0x0D \<notin> set (join '','' cells)"
  using assms by (induction "'',''" cells rule: join.induct) (auto simp: plain_cell_def newline_def)

lemma join_ne: "2 \<le> length cells \<Longrightarrow> join '','' cells \<noteq> []"
  by (induction "'',''" cells rule: join.induct) auto

lemma split_table:
  assumes "list_all (list_all plain_cell) table"
  shows "split_str [newline] (crlf_text table) = map (\<lambda>cells. join '','' cells @ [CHR 0x0D]) table @ [[]]"
  using assms
proof (induction table)
  case (Cons cells table)
  let ?l = "join '','' cells @ [CHR 0x0D]"
  have "newline \<notin> set ?l" using join_plain(1)[of cells] Cons.prems by (simp add: newline_def)
  then have "split_str [newline] (?l @ [newline] @ crlf_text table) = ?l # split_str [newline] (crlf_text table)"
    by (rule split_char_append)
  with Cons show ?case by (simp add: crlf_text_def)
qed (simp add: crlf_text_def)

lemma lines_table:
  assumes "list_all (list_all plain_cell) table" "\<forall>cells \<in> set table. 2 \<le> length cells"
  shows "filter (\<lambda>l. l \<noteq> []) (split_lines (crlf_text table)) = map (join '','') table"
proof -
  have "split_lines (crlf_text table) = map (join '','') table @ [[]]"
    unfolding split_lines_def split_table[OF assms(1)] Let_def by (simp add: chop_cr_def comp_def)
  moreover have "filter (\<lambda>l. l \<noteq> []) (map (join '','') table) = map (join '','') table"
    using assms(2) join_ne by (auto simp: filter_id_conv)
  ultimately show ?thesis by simp
qed

lemma csv_record_zip:
  assumes "list_all plain_cell cells" "length cells = length headers" "cells \<noteq> []" "distinct headers"
  shows "csv_record headers (join '','' cells) = map_of (zip headers cells)"
proof -
  have s: "split_str '','' (join '','' cells) = cells"
    using assms(1,3) by (intro split_join) (auto simp: list_all_iff plain_cell_def)
  have "map (\<lambda>(index, header). (header, if index < length cells then cells ! index else [])) (enumerate 0 headers) = zip headers cells"
    using assms(2) by (intro nth_equalityI) (auto simp: nth_enumerate_eq)
  moreover have "map_of (rev (zip headers cells)) = map_of (zip headers cells)"
    using assms(2,4) by (intro map_of_inject_set[THEN iffD2]) (auto simp: rev_map[symmetric])
  ultimately show ?thesis by (simp add: csv_record_def s from_entries_def)
qed

lemma importCsv_table:
  assumes "list_all (list_all plain_cell) (headers # rows)" "\<forall>cells \<in> set rows. length cells = length headers"
    and "2 \<le> length headers" "distinct headers" "\<forall>h \<in> set headers. trim h = h"
  shows "importCsv devices (crlf_text (headers # rows)) =
    Inr (List.map_filter (\<lambda>cells. import_row devices (map_of (zip headers cells))) rows)"
proof -
  have "\<forall>cells \<in> set (headers # rows). 2 \<le> length cells" using assms(2,3) by auto
  then have l: "filter (\<lambda>l. l \<noteq> []) (split_lines (crlf_text (headers # rows))) = join '','' headers # map (join '','') rows"
    using lines_table[OF assms(1)] by simp
  have ne: "headers \<noteq> []" using assms(3) by auto
  have "split_str '','' (join '','' headers) = headers"
    using assms(1) ne by (intro split_join) (auto simp: list_all_iff plain_cell_def)
  then have h: "map trim (split_str '','' (join '','' headers)) = headers" using assms(5) by (simp add: map_idI)
  have r: "csv_record headers (join '','' cells) = map_of (zip headers cells)" if "cells \<in> set rows" for cells
    using that assms(1,2,4) ne by (intro csv_record_zip) (auto simp: list_all_iff)
  have "List.map_filter (\<lambda>line. import_row devices (csv_record headers line)) (map (join '','') rows) =
      List.map_filter (\<lambda>cells. import_row devices (map_of (zip headers cells))) rows"
    unfolding List.map_filter_def using r by (induction rows) auto
  then show ?thesis unfolding importCsv_def l by (simp add: h)
qed

text \<open>The cell of a row under a column as the server takes it: null when it is empty or the column is missing.\<close>

definition cell_under :: "string list \<Rightarrow> string list \<Rightarrow> string \<Rightarrow> json" where
  "cell_under headers cells column =
     (case filter (\<lambda>(h, v). h = column \<and> v \<noteq> []) (zip headers cells) of [] \<Rightarrow> JNull | (h, v) # _ \<Rightarrow> JStr v)"

text \<open>The fields of a device that an import sets, each with the column it is read from.\<close>

definition asset_columns :: "(string \<times> string) list" where
  "asset_columns = [(''serial_number'', ''serial''), (''manufacturer'', ''manufacturer''), (''model_name'', ''model''),
     (''purchase_date'', ''purchase_date''), (''warranty_expires'', ''warranty_expires''), (''location'', ''location''),
     (''assigned_to'', ''assigned_to''), (''asset_tag'', ''asset_tag'')]"

lemma cell_under_value:
  assumes "distinct headers" "length cells = length headers"
  shows "cell_value (map_of (zip headers cells)) column = cell_under headers cells column"
  using assms(2,1)
proof (induction cells headers rule: list_induct2)
  case (Cons v cells h headers)
  have "filter (\<lambda>(h, v). h = column \<and> v \<noteq> []) (zip headers cells) = []" if "column \<notin> set headers"
    using that by (auto simp: filter_empty_conv dest: set_zip_leftD)
  with Cons show ?case by (auto simp: cell_value_def cell_under_def or_null_def JNullable_def)
qed (simp add: cell_value_def cell_under_def or_null_def JNullable_def)

lemma import_row_exact:
  assumes "distinct headers" "length cells = length headers"
  shows "import_row devices (map_of (zip headers cells)) =
    map_option (\<lambda>d. mk_request PATCH (''/devices/'' @ inv_id d) []
        (Some (JObj (map (\<lambda>(field, column). (field, cell_under headers cells column)) asset_columns))))
      (List.find (\<lambda>d. (''hostname'', inv_hostname d) \<in> set (zip headers cells)) devices)"
proof -
  have "Some v = map_of (zip headers cells) k \<longleftrightarrow> (k, v) \<in> set (zip headers cells)" for k v
    using map_of_eq_Some_iff[of "zip headers cells"] assms by (metis map_fst_zip)
  then show ?thesis unfolding import_row_def find_first_def
    by (simp add: import_update_def cell_under_value[OF assms] asset_columns_def devices_update_def device_path_def)
qed

lemma find_filter: "List.find p (filter q xs) = List.find (\<lambda>x. q x \<and> p x) xs"
  by (induction xs) auto

lemma map_filter_concat: "List.map_filter f xs = concat (map (\<lambda>x. case f x of None \<Rightarrow> [] | Some y \<Rightarrow> [y]) xs)"
  by (induction xs) (auto simp: List.map_filter_simps split: option.split)

lemma length_concat_options: "length (concat (map (\<lambda>x. case f x of None \<Rightarrow> [] | Some d \<Rightarrow> [g x d]) xs)) \<le> length xs"
  by (induction xs) (auto split: option.split)

lemma await_all_ok: "length rs \<le> n \<Longrightarrow> await_all (replicate n True) rs = rs"
proof (induction rs arbitrary: n)
  case (Cons r rs)
  then show ?case by (cases n) simp_all
qed simp

lemma offers_import:
  "offers (inventory_view fmt days_left (text, oks) devices s) (InvImport visible text' oks') \<Longrightarrow>
   visible = inventory_filtered devices s \<and> text' = text \<and> oks' = oks"
  by (auto simp: inventory_view_def inventory_row_def EditableCell_def Let_def split: if_splits)

section \<open>Properties\<close>


definition sample_asset :: inventory_device where
  "sample_asset = \<lparr>inv_id = ''7'', inv_hostname = ''pc'', inv_label = None, inv_os_type = ''linux'', inv_os_version = None,
     inv_ip_address = None, inv_serial_number = None, inv_manufacturer = None, inv_model_name = None, inv_purchase_date = None,
     inv_warranty_expires = None, inv_location = None, inv_assigned_to = None, inv_asset_tag = None, inv_status = []\<rparr>"


text \<open>
  A quoted cell of the export is cut at its comma: the values of the row move to the wrong columns. An empty
  file is rejected with an exception nobody handles. Devices the current filter hides are skipped.
\<close>

lemma quoted_comma_shifts:
  "csv_record [''hostname'', ''manufacturer'', ''model''] (''pc,'' @ [dquote] @ ''Acme, Inc'' @ [dquote] @ '',X1'') ''model'' =
     Some ('' Inc'' @ [dquote])"
  by code_simp

lemma empty_import: "importCsv devices [] = Inl TypeError"
  by (simp add: importCsv_def split_lines_def)

end
