(* ===== verification/CustomDashboard.thy ===== *)
theory CustomDashboard
  imports Storage Queries View JsSort
begin

text \<open>
  \<open>frontend/src/pages/CustomDashboard.tsx\<close>: a grid of widgets the user adds, removes, resizes and reorders by
  dragging, saved in \<open>localStorage\<close>. \<open>parse\<close> is \<open>JSON.parse\<close> read as a layout (\<open>None\<close> when it throws),
  \<open>stringify\<close> is \<open>JSON.stringify\<close>. A widget is its identifier, as a stored layout may name any.
\<close>

record layout_item =
  li_widgetId :: string
  li_x :: int
  li_y :: int
  li_w :: int
  li_h :: int

type_synonym layout = "layout_item list"

definition STORAGE_KEY :: string where "STORAGE_KEY = ''dtsys-dashboard-layout''"

definition availableWidgets :: "(string \<times> string) list" where
  "availableWidgets =
     [(''device-status'', ''Device Status Pie''), (''alerts'', ''Alert Summary''), (''device-count'', ''Device Count''),
      (''online-count'', ''Online Count''), (''recent-events'', ''Recent Events''), (''uptime-leaderboard'', ''Uptime Leaderboard'')]"

definition widget :: "string \<Rightarrow> int \<Rightarrow> int \<Rightarrow> int \<Rightarrow> int \<Rightarrow> layout_item" where
  "widget i x y w h = \<lparr>li_widgetId = i, li_x = x, li_y = y, li_w = w, li_h = h\<rparr>"

definition defaultLayout :: layout where
  "defaultLayout =
     [widget ''device-status'' 1 1 4 3, widget ''alerts'' 5 1 4 3, widget ''device-count'' 9 1 2 2,
      widget ''online-count'' 11 1 2 2, widget ''recent-events'' 1 4 6 4, widget ''uptime-leaderboard'' 7 4 6 4]"

definition readLayout :: "(string \<Rightarrow> layout option) \<Rightarrow> storage \<Rightarrow> layout" where
  "readLayout parse st =
     (if truthy (getItem st STORAGE_KEY) then nullish (parse (the (getItem st STORAGE_KEY))) defaultLayout else defaultLayout)"

definition saveLayout :: "(layout \<Rightarrow> string) \<Rightarrow> layout \<Rightarrow> storage \<Rightarrow> storage" where
  "saveLayout stringify l st = setItem STORAGE_KEY (stringify l) st"

record custom_page =
  cd_editMode :: bool
  cd_showPicker :: bool
  cd_layout :: layout
  cd_dragging :: "string option"
  cd_storage :: storage

definition custom_init :: "(string \<Rightarrow> layout option) \<Rightarrow> storage \<Rightarrow> custom_page" where
  "custom_init parse st = \<lparr>cd_editMode = False, cd_showPicker = False, cd_layout = readLayout parse st, cd_dragging = None, cd_storage = st\<rparr>"

text \<open>
  \<open>findIndex\<close>, and the two calls of \<open>splice\<close>: one element is taken out (at index -1 that is the last one)
  and put back at another place.
\<close>

fun find_index :: "('a \<Rightarrow> bool) \<Rightarrow> 'a list \<Rightarrow> nat option" where
  "find_index p [] = None"
| "find_index p (x # xs) = (if p x then Some 0 else map_option Suc (find_index p xs))"

definition splice_out :: "nat option \<Rightarrow> 'a list \<Rightarrow> 'a option \<times> 'a list" where
  "splice_out i xs =
     (let k = (case i of None \<Rightarrow> length xs - 1 | Some n \<Rightarrow> n)
      in if k < length xs then (Some (xs ! k), take k xs @ drop (Suc k) xs) else (None, xs))"

definition splice_in :: "nat option \<Rightarrow> 'a \<Rightarrow> 'a list \<Rightarrow> 'a list" where
  "splice_in i x xs = (let k = (case i of None \<Rightarrow> length xs - 1 | Some n \<Rightarrow> n) in take k xs @ [x] @ drop k xs)"

definition drop_on :: "string \<Rightarrow> custom_page \<Rightarrow> custom_page" where
  "drop_on target s = (case cd_dragging s of
     None \<Rightarrow> s
   | Some dragged \<Rightarrow>
       if \<not> cd_editMode s \<or> dragged = [] \<or> dragged = target then s
       else (let from = find_index (\<lambda>e. li_widgetId e = dragged) (cd_layout s);
                 to = find_index (\<lambda>e. li_widgetId e = target) (cd_layout s)
             in case splice_out from (cd_layout s) of
                  (None, rest) \<Rightarrow> s
                | (Some moved, rest) \<Rightarrow> s\<lparr>cd_layout := splice_in to moved rest\<rparr>))"

datatype custom_msg =
    CdEdit | CdPicker bool | CdReset | CdSave
  | CdDragStart string | CdDrop string | CdMouseUp
  | CdRemove string | CdResize string | CdAdd string

definition grow :: "layout_item \<Rightarrow> layout_item" where
  "grow e = e\<lparr>li_w := min 12 (li_w e + 1), li_h := min 6 (li_h e + 1)\<rparr>"

fun custom_update :: "(layout \<Rightarrow> string) \<Rightarrow> custom_page \<Rightarrow> custom_msg \<Rightarrow> custom_page" where
  "custom_update stringify s CdEdit = s\<lparr>cd_editMode := \<not> cd_editMode s\<rparr>"
| "custom_update stringify s (CdPicker b) = s\<lparr>cd_showPicker := b\<rparr>"
| "custom_update stringify s CdReset = s\<lparr>cd_layout := defaultLayout, cd_storage := removeItem STORAGE_KEY (cd_storage s)\<rparr>"
| "custom_update stringify s CdSave = s\<lparr>cd_storage := saveLayout stringify (cd_layout s) (cd_storage s)\<rparr>"
| "custom_update stringify s (CdDragStart i) = s\<lparr>cd_dragging := Some i\<rparr>"
| "custom_update stringify s (CdDrop i) = drop_on i s"
| "custom_update stringify s CdMouseUp = s\<lparr>cd_dragging := None\<rparr>"
| "custom_update stringify s (CdRemove i) = s\<lparr>cd_layout := filter (\<lambda>e. li_widgetId e \<noteq> i) (cd_layout s)\<rparr>"
| "custom_update stringify s (CdResize i) =
     s\<lparr>cd_layout := map (\<lambda>e. if li_widgetId e = i then grow e else e) (cd_layout s)\<rparr>"
| "custom_update stringify s (CdAdd i) =
     s\<lparr>cd_layout := cd_layout s @ [widget i 1 (int (length (cd_layout s)) + 1) 4 3], cd_showPicker := False\<rparr>"

section \<open>The view\<close>

definition BigCount :: "string \<Rightarrow> nat \<Rightarrow> 'm view" where
  "BigCount title v = [label title, label (nat_str v)]"

definition StatBlock :: "string \<Rightarrow> nat \<Rightarrow> string \<Rightarrow> 'm node" where
  "StatBlock name v tone = box [label name, toned tone (nat_str v)]"

definition device_line :: "device \<Rightarrow> 'm node" where
  "device_line d = label (nullish (d_label d) (d_hostname d) @ '' '' @ [CHR 0xB7] @ '' '' @ device_status_str (d_status d))"

definition WidgetCard :: "string \<Rightarrow> device list \<Rightarrow> alert list \<Rightarrow> nat \<Rightarrow> 'm view" where
  "WidgetCard widgetId devices alerts onlineCount =
     (if widgetId = ''device-status'' then
        [label ''Device Status'', StatBlock ''Online'' onlineCount ''text-emerald-500'',
         StatBlock ''Offline'' (length (filter (\<lambda>d. d_status d = Offline) devices)) ''text-slate-500'',
         StatBlock ''Alert'' (length (filter (\<lambda>d. d_status d = Alerting) devices)) ''text-red-500'']
      else if widgetId = ''alerts'' then
        label ''Last 5 Alerts'' # map (\<lambda>a. label (a_alert_type a @ '': '' @ a_message a)) (take 5 alerts)
      else if widgetId = ''device-count'' then BigCount ''Total Devices'' (length devices)
      else if widgetId = ''online-count'' then BigCount ''Online Devices'' onlineCount
      else if widgetId = ''recent-events'' then label ''Recently Seen'' # map device_line (take 10 devices)
      else label ''Uptime Leaderboard'' # map device_line (take 5 devices))"

record custom_data =
  cdd_devices :: "device list"
  cdd_recentDevices :: "device list"
  cdd_alerts :: "alert list"

definition rendered :: "layout \<Rightarrow> layout" where
  "rendered l = filter (\<lambda>item. list_ex (\<lambda>(i, name). i = li_widgetId item) availableWidgets) l"

definition widget_section :: "custom_data \<Rightarrow> custom_page \<Rightarrow> layout_item \<Rightarrow> custom_msg node" where
  "widget_section d s item =
     El ''section'' [(''draggable'', if cd_editMode s then ''true'' else ''false''),
         (''span'', int_str (li_w item) @ '' x '' @ int_str (li_h item))]
       ((if cd_editMode s then [(''onDragStart'', \<lambda>_. CdDragStart (li_widgetId item))] else [])
        @ [(''onDrop'', \<lambda>_. CdDrop (li_widgetId item))])
       (shown (cd_editMode s)
          [button (CdRemove (li_widgetId item)) [icon ''X''], button (CdResize (li_widgetId item)) [Txt ''Resize'']]
        @ WidgetCard (li_widgetId item) (cdd_recentDevices d) (cdd_alerts d)
            (length (filter (\<lambda>dev. d_status dev = Online) (cdd_devices d))))"

definition pickable :: "layout \<Rightarrow> (string \<times> string) list" where
  "pickable l = filter (\<lambda>(i, name). \<not> list_ex (\<lambda>e. li_widgetId e = i) l) availableWidgets"

definition custom_view :: "custom_data \<Rightarrow> custom_page \<Rightarrow> custom_msg view" where
  "custom_view d s =
     [label ''My Dashboard'', label ''Compose your own operations view with reusable widgets.'',
      button CdEdit [Txt (if cd_editMode s then ''Stop Editing'' else ''Edit Layout'')],
      button (CdPicker True) [icon ''Plus'', Txt ''Add Widget''], button CdReset [icon ''RotateCcw'', Txt ''Reset''],
      button CdSave [icon ''Save'', Txt ''Save Layout'']]
     @ map (widget_section d s) (rendered (cd_layout s))
     @ shown (cd_showPicker s)
         ([label ''Add Widget'', button (CdPicker False) [Txt ''Close'']]
          @ map (\<lambda>(i, name). button (CdAdd i) [label name, icon ''Plus'']) (pickable (cd_layout s)))"

fun custom_env :: "custom_page \<Rightarrow> custom_msg \<Rightarrow> bool" where
  "custom_env s CdMouseUp = (cd_dragging s \<noteq> None)"
| "custom_env s m = False"

abbreviation custom_run ::
  "(string \<Rightarrow> layout option) \<Rightarrow> (layout \<Rightarrow> string) \<Rightarrow> storage \<Rightarrow> custom_msg list \<Rightarrow> custom_page \<Rightarrow> bool" where
  "custom_run parse stringify st \<equiv> ui_run custom_view custom_env (custom_update stringify) (custom_init parse st)"

section \<open>Lemmas\<close>

text \<open>A layout the grid can show: every widget at most once, no wider than the grid, no higher than six rows.\<close>

definition layout_ok :: "layout \<Rightarrow> bool" where
  "layout_ok l \<longleftrightarrow> distinct (map li_widgetId l) \<and> list_all (\<lambda>e. 1 \<le> li_w e \<and> li_w e \<le> 12 \<and> 1 \<le> li_h e \<and> li_h e \<le> 6) l"

lemma default_layout_ok: "layout_ok defaultLayout"
  by (simp add: layout_ok_def defaultLayout_def widget_def)

lemma splice_perm:
  assumes "splice_out i xs = (Some x, rest)"
  shows "mset (splice_in j x rest) = mset xs"
proof -
  obtain k where k: "k < length xs" "x = xs ! k" "rest = take k xs @ drop (Suc k) xs"
    using assms by (auto simp: splice_out_def Let_def split: if_splits)
  have "mset (splice_in j x rest) = add_mset x (mset (take n rest) + mset (drop n rest))" if "n = (case j of None \<Rightarrow> length rest - 1 | Some n \<Rightarrow> n)" for n
    using that by (simp add: splice_in_def Let_def)
  then have "mset (splice_in j x rest) = add_mset x (mset rest)" by (metis append_take_drop_id mset_append)
  also have "\<dots> = mset (take k xs @ xs ! k # drop (Suc k) xs)" using k by simp
  also have "\<dots> = mset xs" using k(1) by (simp add: id_take_nth_drop[symmetric])
  finally show ?thesis .
qed

lemma layout_ok_mset: "mset l = mset l' \<Longrightarrow> layout_ok l = layout_ok l'"
  unfolding layout_ok_def list_all_iff by (metis mset_eq_setD mset_map mset_eq_imp_distinct_iff)

lemma drop_on_layout: "mset (cd_layout (drop_on i s)) = mset (cd_layout s)"
  by (auto simp: drop_on_def Let_def splice_perm split: option.splits prod.splits)

lemma layout_ok_step:
  assumes "layout_ok (cd_layout s)" "\<And>i. m = CdAdd i \<Longrightarrow> i \<notin> li_widgetId ` set (cd_layout s)"
  shows "layout_ok (cd_layout (custom_update stringify s m))"
proof (cases m)
  case (CdDrop i)
  then show ?thesis using assms(1) layout_ok_mset[OF drop_on_layout] by simp
next
  case (CdRemove i)
  then show ?thesis using assms(1) by (auto simp: layout_ok_def list_all_iff distinct_map_filter)
next
  case (CdResize i)
  have ids: "map li_widgetId (map (\<lambda>e. if li_widgetId e = i then grow e else e) l) = map li_widgetId l" for l
    by (simp add: grow_def)
  then show ?thesis using CdResize assms(1) unfolding layout_ok_def by (simp add: ids del: map_map) (auto simp: list_all_iff grow_def)
next
  case (CdAdd i)
  then show ?thesis using assms by (simp add: layout_ok_def widget_def)
qed (use assms(1) default_layout_ok in simp_all)

lemma add_offered: "offers (custom_view d s) (CdAdd i) \<Longrightarrow> i \<notin> li_widgetId ` set (cd_layout s)"
  by (auto simp: custom_view_def widget_section_def WidgetCard_def BigCount_def StatBlock_def device_line_def pickable_def
      list_ex_iff split: if_splits)

interpretation custom_dashboard:
  ui_page custom_view custom_env "custom_update stringify" "custom_init parse st" "\<lambda>ms s. layout_ok (readLayout parse st) \<longrightarrow> layout_ok (cd_layout s)"
proof unfold_locales
  show "layout_ok (readLayout parse st) \<longrightarrow> layout_ok (cd_layout (custom_init parse st))" by (simp add: custom_init_def)
  show "layout_ok (readLayout parse st) \<longrightarrow> layout_ok (cd_layout (custom_update stringify s m))"
    if "layout_ok (readLayout parse st) \<longrightarrow> layout_ok (cd_layout s)" "offers (custom_view d s) m" for s d m
    using that add_offered by (blast intro: layout_ok_step)
  show "layout_ok (readLayout parse st) \<longrightarrow> layout_ok (cd_layout (custom_update stringify s m))"
    if "layout_ok (readLayout parse st) \<longrightarrow> layout_ok (cd_layout s)" "custom_env s m" for s m
    using that layout_ok_step[of s m] by (cases m) auto
qed

section \<open>Properties\<close>

text \<open>C27. The grid stays well-formed: starting from a well-formed stored layout, or from none, in every run every
  widget is there at most once and no widget is larger than twelve columns by six rows; reordering by
  drag and drop only permutes the widgets.\<close>

theorem custom_layout_invariant:
  assumes "layout_ok (readLayout parse st)" "custom_run parse stringify st ms s"
  shows "layout_ok (cd_layout s) \<and> mset (cd_layout (custom_update stringify s (CdDrop i))) = mset (cd_layout s)"
  using custom_dashboard.run_inv[OF assms(2)] assms(1) drop_on_layout by simp

theorem custom_layout_invariant_witness:
  "\<exists>s. custom_run (\<lambda>t. None) (\<lambda>l. ''x'') Map.empty [CdEdit, CdResize ''alerts''] s \<and> layout_ok (cd_layout s)"
proof -
  let ?d = "\<lparr>cdd_devices = [], cdd_recentDevices = [], cdd_alerts = []\<rparr>"
  let ?i = "custom_init (\<lambda>t. None) Map.empty" let ?u = "custom_update (\<lambda>l. ''x'')"
  have r: "readLayout (\<lambda>t. None) Map.empty = defaultLayout" by (simp add: readLayout_def getItem_def)
  have "custom_run (\<lambda>t. None) (\<lambda>l. ''x'') Map.empty ([] @ [CdEdit]) (?u ?i CdEdit)"
    by (rule ui_run.user[OF ui_run.mount, where d = ?d]) (simp add: custom_view_def)
  then have run: "custom_run (\<lambda>t. None) (\<lambda>l. ''x'') Map.empty (([] @ [CdEdit]) @ [CdResize ''alerts'']) (?u (?u ?i CdEdit) (CdResize ''alerts''))"
    by (rule ui_run.user[where d = ?d])
      (simp add: custom_view_def custom_init_def r rendered_def defaultLayout_def widget_def availableWidgets_def widget_section_def)
  from custom_layout_invariant[OF _ run, unfolded r, OF default_layout_ok] run show ?thesis by auto
qed

text \<open>A saved layout comes back: when \<open>JSON.parse\<close> reads what \<open>JSON.stringify\<close> wrote, the page that is opened
  after saving has the layout that was saved, and after a reset it has the default layout, whatever was
  stored before.\<close>

theorem saved_layout_reloads:
  assumes "parse (stringify (cd_layout s)) = Some (cd_layout s)" "stringify (cd_layout s) \<noteq> []"
  shows "cd_layout (custom_init parse (cd_storage (custom_update stringify s CdSave))) = cd_layout s"
    and "cd_layout (custom_init parse (cd_storage (custom_update stringify s CdReset))) = defaultLayout"
  using assms by (simp_all add: custom_init_def readLayout_def saveLayout_def ls.get_put ls.get_del)

theorem saved_layout_reloads_witness:
  "let s = (custom_init (\<lambda>t. None) Map.empty)\<lparr>cd_layout := []\<rparr>;
       parse = (\<lambda>t. Some []); stringify = (\<lambda>l. ''[]'') in
   cd_layout (custom_init parse (cd_storage (custom_update stringify s CdSave))) = []"
  using saved_layout_reloads(1)[of "\<lambda>t. Some []" "\<lambda>l. ''[]''" "(custom_init (\<lambda>t. None) Map.empty)\<lparr>cd_layout := []\<rparr>"]
  by (simp add: Let_def)

end
