(* ===== verification/Reports.thy ===== *)
theory Reports
  imports Queries View JsSort JsNumber
begin

text \<open>
  \<open>frontend/src/pages/Reports.tsx\<close>: alert counts, uptime and pending updates over a range of dates. \<open>day_time\<close>
  is \<open>new Date(_).getTime()\<close> of a local date and time, \<open>iso_time\<close> is \<open>parseISO(_).getTime()\<close>, both \<open>None\<close> for
  an invalid date (\<open>NaN\<close>); \<open>lc\<close> is \<open>localeCompare\<close>, \<open>fmt\<close> is date-fns' \<open>format(parseISO(_), 'PPp')\<close>. The initial
  dates are the arguments of \<open>reports_init\<close>.
\<close>

definition ALERT_TYPES :: "string list" where
  "ALERT_TYPES = [''offline'', ''high_cpu'', ''high_ram'', ''disk_full'', ''crash'', ''time_drift'']"

record reports_page =
  rp_from :: string
  rp_to :: string
  rp_deviceId :: string
  rp_csv :: "(string \<times> string list \<times> string list list) list" \<comment> \<open>calls of \<open>exportToCSV\<close>\<close>
  rp_json :: "(string \<times> (string \<times> nat) list) list" \<comment> \<open>calls of \<open>exportToJSON\<close>\<close>

definition reports_init :: "string \<Rightarrow> string \<Rightarrow> reports_page" where
  "reports_init weekAgo today = \<lparr>rp_from = weekAgo, rp_to = today, rp_deviceId = ''all'', rp_csv = [], rp_json = []\<rparr>"

definition selectedDevices :: "device list \<Rightarrow> reports_page \<Rightarrow> device list" where
  "selectedDevices devices s = (if rp_deviceId s = ''all'' then devices else filter (\<lambda>d. d_id d = rp_deviceId s) devices)"

definition rangeStart :: "(string \<Rightarrow> int option) \<Rightarrow> reports_page \<Rightarrow> int option" where
  "rangeStart day_time s = day_time (rp_from s @ ''T00:00:00'')"

definition rangeEnd :: "(string \<Rightarrow> int option) \<Rightarrow> reports_page \<Rightarrow> int option" where
  "rangeEnd day_time s = day_time (rp_to s @ ''T23:59:59'')"

text \<open>The length of the range in milliseconds; \<open>None\<close> is \<open>NaN\<close>, which \<open>Math.max\<close> and \<open>Math.min\<close> pass on.\<close>

definition range_length :: "(string \<Rightarrow> int option) \<Rightarrow> reports_page \<Rightarrow> int option" where
  "range_length day_time s = (case (rangeStart day_time s, rangeEnd day_time s) of (Some a, Some b) \<Rightarrow> Some (b - a) | _ \<Rightarrow> None)"

definition report_hours :: "(string \<Rightarrow> int option) \<Rightarrow> reports_page \<Rightarrow> nat option" where
  "report_hours day_time s = map_option (\<lambda>len. nat (max 1 \<lceil>of_int len / 3600000 :: rat\<rceil>)) (range_length day_time s)"

definition report_metrics_request :: "string \<Rightarrow> nat option \<Rightarrow> request" where
  "report_metrics_request dev hours = (case hours of
     Some h \<Rightarrow> metrics_list dev (Some h)
   | None \<Rightarrow> api_get (''/devices/'' @ dev @ ''/metrics?hours=NaN'') [])"

definition reports_queries :: "(string \<Rightarrow> int option) \<Rightarrow> device list \<Rightarrow> reports_page \<Rightarrow> query list" where
  "reports_queries day_time devices s =
     (let sel = selectedDevices devices s; hours = report_hours day_time s in
      [\<lparr>q_key = [JStr ''devices'', JStr ''reports''], q_request = devices_list None None, q_interval = 0, q_enabled = True\<rparr>,
       \<lparr>q_key = [JStr ''alerts'', JStr ''reports'', JStr (rp_deviceId s)],
        q_request = alerts_list (if rp_deviceId s = ''all'' then None else Some (rp_deviceId s)) None None (Some 1000) None,
        q_interval = 0, q_enabled = True\<rparr>]
      @ map (\<lambda>d. \<lparr>q_key = [JStr ''reports'', JStr ''metrics'', JStr (d_id d), case hours of None \<Rightarrow> JNull | Some h \<Rightarrow> JInt (int h)],
           q_request = report_metrics_request (d_id d) hours, q_interval = 0, q_enabled = (length sel > 0)\<rparr>) sel
      @ map (\<lambda>d. \<lparr>q_key = [JStr ''reports'', JStr ''software'', JStr (d_id d)],
           q_request = api_get (''/devices/'' @ d_id d @ ''/software'') [], q_interval = 0, q_enabled = (length sel > 0)\<rparr>) sel)"

definition filteredAlerts ::
  "(string \<Rightarrow> int option) \<Rightarrow> (string \<Rightarrow> int option) \<Rightarrow> alert list \<Rightarrow> reports_page \<Rightarrow> alert list" where
  "filteredAlerts day_time iso_time alerts s =
     filter (\<lambda>a. case (iso_time (a_created_at a), rangeStart day_time s, rangeEnd day_time s) of
        (Some c, Some lo, Some hi) \<Rightarrow> lo \<le> c \<and> c \<le> hi | _ \<Rightarrow> False) alerts"

definition topAlerts :: "alert list \<Rightarrow> (string \<times> nat) list" where
  "topAlerts alerts = map (\<lambda>type. (type, length (filter (\<lambda>a. a_alert_type a = type) alerts))) ALERT_TYPES"

definition windowSeconds :: "int \<Rightarrow> rat" where
  "windowSeconds len = max 1 (of_int len / 1000)"

definition latestUptime :: "metric list \<Rightarrow> rat" where
  "latestUptime metrics = foldl (\<lambda>maximum m. max maximum (nullish (m_uptime_secs m) 0)) 0 metrics"

definition avgUptimePct :: "int \<Rightarrow> metric list \<Rightarrow> rat" where
  "avgUptimePct len metrics = min 100 (latestUptime metrics / windowSeconds len * 100)"

definition downtimeHours :: "int \<Rightarrow> metric list \<Rightarrow> rat" where
  "downtimeHours len metrics = (100 - avgUptimePct len metrics) / 100 * (windowSeconds len / 3600)"

definition lastOffline :: "(string \<Rightarrow> string \<Rightarrow> int) \<Rightarrow> device \<Rightarrow> alert list \<Rightarrow> alert option" where
  "lastOffline lc device alerts =
     (case js_sort (\<lambda>left right. lc (a_created_at right) (a_created_at left))
        (filter (\<lambda>a. a_device_id a = d_id device \<and> a_alert_type a = ''offline'') alerts) of
      [] \<Rightarrow> None | a # _ \<Rightarrow> Some a)"

definition uptime_row ::
  "(string \<Rightarrow> string) \<Rightarrow> (string \<Rightarrow> string \<Rightarrow> int) \<Rightarrow> int option \<Rightarrow> alert list \<Rightarrow> device \<times> metric list \<Rightarrow> string list" where
  "uptime_row fmt lc len alerts dm =
     [nullish (d_label (fst dm)) (d_hostname (fst dm)),
      (case len of None \<Rightarrow> ''NaN'' | Some l \<Rightarrow> to_fixed 1 (avgUptimePct l (snd dm))) @ ''%'',
      (case len of None \<Rightarrow> ''NaN'' | Some l \<Rightarrow> to_fixed 1 (downtimeHours l (snd dm))),
      (case lastOffline lc (fst dm) alerts of
         None \<Rightarrow> ''Never'' | Some a \<Rightarrow> if a_created_at a = [] then ''Never'' else fmt (a_created_at a))]"

text \<open>The aggregation of pending updates in a \<open>Map\<close> by package, with sets of device names and versions.\<close>

record aggregate =
  ag_software_name :: string
  ag_devices :: "string list"
  ag_versions :: "string list"

definition add_to_set :: "'a \<Rightarrow> 'a list \<Rightarrow> 'a list" where
  "add_to_set x xs = (if x \<in> set xs then xs else xs @ [x])"

definition agg_visit :: "string \<Rightarrow> software_package \<Rightarrow> aggregate \<Rightarrow> aggregate" where
  "agg_visit name pkg e =
     e\<lparr>ag_devices := add_to_set name (ag_devices e),
       ag_versions := (if truthy (sp_version pkg) then add_to_set (the (sp_version pkg)) (ag_versions e) else ag_versions e)\<rparr>"

fun agg_add :: "aggregate list \<Rightarrow> string \<times> software_package \<Rightarrow> aggregate list" where
  "agg_add [] (name, pkg) = [agg_visit name pkg \<lparr>ag_software_name = sp_name pkg, ag_devices = [], ag_versions = []\<rparr>]"
| "agg_add (e # es) (name, pkg) =
     (if ag_software_name e = sp_name pkg then agg_visit name pkg e # es else e # agg_add es (name, pkg))"

definition pending_packages :: "(device \<times> software_package list) list \<Rightarrow> (string \<times> software_package) list" where
  "pending_packages inventory =
     concat (map (\<lambda>(d, pkgs). map (\<lambda>p. (nullish (d_label d) (d_hostname d), p)) (filter sp_update_available pkgs)) inventory)"

definition aggregated :: "(device \<times> software_package list) list \<Rightarrow> aggregate list" where
  "aggregated inventory = foldl agg_add [] (pending_packages inventory)"

definition softwareRows :: "(device \<times> software_package list) list \<Rightarrow> string list list" where
  "softwareRows inventory =
     map (\<lambda>e. [ag_software_name e, nat_str (length (ag_devices e)), or_else (Some (join '', '' (ag_versions e))) ''Unknown''])
       (aggregated inventory)"

section \<open>State and view\<close>

datatype reports_msg =
    RpFrom string | RpTo string | RpDevice string
  | RpJson string "(string \<times> nat) list" | RpCsv string "string list" "string list list"

fun reports_update :: "reports_page \<Rightarrow> reports_msg \<Rightarrow> reports_page" where
  "reports_update s (RpFrom v) = s\<lparr>rp_from := v\<rparr>"
| "reports_update s (RpTo v) = s\<lparr>rp_to := v\<rparr>"
| "reports_update s (RpDevice v) = s\<lparr>rp_deviceId := v\<rparr>"
| "reports_update s (RpJson name rows) = s\<lparr>rp_json := rp_json s @ [(name, rows)]\<rparr>"
| "reports_update s (RpCsv name hs rows) = s\<lparr>rp_csv := rp_csv s @ [(name, hs, rows)]\<rparr>"

definition DataTable :: "string list \<Rightarrow> string list list \<Rightarrow> string \<Rightarrow> 'm view" where
  "DataTable hs rows emptyLabel =
     headings hs @ (if rows \<noteq> [] then map (\<lambda>r. row (map (\<lambda>cell. label cell) r)) rows else [label emptyLabel])"

record reports_data =
  rpd_devices :: "device list"
  rpd_alerts :: "alert list"
  rpd_metrics :: "string \<Rightarrow> metric list" \<comment> \<open>the data of the query of a device, \<open>[]\<close> while absent\<close>
  rpd_software :: "string \<Rightarrow> software_package list"

definition uptime_headers :: "string list" where
  "uptime_headers = [''Device'', ''Avg Uptime %'', ''Downtime Hours'', ''Last Offline Event'']"

definition software_headers :: "string list" where
  "software_headers = [''Software Name'', ''Affected Devices'', ''Current Versions Seen'']"

definition reports_view ::
  "(string \<Rightarrow> int option) \<Rightarrow> (string \<Rightarrow> int option) \<Rightarrow> (string \<Rightarrow> string) \<Rightarrow> (string \<Rightarrow> string \<Rightarrow> int)
   \<Rightarrow> reports_data \<Rightarrow> reports_page \<Rightarrow> reports_msg view" where
  "reports_view day_time iso_time fmt lc d s =
     (let sel = selectedDevices (rpd_devices d) s;
          alerts = filteredAlerts day_time iso_time (rpd_alerts d) s;
          uptimeRows = map (\<lambda>dev. uptime_row fmt lc (range_length day_time s) alerts (dev, rpd_metrics d (d_id dev))) sel;
          software = softwareRows (map (\<lambda>dev. (dev, rpd_software d (d_id dev))) sel)
      in [label ''Reports'', label ''Historical summaries across alerts, uptime, and pending software updates.'',
          El ''input'' [(''type'', ''date''), (''value'', rp_from s)] [(''onChange'', RpFrom)] [],
          El ''input'' [(''type'', ''date''), (''value'', rp_to s)] [(''onChange'', RpTo)] [],
          select_field (rp_deviceId s) RpDevice
            ((''all'', ''All devices'') # map (\<lambda>dev. (d_id dev, nullish (d_label dev) (d_hostname dev))) (rpd_devices d)),
          label ''Top Alerts'', button (RpJson ''top-alerts.json'' (topAlerts alerts)) [Txt ''Export JSON''],
          El ''BarChart'' [(''dataKey'', ''count'')] []
            (map (\<lambda>(type, n). El ''bar'' [(''type'', type), (''count'', nat_str n)] [] []) (topAlerts alerts)),
          label ''Uptime Summary'', button (RpCsv ''uptime-summary.csv'' uptime_headers uptimeRows) [Txt ''Export CSV'']]
         @ DataTable uptime_headers uptimeRows ''No uptime data''
         @ [label ''Software Updates Pending'', button (RpCsv ''software-updates.csv'' software_headers software) [Txt ''Export CSV'']]
         @ DataTable software_headers software ''No pending software updates'')"

section \<open>Lemmas\<close>

lemma latestUptime_nonneg: "0 \<le> latestUptime metrics"
proof -
  have "0 \<le> foldl (\<lambda>maximum m. max maximum (nullish (m_uptime_secs m) 0)) a metrics" if "0 \<le> a" for a :: rat
    using that by (induction metrics arbitrary: a) (simp_all add: le_max_iff_disj)
  then show ?thesis by (simp add: latestUptime_def)
qed

text \<open>The specification of the aggregation: per package, the device names and the versions of its updates.\<close>

definition spec_entry :: "(string \<times> software_package) list \<Rightarrow> string \<Rightarrow> aggregate" where
  "spec_entry ps k =
     (let mine = filter (\<lambda>(n, p). sp_name p = k) ps
      in \<lparr>ag_software_name = k, ag_devices = unique (map fst mine),
          ag_versions = unique (map (\<lambda>(n, p). the (sp_version p)) (filter (\<lambda>(n, p). truthy (sp_version p)) mine))\<rparr>)"

lemma spec_entry_name [simp]: "ag_software_name (spec_entry ps k) = k"
  by (simp add: spec_entry_def Let_def)

lemma add_to_set_unique: "add_to_set x (unique xs) = unique (xs @ [x])"
  by (simp add: add_to_set_def)

lemma spec_entry_snoc:
  "spec_entry (ps @ [(name, pkg)]) k = (if k = sp_name pkg then agg_visit name pkg (spec_entry ps k) else spec_entry ps k)"
  by (auto simp: spec_entry_def Let_def agg_visit_def add_to_set_unique)

lemma agg_add_map:
  assumes "distinct ks"
  shows "agg_add (map (spec_entry ps) ks) (name, pkg) =
    map (\<lambda>k. if k = sp_name pkg then agg_visit name pkg (spec_entry ps k) else spec_entry ps k) ks
    @ (if sp_name pkg \<in> set ks then []
       else [agg_visit name pkg \<lparr>ag_software_name = sp_name pkg, ag_devices = [], ag_versions = []\<rparr>])"
  using assms
proof (induction ks)
  case (Cons k ks)
  have "map (\<lambda>j. if j = sp_name pkg then agg_visit name pkg (spec_entry ps j) else spec_entry ps j) ks = map (spec_entry ps) ks"
    if "sp_name pkg \<notin> set ks"
    using that by (intro map_cong) auto
  with Cons show ?case by auto
qed simp

lemma aggregate_spec: "foldl agg_add [] ps = map (spec_entry ps) (unique (map (\<lambda>(n, p). sp_name p) ps))"
proof (induction ps rule: rev_induct)
  case (snoc q ps)
  obtain name pkg where q: "q = (name, pkg)" by (cases q)
  let ?ks = "unique (map (\<lambda>(n, p). sp_name p) ps)"
  have new: "spec_entry ps (sp_name pkg) = \<lparr>ag_software_name = sp_name pkg, ag_devices = [], ag_versions = []\<rparr>"
    if "sp_name pkg \<notin> set ?ks"
  proof -
    have "filter (\<lambda>(n, p). sp_name p = sp_name pkg) ps = []"
      using that by (force simp: filter_empty_conv)
    then show ?thesis by (simp add: spec_entry_def)
  qed
  show ?case
    unfolding q using snoc new by (auto simp: agg_add_map[OF distinct_unique] spec_entry_snoc intro!: map_cong)
qed simp

text \<open>The versions a package contributes: its version, when it is known.\<close>

definition known_version :: "software_package \<Rightarrow> string list" where
  "known_version p = (case sp_version p of None \<Rightarrow> [] | Some v \<Rightarrow> if v = [] then [] else [v])"

lemma pending_collect:
  "concat (map f (pending_packages inventory)) =
     concat (map (\<lambda>(d, pkgs). concat (map (\<lambda>p. if sp_update_available p then f (nullish (d_label d) (d_hostname d), p) else []) pkgs)) inventory)"
proof (induction inventory)
  case (Cons x inventory)
  obtain d pkgs where x: "x = (d, pkgs)" by (cases x)
  have "concat (map f (map (\<lambda>p. (name, p)) (filter sp_update_available pkgs))) =
      concat (map (\<lambda>p. if sp_update_available p then f (name, p) else []) pkgs)" for name
    by (induction pkgs) auto
  with Cons show ?case by (simp add: pending_packages_def x)
qed (simp add: pending_packages_def)

lemma pending_packages_set:
  "(n, p) \<in> set (pending_packages inventory) \<longleftrightarrow>
     (\<exists>d pkgs. (d, pkgs) \<in> set inventory \<and> p \<in> set pkgs \<and> sp_update_available p \<and> n = nullish (d_label d) (d_hostname d))"
proof (induction inventory)
  case (Cons x inventory)
  obtain d pkgs where "x = (d, pkgs)" by (cases x)
  moreover have "pending_packages (x # inventory) = pending_packages [x] @ pending_packages inventory"
    by (simp add: pending_packages_def)
  moreover have "(n, p) \<in> set (pending_packages [(d, pkgs)]) \<longleftrightarrow>
      p \<in> set pkgs \<and> sp_update_available p \<and> n = nullish (d_label d) (d_hostname d)"
    by (auto simp: pending_packages_def)
  ultimately show ?case using Cons by auto
qed (simp add: pending_packages_def)

lemma spec_entry_devices:
  "length (ag_devices (spec_entry (pending_packages inventory) k)) =
     card {n. \<exists>d pkgs p. (d, pkgs) \<in> set inventory \<and> p \<in> set pkgs \<and> sp_update_available p \<and> sp_name p = k
           \<and> n = (case d_label d of Some l \<Rightarrow> l | None \<Rightarrow> d_hostname d)}"
proof -
  have c: "(case x of Some l \<Rightarrow> l | None \<Rightarrow> y) = nullish x y" for x and y :: string by (cases x) simp_all
  have "set (ag_devices (spec_entry (pending_packages inventory) k)) =
      {n. \<exists>p. (n, p) \<in> set (pending_packages inventory) \<and> sp_name p = k}"
    by (force simp: spec_entry_def Let_def)
  also have "\<dots> = {n. \<exists>d pkgs p. (d, pkgs) \<in> set inventory \<and> p \<in> set pkgs \<and> sp_update_available p \<and> sp_name p = k
           \<and> n = (case d_label d of Some l \<Rightarrow> l | None \<Rightarrow> d_hostname d)}"
    unfolding pending_packages_set c by blast
  finally have "set (ag_devices (spec_entry (pending_packages inventory) k)) = \<dots>" .
  moreover have "distinct (ag_devices (spec_entry (pending_packages inventory) k))" by (simp add: spec_entry_def Let_def)
  ultimately show ?thesis using distinct_card by metis
qed

lemma spec_entry_versions:
  "ag_versions (spec_entry (pending_packages inventory) k) =
     unique [v. (d, pkgs) \<leftarrow> inventory, p \<leftarrow> pkgs, sp_update_available p \<and> sp_name p = k, v \<leftarrow> known_version p]"
proof -
  have "known_version p = (if truthy (sp_version p) then [the (sp_version p)] else [])" for p
    by (auto simp: known_version_def truthy_def split: option.split)
  then have "map (\<lambda>(n, p). the (sp_version p)) (filter (\<lambda>(n, p). truthy (sp_version p)) (filter (\<lambda>(n, p). sp_name p = k) ps)) =
      concat (map (\<lambda>(n, p). if sp_name p = k then known_version p else []) ps)" for ps :: "(string \<times> software_package) list"
    by (induction ps) (simp_all add: split_def)
  then have "ag_versions (spec_entry (pending_packages inventory) k) =
      unique (concat (map (\<lambda>(n, p). if sp_name p = k then known_version p else []) (pending_packages inventory)))"
    by (simp add: spec_entry_def Let_def)
  also have "\<dots> = unique (concat (map (\<lambda>(d, pkgs). concat (map (\<lambda>p. if sp_update_available p then
       (if sp_name p = k then known_version p else []) else []) pkgs)) inventory))"
    unfolding pending_collect case_prod_conv by (rule refl)
  also have "\<dots> = unique [v. (d, pkgs) \<leftarrow> inventory, p \<leftarrow> pkgs, sp_update_available p \<and> sp_name p = k, v \<leftarrow> known_version p]"
    by (intro arg_cong[of _ _ unique] arg_cong[of _ _ concat] map_cong refl) (auto intro!: arg_cong[of _ _ concat] map_cong)
  finally show ?thesis .
qed

lemma or_else_versions:
  "or_else (Some (join '', '' (unique [v. (d, pkgs) \<leftarrow> inventory, p \<leftarrow> pkgs, P p, v \<leftarrow> known_version p]))) ''Unknown'' =
     (let vs = unique [v. (d, pkgs) \<leftarrow> inventory, p \<leftarrow> pkgs, P p, v \<leftarrow> known_version p] in if vs = [] then ''Unknown'' else join '', '' vs)"
proof -
  have "join '', '' vs = [] \<longleftrightarrow> vs = []" if "[] \<notin> set vs" for vs
    using that by (induction "'', ''" vs rule: join.induct) auto
  moreover have "[] \<notin> set (unique [v. (d, pkgs) \<leftarrow> inventory, p \<leftarrow> pkgs, P p, v \<leftarrow> known_version p])"
    by (auto simp: known_version_def split: option.splits if_splits)
  ultimately show ?thesis by (simp add: or_else_def truthy_def Let_def)
qed

section \<open>Properties\<close>

text \<open>The uptime figures are in range: whatever the metrics, the percentage of a device is between 0 and 100
  and the hours of downtime are between 0 and the length of the window.\<close>

theorem report_uptime_bounds:
  "0 \<le> avgUptimePct len metrics \<and> avgUptimePct len metrics \<le> 100
   \<and> 0 \<le> downtimeHours len metrics \<and> downtimeHours len metrics \<le> windowSeconds len / 3600"
proof -
  have w: "1 \<le> windowSeconds len" by (simp add: windowSeconds_def)
  then have "0 \<le> latestUptime metrics / windowSeconds len * 100" using latestUptime_nonneg[of metrics] by simp
  then have p: "0 \<le> avgUptimePct len metrics" "avgUptimePct len metrics \<le> 100" by (simp_all add: avgUptimePct_def)
  then have f: "0 \<le> (100 - avgUptimePct len metrics) / 100" "(100 - avgUptimePct len metrics) / 100 \<le> 1" by simp_all
  have h: "0 \<le> windowSeconds len / 3600" using w by simp
  have "0 \<le> downtimeHours len metrics" unfolding downtimeHours_def by (rule mult_nonneg_nonneg[OF f(1) h])
  moreover have "downtimeHours len metrics \<le> windowSeconds len / 3600"
    unfolding downtimeHours_def using mult_right_mono[OF f(2) h] by simp
  ultimately show ?thesis using p by blast
qed

text \<open>C36. The software report is exact, and its export is the table: one row per package that has a pending update on a
  device of the report, in the order of first occurrence, with the number of different device names (the label
  of a device, its host name without one) on which an update of the package is pending, and the different
  versions seen there, or "Unknown" when no version is known. The devices of the report are all, or the chosen one.\<close>

theorem software_report_exact:
  "softwareRows inventory =
     map (\<lambda>k. [k,
         nat_str (card {n. \<exists>d pkgs p. (d, pkgs) \<in> set inventory \<and> p \<in> set pkgs \<and> sp_update_available p \<and> sp_name p = k
           \<and> n = (case d_label d of Some l \<Rightarrow> l | None \<Rightarrow> d_hostname d)}),
         let vs = unique [v. (d, pkgs) \<leftarrow> inventory, p \<leftarrow> pkgs, sp_update_available p \<and> sp_name p = k, v \<leftarrow> known_version p]
         in if vs = [] then ''Unknown'' else join '', '' vs])
       (unique [sp_name p. (d, pkgs) \<leftarrow> inventory, p \<leftarrow> pkgs, sp_update_available p])
   \<and> offers (reports_view day_time iso_time fmt lc data s)
       (RpCsv ''software-updates.csv'' [''Software Name'', ''Affected Devices'', ''Current Versions Seen'']
         (softwareRows (map (\<lambda>dev. (dev, rpd_software data (d_id dev)))
            (filter (\<lambda>dev. rp_deviceId s = ''all'' \<or> d_id dev = rp_deviceId s) (rpd_devices data)))))"
proof
  let ?ps = "pending_packages inventory"
  have names: "unique (map (\<lambda>(n, p). sp_name p) ?ps) = unique [sp_name p. (d, pkgs) \<leftarrow> inventory, p \<leftarrow> pkgs, sp_update_available p]"
  proof -
    have "map (\<lambda>(n, p). sp_name p) ps = concat (map (\<lambda>(n, p). [sp_name p]) ps)" for ps :: "(string \<times> software_package) list"
      by (induction ps) auto
    then show ?thesis unfolding pending_collect case_prod_conv by (simp only: pending_collect case_prod_conv)
  qed
  show "softwareRows inventory =
     map (\<lambda>k. [k,
         nat_str (card {n. \<exists>d pkgs p. (d, pkgs) \<in> set inventory \<and> p \<in> set pkgs \<and> sp_update_available p \<and> sp_name p = k
           \<and> n = (case d_label d of Some l \<Rightarrow> l | None \<Rightarrow> d_hostname d)}),
         let vs = unique [v. (d, pkgs) \<leftarrow> inventory, p \<leftarrow> pkgs, sp_update_available p \<and> sp_name p = k, v \<leftarrow> known_version p]
         in if vs = [] then ''Unknown'' else join '', '' vs])
       (unique [sp_name p. (d, pkgs) \<leftarrow> inventory, p \<leftarrow> pkgs, sp_update_available p])"
    unfolding softwareRows_def aggregated_def aggregate_spec names map_map comp_def
      spec_entry_devices spec_entry_versions spec_entry_name or_else_versions by (rule refl)
  have sel: "selectedDevices (rpd_devices data) s = filter (\<lambda>dev. rp_deviceId s = ''all'' \<or> d_id dev = rp_deviceId s) (rpd_devices data)"
    by (simp add: selectedDevices_def)
  show "offers (reports_view day_time iso_time fmt lc data s)
       (RpCsv ''software-updates.csv'' [''Software Name'', ''Affected Devices'', ''Current Versions Seen'']
         (softwareRows (map (\<lambda>dev. (dev, rpd_software data (d_id dev)))
            (filter (\<lambda>dev. rp_deviceId s = ''all'' \<or> d_id dev = rp_deviceId s) (rpd_devices data)))))"
    unfolding sel[symmetric] by (simp add: reports_view_def Let_def software_headers_def)
qed

text \<open>
  A cleared date is not checked: the page asks for the metrics of \<open>NaN\<close> hours and shows \<open>NaN\<close>. The metrics
  request carries only the length of the range, so a range that ends in the past reads the wrong hours.
\<close>

lemma cleared_date_nan:
  assumes "day_time ''T00:00:00'' = None"
  shows "report_hours day_time (reports_update s (RpFrom [])) = None"
    and "rq_path (report_metrics_request dev None) = ''/devices/'' @ dev @ ''/metrics?hours=NaN''"
  using assms by (simp_all add: report_hours_def range_length_def rangeStart_def report_metrics_request_def mk_request_def)

end
