(* ===== verification/CommandLibrary.thy ===== *)
theory CommandLibrary
  imports CommandPanel JsSort
begin

text \<open>
  \<open>frontend/src/pages/CommandLibrary.tsx\<close>: the saved commands with a form to create or edit one and a dialog
  to run one on a device. \<open>lc\<close> is \<open>localeCompare\<close>.
\<close>

record command_form =
  cf_name :: string
  cf_description :: string
  cf_command_type :: string
  cf_payload :: "(string \<times> json) list"
  cf_is_global :: bool
  cf_device_id :: "string option"

definition emptyForm :: command_form where
  "emptyForm = \<lparr>cf_name = [], cf_description = [], cf_command_type = ''shell'', cf_payload = [(''command'', JStr [])],
     cf_is_global = False, cf_device_id = None\<rparr>"

datatype editing = EditNew | EditSaved saved_command

record library_page =
  lib_editing :: "editing option"
  lib_form :: command_form
  lib_runCommand :: "saved_command option"
  lib_runDevice :: string
  lib_sent :: "request list"

definition library_init :: library_page where
  "library_init = \<lparr>lib_editing = None, lib_form = emptyForm, lib_runCommand = None, lib_runDevice = [], lib_sent = []\<rparr>"

definition library_queries :: "query list" where
  "library_queries =
     [\<lparr>q_key = [JStr ''saved-commands''], q_request = saved_list, q_interval = 0, q_enabled = True\<rparr>,
      \<lparr>q_key = [JStr ''devices'', JStr ''library''], q_request = devices_list None None, q_interval = 0, q_enabled = True\<rparr>]"

definition form_body :: "command_form \<Rightarrow> (string \<times> json) list" where
  "form_body f =
     [(''name'', JStr (cf_name f)), (''description'', JNullable (or_null (cf_description f))),
      (''command_type'', JStr (cf_command_type f)), (''payload'', JObj (cf_payload f)), (''is_global'', JBool (cf_is_global f)),
      (''device_id'', JNullable (cf_device_id f))]"

definition upsert :: "library_page \<Rightarrow> mutation" where
  "upsert s =
     \<lparr>mu_request = (case lib_editing s of
         Some (EditSaved c) \<Rightarrow> saved_update (sv_id c) (form_body (lib_form s))
       | _ \<Rightarrow> saved_create (form_body (lib_form s))),
      mu_invalidates = [[JStr ''saved-commands'']]\<rparr>"

definition form_of :: "saved_command \<Rightarrow> command_form" where
  "form_of c = \<lparr>cf_name = sv_name c, cf_description = nullish (sv_description c) [], cf_command_type = sv_command_type c,
     cf_payload = sv_payload c, cf_is_global = sv_is_global c, cf_device_id = sv_device_id c\<rparr>"

datatype library_msg =
    LibNew | LibEdit saved_command | LibClose
  | LibName string | LibDescription string | LibType string | LibCommand string | LibGlobal bool
  | LibSave | LibSaved
  | LibDelete string
  | LibRun saved_command | LibRunDevice string | LibRunClose | LibRunNow

definition set_lib :: "(command_form \<Rightarrow> command_form) \<Rightarrow> library_page \<Rightarrow> library_page" where
  "set_lib f s = s\<lparr>lib_form := f (lib_form s)\<rparr>"

fun library_update :: "library_page \<Rightarrow> library_msg \<Rightarrow> library_page" where
  "library_update s LibNew = s\<lparr>lib_editing := Some EditNew\<rparr>"
| "library_update s (LibEdit c) = s\<lparr>lib_editing := Some (EditSaved c), lib_form := form_of c\<rparr>"
| "library_update s LibClose = s\<lparr>lib_editing := None, lib_form := emptyForm\<rparr>"
| "library_update s (LibName v) = set_lib (\<lambda>f. f\<lparr>cf_name := v\<rparr>) s"
| "library_update s (LibDescription v) = set_lib (\<lambda>f. f\<lparr>cf_description := v\<rparr>) s"
| "library_update s (LibType v) = set_lib (\<lambda>f. f\<lparr>cf_command_type := v\<rparr>) s"
| "library_update s (LibCommand v) = set_lib (\<lambda>f. f\<lparr>cf_payload := [(''command'', JStr v)]\<rparr>) s"
| "library_update s (LibGlobal b) = set_lib (\<lambda>f. f\<lparr>cf_is_global := b\<rparr>) s"
| "library_update s LibSave = s\<lparr>lib_sent := lib_sent s @ [mu_request (upsert s)]\<rparr>"
| "library_update s LibSaved = s\<lparr>lib_editing := None, lib_form := emptyForm\<rparr>"
| "library_update s (LibDelete i) = s\<lparr>lib_sent := lib_sent s @ [saved_delete i]\<rparr>"
| "library_update s (LibRun c) = s\<lparr>lib_runCommand := Some c\<rparr>"
| "library_update s (LibRunDevice v) = s\<lparr>lib_runDevice := v\<rparr>"
| "library_update s LibRunClose = s\<lparr>lib_runCommand := None, lib_runDevice := []\<rparr>"
| "library_update s LibRunNow = (case lib_runCommand s of
     None \<Rightarrow> s
   | Some c \<Rightarrow> s\<lparr>lib_sent := lib_sent s @ [commands_dispatch (lib_runDevice s) (sv_command_type c) (sv_payload c)]\<rparr>)"

definition sorted_commands :: "(string \<Rightarrow> string \<Rightarrow> int) \<Rightarrow> saved_command list \<Rightarrow> saved_command list" where
  "sorted_commands lc commands = js_sort (\<lambda>a b. lc (sv_name a) (sv_name b)) commands"

definition library_row :: "saved_command \<Rightarrow> library_msg node" where
  "library_row c =
     row [label (sv_name c), label (sv_command_type c), label (nullish (sv_description c) em_dash),
          label (if sv_is_global c then ''Yes'' else ''No''), label (nullish (sv_created_by c) em_dash),
          button (LibEdit c) [Txt ''Edit''], button (LibRun c) [icon ''Play'', Txt ''Run''], button (LibDelete (sv_id c)) [Txt ''Delete'']]"

definition Modal :: "string \<Rightarrow> 'm \<Rightarrow> 'm view \<Rightarrow> 'm node" where
  "Modal title close children = box ([icon ''BookOpen'', label title, button close [Txt ''Close'']] @ children)"

definition edit_modal :: "editing \<Rightarrow> command_form \<Rightarrow> library_msg node" where
  "edit_modal e f =
     Modal (if e = EditNew then ''New Saved Command'' else ''Edit Saved Command'') LibClose
       ([input_field (cf_name f) LibName, input_field (cf_description f) LibDescription,
         select_field (cf_command_type f) LibType
           [(''shell'', ''Shell''), (''update_check'', ''Check Updates''), (''reboot'', ''Reboot''), (''sync_time'', ''Sync Time''),
            (''diagnostics'', ''Diagnostics'')]]
        @ shown (cf_command_type f = ''shell'')
            [El ''textarea'' [(''value'', case map_of (cf_payload f) ''command'' of None \<Rightarrow> [] | Some JNull \<Rightarrow> [] | Some j \<Rightarrow> js_string j)]
               [(''onChange'', LibCommand)] []]
        @ [checkbox (cf_is_global f) (LibGlobal (\<not> cf_is_global f)), label ''Global command'',
           button LibClose [Txt ''Cancel''], button LibSave [Txt ''Save'']])"

definition run_modal :: "device list \<Rightarrow> string \<Rightarrow> library_msg node" where
  "run_modal devices deviceId =
     Modal ''Run Saved Command'' LibRunClose
       [select_field deviceId LibRunDevice
          (([], ''Select device'') # map (\<lambda>d. (d_id d, nullish (d_label d) (d_hostname d))) devices),
        button LibRunClose [Txt ''Cancel''], button_if (deviceId = []) LibRunNow [Txt ''Run Command'']]"

definition library_page_view ::
  "(string \<Rightarrow> string \<Rightarrow> int) \<Rightarrow> saved_command list \<times> device list \<Rightarrow> library_page \<Rightarrow> library_msg view" where
  "library_page_view lc d s =
     [label ''Command Library'', label ''Reusable saved commands for faster remote operations.'',
      button LibNew [icon ''Plus'', Txt ''New Command'']]
     @ headings [''Name'', ''Type'', ''Description'', ''Global'', ''Created By'', ''Actions'']
     @ map library_row (sorted_commands lc (fst d))
     @ (case lib_editing s of None \<Rightarrow> [] | Some e \<Rightarrow> [edit_modal e (lib_form s)])
     @ (case lib_runCommand s of None \<Rightarrow> [] | Some c \<Rightarrow> [run_modal (snd d) (lib_runDevice s)])"

section \<open>Lemmas\<close>

text \<open>A description as the server stores it: absent rather than empty.\<close>

definition normal_description :: "saved_command \<Rightarrow> bool" where
  "normal_description c \<longleftrightarrow> sv_description c \<noteq> Some []"

lemma form_body_of:
  "normal_description c \<Longrightarrow> form_body (form_of c) =
     [(''name'', JStr (sv_name c)), (''description'', JNullable (sv_description c)), (''command_type'', JStr (sv_command_type c)),
      (''payload'', JObj (sv_payload c)), (''is_global'', JBool (sv_is_global c)), (''device_id'', JNullable (sv_device_id c))]"
  by (cases "sv_description c") (auto simp: form_body_def form_of_def normal_description_def or_null_def JNullable_def)

section \<open>Properties\<close>

text \<open>Editing without a change changes nothing: opening a saved command and saving it sends its own name,
  description, type, payload, visibility and device back to its own address, and closing the dialog or the
  answer of the server leaves an empty form for the next command. A command runs only on a chosen device,
  with the type and payload it was saved with.\<close>

theorem library_edit_roundtrip:
  assumes "normal_description c"
  shows "lib_sent (foldl library_update s [LibEdit c, LibSave]) = lib_sent s @ [saved_update (sv_id c)
      [(''name'', JStr (sv_name c)), (''description'', JNullable (sv_description c)), (''command_type'', JStr (sv_command_type c)),
       (''payload'', JObj (sv_payload c)), (''is_global'', JBool (sv_is_global c)), (''device_id'', JNullable (sv_device_id c))]]"
    and "lib_form (library_update s LibClose) = emptyForm \<and> lib_form (library_update s LibSaved) = emptyForm"
    and "offers (library_page_view lc d s) LibRunNow \<Longrightarrow> \<exists>r. lib_runCommand s = Some r \<and> lib_runDevice s \<noteq> []
      \<and> lib_sent (library_update s LibRunNow) = lib_sent s @ [commands_dispatch (lib_runDevice s) (sv_command_type r) (sv_payload r)]"
proof -
  show "lib_sent (foldl library_update s [LibEdit c, LibSave]) = lib_sent s @ [saved_update (sv_id c)
      [(''name'', JStr (sv_name c)), (''description'', JNullable (sv_description c)), (''command_type'', JStr (sv_command_type c)),
       (''payload'', JObj (sv_payload c)), (''is_global'', JBool (sv_is_global c)), (''device_id'', JNullable (sv_device_id c))]]"
    using form_body_of[OF assms] by (simp add: upsert_def)
  show "lib_form (library_update s LibClose) = emptyForm \<and> lib_form (library_update s LibSaved) = emptyForm" by simp
  show "\<exists>r. lib_runCommand s = Some r \<and> lib_runDevice s \<noteq> []
      \<and> lib_sent (library_update s LibRunNow) = lib_sent s @ [commands_dispatch (lib_runDevice s) (sv_command_type r) (sv_payload r)]"
    if "offers (library_page_view lc d s) LibRunNow"
    using that
    by (auto simp: library_page_view_def library_row_def edit_modal_def run_modal_def Modal_def split: option.splits if_splits)
qed

definition sample_command :: saved_command where
  "sample_command = \<lparr>sv_id = ''5'', sv_name = ''n'', sv_description = None, sv_command_type = ''reboot'', sv_payload = [],
     sv_is_global = True, sv_created_by = None, sv_device_id = None, sv_created_at = None\<rparr>"

theorem library_edit_roundtrip_witness:
  "\<exists>body. lib_sent (foldl library_update library_init [LibEdit sample_command, LibSave]) = [saved_update ''5'' body]
     \<and> map_of body ''name'' = Some (JStr ''n'')"
proof -
  have "normal_description sample_command" by (simp add: normal_description_def sample_command_def)
  from library_edit_roundtrip(1)[OF this, of library_init] show ?thesis
    by (intro exI[of _ "[(''name'', JStr ''n''), (''description'', JNullable None), (''command_type'', JStr ''reboot''), (''payload'', JObj []),
        (''is_global'', JBool True), (''device_id'', JNullable None)]"] conjI)
      (simp_all add: sample_command_def library_init_def del: library_update.simps)
qed

text \<open>
  Choosing another type keeps the payload of the old one: a saved shell command that is turned into a
  reboot is saved with the shell text as the payload of the reboot.
\<close>

lemma type_change_keeps_payload:
  "cf_payload (lib_form (library_update s (LibType v))) = cf_payload (lib_form s)"
  by (simp add: set_lib_def)

end
