(* ===== verification/NetworkMap.thy ===== *)
theory NetworkMap
  imports Queries View JsSort
begin

text \<open>
  \<open>frontend/src/pages/NetworkMap.tsx\<close> and \<open>frontend/src/pages/Status.tsx\<close>. The map places the devices around the
  server, one circle per subnet. Coordinates are reals (\<open>Math.cos\<close>, \<open>Math.sin\<close>, \<open>Math.PI\<close>); \<open>show_real\<close> prints
  them. \<open>ago\<close> is date-fns' relative time.
\<close>

section \<open>NetworkMap.tsx\<close>

definition subnetOf :: "string option \<Rightarrow> string" where
  "subnetOf ip =
     (if \<not> truthy ip then ''unknown''
      else let parts = split_str ''.'' (hd (split_str ''/'' (the ip))) in
        if length parts \<noteq> 4 then ''unknown''
        else parts ! 0 @ ''.'' @ parts ! 1 @ ''.'' @ parts ! 2 @ ''.0/24'')"

definition map_statusColor :: "device_status \<Rightarrow> string" where
  "map_statusColor st = (case st of Online \<Rightarrow> ''#22c55e'' | Alerting \<Rightarrow> ''#ef4444'' | _ \<Rightarrow> ''#94a3b8'')"

definition truncate_name :: "string \<Rightarrow> string" where
  "truncate_name v = (if length v > 18 then take 17 v @ ''...'' else v)"

record map_page =
  nm_zoom :: rat
  nm_filter :: "device_status option" \<comment> \<open>\<open>None\<close> is \<open>all\<close>\<close>
  nm_navigated :: "string list"

definition map_init :: map_page where
  "map_init = \<lparr>nm_zoom = 1, nm_filter = None, nm_navigated = []\<rparr>"

definition visibleDevices :: "device list \<Rightarrow> map_page \<Rightarrow> device list" where
  "visibleDevices devices s = filter (\<lambda>d. nm_filter s = None \<or> nm_filter s = Some (d_status d)) devices"

definition subnetGroups :: "device list \<Rightarrow> (string \<times> device list) list" where
  "subnetGroups visible = group_by (\<lambda>d. subnetOf (d_ip_address d)) visible"

record map_node_info =
  nd_device :: device
  nd_subnet :: string
  nd_x :: real
  nd_y :: real
  nd_groupX :: real
  nd_groupY :: real
  nd_groupWidth :: real
  nd_groupHeight :: real

definition group_nodes :: "nat \<Rightarrow> nat \<Rightarrow> string \<times> device list \<Rightarrow> map_node_info list" where
  "group_nodes n_groups groupIndex g =
     (let angleOffset = of_nat groupIndex / of_nat (max 1 n_groups) * pi * 2;
          centerX = 420 + cos angleOffset * (170 + of_nat groupIndex * 10);
          centerY = 240 + sin angleOffset * 110
      in map (\<lambda>(deviceIndex, device).
           let localAngle = of_nat deviceIndex / of_nat (max 1 (length (snd g))) * pi * 2
           in \<lparr>nd_device = device, nd_subnet = fst g, nd_x = centerX + cos localAngle * 70, nd_y = centerY + sin localAngle * 50,
               nd_groupX = centerX, nd_groupY = centerY, nd_groupWidth = max 170 (of_nat (length (snd g)) * 42), nd_groupHeight = 100\<rparr>)
         (enumerate 0 (snd g)))"

definition map_nodes :: "(string \<times> device list) list \<Rightarrow> map_node_info list" where
  "map_nodes groups = concat (map (\<lambda>(i, g). group_nodes (length groups) i g) (enumerate 0 groups))"

datatype map_msg = NmFilter "device_status option" | NmZoomIn | NmZoomOut | NmReset | NmOpen string

fun map_update :: "map_page \<Rightarrow> map_msg \<Rightarrow> map_page" where
  "map_update s (NmFilter f) = s\<lparr>nm_filter := f\<rparr>"
| "map_update s NmZoomIn = s\<lparr>nm_zoom := min (9 / 5) (nm_zoom s + 1 / 10)\<rparr>"
| "map_update s NmZoomOut = s\<lparr>nm_zoom := max (7 / 10) (nm_zoom s - 1 / 10)\<rparr>"
| "map_update s NmReset = s\<lparr>nm_zoom := 1\<rparr>"
| "map_update s (NmOpen i) = s\<lparr>nm_navigated := nm_navigated s @ [''/devices/'' @ i]\<rparr>"

definition node_title :: "device \<Rightarrow> string" where
  "node_title d = join [newline] [nullish (d_label d) (d_hostname d), nullish (d_ip_address d) ''No IP'',
     nullish (d_os_version d) (os_type_str (d_os_type d)), device_status_str (d_status d)]"

definition device_node :: "(real \<Rightarrow> string) \<Rightarrow> map_node_info \<Rightarrow> map_msg node" where
  "device_node show_real n =
     (let d = nd_device n in
      El ''g'' [] [(''onClick'', \<lambda>_. NmOpen (d_id d))]
        [El ''circle'' [(''cx'', show_real (nd_x n)), (''cy'', show_real (nd_y n)), (''pulse'', if d_status d = Online then ''true'' else ''false''),
           (''fill'', map_statusColor (d_status d))] [] [],
         El ''title'' [] [] [Txt (node_title d)],
         El ''text'' [(''x'', show_real (nd_x n)), (''y'', show_real (nd_y n + 32))] [] [Txt (truncate_name (nullish (d_label d) (d_hostname d)))]])"

definition map_view :: "(real \<Rightarrow> string) \<Rightarrow> device list \<Rightarrow> map_page \<Rightarrow> map_msg view" where
  "map_view show_real devices s =
     (let nodes = map_nodes (subnetGroups (visibleDevices devices s)); z = of_rat (nm_zoom s) :: real in
      [label ''Network Map'', label ''Basic topology of devices connected to the DTSYS server.'']
      @ map (\<lambda>f. El ''button'' [(''current'', if nm_filter s = f then ''true'' else ''false'')] [(''onClick'', \<lambda>_. NmFilter f)]
               [Txt (case f of None \<Rightarrow> ''all'' | Some st \<Rightarrow> device_status_str st)]) [None, Some Online, Some Alerting, Some Offline]
      @ [button NmZoomIn [Txt ''Zoom In''], button NmZoomOut [Txt ''Zoom Out''], button NmReset [Txt ''Reset Layout''],
         El ''g'' [(''scale'', show_real z), (''dx'', show_real ((1 - z) * 200)), (''dy'', show_real ((1 - z) * 120))] []
           (map (\<lambda>n. El ''ellipse'' [(''cx'', show_real (nd_groupX n)), (''cy'', show_real (nd_groupY n)),
                (''rx'', show_real (nd_groupWidth n / 2)), (''ry'', show_real (nd_groupHeight n / 2))] [] []) nodes
            @ map (\<lambda>n. El ''line'' [(''x1'', ''420''), (''y1'', ''240''), (''x2'', show_real (nd_x n)), (''y2'', show_real (nd_y n))] [] []) nodes
            @ [icon ''Network'', label ''DTSYS Server'']
            @ map (device_node show_real) nodes)])"

section \<open>Status.tsx\<close>

datatype system_status = Operational | Degraded | Down

record status_payload =
  sta_status :: system_status
  sta_total_devices :: int
  sta_online_devices :: int
  sta_offline_devices :: int
  sta_active_critical_alerts :: int
  sta_last_updated :: string

definition status_title :: "status_payload option \<Rightarrow> string \<times> string" where
  "status_title d = (case d of
     None \<Rightarrow> (''All Systems Operational'', ''text-emerald-600'')
   | Some p \<Rightarrow> (case sta_status p of
        Operational \<Rightarrow> (''All Systems Operational'', ''text-emerald-600'')
      | Degraded \<Rightarrow> (''Degraded'', ''text-amber-500'')
      | Down \<Rightarrow> (''Outage Detected'', ''text-red-500'')))"

definition StatusCard :: "string \<Rightarrow> string \<Rightarrow> 'm node" where
  "StatusCard name value = box [label name, label value]"

definition status_view :: "(string \<Rightarrow> string) \<Rightarrow> status_payload option \<Rightarrow> 'm view" where
  "status_view ago d =
     (let num = (\<lambda>sel. int_str (case d of None \<Rightarrow> 0 | Some p \<Rightarrow> sel p)) in
      [toned (snd (status_title d)) (fst (status_title d)),
       label (case d of None \<Rightarrow> ''Loading status...''
              | Some p \<Rightarrow> int_str (sta_online_devices p) @ ''/'' @ int_str (sta_total_devices p) @ '' devices online''),
       StatusCard ''Total Devices'' (num sta_total_devices), StatusCard ''Online'' (num sta_online_devices),
       StatusCard ''Offline'' (num sta_offline_devices), StatusCard ''Critical Alerts'' (num sta_active_critical_alerts),
       label (''Last updated '' @ (case d of None \<Rightarrow> ''just now'' | Some p \<Rightarrow> if sta_last_updated p = [] then ''just now'' else ago (sta_last_updated p)))])"

section \<open>Lemmas\<close>

lemma map_enumerate_snd: "map (\<lambda>(i, x). f x) (enumerate n xs) = map f xs"
  by (induction xs arbitrary: n) auto

lemma group_nodes_devices: "map nd_device (group_nodes n_groups i g) = snd g"
  using map_enumerate_snd[of "\<lambda>x. x" 0 "snd g"]
  by (simp add: group_nodes_def Let_def comp_def split_def)

lemma map_nodes_devices: "map nd_device (map_nodes groups) = concat (map snd groups)"
proof -
  have "map nd_device (map_nodes groups) = concat (map (\<lambda>(i, g). map nd_device (group_nodes (length groups) i g)) (enumerate 0 groups))"
    by (simp add: map_nodes_def map_concat comp_def split_def)
  also have "\<dots> = concat (map (\<lambda>(i, g). snd g) (enumerate 0 groups))" by (simp add: group_nodes_devices)
  also have "\<dots> = concat (map snd groups)" by (simp only: map_enumerate_snd)
  finally show ?thesis .
qed

lemma mset_partition_keys:
  "distinct ks \<Longrightarrow> (\<forall>x \<in> set xs. key x \<in> set ks) \<Longrightarrow> mset (concat (map (\<lambda>k. filter (\<lambda>x. key x = k) xs) ks)) = mset xs"
proof (induction xs)
  case Nil
  then show ?case by (induction ks) auto
next
  case (Cons x xs)
  have "mset (concat (map (\<lambda>k. filter (\<lambda>y. key y = k) (x # xs)) js)) =
      (if key x \<in> set js then {#x#} else {#}) + mset (concat (map (\<lambda>k. filter (\<lambda>y. key y = k) xs) js))" if "distinct js" for js
    using that by (induction js) auto
  then show ?case using Cons by simp
qed

lemma group_by_mset: "mset (concat (map snd (group_by key xs))) = mset xs"
  unfolding group_by_concat by (rule mset_partition_keys) auto

section \<open>Properties\<close>

text \<open>The map shows every visible device exactly once: the nodes are the devices that pass the filter, each
  one once; the groups are the subnets in the order of their first device, each with its devices in the order of
  the list; and however often the user zooms, the scale stays between 0.7 and 1.8.\<close>

theorem map_shows_each_device_once:
  "mset (map nd_device (map_nodes (subnetGroups (visibleDevices devices s)))) = mset (visibleDevices devices s)
   \<and> map snd (subnetGroups visible) = map (\<lambda>k. filter (\<lambda>d. subnetOf (d_ip_address d) = k) visible) (unique (map (\<lambda>d. subnetOf (d_ip_address d)) visible))
   \<and> 7 / 10 \<le> nm_zoom (foldl map_update map_init ms) \<and> nm_zoom (foldl map_update map_init ms) \<le> 9 / 5"
proof (intro conjI)
  show "mset (map nd_device (map_nodes (subnetGroups (visibleDevices devices s)))) = mset (visibleDevices devices s)"
    unfolding map_nodes_devices subnetGroups_def by (rule group_by_mset)
  show "map snd (subnetGroups visible) = map (\<lambda>k. filter (\<lambda>d. subnetOf (d_ip_address d) = k) visible) (unique (map (\<lambda>d. subnetOf (d_ip_address d)) visible))"
    by (simp add: subnetGroups_def group_by_spec)
  have "7 / 10 \<le> nm_zoom (foldl map_update map_init ms) \<and> nm_zoom (foldl map_update map_init ms) \<le> 9 / 5"
  proof (induction ms rule: rev_induct)
    case (snoc m ms)
    then show ?case by (cases m) (auto simp: min_def max_def)
  qed (simp add: map_init_def)
  then show "7 / 10 \<le> nm_zoom (foldl map_update map_init ms)" "nm_zoom (foldl map_update map_init ms) \<le> 9 / 5" by auto
qed

text \<open>Before the first answer the status page claims that everything is operational.\<close>

lemma status_claims_operational: "fst (status_title None) = ''All Systems Operational''"
  by (simp add: status_title_def)

end
