(* ===== verification/MobileNav.thy ===== *)
theory MobileNav
  imports MobileApp
begin

text \<open>
  The navigation tree of the mobile application, \<open>mobile/src/navigation/AppNavigator.tsx\<close>: which screen
  stands under which name, with which title and icon. The navigators themselves (the stack of pushed
  screens, the tab bar) are react-navigation's; the tree is the data the source hands to them.
  Emoji have ASCII stand-ins.
\<close>

text \<open>The parameter lists: the routes of the stack with what each one carries, and the routes of the tabs.\<close>

datatype stack_route = DeviceList | DeviceDetail (route_deviceId: string) (route_hostname: string)

datatype tab_route = DashboardTab | AlertsTab | SettingsTab

datatype stack_component = DashboardScreen | DeviceDetailScreen

record stack_screen =
  sn_component :: stack_component
  sn_title :: string
  sn_large :: bool

definition DevicesStack :: "stack_route \<Rightarrow> stack_screen" where
  "DevicesStack route = (case route of
     DeviceList \<Rightarrow> \<lparr>sn_component = DashboardScreen, sn_title = ''Devices'', sn_large = True\<rparr>
   | DeviceDetail _ hostname \<Rightarrow> \<lparr>sn_component = DeviceDetailScreen, sn_title = hostname, sn_large = False\<rparr>)"

text \<open>
  A tab shows the stack of devices, the alerts, or the settings screen with the \<open>onLogout\<close> the
  navigator was given.
\<close>

datatype 'a tab_component = StackNavigator "stack_route list" | AlertsScreen | SettingsScreen "'a \<Rightarrow> 'a"

record 'a tab_screen =
  tn_route :: tab_route
  tn_name :: string
  tn_icon :: string
  tn_headerShown :: bool
  tn_component :: "'a tab_component"

definition tab_name :: "tab_route \<Rightarrow> string" where
  "tab_name r = (case r of DashboardTab \<Rightarrow> ''Dashboard'' | AlertsTab \<Rightarrow> ''Alerts'' | SettingsTab \<Rightarrow> ''Settings'')"

definition tab_icons :: "string \<Rightarrow> string option" where
  "tab_icons = map_of [(''Dashboard'', ''phone''), (''Alerts'', ''bell''), (''Settings'', ''gear'')]"

definition tab_screen_of :: "tab_route \<Rightarrow> bool \<Rightarrow> 'a tab_component \<Rightarrow> 'a tab_screen" where
  "tab_screen_of r header c =
     \<lparr>tn_route = r, tn_name = tab_name r, tn_icon = nullish (tab_icons (tab_name r)) [], tn_headerShown = header, tn_component = c\<rparr>"

text \<open>The stack starts at its first screen.\<close>

definition AppNavigator :: "('a \<Rightarrow> 'a) \<Rightarrow> 'a tab_screen list" where
  "AppNavigator onLogout =
     [tab_screen_of DashboardTab False (StackNavigator [DeviceList]), tab_screen_of AlertsTab False AlertsScreen,
      tab_screen_of SettingsTab True (SettingsScreen onLogout)]"

text \<open>\<open>navigation.navigate('DeviceDetail', ...)\<close> of the device list.\<close>

fun open_device :: "dash_msg \<Rightarrow> stack_route" where
  "open_device (OpenDevice i name) = DeviceDetail i name"

text \<open>The settings tab of the running application: \<open>App.tsx\<close> gives the navigator its own \<open>handleLogout\<close>.\<close>

fun settings_tab :: "'s store_ops \<Rightarrow> 's app tab_component \<Rightarrow> 's app \<Rightarrow> 's app" where
  "settings_tab ops (SettingsScreen onLogout) a = onLogout (a\<lparr>ap_store := mobile_logout ops (ap_store a)\<rparr>)"
| "settings_tab ops _ a = a"

section \<open>Properties\<close>

lemma render_device_offers:
  assumes "offers [render_device counts item] m"
  shows "m = OpenDevice (md_id item) (or_else (md_label item) (md_hostname item))"
  using assms by (auto simp: render_device_def Let_def gauge_bar_def split: option.splits)

lemma dashboard_screen_offers:
  assumes "offers (dashboard_screen loading devices counts) m"
  shows "\<exists>d \<in> set devices. m = OpenDevice (md_id d) (or_else (md_label d) (md_hostname d))"
proof -
  have "\<exists>d \<in> set devices. offers [render_device counts d] m"
    using assms by (fastforce simp: dashboard_screen_def offers_def view_handlers_def split: if_splits)
  then show ?thesis using render_device_offers by blast
qed

text \<open>A touch in the device list opens the detail screen of a device of the list, titled with the name the list
  shows for it; and signing out from the settings tab, as the application mounts it, ends at the login screen with no
  token in the store and no cached data.\<close>

theorem mobile_navigation:
  assumes "offers (dashboard_screen loading devices counts) m" and "secure_store ops"
  shows "(\<exists>d \<in> set devices. open_device m = DeviceDetail (md_id d) (or_else (md_label d) (md_hostname d))
           \<and> DevicesStack (open_device m) = \<lparr>sn_component = DeviceDetailScreen, sn_title = or_else (md_label d) (md_hostname d), sn_large = False\<rparr>)
         \<and> (let a' = settings_tab ops (tn_component (AppNavigator (handleLogout ops) ! 2)) a
            in app_screen a' = LoginScreenView \<and> \<not> checkAuth ops (ap_store a') \<and> \<not> ap_cached a')"
proof
  show "\<exists>d \<in> set devices. open_device m = DeviceDetail (md_id d) (or_else (md_label d) (md_hostname d))
           \<and> DevicesStack (open_device m) = \<lparr>sn_component = DeviceDetailScreen, sn_title = or_else (md_label d) (md_hostname d), sn_large = False\<rparr>"
    using dashboard_screen_offers[OF assms(1)] by (auto simp: DevicesStack_def)
  show "let a' = settings_tab ops (tn_component (AppNavigator (handleLogout ops) ! 2)) a
        in app_screen a' = LoginScreenView \<and> \<not> checkAuth ops (ap_store a') \<and> \<not> ap_cached a'"
    using assms(2) by (simp add: Let_def AppNavigator_def tab_screen_of_def handleLogout_def app_screen_def checkAuth_def
        getAccessToken_def get_mobile_logout)
qed

definition sample_mobile_device :: mobile_device where
  "sample_mobile_device = \<lparr>md_id = ''d1'', md_hostname = ''web'', md_label = None, md_os_type = ''linux'', md_status = ''online'',
     md_cpu_percent = None, md_ram_percent = None, md_unresolved_alerts = 0\<rparr>"

lemma sample_offers: "offers (dashboard_screen False [sample_mobile_device] None) (OpenDevice ''d1'' ''web'')"
  by (simp add: dashboard_screen_def render_device_def sample_mobile_device_def Let_def)

theorem mobile_navigation_witness:
  "offers (dashboard_screen False [sample_mobile_device] None) (OpenDevice ''d1'' ''web'') \<and> secure_store local_ops
   \<and> open_device (OpenDevice ''d1'' ''web'') = DeviceDetail ''d1'' ''web''
   \<and> app_screen (settings_tab local_ops (tn_component (AppNavigator (handleLogout local_ops) ! 2))
       \<lparr>ap_auth = Some True, ap_store = setItem ''access_token'' ''t'' Map.empty, ap_cached = True\<rparr>) = LoginScreenView"
  using mobile_navigation[OF sample_offers secure_store_local,
      of "\<lparr>ap_auth = Some True, ap_store = setItem ''access_token'' ''t'' Map.empty, ap_cached = True\<rparr>"] sample_offers
  by (simp add: Let_def)

end
