(* ===== verification/SettingsPage.thy ===== *)
theory SettingsPage
  imports Stores Queries DeviceParts Chrome
begin

text \<open>
  \<open>frontend/src/pages/Settings.tsx\<close>: branding, enrolment token, new users, notification rules, storage,
  authentication, live connections and the audit log of the administrator. The page works on the branding
  store and on the icon of the document; both are part of its state. A \<open>FileReader\<close> or a timer that is under way
  is counted, and its end is a message of the environment. \<open>pp\<close> is \<open>format(new Date(_), 'PPpp')\<close>, \<open>stringify\<close>
  is \<open>JSON.stringify\<close>.
\<close>

section \<open>State\<close>

record branding_draft =
  bd_companyName :: string
  bd_sidebarLabel :: string
  bd_accentColor :: string

record new_user =
  nu_username :: string
  nu_password :: string
  nu_role :: string

record new_rule =
  nw_alert_type :: string
  nw_severity_min :: string
  nw_channel :: string
  nw_webhook_url :: string
  nw_email_address :: string

definition emptyUser :: new_user where
  "emptyUser = \<lparr>nu_username = [], nu_password = [], nu_role = ''viewer''\<rparr>"

definition emptyRule :: new_rule where
  "emptyRule = \<lparr>nw_alert_type = ''*'', nw_severity_min = ''warning'', nw_channel = ''browser'', nw_webhook_url = [],
     nw_email_address = []\<rparr>"

record settings_page =
  sg_branding :: branding \<comment> \<open>the branding store\<close>
  sg_document :: document
  sg_draft :: branding_draft
  sg_brandingSaved :: bool
  sg_timers :: nat
  sg_logoReads :: nat
  sg_faviconReads :: nat
  sg_newUser :: new_user
  sg_newRule :: new_rule
  sg_token :: "string option"
  sg_auditAction :: string
  sg_auditPage :: int
  sg_msg :: string
  sg_cleaning :: bool \<comment> \<open>\<open>cleanupNow.isPending\<close>\<close>
  sg_sent :: "request list"
  sg_clipboard :: "string list"
  sg_downloads :: "(string \<times> string list \<times> string list list) list"

definition draft_of :: "branding \<Rightarrow> branding_draft" where
  "draft_of b = \<lparr>bd_companyName = companyName b, bd_sidebarLabel = sidebarLabel b, bd_accentColor = accentColor b\<rparr>"

definition settings_init :: "branding \<Rightarrow> document \<Rightarrow> settings_page" where
  "settings_init b doc =
     \<lparr>sg_branding = b, sg_document = doc, sg_draft = draft_of b, sg_brandingSaved = False, sg_timers = 0, sg_logoReads = 0,
      sg_faviconReads = 0, sg_newUser = emptyUser, sg_newRule = emptyRule, sg_token = None, sg_auditAction = [],
      sg_auditPage = 1, sg_msg = [], sg_cleaning = False, sg_sent = [], sg_clipboard = [], sg_downloads = []\<rparr>"

section \<open>Queries and requests\<close>

definition auditPageSize :: nat where "auditPageSize = 25"

definition settings_queries :: "string option \<Rightarrow> settings_page \<Rightarrow> query list" where
  "settings_queries userRole s =
     (let admin = userRole = Some ''admin'' in
      [\<lparr>q_key = [JStr ''notification-rules''], q_request = rules_list, q_interval = 0, q_enabled = admin\<rparr>,
       \<lparr>q_key = [JStr ''audit-log'', JStr (sg_auditAction s), JInt (sg_auditPage s)],
        q_request = admin_auditLog (or_null (sg_auditAction s)) (Some (int auditPageSize))
          (Some ((sg_auditPage s - 1) * int auditPageSize)), q_interval = 30000, q_enabled = admin\<rparr>,
       \<lparr>q_key = [JStr ''auth-config''], q_request = admin_authConfig, q_interval = 0, q_enabled = admin\<rparr>,
       \<lparr>q_key = [JStr ''admin-connections''], q_request = admin_connections, q_interval = 10000, q_enabled = admin\<rparr>,
       \<lparr>q_key = [JStr ''storage-stats''], q_request = admin_storageStats, q_interval = 0, q_enabled = admin\<rparr>])"

definition createRule :: "new_rule \<Rightarrow> mutation" where
  "createRule r =
     \<lparr>mu_request = rules_create
        [(''alert_type'', JStr (nw_alert_type r)), (''severity_min'', JStr (nw_severity_min r)), (''channel'', JStr (nw_channel r)),
         (''webhook_url'', if nw_channel r = ''webhook'' then JStr (nw_webhook_url r) else JNull),
         (''email_address'', if nw_channel r = ''email'' then JStr (nw_email_address r) else JNull)],
      mu_invalidates = [[JStr ''notification-rules'']]\<rparr>"

definition updateRule :: "string \<Rightarrow> bool \<Rightarrow> mutation" where
  "updateRule i enabled =
     \<lparr>mu_request = rules_update i [(''is_enabled'', JBool enabled)], mu_invalidates = [[JStr ''notification-rules'']]\<rparr>"

definition disconnectDevice :: "string \<Rightarrow> mutation" where
  "disconnectDevice i = \<lparr>mu_request = devices_disconnect i, mu_invalidates = [[JStr ''admin-connections'']]\<rparr>"

definition cleanupNow :: mutation where
  "cleanupNow = \<lparr>mu_request = admin_cleanup, mu_invalidates = [[JStr ''storage-stats'']]\<rparr>"

definition createUser :: "new_user \<Rightarrow> request" where
  "createUser u = api_post ''/admin/users''
     (Some (JObj [(''username'', JStr (nu_username u)), (''password'', JStr (nu_password u)), (''role'', JStr (nu_role u))]))"

definition generateToken :: request where
  "generateToken = api_post ''/admin/enrollment-tokens'' None"

section \<open>Handlers\<close>

datatype settings_msg =
    SgReset | SgCompany string | SgLabel string | SgAccent string | SgSaveBranding
  | SgPickLogo | SgLogoFile string | SgRemoveLogo | SgPickFavicon | SgFaviconFile string | SgRemoveFavicon
  | SgGenerate | SgCopy string
  | SgUsername string | SgPassword string | SgRole string | SgCreateUser
  | SgRuleType string | SgSeverity string | SgChannel string | SgTarget string | SgAddRule | SgToggleRule string bool
  | SgCleanup | SgDisconnect string
  | SgAuditAction string | SgAuditPage int | SgExport "audit_log_entry list"
  | SgTimer | SgLogoLoaded string | SgFaviconLoaded string \<comment> \<open>timers and readers\<close>
  | SgUserAnswer bool | SgTokenAnswer string | SgRuleCreated | SgCleaned \<comment> \<open>answers of the server\<close>

definition sg_send :: "request \<Rightarrow> settings_page \<Rightarrow> settings_page" where
  "sg_send r s = s\<lparr>sg_sent := sg_sent s @ [r]\<rparr>"

definition set_draft :: "(branding_draft \<Rightarrow> branding_draft) \<Rightarrow> settings_page \<Rightarrow> settings_page" where
  "set_draft f s = s\<lparr>sg_draft := f (sg_draft s)\<rparr>"

definition set_user :: "(new_user \<Rightarrow> new_user) \<Rightarrow> settings_page \<Rightarrow> settings_page" where
  "set_user f s = s\<lparr>sg_newUser := f (sg_newUser s)\<rparr>"

definition set_rule :: "(new_rule \<Rightarrow> new_rule) \<Rightarrow> settings_page \<Rightarrow> settings_page" where
  "set_rule f s = s\<lparr>sg_newRule := f (sg_newRule s)\<rparr>"

definition brand :: "branding_op list \<Rightarrow> settings_page \<Rightarrow> settings_page" where
  "brand ops s = s\<lparr>sg_branding := foldl branding_step (sg_branding s) ops\<rparr>"

definition saveBranding :: "settings_page \<Rightarrow> settings_page" where
  "saveBranding s =
     (let d = sg_draft s
      in (brand [SetCompanyName (if bd_companyName d = [] then ''DTSYS'' else bd_companyName d),
                 SetSidebarLabel (bd_sidebarLabel d), SetAccentColor (bd_accentColor d)] s)
         \<lparr>sg_brandingSaved := True, sg_timers := sg_timers s + 1\<rparr>)"

definition resetBranding :: "settings_page \<Rightarrow> settings_page" where
  "resetBranding s = (brand [ResetBranding] s)
     \<lparr>sg_draft := \<lparr>bd_companyName = ''DTSYS'', bd_sidebarLabel = ''IT Management'', bd_accentColor = ''#3b82f6''\<rparr>\<rparr>"

text \<open>The \<open>change\<close> event of a file input: the chosen file by its name, empty if the choice was cancelled.\<close>

definition handleLogoUpload :: "string \<Rightarrow> settings_page \<Rightarrow> settings_page" where
  "handleLogoUpload file s = (if file = [] then s else s\<lparr>sg_logoReads := sg_logoReads s + 1\<rparr>)"

definition handleFaviconUpload :: "string \<Rightarrow> settings_page \<Rightarrow> settings_page" where
  "handleFaviconUpload file s = (if file = [] then s else s\<lparr>sg_faviconReads := sg_faviconReads s + 1\<rparr>)"

definition favicon_onload :: "string \<Rightarrow> settings_page \<Rightarrow> settings_page" where
  "favicon_onload dataUrl s =
     (brand [SetFaviconUrl dataUrl] s)
       \<lparr>sg_document := (sg_document s)\<lparr>icon_links := drop 1 (icon_links (sg_document s)) @ [dataUrl]\<rparr>,
        sg_faviconReads := sg_faviconReads s - 1\<rparr>"

definition resource_text :: "string \<Rightarrow> string \<Rightarrow> audit_log_entry \<Rightarrow> string" where
  "resource_text none missing e =
     (if truthy (al_resource_type e) then the (al_resource_type e) @ '':'' @ nullish (al_resource_id e) missing else none)"

definition audit_csv :: "((string \<times> json) list \<Rightarrow> string) \<Rightarrow> audit_log_entry list \<Rightarrow> string \<times> string list \<times> string list list" where
  "audit_csv stringify entries =
     (''audit-log.csv'', [''Timestamp'', ''User'', ''Action'', ''Resource'', ''Details''],
      map (\<lambda>e. [nullish (al_timestamp e) [], al_username e, al_action e, resource_text [] [] e,
                case al_details e of None \<Rightarrow> [] | Some ds \<Rightarrow> stringify ds]) entries)"

fun settings_update :: "((string \<times> json) list \<Rightarrow> string) \<Rightarrow> settings_page \<Rightarrow> settings_msg \<Rightarrow> settings_page" where
  "settings_update js s SgReset = resetBranding s"
| "settings_update js s (SgCompany v) = set_draft (\<lambda>d. d\<lparr>bd_companyName := v\<rparr>) s"
| "settings_update js s (SgLabel v) = set_draft (\<lambda>d. d\<lparr>bd_sidebarLabel := v\<rparr>) s"
| "settings_update js s (SgAccent v) = set_draft (\<lambda>d. d\<lparr>bd_accentColor := v\<rparr>) s"
| "settings_update js s SgSaveBranding = saveBranding s"
| "settings_update js s SgPickLogo = s"
| "settings_update js s (SgLogoFile f) = handleLogoUpload f s"
| "settings_update js s SgRemoveLogo = brand [SetLogoUrl []] s"
| "settings_update js s SgPickFavicon = s"
| "settings_update js s (SgFaviconFile f) = handleFaviconUpload f s"
| "settings_update js s SgRemoveFavicon = brand [SetFaviconUrl []] s"
| "settings_update js s SgGenerate = sg_send generateToken s"
| "settings_update js s (SgCopy t) = s\<lparr>sg_clipboard := sg_clipboard s @ [t]\<rparr>"
| "settings_update js s (SgUsername v) = set_user (\<lambda>u. u\<lparr>nu_username := v\<rparr>) s"
| "settings_update js s (SgPassword v) = set_user (\<lambda>u. u\<lparr>nu_password := v\<rparr>) s"
| "settings_update js s (SgRole v) = set_user (\<lambda>u. u\<lparr>nu_role := v\<rparr>) s"
| "settings_update js s SgCreateUser = sg_send (createUser (sg_newUser s)) s"
| "settings_update js s (SgRuleType v) = set_rule (\<lambda>r. r\<lparr>nw_alert_type := v\<rparr>) s"
| "settings_update js s (SgSeverity v) = set_rule (\<lambda>r. r\<lparr>nw_severity_min := v\<rparr>) s"
| "settings_update js s (SgChannel v) = set_rule (\<lambda>r. r\<lparr>nw_channel := v\<rparr>) s"
| "settings_update js s (SgTarget v) =
     set_rule (\<lambda>r. r\<lparr>nw_webhook_url := if nw_channel r = ''webhook'' then v else nw_webhook_url r,
                      nw_email_address := if nw_channel r = ''email'' then v else nw_email_address r\<rparr>) s"
| "settings_update js s SgAddRule = sg_send (mu_request (createRule (sg_newRule s))) s"
| "settings_update js s (SgToggleRule i b) = sg_send (mu_request (updateRule i b)) s"
| "settings_update js s SgCleanup = sg_send (mu_request cleanupNow) (s\<lparr>sg_cleaning := True\<rparr>)"
| "settings_update js s (SgDisconnect i) = sg_send (mu_request (disconnectDevice i)) s"
| "settings_update js s (SgAuditAction v) = s\<lparr>sg_auditAction := v\<rparr>"
| "settings_update js s (SgAuditPage p) = s\<lparr>sg_auditPage := p\<rparr>"
| "settings_update js s (SgExport entries) = s\<lparr>sg_downloads := sg_downloads s @ [audit_csv js entries]\<rparr>"
| "settings_update js s SgTimer = s\<lparr>sg_brandingSaved := False, sg_timers := sg_timers s - 1\<rparr>"
| "settings_update js s (SgLogoLoaded u) = (brand [SetLogoUrl u] s)\<lparr>sg_logoReads := sg_logoReads s - 1\<rparr>"
| "settings_update js s (SgFaviconLoaded u) = favicon_onload u s"
| "settings_update js s (SgUserAnswer created) =
     (if created then s\<lparr>sg_msg := ''User created successfully'', sg_newUser := emptyUser\<rparr> else s\<lparr>sg_msg := ''Failed to create user''\<rparr>)"
| "settings_update js s (SgTokenAnswer t) = s\<lparr>sg_token := Some t\<rparr>"
| "settings_update js s SgRuleCreated = s\<lparr>sg_newRule := emptyRule\<rparr>"
| "settings_update js s SgCleaned = s\<lparr>sg_cleaning := False\<rparr>"

section \<open>The view\<close>

record settings_data =
  sq_role :: "string option"
  sq_rules :: "notification_rule list"
  sq_audit :: "audit_log_entry page option"
  sq_authConfig :: "auth_config option"
  sq_connections :: "live_connections_response option"
  sq_storage :: "storage_stats_response option"

fun channel_str :: "channel \<Rightarrow> string" where
  "channel_str BrowserChannel = ''browser''"
| "channel_str Webhook = ''webhook''"
| "channel_str Email = ''email''"

definition auth_mode_str :: "auth_mode \<Rightarrow> string" where
  "auth_mode_str m = (case m of LocalMode \<Rightarrow> ''Local'' | LDAP \<Rightarrow> ''LDAP'')"

definition branding_preview :: "branding \<Rightarrow> branding_draft \<Rightarrow> settings_msg view" where
  "branding_preview b d =
     [if logoUrl b \<noteq> [] then El ''img'' [(''src'', logoUrl b)] [] []
      else toned (bd_accentColor d) (toUpperCase (take 1 (if bd_companyName d = [] then ''D'' else bd_companyName d))),
      label (if bd_companyName d = [] then ''DTSYS'' else bd_companyName d),
      label (if bd_sidebarLabel d = [] then ''IT Management'' else bd_sidebarLabel d),
      El ''div'' [(''color'', bd_accentColor d), (''title'', ''Accent colour'')] [] []]"

definition image_upload :: "string \<Rightarrow> string \<Rightarrow> settings_msg \<Rightarrow> settings_msg \<Rightarrow> (string \<Rightarrow> settings_msg) \<Rightarrow> settings_msg view" where
  "image_upload what url pick remove file =
     [button pick [icon ''Upload'', Txt (if url \<noteq> [] then ''Replace'' else ''Upload''), Txt what]]
     @ shown (url \<noteq> [])
         [El ''img'' [(''src'', url)] [] [], El ''button'' [(''title'', ''Remove '' @ what)] [(''onClick'', \<lambda>_. remove)] [icon ''X'']]
     @ [El ''input'' [(''type'', ''file'')] [(''onChange'', file)] []]"

definition branding_section :: "settings_page \<Rightarrow> settings_msg view" where
  "branding_section s =
     (let b = sg_branding s; d = sg_draft s
      in [label ''Company Branding'',
          label ''Customize the logo, name, and accent colour shown in the sidebar and topbar. Settings are saved in your browser.'',
          El ''button'' [(''title'', ''Reset to defaults'')] [(''onClick'', \<lambda>_. SgReset)] [icon ''RotateCcw'', Txt ''Reset'']]
         @ branding_preview b d
         @ [label ''Company Name'',
            El ''input'' [(''value'', bd_companyName d), (''placeholder'', ''DTSYS''), (''maxLength'', ''40'')] [(''onChange'', SgCompany)] [],
            label ''Sidebar Subtitle'',
            El ''input'' [(''value'', bd_sidebarLabel d), (''placeholder'', ''IT Management''), (''maxLength'', ''40'')] [(''onChange'', SgLabel)] [],
            label ''Accent Colour'',
            El ''input'' [(''type'', ''color''), (''value'', bd_accentColor d)] [(''onChange'', SgAccent)] [],
            El ''input'' [(''value'', bd_accentColor d), (''placeholder'', ''#3b82f6''), (''maxLength'', ''7'')] [(''onChange'', SgAccent)] [],
            label ''Logo (replaces icon)'']
         @ image_upload ''logo'' (logoUrl b) SgPickLogo SgRemoveLogo SgLogoFile
         @ [label ''PNG, JPG, SVG or WebP. Square recommended. Max display size 28x28px.'', label ''Favicon (browser tab icon)'']
         @ image_upload ''favicon'' (faviconUrl b) SgPickFavicon SgRemoveFavicon SgFaviconFile
         @ [label ''PNG, ICO or SVG. 32x32px recommended.'',
            button SgSaveBranding [Txt (if sg_brandingSaved s then ''Saved!'' else ''Save Branding'')],
            label ''Branding is stored locally in your browser - no server changes required.''])"

definition token_section :: "settings_page \<Rightarrow> settings_msg view" where
  "token_section s =
     [label ''Enrollment Token'', label ''Generate a one-time token to register a new device agent.'']
     @ (if truthy (sg_token s) then [label (the (sg_token s)), button (SgCopy (the (sg_token s))) [icon ''Copy'']]
        else [button SgGenerate [icon ''RefreshCw'', Txt ''Generate Token'']])"

definition user_section :: "settings_page \<Rightarrow> settings_msg view" where
  "user_section s =
     (let u = sg_newUser s
      in [label ''Create User'', label ''Add a new dashboard user account.'']
         @ shown (sg_msg s \<noteq> []) [label (sg_msg s)]
         @ [required_form [nu_username u, nu_password u] SgCreateUser
              [El ''input'' [(''value'', nu_username u), (''placeholder'', ''Username''), (''required'', ''true'')] [(''onChange'', SgUsername)] [],
               El ''input'' [(''type'', ''password''), (''value'', nu_password u), (''placeholder'', ''Password''), (''required'', ''true'')]
                 [(''onChange'', SgPassword)] [],
               choice_field (nu_role u) SgRole [(''viewer'', ''Viewer''), (''admin'', ''Admin'')],
               El ''button'' [(''type'', ''submit'')] [] [icon ''Plus'', Txt ''Create User'']]])"

definition rule_row :: "notification_rule \<Rightarrow> settings_msg node" where
  "rule_row r =
     row [label (nr_alert_type r), label (severity_str (nr_severity_min r)), label (channel_str (nr_channel r)),
          label (nullish (nr_webhook_url r) (nullish (nr_email_address r) ''Browser session'')),
          El ''button'' [(''color'', if nr_is_enabled r then ''emerald'' else ''slate'')]
            [(''onClick'', \<lambda>_. SgToggleRule (nr_id r) (\<not> nr_is_enabled r))] [Txt (if nr_is_enabled r then ''Enabled'' else ''Disabled'')]]"

definition rules_section :: "settings_data \<Rightarrow> settings_page \<Rightarrow> settings_msg view" where
  "rules_section q s =
     (let r = sg_newRule s; mail = nw_channel r = ''email''
      in [label ''Notification Rules'', label ''Control browser, webhook, and email notifications for new alerts.'']
         @ headings [''Alert'', ''Severity'', ''Channel'', ''Target'', ''Enabled'']
         @ map rule_row (sq_rules q)
         @ shown (sq_rules q = []) [label ''No notification rules configured.'']
         @ [El ''input'' [(''value'', nw_alert_type r), (''placeholder'', ''Alert type or *'')] [(''onChange'', SgRuleType)] [],
            choice_field (nw_severity_min r) SgSeverity [(''info'', ''Info+''), (''warning'', ''Warning+''), (''critical'', ''Critical only'')],
            choice_field (nw_channel r) SgChannel [(''browser'', ''Browser''), (''webhook'', ''Webhook''), (''email'', ''Email'')],
            El ''input'' ([(''value'', if mail then nw_email_address r else nw_webhook_url r),
                           (''placeholder'', if mail then ''Email address'' else ''Webhook URL'')] @ disabled_attr (nw_channel r = ''browser''))
              [(''onChange'', SgTarget)] [],
            button SgAddRule [Txt ''Add Rule'']])"

definition StorageStat :: "string \<Rightarrow> string \<Rightarrow> bool \<Rightarrow> settings_msg node" where
  "StorageStat name value subtle = El ''div'' [(''color'', if subtle then ''bg-slate-50'' else ''bg-white'')] [] [label name, label value]"

definition storage_section :: "settings_data \<Rightarrow> settings_page \<Rightarrow> settings_msg view" where
  "storage_section q s =
     (let num = (\<lambda>f d. case sq_storage q of None \<Rightarrow> d | Some st \<Rightarrow> int_str (f st))
      in [label ''Storage'', label ''Current row counts and retention policy.'', button_if (sg_cleaning s) SgCleanup [Txt ''Run Cleanup Now''],
          StorageStat ''Devices'' (num st_devices ''0'') False, StorageStat ''Metrics Rows'' (num st_metrics_rows ''0'') False,
          StorageStat ''Events Rows'' (num st_events_rows ''0'') False, StorageStat ''Commands Rows'' (num st_commands_rows ''0'') False,
          StorageStat ''Alerts Rows'' (num st_alerts_rows ''0'') False,
          StorageStat ''Disk Estimate'' ((case sq_storage q of None \<Rightarrow> ''0'' | Some st \<Rightarrow> number_str (st_disk_estimate_mb st)) @ '' MB'') False,
          StorageStat ''Metric Retention'' (num (rd_metrics \<circ> st_retention_days) ''90'' @ '' days'') True,
          StorageStat ''Event Retention'' (num (rd_events \<circ> st_retention_days) ''365'' @ '' days'') True,
          StorageStat ''Command Retention'' (num (rd_commands \<circ> st_retention_days) ''180'' @ '' days'') True,
          StorageStat ''Alert Retention'' (num (rd_alerts \<circ> st_retention_days) ''365'' @ '' days'') True])"

definition auth_section :: "settings_data \<Rightarrow> settings_msg view" where
  "auth_section q =
     [label ''Authentication'', label ''Authentication mode is configured by environment variables on the server.'', label ''Mode'',
      label (case sq_authConfig q of None \<Rightarrow> ''Local'' | Some c \<Rightarrow> auth_mode_str (ac_mode c)), label ''LDAP Server'']
     @ (case sq_authConfig q of
          None \<Rightarrow> [label ''Disabled'']
        | Some c \<Rightarrow>
            [label (if ac_ldap_enabled c then ac_ldap_server c @ '':'' @ int_str (ac_ldap_port c) else ''Disabled'')]
            @ shown (ac_ldap_enabled c)
                [label ''Base DN'', label (or_else (Some (ac_ldap_base_dn c)) em_dash), label ''Admin Group DN'',
                 label (or_else (Some (ac_ldap_admin_group_dn c)) em_dash)])"

definition connections_section :: "(string \<Rightarrow> string) \<Rightarrow> settings_data \<Rightarrow> settings_msg view" where
  "connections_section pp q =
     (let cs = (case sq_connections q of None \<Rightarrow> [] | Some r \<Rightarrow> lcs_devices r)
      in [label ''Live Connections'', label ''Currently connected agent WebSocket sessions.'',
          label (int_str (case sq_connections q of None \<Rightarrow> 0 | Some r \<Rightarrow> lcs_total r) @ '' connected'')]
         @ headings [''Hostname'', ''IP'', ''Connected Since'', ''Action'']
         @ map (\<lambda>c. row [label (lc_hostname c), label (nullish (lc_ip c) em_dash), label (pp (lc_connected_since c)),
                         button (SgDisconnect (lc_device_id c)) [Txt ''Disconnect'']]) cs
         @ shown (cs = []) [label ''No live agent connections.''])"

definition audit_actions :: "string list" where
  "audit_actions = [''login_success'', ''login_failed'', ''user_created'', ''device_revoked'', ''command_dispatched'',
     ''scheduled_command_created'', ''scheduled_command_deleted'']"

definition audit_section ::
  "(string \<Rightarrow> string) \<Rightarrow> ((string \<times> json) list \<Rightarrow> string) \<Rightarrow> settings_data \<Rightarrow> settings_page \<Rightarrow> settings_msg view" where
  "audit_section pp stringify q s =
     (let entries = (case sq_audit q of None \<Rightarrow> [] | Some r \<Rightarrow> pg_data r);
          cnt = (case sq_audit q of None \<Rightarrow> 0 | Some r \<Rightarrow> pg_total r)
      in [label ''Audit Log'', label ''Recent administrative and authentication activity.'',
          choice_field (sg_auditAction s) SgAuditAction (([], ''All actions'') # map (\<lambda>a. (a, a)) audit_actions),
          button (SgExport entries) [Txt ''Export CSV'']]
         @ headings [''Timestamp'', ''User'', ''Action'', ''Resource'', ''Details'']
         @ map (\<lambda>e. row [label (if truthy (al_timestamp e) then pp (the (al_timestamp e)) else em_dash), label (al_username e),
                         label (al_action e), label (resource_text em_dash em_dash e),
                         label (case al_details e of None \<Rightarrow> em_dash | Some ds \<Rightarrow> stringify ds)]) entries
         @ shown (entries = []) [label ''No audit entries found.'']
         @ map (map_node SgAuditPage) (pagination_view (sg_auditPage s) (page_count auditPageSize cnt)))"

definition settings_page_view ::
  "(string \<Rightarrow> string) \<Rightarrow> ((string \<times> json) list \<Rightarrow> string) \<Rightarrow> settings_data \<Rightarrow> settings_page \<Rightarrow> settings_msg view" where
  "settings_page_view pp stringify q s =
     (if sq_role q \<noteq> Some ''admin'' then [label ''Admin access required to view settings.'']
      else [label ''Settings'', label ''Administration''] @ branding_section s @ token_section s @ user_section s
           @ rules_section q s @ storage_section q s @ auth_section q @ connections_section pp q @ audit_section pp stringify q s)"

text \<open>Answers arrive for requests that were sent, timers and readers end when they run.\<close>

fun settings_env :: "settings_page \<Rightarrow> settings_msg \<Rightarrow> bool" where
  "settings_env s SgTimer \<longleftrightarrow> sg_timers s > 0"
| "settings_env s (SgLogoLoaded u) \<longleftrightarrow> sg_logoReads s > 0"
| "settings_env s (SgFaviconLoaded u) \<longleftrightarrow> sg_faviconReads s > 0"
| "settings_env s (SgUserAnswer b) \<longleftrightarrow> list_ex (\<lambda>r. rq_path r = ''/admin/users'') (sg_sent s)"
| "settings_env s (SgTokenAnswer t) \<longleftrightarrow> generateToken \<in> set (sg_sent s)"
| "settings_env s SgRuleCreated \<longleftrightarrow> list_ex (\<lambda>r. rq_path r = ''/notification-rules'') (sg_sent s)"
| "settings_env s SgCleaned \<longleftrightarrow> sg_cleaning s"
| "settings_env s m \<longleftrightarrow> False"

abbreviation settings_run where
  "settings_run pp js b doc \<equiv> ui_run (settings_page_view pp js) settings_env (settings_update js) (settings_init b doc)"

section \<open>Lemmas\<close>

lemmas settings_sections = branding_section_def branding_preview_def image_upload_def token_section_def user_section_def rules_section_def
  rule_row_def storage_section_def StorageStat_def auth_section_def connections_section_def audit_section_def Let_def

lemmas settings_handlers = resetBranding_def saveBranding_def set_draft_def set_user_def set_rule_def sg_send_def brand_def
  handleLogoUpload_def handleFaviconUpload_def favicon_onload_def Let_def

text \<open>The messages whose payload or guard matters: only values of the options, and no user without a name or password.\<close>

lemma settings_offers:
  "offers (settings_page_view pp js q s) (SgRole v) \<Longrightarrow> v = ''viewer'' \<or> v = ''admin''"
  "offers (settings_page_view pp js q s) (SgSeverity v) \<Longrightarrow> v = ''info'' \<or> v = ''warning'' \<or> v = ''critical''"
  "offers (settings_page_view pp js q s) (SgChannel v) \<Longrightarrow> v = ''browser'' \<or> v = ''webhook'' \<or> v = ''email''"
  "offers (settings_page_view pp js q s) SgCreateUser \<Longrightarrow> nu_username (sg_newUser s) \<noteq> [] \<and> nu_password (sg_newUser s) \<noteq> []"
  by (auto simp: settings_page_view_def settings_sections split: if_splits option.splits)

text \<open>The specification of what the page may ask the server for.\<close>

inductive settings_call :: "request \<Rightarrow> bool" where
  user: "uname \<noteq> [] \<Longrightarrow> pw \<noteq> [] \<Longrightarrow> settings_call (admin_createUser uname pw rl)"
| token: "settings_call (api_post ''/admin/enrollment-tokens'' None)"
| rule: "settings_call (rules_create
     [(''alert_type'', JStr a), (''severity_min'', JStr (severity_str sev)), (''channel'', JStr (channel_str ch)),
      (''webhook_url'', if ch = Webhook then JStr target else JNull), (''email_address'', if ch = Email then JStr target else JNull)])"
| toggle: "settings_call (rules_update i [(''is_enabled'', JBool b)])"
| disconnect: "settings_call (devices_disconnect i)"
| cleanup: "settings_call admin_cleanup"

definition user_typed :: "new_user \<Rightarrow> bool" where
  "user_typed u \<longleftrightarrow> nu_role u \<in> {''viewer'', ''admin''}"

definition rule_typed :: "new_rule \<Rightarrow> bool" where
  "rule_typed r \<longleftrightarrow> nw_severity_min r \<in> {''info'', ''warning'', ''critical''} \<and> nw_channel r \<in> {''browser'', ''webhook'', ''email''}"

definition settings_typed :: "settings_page \<Rightarrow> bool" where
  "settings_typed s \<longleftrightarrow> user_typed (sg_newUser s) \<and> rule_typed (sg_newRule s) \<and> (\<forall>r \<in> set (sg_sent s). settings_call r)"

lemma createUser_call:
  assumes "user_typed u" "nu_username u \<noteq> []" "nu_password u \<noteq> []"
  shows "settings_call (createUser u)"
proof -
  obtain rl where "nu_role u = user_role_str rl"
    using assms(1) unfolding user_typed_def by (metis user_role_str.simps insertE singletonD)
  then have "createUser u = admin_createUser (nu_username u) (nu_password u) rl"
    by (simp add: createUser_def admin_createUser_def)
  with assms show ?thesis by (simp add: settings_call.user)
qed

lemma createRule_call:
  assumes "rule_typed r"
  shows "settings_call (mu_request (createRule r))"
proof -
  obtain sev where sev: "nw_severity_min r = severity_str sev"
    using assms unfolding rule_typed_def by (metis severity_str.simps insertE singletonD)
  obtain ch where ch: "nw_channel r = channel_str ch"
    using assms unfolding rule_typed_def by (metis channel_str.simps insertE singletonD)
  show ?thesis
    using settings_call.rule[of "nw_alert_type r" sev ch "if ch = Webhook then nw_webhook_url r else nw_email_address r"] sev ch
    by (cases ch) (simp_all add: createRule_def)
qed

lemma simple_calls:
  "settings_call generateToken" "settings_call (mu_request (updateRule i on))" "settings_call (mu_request cleanupNow)"
  "settings_call (mu_request (disconnectDevice i))"
  by (simp_all add: generateToken_def updateRule_def cleanupNow_def disconnectDevice_def settings_call.intros)

lemma settings_typed_step:
  assumes "settings_typed s"
    and "\<And>v. m = SgRole v \<Longrightarrow> v = ''viewer'' \<or> v = ''admin''"
    and "\<And>v. m = SgSeverity v \<Longrightarrow> v = ''info'' \<or> v = ''warning'' \<or> v = ''critical''"
    and "\<And>v. m = SgChannel v \<Longrightarrow> v = ''browser'' \<or> v = ''webhook'' \<or> v = ''email''"
    and "m = SgCreateUser \<Longrightarrow> nu_username (sg_newUser s) \<noteq> [] \<and> nu_password (sg_newUser s) \<noteq> []"
  shows "settings_typed (settings_update js s m)"
proof (cases m)
  case SgCreateUser
  with assms(1,5) show ?thesis by (simp add: settings_typed_def sg_send_def createUser_call)
next
  case SgAddRule
  with assms(1) show ?thesis by (simp add: settings_typed_def sg_send_def createRule_call)
next
  case (SgRole v)
  with assms(1,2) show ?thesis by (simp add: settings_typed_def set_user_def user_typed_def)
next
  case (SgSeverity v)
  with assms(1,3) show ?thesis by (simp add: settings_typed_def set_rule_def rule_typed_def)
next
  case (SgChannel v)
  with assms(1,4) show ?thesis by (simp add: settings_typed_def set_rule_def rule_typed_def)
qed (use assms(1) in \<open>simp_all add: settings_typed_def settings_handlers user_typed_def rule_typed_def emptyUser_def emptyRule_def
       simple_calls split: if_split\<close>)

interpretation settings: ui_page "settings_page_view pp js" settings_env "settings_update js" "settings_init b doc" "\<lambda>ms. settings_typed"
proof unfold_locales
  show "settings_typed (settings_init b doc)"
    by (simp add: settings_typed_def settings_init_def user_typed_def rule_typed_def emptyUser_def emptyRule_def)
  show "settings_typed (settings_update js s m)" if "settings_typed s" "offers (settings_page_view pp js d s) m" for s d m
    using that(2) by (auto intro!: settings_typed_step[OF that(1)] dest: settings_offers)
  show "settings_typed (settings_update js s m)" if "settings_typed s" "settings_env s m" for s m
    by (rule settings_typed_step[OF that(1)]) (use that(2) in auto)
qed

section \<open>Properties\<close>

text \<open>C10. The settings page keeps its forms well-typed and sends well-typed requests only. In every run the new user has
  one of the two roles and the new rule one of the three severities and channels, and every request is one of the
  administrator's calls with a well-typed body: a new user has a name, a password and a role of the type; a rule has
  exactly the target its channel needs, and null for the other one.\<close>

theorem settings_well_typed:
  assumes "settings_run pp js b doc ms s"
  shows "settings_typed s"
  using settings.run_inv[OF assms] .

definition sample_admin :: settings_data where
  "sample_admin = \<lparr>sq_role = Some ''admin'', sq_rules = [], sq_audit = None, sq_authConfig = None, sq_connections = None, sq_storage = None\<rparr>"

abbreviation sample_document :: document where
  "sample_document \<equiv> \<lparr>root_classes = {}, icon_links = []\<rparr>"

lemma sample_settings_run:
  "settings_run pp js DEFAULTS sample_document [SgChannel ''email'', SgAddRule]
     (foldl (settings_update js) (settings_init DEFAULTS sample_document) [SgChannel ''email'', SgAddRule])"
proof -
  let ?s = "settings_init DEFAULTS sample_document"
  have "settings_run pp js DEFAULTS sample_document [SgChannel ''email''] (settings_update js ?s (SgChannel ''email''))"
    using ui_run.user[OF ui_run.mount[of "settings_page_view pp js" settings_env "settings_update js" ?s], where d = sample_admin and m = "SgChannel ''email''"]
    by (simp add: settings_page_view_def sample_admin_def rules_section_def Let_def)
  from ui_run.user[OF this, where d = sample_admin and m = SgAddRule] show ?thesis
    by (simp add: settings_page_view_def sample_admin_def rules_section_def Let_def)
qed

theorem settings_well_typed_witness:
  "\<exists>s. settings_run (\<lambda>t. t) (\<lambda>j. []) DEFAULTS sample_document [SgChannel ''email'', SgAddRule] s \<and> settings_typed s
     \<and> length (sg_sent s) = 1"
  using settings_well_typed[OF sample_settings_run, of "\<lambda>j. []"] sample_settings_run[of "\<lambda>t. t" "\<lambda>j. []"]
  by (intro exI[of _ "foldl (settings_update (\<lambda>j. [])) (settings_init DEFAULTS sample_document) [SgChannel ''email'', SgAddRule]"] conjI)
    (simp_all add: sg_send_def set_rule_def settings_init_def)

text \<open>Only an administrator can act on the settings: for any other role the page offers nothing and asks the server for nothing.\<close>

theorem settings_admin_only:
  assumes "sq_role q \<noteq> Some ''admin''"
  shows "\<not> offers (settings_page_view pp js q s) m" and "\<forall>query \<in> set (settings_queries (sq_role q) s). \<not> q_enabled query"
  using assms by (simp_all add: settings_page_view_def settings_queries_def Let_def)

theorem settings_admin_only_witness:
  "\<not> offers (settings_page_view (\<lambda>t. t) (\<lambda>j. []) (sample_admin\<lparr>sq_role := Some ''viewer''\<rparr>) (settings_init DEFAULTS sample_document)) SgCleanup"
  by (rule settings_admin_only(1)) (simp add: sample_admin_def)

text \<open>Saved branding comes back: after saving, the form of the next visit shows what was saved, and saving it again
  changes nothing; an empty company name is saved as the default. A reset restores the defaults in the store and in the form.
  An empty subtitle, for which the preview shows the default, is saved as empty: the sidebar then shows no subtitle.\<close>

theorem branding_roundtrip:
  "(let s' = saveBranding s
    in draft_of (sg_branding s') = (sg_draft s)\<lparr>bd_companyName := if bd_companyName (sg_draft s) = [] then ''DTSYS'' else bd_companyName (sg_draft s)\<rparr>
       \<and> sg_branding (saveBranding (settings_init (sg_branding s') doc)) = sg_branding s')
   \<and> sg_branding (resetBranding s) = DEFAULTS \<and> sg_draft (resetBranding s) = draft_of DEFAULTS
   \<and> (bd_sidebarLabel (sg_draft s) = [] \<longrightarrow>
        ''IT Management'' \<in> set (view_texts (branding_preview (sg_branding s) (sg_draft s))) \<and> sidebarLabel (sg_branding (saveBranding s)) = [])"
  by (simp add: settings_handlers draft_of_def settings_init_def DEFAULTS_def branding_preview_def)

theorem branding_roundtrip_witness:
  "let s = settings_update (\<lambda>j. []) (settings_init DEFAULTS sample_document) (SgLabel [])
   in ''IT Management'' \<in> set (view_texts (branding_preview (sg_branding s) (sg_draft s))) \<and> sidebarLabel (sg_branding (saveBranding s)) = []"
  using branding_roundtrip[of "settings_update (\<lambda>j. []) (settings_init DEFAULTS sample_document) (SgLabel [])"]
  by (simp add: Let_def set_draft_def)

text \<open>
  Choosing another action in the audit log keeps the page number, so a filter with fewer pages is asked for a
  page it does not have.
\<close>

lemma audit_filter_keeps_page:
  "sg_auditPage (settings_update js s (SgAuditAction v)) = sg_auditPage s"
  by simp

text \<open>Removing the icon empties the store, but the document keeps showing it.\<close>

lemma removed_favicon_stays:
  "sg_document (settings_update js s SgRemoveFavicon) = sg_document s \<and> faviconUrl (sg_branding (settings_update js s SgRemoveFavicon)) = []"
  by (simp add: brand_def)

end
