(* ===== verification/UsersPage.thy ===== *)
theory UsersPage
  imports Queries View
begin

text \<open>
  \<open>frontend/src/pages/Users.tsx\<close>: the local accounts with their roles, and the dialogs to invite a user and to
  set a password. \<open>window.confirm\<close> is modal: while it is open, its two answers are all the user can act on.
  \<open>ago\<close> is \<open>formatDistanceToNow\<close>.
\<close>

record invite_form =
  iv_username :: string
  iv_password :: string
  iv_role :: user_role

definition emptyInvite :: invite_form where
  "emptyInvite = \<lparr>iv_username = [], iv_password = [], iv_role = Viewer\<rparr>"

record users_page =
  us_inviteOpen :: bool
  us_passwordTarget :: "string option"
  us_passwordValue :: string
  us_inviteForm :: invite_form
  us_confirm :: "(string \<times> string) option" \<comment> \<open>the account an open confirmation is about: id and name\<close>
  us_sent :: "request list"

definition users_init :: users_page where
  "users_init = \<lparr>us_inviteOpen = False, us_passwordTarget = None, us_passwordValue = [], us_inviteForm = emptyInvite,
     us_confirm = None, us_sent = []\<rparr>"

definition users_query :: "string option \<Rightarrow> query" where
  "users_query userRole = \<lparr>q_key = [JStr ''admin-users''], q_request = admin_users, q_interval = 0, q_enabled = (userRole = Some ''admin'')\<rparr>"

definition user_mutation :: "request \<Rightarrow> mutation" where
  "user_mutation r = \<lparr>mu_request = r, mu_invalidates = [[JStr ''admin-users'']]\<rparr>"

datatype users_msg =
    UsInvite | UsInviteClose | UsUsername string | UsPassword string | UsRole user_role | UsCreate | UsCreated
  | UsSetRole string user_role | UsSetActive string bool
  | UsReset string | UsResetClose | UsNewPassword string | UsSavePassword string | UsPasswordSaved
  | UsDelete string string | UsConfirmed | UsDismissed

definition us_send :: "request \<Rightarrow> users_page \<Rightarrow> users_page" where
  "us_send r s = s\<lparr>us_sent := us_sent s @ [mu_request (user_mutation r)]\<rparr>"

definition set_invite :: "(invite_form \<Rightarrow> invite_form) \<Rightarrow> users_page \<Rightarrow> users_page" where
  "set_invite f s = s\<lparr>us_inviteForm := f (us_inviteForm s)\<rparr>"

definition inviteUser :: "users_page \<Rightarrow> users_page" where
  "inviteUser s = (let f = us_inviteForm s in us_send (admin_createUser (iv_username f) (iv_password f) (iv_role f)) s)"

fun users_update :: "users_page \<Rightarrow> users_msg \<Rightarrow> users_page" where
  "users_update s UsInvite = s\<lparr>us_inviteOpen := True\<rparr>"
| "users_update s UsInviteClose = s\<lparr>us_inviteOpen := False\<rparr>"
| "users_update s (UsUsername v) = set_invite (\<lambda>f. f\<lparr>iv_username := v\<rparr>) s"
| "users_update s (UsPassword v) = set_invite (\<lambda>f. f\<lparr>iv_password := v\<rparr>) s"
| "users_update s (UsRole r) = set_invite (\<lambda>f. f\<lparr>iv_role := r\<rparr>) s"
| "users_update s UsCreate = inviteUser s"
| "users_update s UsCreated = s\<lparr>us_inviteOpen := False, us_inviteForm := emptyInvite\<rparr>"
| "users_update s (UsSetRole i r) = us_send (admin_updateUser i (Some r) None) s"
| "users_update s (UsSetActive i b) = us_send (admin_updateUser i None (Some b)) s"
| "users_update s (UsReset i) = s\<lparr>us_passwordTarget := Some i, us_passwordValue := []\<rparr>"
| "users_update s UsResetClose = s\<lparr>us_passwordTarget := None\<rparr>"
| "users_update s (UsNewPassword v) = s\<lparr>us_passwordValue := v\<rparr>"
| "users_update s (UsSavePassword i) = us_send (admin_resetUserPassword i (us_passwordValue s)) s"
| "users_update s UsPasswordSaved = s\<lparr>us_passwordTarget := None, us_passwordValue := []\<rparr>"
| "users_update s (UsDelete i name) = s\<lparr>us_confirm := Some (i, name)\<rparr>"
| "users_update s UsConfirmed = (case us_confirm s of
     None \<Rightarrow> s | Some (i, name) \<Rightarrow> us_send (admin_deleteUser i) (s\<lparr>us_confirm := None\<rparr>))"
| "users_update s UsDismissed = s\<lparr>us_confirm := None\<rparr>"

section \<open>The view\<close>

record users_data =
  uq_role :: "string option"
  uq_username :: "string option"
  uq_users :: "user list"

definition is_active :: "user \<Rightarrow> bool" where
  "is_active a = nullish (u_is_active a) False"

definition account_row :: "(string \<Rightarrow> string) \<Rightarrow> string option \<Rightarrow> user \<Rightarrow> users_msg node" where
  "account_row ago me a =
     (let isSelf = Some (u_username a) = me
      in El ''tr'' [(''self'', if isSelf then ''true'' else ''false'')] []
           ([icon ''Users'', label (u_username a)] @ shown isSelf [label ''You'']
            @ [button_if isSelf (UsSetRole (u_id a) (if u_role a = Admin then Viewer else Admin)) [Txt (user_role_str (u_role a))],
               label (if truthy (u_last_login a) then ago (the (u_last_login a)) else ''Never''),
               label (if truthy (u_created_at a) then ago (the (u_created_at a)) else em_dash),
               button_if isSelf (UsSetActive (u_id a) (\<not> is_active a)) [Txt (if is_active a then ''Active'' else ''Inactive'')],
               button (UsReset (u_id a)) [Txt ''Reset Password''],
               button_if isSelf (UsDelete (u_id a) (u_username a)) [icon ''Trash2'', Txt ''Delete'']]))"

definition user_modal :: "string \<Rightarrow> 'm \<Rightarrow> 'm view \<Rightarrow> 'm node" where
  "user_modal title close children = box ([icon ''Shield'', label title, button close [Txt ''Close'']] @ children)"

definition invite_modal :: "invite_form \<Rightarrow> users_msg node" where
  "invite_modal f =
     user_modal ''Invite User'' UsInviteClose
       [El ''input'' [(''value'', iv_username f), (''placeholder'', ''Username'')] [(''onChange'', UsUsername)] [],
        El ''input'' [(''value'', iv_password f), (''placeholder'', ''Temporary password'')] [(''onChange'', UsPassword)] [],
        choice_field (user_role_str (iv_role f)) (\<lambda>v. UsRole (if v = ''admin'' then Admin else Viewer)) [(''viewer'', ''Viewer''), (''admin'', ''Admin'')],
        button UsInviteClose [Txt ''Cancel''],
        button_if (trim (iv_username f) = [] \<or> trim (iv_password f) = []) UsCreate [Txt ''Create User'']]"

definition password_modal :: "string \<Rightarrow> string \<Rightarrow> users_msg node" where
  "password_modal target value =
     user_modal ''Reset Password'' UsResetClose
       [El ''input'' [(''value'', value), (''placeholder'', ''New password'')] [(''onChange'', UsNewPassword)] [],
        button UsResetClose [Txt ''Cancel''],
        button_if (length value < 8) (UsSavePassword target) [Txt ''Save Password'']]"

definition users_page_view :: "(string \<Rightarrow> string) \<Rightarrow> users_data \<Rightarrow> users_page \<Rightarrow> users_msg view" where
  "users_page_view ago q s =
     (case us_confirm s of
        Some (i, name) \<Rightarrow> [label (''Deactivate '' @ name @ ''?''), button UsConfirmed [Txt ''OK''], button UsDismissed [Txt ''Cancel'']]
      | None \<Rightarrow>
          if uq_role q \<noteq> Some ''admin'' then [label ''Admin access required.'']
          else [label ''Users'', label ''Manage local DTSYS accounts and roles.'', button UsInvite [icon ''UserPlus'', Txt ''Invite User'']]
               @ headings [''Username'', ''Role'', ''Last Login'', ''Created'', ''Status'', ''Actions'']
               @ map (account_row ago (uq_username q)) (uq_users q)
               @ shown (us_inviteOpen s) [invite_modal (us_inviteForm s)]
               @ shown (truthy (us_passwordTarget s)) [password_modal (the (us_passwordTarget s)) (us_passwordValue s)])"

text \<open>An open confirmation blocks the page: no answer of the server is handled before it is closed.\<close>

fun users_env :: "users_page \<Rightarrow> users_msg \<Rightarrow> bool" where
  "users_env s UsCreated \<longleftrightarrow> us_confirm s = None \<and> us_sent s \<noteq> []"
| "users_env s UsPasswordSaved \<longleftrightarrow> us_confirm s = None \<and> us_sent s \<noteq> []"
| "users_env s m \<longleftrightarrow> False"

abbreviation users_run where
  "users_run ago \<equiv> ui_run (users_page_view ago) users_env users_update users_init"

section \<open>Lemmas\<close>

lemmas users_view_defs = users_page_view_def account_row_def user_modal_def invite_modal_def password_modal_def Let_def

text \<open>The specification: a request of the page with the part of the history that asked for it.\<close>

inductive users_call :: "users_msg list \<Rightarrow> request \<Rightarrow> bool" where
  create: "trim uname \<noteq> [] \<Longrightarrow> trim pw \<noteq> [] \<Longrightarrow> users_call ms (admin_createUser uname pw rl)"
| set_role: "UsSetRole i rl \<in> set ms \<Longrightarrow> users_call ms (admin_updateUser i (Some rl) None)"
| set_active: "UsSetActive i b \<in> set ms \<Longrightarrow> users_call ms (admin_updateUser i None (Some b))"
| password: "UsReset i \<in> set ms \<Longrightarrow> 8 \<le> length pw \<Longrightarrow> users_call ms (admin_resetUserPassword i pw)"
| delete: "sublist [UsDelete i name, UsConfirmed] ms \<Longrightarrow> users_call ms (admin_deleteUser i)"

lemma users_call_mono: "users_call ms r \<Longrightarrow> users_call (ms @ ns) r"
  by (induction rule: users_call.induct) (auto intro: users_call.intros simp: sublist_append)

definition users_inv :: "users_msg list \<Rightarrow> users_page \<Rightarrow> bool" where
  "users_inv ms s \<longleftrightarrow>
     (\<forall>i name. us_confirm s = Some (i, name) \<longrightarrow> ms \<noteq> [] \<and> last ms = UsDelete i name)
     \<and> (\<forall>i. us_passwordTarget s = Some i \<longrightarrow> UsReset i \<in> set ms)
     \<and> (\<forall>r \<in> set (us_sent s). users_call ms r)"

lemma users_offers:
  assumes "offers (users_page_view ago q s) m"
  shows "m = UsConfirmed \<or> m = UsDismissed \<longleftrightarrow> us_confirm s \<noteq> None"
    and "m = UsCreate \<Longrightarrow> trim (iv_username (us_inviteForm s)) \<noteq> [] \<and> trim (iv_password (us_inviteForm s)) \<noteq> []"
    and "m = UsSavePassword i \<Longrightarrow> us_passwordTarget s = Some i \<and> 8 \<le> length (us_passwordValue s)"
  using assms by (auto simp: users_view_defs split: option.splits if_splits)

lemma snoc_sublist: "ms \<noteq> [] \<Longrightarrow> sublist [last ms, m] (ms @ [m])"
  by (cases ms rule: rev_cases) (simp_all add: sublist_append_leftI)

lemma users_inv_step:
  assumes inv: "users_inv ms s"
    and modal: "us_confirm s \<noteq> None \<Longrightarrow> m = UsConfirmed \<or> m = UsDismissed"
    and create: "m = UsCreate \<Longrightarrow> trim (iv_username (us_inviteForm s)) \<noteq> [] \<and> trim (iv_password (us_inviteForm s)) \<noteq> []"
    and save: "\<And>i. m = UsSavePassword i \<Longrightarrow> us_passwordTarget s = Some i \<and> 8 \<le> length (us_passwordValue s)"
  shows "users_inv (ms @ [m]) (users_update s m)"
proof -
  have old: "users_call (ms @ [m]) r" if "r \<in> set (us_sent s)" for r
    using that inv users_call_mono by (auto simp: users_inv_def)
  have target: "UsReset i \<in> set ms" if "us_passwordTarget s = Some i" for i
    using that inv by (simp add: users_inv_def)
  have delete: "users_call (ms @ [UsConfirmed]) (admin_deleteUser i)" if "us_confirm s = Some (i, name)" for i name
    using that inv snoc_sublist[of ms UsConfirmed] by (metis users_inv_def users_call.delete)
  show ?thesis
  proof (cases "us_confirm s")
    case None
    with create save old target show ?thesis unfolding users_inv_def
      by (cases m) (auto simp: us_send_def user_mutation_def set_invite_def inviteUser_def Let_def intro: users_call.intros)
  next
    case (Some p)
    with modal old target delete show ?thesis unfolding users_inv_def
      by (cases p) (auto simp: us_send_def user_mutation_def)
  qed
qed

interpretation users: ui_page "users_page_view ago" users_env users_update users_init users_inv
proof unfold_locales
  show "users_inv [] users_init" by (simp add: users_inv_def users_init_def)
  show "users_inv (ms @ [m]) (users_update s m)" if "users_inv ms s" "offers (users_page_view ago d s) m" for ms s d m
    by (rule users_inv_step[OF that(1)]) (use users_offers[OF that(2)] in auto)
  show "users_inv (ms @ [m]) (users_update s m)" if "users_inv ms s" "users_env s m" for ms s m
    by (rule users_inv_step[OF that(1)]; use that(2) in \<open>cases m; simp\<close>)
qed

section \<open>Properties\<close>

text \<open>C13. The users page sends nothing that was not asked for: in every run a deletion was confirmed directly before
  it was sent, a new password has at least eight characters and is set on an account whose dialog was opened, a role or
  status changes on a click on that account, and a new user has a name and a password. And nobody can change
  the role or status of their own account, or delete it, from the page.\<close>

theorem users_page_safe:
  assumes "users_run ago ms s"
  shows "(\<forall>r \<in> set (us_sent s). users_call ms r)
    \<and> (offers (users_page_view ago q s) m \<and> (m = UsSetRole i rl \<or> m = UsSetActive i b \<or> m = UsDelete i name)
        \<longrightarrow> (\<exists>a \<in> set (uq_users q). u_id a = i \<and> Some (u_username a) \<noteq> uq_username q))"
  using users.run_inv[OF assms]
  by (auto simp: users_inv_def users_view_defs split: option.splits if_splits)

definition sample_users :: users_data where
  "sample_users = \<lparr>uq_role = Some ''admin'', uq_username = Some ''root'',
     uq_users = [\<lparr>u_id = ''7'', u_username = ''eve'', u_role = Viewer, u_is_active = Some True, u_last_login = None, u_created_at = None\<rparr>]\<rparr>"

lemma sample_users_run:
  "users_run ago [UsDelete ''7'' ''eve'', UsConfirmed] (foldl users_update users_init [UsDelete ''7'' ''eve'', UsConfirmed])"
proof -
  have "users_run ago [UsDelete ''7'' ''eve''] (users_update users_init (UsDelete ''7'' ''eve''))"
    using ui_run.user[OF ui_run.mount[of "users_page_view ago" users_env users_update users_init], where d = sample_users and m = "UsDelete ''7'' ''eve''"]
    by (simp add: users_view_defs users_init_def sample_users_def)
  from ui_run.user[OF this, where d = sample_users and m = UsConfirmed] show ?thesis
    by (simp add: users_page_view_def users_init_def)
qed

theorem users_page_safe_witness:
  "us_sent (foldl users_update users_init [UsDelete ''7'' ''eve'', UsConfirmed]) = [admin_deleteUser ''7'']
   \<and> users_call [UsDelete ''7'' ''eve'', UsConfirmed] (admin_deleteUser ''7'')"
  using users_page_safe[OF sample_users_run] by (simp add: users_init_def us_send_def user_mutation_def)

end
