(* ===== verification/OrganizationsPage.thy ===== *)
theory OrganizationsPage
  imports Queries View
begin

text \<open>
  \<open>frontend/src/pages/Organizations.tsx\<close>: the organisations of the user, the panel of their members, and the
  dialogs to create and to delete one. The panel is a component of its own: its state starts afresh when it is
  opened and is gone when it is closed.
\<close>

section \<open>The slug\<close>

text \<open>
  \<open>name.toLowerCase().replace(/[^a-z0-9]+/g, '-').replace(/^-|-$/g, '').slice(0, 64)\<close>: runs of other
  characters become one dash, one dash at each end is dropped, and the result is cut.
\<close>

definition slug_char :: "char \<Rightarrow> bool" where
  "slug_char c \<longleftrightarrow> (let n = of_char c :: nat in 97 \<le> n \<and> n \<le> 122 \<or> 48 \<le> n \<and> n \<le> 57)"

abbreviation dash :: char where "dash \<equiv> CHR ''-''"

function dash_runs :: "string \<Rightarrow> string" where
  "dash_runs [] = []"
| "dash_runs (c # s) = (if slug_char c then c # dash_runs s else dash # dash_runs (dropWhile (\<lambda>d. \<not> slug_char d) s))"
  by pat_completeness auto
termination by (relation "measure length") (auto simp: le_imp_less_Suc length_dropWhile_le)

definition strip_dashes :: "string \<Rightarrow> string" where
  "strip_dashes s =
     (let t = (if startsWith s [dash] then drop 1 s else s)
      in if t \<noteq> [] \<and> last t = dash then butlast t else t)"

definition slug_of :: "string \<Rightarrow> string" where
  "slug_of name = take 64 (strip_dashes (dash_runs (toLowerCase name)))"

section \<open>State and requests\<close>

record members_panel =
  mp_inviteUsername :: string
  mp_inviteRole :: string
  mp_pending :: bool \<comment> \<open>\<open>invite.isPending\<close>\<close>

definition panel_fresh :: members_panel where
  "panel_fresh = \<lparr>mp_inviteUsername = [], mp_inviteRole = ''member'', mp_pending = False\<rparr>"

record create_org_form =
  co_name :: string
  co_slug :: string

definition emptyOrg :: create_org_form where
  "emptyOrg = \<lparr>co_name = [], co_slug = []\<rparr>"

record orgs_page =
  og_showCreate :: bool
  og_form :: create_org_form
  og_expanded :: "string option"
  og_panel :: members_panel
  og_deleteConfirm :: "string option"
  og_creating :: bool
  og_createError :: bool
  og_deleting :: bool
  og_sent :: "request list"

definition orgs_init :: orgs_page where
  "orgs_init = \<lparr>og_showCreate = False, og_form = emptyOrg, og_expanded = None, og_panel = panel_fresh, og_deleteConfirm = None,
     og_creating = False, og_createError = False, og_deleting = False, og_sent = []\<rparr>"

definition orgs_queries :: "orgs_page \<Rightarrow> query list" where
  "orgs_queries s =
     \<lparr>q_key = [JStr ''organizations''], q_request = orgs_list, q_interval = 0, q_enabled = True\<rparr>
     # (case og_expanded s of None \<Rightarrow> []
        | Some i \<Rightarrow> [\<lparr>q_key = [JStr ''org-members'', JStr i], q_request = orgs_listMembers i, q_interval = 0, q_enabled = True\<rparr>])"

definition create_org :: "create_org_form \<Rightarrow> mutation" where
  "create_org f = \<lparr>mu_request = orgs_create (trim (co_name f)) (toLowerCase (trim (co_slug f))), mu_invalidates = [[JStr ''organizations'']]\<rparr>"

definition deleteOrg :: "string \<Rightarrow> mutation" where
  "deleteOrg i = \<lparr>mu_request = orgs_delete i, mu_invalidates = [[JStr ''organizations'']]\<rparr>"

definition invite_member :: "string \<Rightarrow> members_panel \<Rightarrow> mutation" where
  "invite_member i p = \<lparr>mu_request = orgs_inviteMember i (trim (mp_inviteUsername p)) (mp_inviteRole p),
     mu_invalidates = [[JStr ''org-members'', JStr i]]\<rparr>"

definition remove_member :: "string \<Rightarrow> string \<Rightarrow> mutation" where
  "remove_member i u = \<lparr>mu_request = orgs_removeMember i u, mu_invalidates = [[JStr ''org-members'', JStr i]]\<rparr>"

definition changeRole :: "string \<Rightarrow> string \<Rightarrow> string \<Rightarrow> mutation" where
  "changeRole i u rl = \<lparr>mu_request = orgs_updateMember i u rl, mu_invalidates = [[JStr ''org-members'', JStr i]]\<rparr>"

definition handleNameChange :: "string \<Rightarrow> create_org_form \<Rightarrow> create_org_form" where
  "handleNameChange name f = \<lparr>co_name = name, co_slug = slug_of name\<rparr>"

datatype members_msg = MpUsername string | MpRole string | MpInvite | MpInvited | MpInviteFailed | MpRemove string | MpChangeRole string string

fun members_update :: "string \<Rightarrow> members_panel \<times> request list \<Rightarrow> members_msg \<Rightarrow> members_panel \<times> request list" where
  "members_update i (p, rs) (MpUsername v) = (p\<lparr>mp_inviteUsername := v\<rparr>, rs)"
| "members_update i (p, rs) (MpRole v) = (p\<lparr>mp_inviteRole := v\<rparr>, rs)"
| "members_update i (p, rs) MpInvite = (p\<lparr>mp_pending := True\<rparr>, rs @ [mu_request (invite_member i p)])"
| "members_update i (p, rs) MpInvited = (p\<lparr>mp_pending := False, mp_inviteUsername := []\<rparr>, rs)"
| "members_update i (p, rs) MpInviteFailed = (p\<lparr>mp_pending := False\<rparr>, rs)"
| "members_update i (p, rs) (MpRemove u) = (p, rs @ [mu_request (remove_member i u)])"
| "members_update i (p, rs) (MpChangeRole u rl) = (p, rs @ [mu_request (changeRole i u rl)])"

datatype orgs_msg =
    OgShowCreate | OgCancelCreate | OgName string | OgSlug string | OgCreate | OgCreated | OgCreateFailed
  | OgExpand string | OgPanel members_msg
  | OgAskDelete string | OgCancelDelete | OgDelete string | OgDeleted | OgDeleteFailed

definition og_send :: "request \<Rightarrow> orgs_page \<Rightarrow> orgs_page" where
  "og_send r s = s\<lparr>og_sent := og_sent s @ [r]\<rparr>"

fun orgs_page_update :: "orgs_page \<Rightarrow> orgs_msg \<Rightarrow> orgs_page" where
  "orgs_page_update s OgShowCreate = s\<lparr>og_showCreate := True\<rparr>"
| "orgs_page_update s OgCancelCreate = s\<lparr>og_showCreate := False\<rparr>"
| "orgs_page_update s (OgName v) = s\<lparr>og_form := handleNameChange v (og_form s)\<rparr>"
| "orgs_page_update s (OgSlug v) = s\<lparr>og_form := (og_form s)\<lparr>co_slug := v\<rparr>\<rparr>"
| "orgs_page_update s OgCreate = og_send (mu_request (create_org (og_form s))) (s\<lparr>og_creating := True, og_createError := False\<rparr>)"
| "orgs_page_update s OgCreated = s\<lparr>og_creating := False, og_showCreate := False, og_form := emptyOrg\<rparr>"
| "orgs_page_update s OgCreateFailed = s\<lparr>og_creating := False, og_createError := True\<rparr>"
| "orgs_page_update s (OgExpand i) = s\<lparr>og_expanded := if og_expanded s = Some i then None else Some i, og_panel := panel_fresh\<rparr>"
| "orgs_page_update s (OgPanel m) = (case og_expanded s of
     None \<Rightarrow> s
   | Some i \<Rightarrow> (case members_update i (og_panel s, og_sent s) m of (p, rs) \<Rightarrow> s\<lparr>og_panel := p, og_sent := rs\<rparr>))"
| "orgs_page_update s (OgAskDelete i) = s\<lparr>og_deleteConfirm := Some i\<rparr>"
| "orgs_page_update s OgCancelDelete = s\<lparr>og_deleteConfirm := None\<rparr>"
| "orgs_page_update s (OgDelete i) = og_send (mu_request (deleteOrg i)) (s\<lparr>og_deleting := True\<rparr>)"
| "orgs_page_update s OgDeleted = s\<lparr>og_deleting := False, og_deleteConfirm := None\<rparr>"
| "orgs_page_update s OgDeleteFailed = s\<lparr>og_deleting := False\<rparr>"

section \<open>The view\<close>

definition roleBadge :: "string \<Rightarrow> 'm node" where
  "roleBadge rl =
     (let colors = map_of [(''owner'', ''purple''), (''admin'', ''blue''), (''member'', ''slate'')]
      in toned (nullish (colors rl) ''slate'') rl)"

definition canManage :: "org \<Rightarrow> bool" where
  "canManage o' \<longleftrightarrow> org_role o' = ''owner'' \<or> org_role o' = ''admin''"

definition member_row :: "org \<Rightarrow> string option \<Rightarrow> org_member \<Rightarrow> members_msg node" where
  "member_row o' currentUserId m =
     (let editable = canManage o' \<and> Some (om_user_id m) \<noteq> currentUserId \<and> om_role m \<noteq> ''owner''
      in box ([label (om_username m),
               if editable then choice_field (om_role m) (MpChangeRole (om_user_id m)) [(''admin'', ''admin''), (''member'', ''member'')]
               else roleBadge (om_role m)]
              @ shown editable
                  [El ''button'' [(''title'', ''Remove member'')] [(''onClick'', \<lambda>_. MpRemove (om_user_id m))] [icon ''UserMinus'']]))"

definition MembersPanel :: "org \<Rightarrow> string option \<Rightarrow> bool \<Rightarrow> org_member list \<Rightarrow> members_panel \<Rightarrow> members_msg view" where
  "MembersPanel o' currentUserId isLoading members p =
     (if isLoading then [label ''Loading members...'']
      else map (member_row o' currentUserId) members
           @ shown (canManage o')
               [El ''input'' [(''value'', mp_inviteUsername p), (''placeholder'', ''Username to invite'')] [(''onChange'', MpUsername)] [],
                choice_field (mp_inviteRole p) MpRole [(''member'', ''Member''), (''admin'', ''Admin'')],
                button_if (trim (mp_inviteUsername p) = [] \<or> mp_pending p) MpInvite [Txt ''Invite'']])"

record orgs_data =
  oq_loading :: bool
  oq_orgs :: "org list"
  oq_currentOrgId :: "string option"
  oq_members :: "string \<Rightarrow> bool \<times> org_member list" \<comment> \<open>the member query of an organisation: loading, and its data\<close>

definition org_card :: "orgs_data \<Rightarrow> orgs_page \<Rightarrow> org \<Rightarrow> orgs_msg node" where
  "org_card q s o' =
     (let current = Some (org_id o') = oq_currentOrgId q
      in El ''div'' [(''current'', if current then ''true'' else ''false'')] []
           ([icon ''Building2'', label (org_name o'), roleBadge (org_role o')] @ shown current [label ''current'']
            @ [label (org_slug o'), button (OgExpand (org_id o')) [icon ''Users'', Txt ''Members'']]
            @ shown (org_role o' = ''owner'')
                [El ''button'' [(''title'', ''Delete organization'')] [(''onClick'', \<lambda>_. OgAskDelete (org_id o'))] [icon ''Trash2'']]
            @ shown (og_expanded s = Some (org_id o'))
                (map (map_node OgPanel) (MembersPanel o' None (fst (oq_members q (org_id o'))) (snd (oq_members q (org_id o'))) (og_panel s)))))"

definition create_org_modal :: "orgs_page \<Rightarrow> orgs_msg view" where
  "create_org_modal s =
     [label ''Create Organization'', label ''Name'',
      El ''input'' [(''value'', co_name (og_form s)), (''placeholder'', ''My Organization'')] [(''onChange'', OgName)] [], label ''Slug'',
      El ''input'' [(''value'', co_slug (og_form s)), (''placeholder'', ''my-organization'')] [(''onChange'', OgSlug)] [],
      button OgCancelCreate [Txt ''Cancel''],
      button_if (trim (co_name (og_form s)) = [] \<or> trim (co_slug (og_form s)) = [] \<or> og_creating s) OgCreate [Txt ''Create'']]
     @ shown (og_createError s) [label ''Failed to create. Slug may already be taken.'']"

definition delete_org_modal :: "string \<Rightarrow> bool \<Rightarrow> orgs_msg view" where
  "delete_org_modal i deleting =
     [label ''Delete Organization'',
      label ''This will permanently delete the organization and all its devices. This action cannot be undone.'',
      button OgCancelDelete [Txt ''Cancel''], button_if deleting (OgDelete i) [Txt ''Delete'']]"

definition orgs_page_view :: "orgs_data \<Rightarrow> orgs_page \<Rightarrow> orgs_msg view" where
  "orgs_page_view q s =
     (if oq_loading q then [label ''Loading organizations...'']
      else [icon ''Building2'', label ''Organizations'', button OgShowCreate [icon ''Plus'', Txt ''Create Organization'']]
           @ map (org_card q s) (oq_orgs q)
           @ shown (oq_orgs q = []) [icon ''Building2'', label ''No organizations yet. Create one to get started.'']
           @ shown (og_showCreate s) (create_org_modal s)
           @ shown (truthy (og_deleteConfirm s)) (delete_org_modal (the (og_deleteConfirm s)) (og_deleting s)))"

fun orgs_env :: "orgs_page \<Rightarrow> orgs_msg \<Rightarrow> bool" where
  "orgs_env s OgCreated \<longleftrightarrow> og_creating s"
| "orgs_env s OgCreateFailed \<longleftrightarrow> og_creating s"
| "orgs_env s OgDeleted \<longleftrightarrow> og_deleting s"
| "orgs_env s OgDeleteFailed \<longleftrightarrow> og_deleting s"
| "orgs_env s (OgPanel MpInvited) \<longleftrightarrow> mp_pending (og_panel s)"
| "orgs_env s (OgPanel MpInviteFailed) \<longleftrightarrow> mp_pending (og_panel s)"
| "orgs_env s m \<longleftrightarrow> False"

abbreviation orgs_run where
  "orgs_run \<equiv> ui_run orgs_page_view orgs_env orgs_page_update orgs_init"

section \<open>Lemmas on the slug\<close>

abbreviation no_double_dash :: "string \<Rightarrow> bool" where
  "no_double_dash s \<equiv> \<not> includes_sub s [dash, dash]"

lemma slug_char_dash [simp]: "\<not> slug_char dash"
  by (simp add: slug_char_def)

lemma dash_runs_chars: "c \<in> set (dash_runs s) \<Longrightarrow> slug_char c \<or> c = dash"
  by (induction s rule: dash_runs.induct) (auto split: if_splits)

lemma dash_runs_after: "dash_runs (dropWhile (\<lambda>d. \<not> slug_char d) s) = [] \<or> hd (dash_runs (dropWhile (\<lambda>d. \<not> slug_char d) s)) \<noteq> dash"
proof (cases "dropWhile (\<lambda>d. \<not> slug_char d) s")
  case (Cons c t)
  then have "slug_char c" by (metis dropWhile_eq_Cons_conv)
  with Cons show ?thesis by auto
next
  case Nil
  then show ?thesis by (simp only: dash_runs.simps simp_thms)
qed

lemma double_dash_Cons:
  "includes_sub (c # s) [dash, dash] \<longleftrightarrow> (c = dash \<and> s \<noteq> [] \<and> hd s = dash) \<or> includes_sub s [dash, dash]"
  by (cases s) (auto simp: startsWith_def)

lemma dash_runs_single: "no_double_dash (dash_runs s)"
proof (induction s rule: dash_runs.induct)
  case (2 c s)
  then show ?case using dash_runs_after[of s] by (auto simp: double_dash_Cons simp del: includes_sub.simps)
qed simp

lemma no_double_dash_sublist: "no_double_dash (s @ t) \<Longrightarrow> no_double_dash s \<and> no_double_dash t"
proof (induction s)
  case (Cons c s)
  then show ?case by (cases s) (auto simp: double_dash_Cons simp del: includes_sub.simps)
qed (cases t; simp add: startsWith_def)

text \<open>The slug as a piece of the text with collapsed runs.\<close>

lemma strip_dashes_piece: "\<exists>a b. s = a @ strip_dashes s @ b"
proof -
  define t where "t = (if startsWith s [dash] then drop 1 s else s)"
  have "s = (if startsWith s [dash] then take 1 s else []) @ t" by (simp add: t_def)
  moreover have "t = strip_dashes s @ (if t \<noteq> [] \<and> last t = dash then [dash] else [])"
    unfolding strip_dashes_def t_def[symmetric] Let_def by (cases t rule: rev_cases) auto
  ultimately have "s = (if startsWith s [dash] then take 1 s else []) @ strip_dashes s @ (if t \<noteq> [] \<and> last t = dash then [dash] else [])"
    by simp
  then show ?thesis by blast
qed

lemma slug_piece: "\<exists>a b. dash_runs (toLowerCase name) = a @ slug_of name @ b"
  using strip_dashes_piece[of "dash_runs (toLowerCase name)"] unfolding slug_of_def
  by (metis append.assoc append_take_drop_id)

lemma slug_first: "slug_of name = [] \<or> hd (slug_of name) \<noteq> dash"
proof -
  define r where "r = dash_runs (toLowerCase name)"
  define t where "t = (if startsWith r [dash] then drop 1 r else r)"
  have "t = [] \<or> hd t \<noteq> dash"
    using dash_runs_single[of "toLowerCase name"] unfolding t_def r_def[symmetric]
    by (cases r; cases "drop 1 r") (auto simp: double_dash_Cons startsWith_def simp del: includes_sub.simps)
  moreover have "strip_dashes r = t \<or> strip_dashes r = butlast t" by (simp add: strip_dashes_def t_def Let_def)
  ultimately have "strip_dashes r = [] \<or> hd (strip_dashes r) \<noteq> dash"
    by (metis append_butlast_last_id butlast.simps(1) hd_append2)
  then show ?thesis unfolding slug_of_def r_def[symmetric] by (metis hd_take take_eq_Nil2 zero_less_numeral)
qed

lemma strip_last:
  assumes "no_double_dash s" "strip_dashes s \<noteq> []"
  shows "last (strip_dashes s) \<noteq> dash"
proof
  define t where "t = (if startsWith s [dash] then drop 1 s else s)"
  have strip: "strip_dashes s = (if t \<noteq> [] \<and> last t = dash then butlast t else t)"
    unfolding strip_dashes_def t_def[symmetric] by (simp add: Let_def)
  assume last: "last (strip_dashes s) = dash"
  with strip assms(2) have "t \<noteq> []" "last t = dash" "strip_dashes s = butlast t" by (auto split: if_splits)
  with last assms(2) have "t = butlast (butlast t) @ [dash, dash]"
    by (metis append_butlast_last_id append_assoc append_Cons append_Nil)
  then obtain u where "s = u @ [dash, dash]" unfolding t_def by (metis append_assoc append_take_drop_id)
  with assms(1) no_double_dash_sublist[of u "[dash, dash]"] show False by (simp add: startsWith_def)
qed

lemma toLowerCase_slug_char: "slug_char c \<or> c = dash \<Longrightarrow> lower_char c = c \<and> \<not> is_space c"
  by (auto simp: slug_char_def lower_char_def is_space_def Let_def)

lemma slug_sent_unchanged:
  assumes "\<forall>c \<in> set s. slug_char c \<or> c = dash"
  shows "toLowerCase (trim s) = s"
proof -
  have "\<not> is_space c" "lower_char c = c" if "c \<in> set s" for c
    using assms that toLowerCase_slug_char by blast+
  moreover from this have "dropWhile is_space s = s" "dropWhile is_space (rev s) = rev s"
    by (auto simp: dropWhile_eq_self_iff hd_rev)
  ultimately show ?thesis by (simp add: toLowerCase_def trim_def map_idI)
qed

section \<open>Properties\<close>

text \<open>C20. The slug proposed for an organisation is well-formed: at most 64 characters, only lower-case letters, digits and
  dashes, no dash first and no two dashes in a row; the request sends it as it is shown. A trailing dash is possible
  only where the cut at 64 characters made one.\<close>

theorem slug_wellformed:
  "length (slug_of name) \<le> 64 \<and> list_all (\<lambda>c. slug_char c \<or> c = dash) (slug_of name)
   \<and> \<not> startsWith (slug_of name) [dash] \<and> no_double_dash (slug_of name)
   \<and> mu_request (create_org (handleNameChange name f)) = orgs_create (trim name) (slug_of name)
   \<and> (slug_of name \<noteq> [] \<and> last (slug_of name) = dash \<longrightarrow> length (slug_of name) = 64)"
proof -
  obtain a b where piece: "dash_runs (toLowerCase name) = a @ slug_of name @ b" using slug_piece by blast
  have chars: "\<forall>c \<in> set (slug_of name). slug_char c \<or> c = dash"
    using dash_runs_chars[of _ "toLowerCase name"] unfolding piece by auto
  have "no_double_dash (slug_of name)"
    using dash_runs_single[of "toLowerCase name"] unfolding piece using no_double_dash_sublist by blast
  moreover have "length (slug_of name) = 64" if "slug_of name \<noteq> []" "last (slug_of name) = dash"
  proof (rule ccontr)
    let ?t = "strip_dashes (dash_runs (toLowerCase name))"
    assume "length (slug_of name) \<noteq> 64"
    then have "slug_of name = ?t" by (simp add: slug_of_def)
    with that strip_last[of "dash_runs (toLowerCase name)"] dash_runs_single show False by metis
  qed
  ultimately show ?thesis
    using chars slug_first[of name] slug_sent_unchanged[OF chars]
    by (auto simp: create_org_def handleNameChange_def list_all_iff slug_of_def[symmetric] startsWith_iff) (simp add: slug_of_def)
qed

text \<open>The cut at 64 characters can leave the trailing dash the expression before it has removed.\<close>

lemma slug_trailing_dash:
  "slug_of (replicate 63 (CHR ''a'') @ ''!b'') \<noteq> []" "last (slug_of (replicate 63 (CHR ''a'') @ ''!b'')) = dash"
  by code_simp+

theorem slug_wellformed_witness:
  "length (slug_of (replicate 63 (CHR ''a'') @ ''!b'')) = 64 \<and> last (slug_of (replicate 63 (CHR ''a'') @ ''!b'')) = dash"
  using slug_wellformed[of "replicate 63 (CHR ''a'') @ ''!b''" emptyOrg] slug_trailing_dash by blast

lemmas orgs_view_defs = orgs_page_view_def org_card_def roleBadge_def create_org_modal_def delete_org_modal_def Let_def

lemma panel_offers:
  assumes "offers (orgs_page_view q s) (OgPanel k)"
  obtains o' where "o' \<in> set (oq_orgs q)" "og_expanded s = Some (org_id o')"
    "offers (MembersPanel o' None (fst (oq_members q (org_id o'))) (snd (oq_members q (org_id o'))) (og_panel s)) k"
  using assms by (auto simp: orgs_view_defs split: if_splits dest: offers_member)

lemma member_offers:
  assumes "offers (MembersPanel o' me loading members p) k" "k = MpRemove u \<or> k = MpChangeRole u rl"
  shows "canManage o' \<and> (\<exists>mem \<in> set members. om_user_id mem = u \<and> om_role mem \<noteq> ''owner'') \<and> (k = MpChangeRole u rl \<longrightarrow> rl = ''admin'' \<or> rl = ''member'')"
  using assms by (auto simp: MembersPanel_def member_row_def roleBadge_def Let_def split: if_splits)

text \<open>C21. Members are changed only by those who may: a member can be removed or given another role only in the open panel of
  an organisation the user owns or administers, never an owner, and only the roles admin and member can be given; the
  request names that organisation and that member. An organisation is deleted only from the confirmation of its owner.\<close>

theorem org_changes_guarded:
  assumes "offers (orgs_page_view q s) m"
  shows "(m = OgPanel k \<and> (k = MpRemove u \<or> k = MpChangeRole u rl) \<longrightarrow>
      (\<exists>o' \<in> set (oq_orgs q). canManage o' \<and> og_expanded s = Some (org_id o')
        \<and> (\<exists>mem \<in> set (snd (oq_members q (org_id o'))). om_user_id mem = u \<and> om_role mem \<noteq> ''owner'')
        \<and> og_sent (orgs_page_update s m) = og_sent s @ [if k = MpRemove u then orgs_removeMember (org_id o') u else orgs_updateMember (org_id o') u rl]
        \<and> (k = MpChangeRole u rl \<longrightarrow> rl = ''admin'' \<or> rl = ''member'')))
    \<and> (m = OgAskDelete i \<longrightarrow> (\<exists>o' \<in> set (oq_orgs q). org_id o' = i \<and> org_role o' = ''owner''))
    \<and> (m = OgDelete i \<longrightarrow> og_deleteConfirm s = Some i \<and> og_sent (orgs_page_update s m) = og_sent s @ [orgs_delete i])"
proof (intro conjI impI; (elim conjE)?)
  assume k: "m = OgPanel k" "k = MpRemove u \<or> k = MpChangeRole u rl"
  obtain o' where o': "o' \<in> set (oq_orgs q)" "og_expanded s = Some (org_id o')"
    "offers (MembersPanel o' None (fst (oq_members q (org_id o'))) (snd (oq_members q (org_id o'))) (og_panel s)) k"
    using panel_offers assms k(1) by blast
  have "og_sent (orgs_page_update s m) = og_sent s @ [if k = MpRemove u then orgs_removeMember (org_id o') u else orgs_updateMember (org_id o') u rl]"
    using k o'(2) by (auto simp: remove_member_def changeRole_def)
  with member_offers[OF o'(3) k(2)] o'(1,2) show "\<exists>o' \<in> set (oq_orgs q). canManage o' \<and> og_expanded s = Some (org_id o')
        \<and> (\<exists>mem \<in> set (snd (oq_members q (org_id o'))). om_user_id mem = u \<and> om_role mem \<noteq> ''owner'')
        \<and> og_sent (orgs_page_update s m) = og_sent s @ [if k = MpRemove u then orgs_removeMember (org_id o') u else orgs_updateMember (org_id o') u rl]
        \<and> (k = MpChangeRole u rl \<longrightarrow> rl = ''admin'' \<or> rl = ''member'')" by blast
qed (use assms in \<open>auto simp: orgs_view_defs deleteOrg_def og_send_def split: if_splits\<close>)

definition sample_orgs :: orgs_data where
  "sample_orgs = \<lparr>oq_loading = False,
     oq_orgs = [\<lparr>org_id = ''1'', org_name = ''A'', org_slug = ''a'', org_role = ''admin'', org_active = True\<rparr>], oq_currentOrgId = None,
     oq_members = (\<lambda>i. (False, [\<lparr>om_user_id = ''9'', om_username = ''me'', om_role = ''admin''\<rparr>]))\<rparr>"

lemma sample_remove_offered: "offers (orgs_page_view sample_orgs (orgs_page_update orgs_init (OgExpand ''1''))) (OgPanel (MpRemove ''9''))"
  by (simp add: orgs_page_view_def sample_orgs_def orgs_init_def org_card_def MembersPanel_def member_row_def canManage_def roleBadge_def
      Let_def)

theorem org_changes_guarded_witness:
  "\<exists>o' \<in> set (oq_orgs sample_orgs). canManage o' \<and> og_expanded (orgs_page_update orgs_init (OgExpand ''1'')) = Some (org_id o')"
  using org_changes_guarded[OF sample_remove_offered, of "MpRemove ''9''" "''9''"] by blast

text \<open>
  The panel is always given no current user, so the guard that protects the own membership never applies: an
  administrator is offered the removal of every member but the owner, the own one included.
\<close>

lemma own_membership_exposed:
  assumes "canManage o'" "mem \<in> set members" "om_role mem \<noteq> ''owner''"
  shows "offers (MembersPanel o' None False members p) (MpRemove (om_user_id mem))"
  using assms by (auto simp: MembersPanel_def member_row_def Let_def)

end
