(* ===== verification/Onboarding.thy ===== *)
theory Onboarding
  imports Routes Queries View
begin

text \<open>
  \<open>frontend/src/pages/Onboarding.tsx\<close>: the wizard of the first run, which asks for an enrolment token, shows the
  commands that install an agent with it, and waits for the first device; and its interplay with the home route of
  \<open>App.tsx\<close>, which sends an administrator without devices to the wizard. Both look at the device list through
  queries of their own.
\<close>

section \<open>Install commands\<close>

definition squote :: char where "squote = CHR 0x27"

definition quoted :: "string \<Rightarrow> string" where
  "quoted s = [dquote] @ s @ [dquote]"

definition config_lines :: "string \<Rightarrow> string \<Rightarrow> string list" where
  "config_lines server token =
     [''[server]'', ''url = '' @ quoted server, ''enrollment_token = '' @ quoted token, [], ''[agent]'', ''device_id = '' @ quoted [],
      ''api_key = '' @ quoted [], [], ''[update]'', ''auto_update = false'']"

definition unix_install :: "string \<Rightarrow> string \<Rightarrow> string \<Rightarrow> string \<Rightarrow> string" where
  "unix_install platform arch server token =
     join [newline]
       ([''curl -fsSL '' @ quoted (server @ ''/api/v1/agent/download?platform='' @ platform @ ''&arch='' @ arch)
         @ '' -o /tmp/dtsys-agent && chmod +x /tmp/dtsys-agent && mkdir -p /etc/dtsys && cat > /tmp/dtsys-agent.toml <<''
         @ [squote] @ ''EOF'' @ [squote]]
        @ config_lines server token @ [''EOF'', ''/tmp/dtsys-agent --config /tmp/dtsys-agent.toml''])"

datatype platform_tab = LinuxTab | WindowsTab | MacosTab

fun platform_str :: "platform_tab \<Rightarrow> string" where
  "platform_str LinuxTab = ''linux''"
| "platform_str WindowsTab = ''windows''"
| "platform_str MacosTab = ''macos''"

definition snippets :: "string \<Rightarrow> string \<Rightarrow> platform_tab \<Rightarrow> string" where
  "snippets apiBase token p = (case p of
     LinuxTab \<Rightarrow> unix_install ''linux'' ''amd64'' apiBase token
   | WindowsTab \<Rightarrow> ''powershell -ExecutionPolicy Bypass -File .'' @ [CHR 0x5C] @ ''install.ps1 -ServerURL '' @ quoted apiBase
       @ '' -EnrollmentToken '' @ quoted token
   | MacosTab \<Rightarrow> unix_install ''darwin'' ''arm64'' apiBase token)"

section \<open>State\<close>

definition wizard_steps :: "string list" where
  "wizard_steps = [''Welcome'', ''Enrollment Token'', ''First Device'', ''Ready'']"

record wizard =
  wz_step :: nat
  wz_platform :: platform_tab
  wz_copied :: "string option"
  wz_pending :: bool \<comment> \<open>\<open>tokenMutation.isPending\<close>\<close>
  wz_data :: "string option" \<comment> \<open>the token in \<open>tokenMutation.data\<close>\<close>
  wz_clipboard :: string
  wz_writing :: "string list" \<comment> \<open>keys of the clipboard writes under way\<close>
  wz_timers :: nat
  wz_sent :: "request list"

definition wizard_init :: wizard where
  "wizard_init = \<lparr>wz_step = 0, wz_platform = LinuxTab, wz_copied = None, wz_pending = False, wz_data = None, wz_clipboard = [],
     wz_writing = [], wz_timers = 0, wz_sent = []\<rparr>"

definition wizard_query :: "string option \<Rightarrow> wizard \<Rightarrow> query" where
  "wizard_query userRole s =
     \<lparr>q_key = [JStr ''devices'', JStr ''onboarding''], q_request = devices_list None None,
      q_interval = (if wz_step s \<ge> 2 then 5000 else 0), q_enabled = (userRole = Some ''admin'')\<rparr>"

definition wizard_token :: "wizard \<Rightarrow> string" where
  "wizard_token s = nullish (wz_data s) []"

datatype wizard_msg =
    WzStart | WzToken string | WzTokenFailed
  | WzCopy string string | WzWritten string | WzTimer
  | WzPlatform platform_tab | WzContinue | WzReady
  | WzLink string

fun wizard_update :: "wizard \<Rightarrow> wizard_msg \<Rightarrow> wizard" where
  "wizard_update s WzStart = s\<lparr>wz_pending := True, wz_data := None, wz_sent := wz_sent s @ [api_post ''/admin/enrollment-tokens'' None]\<rparr>"
| "wizard_update s (WzToken t) = s\<lparr>wz_pending := False, wz_data := Some t, wz_step := 1\<rparr>"
| "wizard_update s WzTokenFailed = s\<lparr>wz_pending := False\<rparr>"
| "wizard_update s (WzCopy value key) = s\<lparr>wz_clipboard := value, wz_writing := wz_writing s @ [key]\<rparr>"
| "wizard_update s (WzWritten key) = s\<lparr>wz_copied := Some key, wz_writing := remove1 key (wz_writing s), wz_timers := wz_timers s + 1\<rparr>"
| "wizard_update s WzTimer = s\<lparr>wz_copied := None, wz_timers := wz_timers s - 1\<rparr>"
| "wizard_update s (WzPlatform p) = s\<lparr>wz_platform := p\<rparr>"
| "wizard_update s WzContinue = s\<lparr>wz_step := 2\<rparr>"
| "wizard_update s WzReady = s\<lparr>wz_step := 3\<rparr>"
| "wizard_update s (WzLink t) = s"

section \<open>The view\<close>

record wizard_data =
  wq_role :: "string option"
  wq_loading :: bool
  wq_devices :: "device list"
  wq_origin :: string

text \<open>The early returns of the page: where it redirects to, if it does.\<close>

definition wizard_redirect :: "string option \<Rightarrow> bool \<Rightarrow> nat \<Rightarrow> nat \<Rightarrow> string option" where
  "wizard_redirect userRole isLoading n_devices step =
     (if userRole \<noteq> Some ''admin'' then Some ''/''
      else if \<not> isLoading \<and> n_devices > 0 \<and> step < 2 then Some ''/'' else None)"

definition IntroCard :: "string \<Rightarrow> string \<Rightarrow> string \<Rightarrow> 'm node" where
  "IntroCard ic title text = box [icon ic, label title, label text]"

definition SummaryLink :: "string \<Rightarrow> string \<Rightarrow> string \<Rightarrow> wizard_msg node" where
  "SummaryLink to title text = El ''a'' [(''href'', to)] [(''onClick'', \<lambda>_. WzLink to)] [label title, label text]"

definition step_header :: "wizard \<Rightarrow> wizard_msg view" where
  "step_header s =
     map (\<lambda>(index, name). El ''div'' [(''color'', if index = wz_step s then ''blue'' else if index < wz_step s then ''emerald'' else ''slate'')] []
            [label (''Step '' @ nat_str (index + 1)), label name]) (enumerate 0 wizard_steps)"

definition welcome_step :: "wizard \<Rightarrow> wizard_msg view" where
  "welcome_step s =
     [label ''What happens next'',
      label ''DTSYS monitors health, alerts, software, commands, events, processes, and network state from a single dashboard. The first step is generating a one-time enrollment token and installing one agent.'',
      button_if (wz_pending s) WzStart [Txt ''Get Started''],
      IntroCard ''Monitor'' ''Device Visibility'' ''See online status, health metrics, software, and network inventory.'',
      IntroCard ''Terminal'' ''Remote Actions'' ''Run commands, collect diagnostics, request screenshots, and sync time.'',
      IntroCard ''Laptop'' ''Operational History'' ''Track alerts, crashes, events, and audit activity in one place.'']"

definition token_step :: "string \<Rightarrow> wizard \<Rightarrow> wizard_msg view" where
  "token_step apiBase s =
     (let token = wizard_token s; p = wz_platform s; text = snippets apiBase token p
      in [label ''Generate Enrollment Token'',
          label ''This token is single-use and expires automatically. Install the agent on the target device using one of the snippets below.'',
          label token,
          button (WzCopy token ''token'') [icon ''Copy'', Txt (if wz_copied s = Some ''token'' then ''Copied'' else ''Copy Token'')]]
         @ map (\<lambda>v. El ''button'' [(''color'', if v = p then ''blue'' else ''slate'')] [(''onClick'', \<lambda>_. WzPlatform v)] [Txt (platform_str v)])
             [LinuxTab, WindowsTab, MacosTab]
         @ [label (platform_str p @ '' install''),
            button (WzCopy text (platform_str p)) [icon ''Copy'', Txt (if wz_copied s = Some (platform_str p) then ''Copied'' else ''Copy Snippet'')],
            label text, button WzContinue [Txt ''Continue'']])"

definition waiting_step :: "device list \<Rightarrow> wizard_msg view" where
  "waiting_step devices =
     [label ''Waiting for first device'', label ''The dashboard is polling every 5 seconds for the first enrolled agent.'']
     @ (case devices of
          [] \<Rightarrow> [label ''Waiting for agent to connect...'']
        | d # _ \<Rightarrow> [icon ''CheckCircle2'', label (''Device connected: '' @ nullish (d_label d) (d_hostname d)),
                     button WzReady [Txt ''Go to Dashboard'']])"

definition ready_step :: "wizard_msg view" where
  "ready_step =
     [label (''You'' @ [squote] @ ''re ready''),
      label ''DTSYS is ready to monitor devices, collect events, visualize software state, and dispatch remote actions.'',
      SummaryLink ''/'' ''Dashboard'' ''See health, availability, and live device activity.'',
      SummaryLink ''/alerts'' ''Alerts'' ''Review unresolved incidents and resolve them quickly.'',
      SummaryLink ''/settings'' ''Settings'' ''Create users, manage notifications, and review audit logs.'',
      El ''a'' [(''href'', ''/'')] [(''onClick'', \<lambda>_. WzLink ''/'')] [Txt ''Open Dashboard'']]"

definition wizard_view :: "wizard_data \<Rightarrow> wizard \<Rightarrow> wizard_msg view" where
  "wizard_view q s =
     (case wizard_redirect (wq_role q) (wq_loading q) (length (wq_devices q)) (wz_step s) of
        Some to \<Rightarrow> [El ''Navigate'' [(''to'', to)] [] []]
      | None \<Rightarrow>
          [icon ''ShieldCheck'', label ''First Run Wizard'', label ''Welcome to DTSYS'',
           label ''Get your first device enrolled, connected, and visible in under five minutes.'']
          @ step_header s
          @ shown (wz_step s = 0) (welcome_step s) @ shown (wz_step s = 1) (token_step (wq_origin q) s)
          @ shown (wz_step s = 2) (waiting_step (wq_devices q)) @ shown (wz_step s = 3) ready_step)"

fun wizard_env :: "wizard \<Rightarrow> wizard_msg \<Rightarrow> bool" where
  "wizard_env s (WzToken t) \<longleftrightarrow> wz_pending s"
| "wizard_env s WzTokenFailed \<longleftrightarrow> wz_pending s"
| "wizard_env s (WzWritten key) \<longleftrightarrow> key \<in> set (wz_writing s)"
| "wizard_env s WzTimer \<longleftrightarrow> wz_timers s > 0"
| "wizard_env s m \<longleftrightarrow> False"

abbreviation wizard_run where
  "wizard_run \<equiv> ui_run wizard_view wizard_env wizard_update wizard_init"

text \<open>
  Following redirects of the routes and of the freshly mounted wizard, at most \<open>n\<close> of them: \<open>home\<close> is the data of
  the query of the home route, \<open>onb\<close> that of the wizard.
\<close>

fun settle_path :: "nat \<Rightarrow> auth_state \<Rightarrow> bool \<times> 'd list option \<Rightarrow> bool \<times> 'd list \<Rightarrow> string \<Rightarrow> element" where
  "settle_path n auth home onb path =
     (let e = app_element auth (fst home) (snd home) path;
          target = (case e of
              NavigateTo p \<Rightarrow> Some p
            | WithWhatsNew OnboardingPage \<Rightarrow> wizard_redirect (role auth) (fst onb) (length (snd onb)) 0
            | _ \<Rightarrow> None)
      in case target of
           None \<Rightarrow> e
         | Some p \<Rightarrow> (case n of 0 \<Rightarrow> NavigateTo p | Suc m \<Rightarrow> settle_path m auth home onb p))"

declare settle_path.simps [simp del]

section \<open>Lemmas\<close>

lemmas wizard_view_defs = wizard_view_def step_header_def welcome_step_def token_step_def waiting_step_def ready_step_def IntroCard_def
  SummaryLink_def Let_def

definition wizard_inv :: "wizard_msg list \<Rightarrow> wizard \<Rightarrow> bool" where
  "wizard_inv ms s \<longleftrightarrow> wz_step s \<le> 3
     \<and> (wz_step s \<ge> 1 \<longrightarrow> (\<exists>t. wz_data s = Some t \<and> WzToken t \<in> set ms) \<and> \<not> wz_pending s)
     \<and> (wz_step s = 3 \<longrightarrow> WzReady \<in> set ms)"

lemma wizard_offers:
  "offers (wizard_view q s) WzStart \<Longrightarrow> wz_step s = 0"
  "offers (wizard_view q s) WzContinue \<Longrightarrow> wz_step s = 1"
  "offers (wizard_view q s) WzReady \<Longrightarrow> wz_step s = 2 \<and> wq_devices q \<noteq> []"
  "offers (wizard_view q s) (WzCopy v k) \<Longrightarrow> wz_step s = 1 \<and> (v = wizard_token s \<or> v = snippets (wq_origin q) (wizard_token s) (wz_platform s))"
  "\<not> offers (wizard_view q s) (WzToken t)"
  by (auto simp: wizard_view_defs split: if_splits option.splits list.splits)

lemma wizard_inv_step:
  assumes "wizard_inv ms s" "m = WzStart \<Longrightarrow> wz_step s = 0" "m = WzContinue \<Longrightarrow> wz_step s = 1" "m = WzReady \<Longrightarrow> wz_step s = 2"
  shows "wizard_inv (ms @ [m]) (wizard_update s m)"
  using assms by (cases m) (auto simp: wizard_inv_def)

interpretation wizard: ui_page wizard_view wizard_env wizard_update wizard_init wizard_inv
proof unfold_locales
  show "wizard_inv [] wizard_init" by (simp add: wizard_inv_def wizard_init_def)
  show "wizard_inv (ms @ [m]) (wizard_update s m)" if "wizard_inv ms s" "offers (wizard_view d s) m" for ms s d m
    by (rule wizard_inv_step[OF that(1)]) (use wizard_offers that(2) in blast)+
  show "wizard_inv (ms @ [m]) (wizard_update s m)" if "wizard_inv ms s" "wizard_env s m" for ms s m
    by (rule wizard_inv_step[OF that(1)]) (use that(2) in auto)
qed

text \<open>What an agent finds in the configuration a snippet writes: the lines between the markers of the here-document.\<close>

lemma unix_install_lines:
  assumes "newline \<notin> set server" "newline \<notin> set token" "newline \<notin> set platform" "newline \<notin> set arch"
  shows "split_str [newline] (unix_install platform arch server token) =
    hd (split_str [newline] (unix_install platform arch server token)) # config_lines server token
      @ [''EOF'', ''/tmp/dtsys-agent --config /tmp/dtsys-agent.toml'']"
  using assms unfolding unix_install_def
  by (subst (1 2) split_join) (auto simp: config_lines_def quoted_def newline_def dquote_def squote_def)

text \<open>Following the redirects from the locations they lead to.\<close>

lemma settle_login [simp]: "settle_path n auth home onb ''/login'' = Bare LoginPage"
  by (subst settle_path.simps) (simp add: app_element_def match_known Let_def)

lemma settle_onboarding:
  assumes "isAuthenticated auth" "role auth = Some ''admin''"
  shows "settle_path n auth home onb ''/onboarding'' =
    (if \<not> fst onb \<and> snd onb \<noteq> [] then (case n of 0 \<Rightarrow> NavigateTo ''/'' | Suc m \<Rightarrow> settle_path m auth home onb ''/'')
     else WithWhatsNew OnboardingPage)"
  using assms by (subst settle_path.simps) (simp add: app_element_def match_known ProtectedRoute_def wizard_redirect_def Let_def)

lemma settle_home:
  assumes "isAuthenticated auth" "role auth = Some ''admin''"
  shows "settle_path n auth home onb ''/'' =
    (if fst home then InLayout LoadingDashboard
     else if snd home = None \<or> snd home = Some [] then (case n of 0 \<Rightarrow> NavigateTo ''/onboarding'' | Suc m \<Rightarrow> settle_path m auth home onb ''/onboarding'')
     else InLayout DashboardPage)"
  using assms by (subst settle_path.simps) (auto simp: app_element_def match_known ProtectedRoute_def HomeRoute_def Let_def split: option.splits)

lemma settle_home_user:
  "isAuthenticated auth \<Longrightarrow> role auth \<noteq> Some ''admin'' \<Longrightarrow> settle_path n auth home onb ''/'' = InLayout DashboardPage"
  "\<not> isAuthenticated auth \<Longrightarrow> settle_path (Suc n) auth home onb ''/'' = Bare LoginPage"
  by (subst settle_path.simps, simp add: app_element_def match_known ProtectedRoute_def HomeRoute_def Let_def)+

lemma settle_loops:
  assumes "isAuthenticated auth" "role auth = Some ''admin''"
    and "\<not> fst home" "snd home = None \<or> snd home = Some []" "\<not> fst onb" "snd onb \<noteq> []"
  shows "is_redirect (settle_path n auth home onb ''/'') \<and> is_redirect (settle_path n auth home onb ''/onboarding'')"
  using assms(3-) by (induction n) (simp_all add: settle_home[OF assms(1,2)] settle_onboarding[OF assms(1,2)] is_redirect_def split: nat.split)

text \<open>One step from an arbitrary location.\<close>

lemma settle_unknown:
  "match_route path = None \<Longrightarrow>
   settle_path n auth home onb path = (case n of 0 \<Rightarrow> NavigateTo ''/'' | Suc m \<Rightarrow> settle_path m auth home onb ''/'')"
  by (subst settle_path.simps) (simp add: app_element_def Let_def)

lemma settle_public: "match_route path = Some (Public p) \<Longrightarrow> settle_path n auth home onb path = Bare p"
  by (subst settle_path.simps) (simp add: app_element_def Let_def)

lemma settle_signed_out:
  assumes "\<not> isAuthenticated auth" "match_route path = Some (Protected p) \<or> match_route path = Some (ProtectedLayout p)"
  shows "settle_path (Suc n) auth home onb path = Bare LoginPage"
  using assms by (subst settle_path.simps) (auto simp: app_element_def ProtectedRoute_def Let_def)

lemma settle_layout:
  assumes "isAuthenticated auth" "match_route path = Some (ProtectedLayout p)"
  shows "settle_path n auth home onb path = (if p = HomePage then settle_path n auth home onb ''/'' else InLayout p)"
proof -
  have "app_element auth l ds path = app_element auth l ds ''/''" if "p = HomePage" for l and ds :: "'a list option"
    using that assms by (simp add: app_element_def match_known)
  then show ?thesis
    using assms by (subst (1 2) settle_path.simps) (simp add: app_element_def ProtectedRoute_def Let_def)
qed

lemma settle_wizard:
  assumes "match_route path = Some (Protected OnboardingPage)"
  shows "settle_path n auth home onb path = settle_path n auth home onb ''/onboarding''"
proof -
  have "app_element auth l ds path = app_element auth l ds ''/onboarding''" for l and ds :: "'a list option"
    using assms by (simp add: app_element_def match_known)
  then show ?thesis by (subst (1 2) settle_path.simps) simp
qed

lemma settle_wizard_user:
  "isAuthenticated auth \<Longrightarrow> role auth \<noteq> Some ''admin'' \<Longrightarrow> settle_path (Suc n) auth home onb ''/onboarding'' = InLayout DashboardPage"
  "\<not> isAuthenticated auth \<Longrightarrow> settle_path (Suc n) auth home onb ''/onboarding'' = Bare LoginPage"
  by (subst settle_path.simps, simp add: app_element_def match_known ProtectedRoute_def wizard_redirect_def settle_home_user Let_def)+

section \<open>Properties\<close>

text \<open>The wizard keeps its order: in every run it is past its first step only with a token the server has sent, it is at
  the last step only after the user saw a connected device, and the only texts it offers to copy are that token and the
  install command that contains it.\<close>

theorem wizard_in_order:
  assumes "wizard_run ms s"
  shows "wz_step s \<ge> 1 \<Longrightarrow> \<exists>t. wizard_token s = t \<and> WzToken t \<in> set ms"
    and "offers (wizard_view q s) WzReady \<Longrightarrow> wq_devices q \<noteq> []"
    and "offers (wizard_view q s) (WzCopy v k) \<Longrightarrow>
      \<exists>t. WzToken t \<in> set ms \<and> (v = t \<or> v = snippets (wq_origin q) t (wz_platform s))"
  using wizard.run_inv[OF assms] wizard_offers[of q s] unfolding wizard_inv_def wizard_token_def
  by (force, blast, force)

definition sample_wizard_data :: wizard_data where
  "sample_wizard_data = \<lparr>wq_role = Some ''admin'', wq_loading = False, wq_devices = [], wq_origin = ''http://s''\<rparr>"

lemma sample_wizard_run: "wizard_run [WzStart, WzToken ''t''] (foldl wizard_update wizard_init [WzStart, WzToken ''t''])"
proof -
  have "wizard_run [WzStart] (wizard_update wizard_init WzStart)"
    using ui_run.user[OF ui_run.mount[of wizard_view wizard_env wizard_update wizard_init], where d = sample_wizard_data and m = WzStart]
    by (simp add: wizard_view_defs wizard_redirect_def sample_wizard_data_def wizard_init_def)
  from ui_run.environment[OF this, where m = "WzToken ''t''"] show ?thesis by (simp add: wizard_init_def)
qed

theorem wizard_in_order_witness:
  "\<exists>t. wizard_token (foldl wizard_update wizard_init [WzStart, WzToken ''t'']) = t \<and> WzToken t \<in> set [WzStart, WzToken ''t'']"
  using wizard_in_order(1)[OF sample_wizard_run] by simp

text \<open>C22. The home route and the wizard send the administrator back and forth exactly when their two copies of the device
  list disagree: if the home route holds an empty list and the wizard a device, as after the last step of the wizard, when the
  list of the home route is still the one from before, no number of redirects ends; in every other case two redirects are enough.\<close>

theorem wizard_redirects:
  assumes "isAuthenticated auth" "role auth = Some ''admin''"
  shows "((\<forall>n. is_redirect (settle_path n auth home onb ''/'')) \<longleftrightarrow>
      \<not> fst home \<and> (snd home = None \<or> snd home = Some []) \<and> \<not> fst onb \<and> snd onb \<noteq> [])
    \<and> (is_redirect (settle_path (Suc (Suc n)) auth home onb ''/'') \<longleftrightarrow> (\<forall>n. is_redirect (settle_path n auth home onb ''/'')))"
proof -
  let ?bad = "\<not> fst home \<and> (snd home = None \<or> snd home = Some []) \<and> \<not> fst onb \<and> snd onb \<noteq> []"
  have loops: "is_redirect (settle_path n auth home onb ''/'')" if "?bad" for n
    using settle_loops[OF assms] that by blast
  have ends: "\<not> is_redirect (settle_path (Suc (Suc n)) auth home onb ''/'')" if "\<not> ?bad" for n
    using that by (auto simp: settle_home[OF assms] settle_onboarding[OF assms] is_redirect_def)
  show ?thesis using loops ends by blast
qed

theorem wizard_redirects_witness:
  "\<forall>n. is_redirect (settle_path n (auth_init [''access_token'' \<mapsto> ''t'', ''role'' \<mapsto> ''admin'']) (False, Some ([] :: unit list)) (False, [()]) ''/'')"
  using wizard_redirects[of "auth_init [''access_token'' \<mapsto> ''t'', ''role'' \<mapsto> ''admin'']" "(False, Some ([] :: unit list))" "(False, [()])"]
  by (simp add: auth_init_def storage_defs)

end
