(* ===== verification/Downloads.thy ===== *)
theory Downloads
  imports Onboarding
begin

text \<open>
  \<open>frontend/src/pages/Downloads.tsx\<close>: the agent binaries with the commands that install them. A copy button keeps for itself
  whether it has just copied; it is known here by the text it copies, and the state of the buttons of a card ends when
  the card is closed. The middle dot between the labels has the ASCII stand-in \<open>*\<close>.
\<close>

section \<open>Platforms\<close>

record platform_entry =
  pe_key :: string
  pe_label :: string
  pe_icon :: string
  pe_archs :: "string list"
  pe_archLabels :: "(string \<times> string) list"
  pe_installTitle :: string
  pe_installCmd :: "string \<Rightarrow> string \<Rightarrow> string" \<comment> \<open>token and server\<close>
  pe_serviceTitle :: string
  pe_serviceSnippets :: "string list"
  pe_notes :: "string list"
  pe_msiNote :: bool

abbreviation backslash :: char where "backslash \<equiv> CHR 0x5C"

definition windows_install :: "string \<Rightarrow> string \<Rightarrow> string" where
  "windows_install token server =
     join [newline] [''irm '' @ server @ ''/api/v1/installer/windows | iex'', ''# Or with parameters:'',
       ''.'' @ [backslash] @ ''install-agent.ps1 -Token '' @ quoted token @ '' -Server '' @ quoted server]"

definition PLATFORMS :: "platform_entry list" where
  "PLATFORMS =
     [\<lparr>pe_key = ''linux'', pe_label = ''Linux'', pe_icon = ''Terminal'', pe_archs = [''amd64'', ''arm64''],
       pe_archLabels = [(''amd64'', ''x86-64 (Intel/AMD)''), (''arm64'', ''ARM64 (Raspberry Pi, AWS Graviton)'')],
       pe_installTitle = ''One-liner install (Linux)'',
       pe_installCmd = (\<lambda>token server. unix_install ''linux'' ''amd64'' server token), pe_serviceTitle = ''Manage the service'',
       pe_serviceSnippets = [''sudo systemctl status dtsys-agent'', ''sudo systemctl restart dtsys-agent'', ''sudo journalctl -u dtsys-agent -f''],
       pe_notes = [''Installs to /usr/local/bin/dtsys-agent'', ''Config at /etc/dtsys/agent.toml'',
         ''Runs as dtsys-agent system user via systemd'', ''Screenshot requires X11 display + scrot on desktop machines''],
       pe_msiNote = False\<rparr>,
      \<lparr>pe_key = ''darwin'', pe_label = ''macOS'', pe_icon = ''Apple'', pe_archs = [''arm64'', ''amd64''],
       pe_archLabels = [(''arm64'', ''Apple Silicon (M1/M2/M3)''), (''amd64'', ''Intel'')],
       pe_installTitle = ''One-liner install (macOS)'',
       pe_installCmd = (\<lambda>token server. unix_install ''darwin'' ''arm64'' server token), pe_serviceTitle = ''Manage the service'',
       pe_serviceSnippets = [''sudo launchctl list | grep dtsys'', ''sudo launchctl unload /Library/LaunchDaemons/com.dtsys.agent.plist'',
         ''sudo launchctl load /Library/LaunchDaemons/com.dtsys.agent.plist''],
       pe_notes = [''Installs to /usr/local/bin/dtsys-agent'', ''Config at /etc/dtsys/agent.toml'', ''Runs as root via launchd, starts at boot'',
         ''Screenshot works via screencapture, including RDP sessions''],
       pe_msiNote = False\<rparr>,
      \<lparr>pe_key = ''windows'', pe_label = ''Windows'', pe_icon = ''Monitor'', pe_archs = [''amd64''],
       pe_archLabels = [(''amd64'', ''x86-64 (Intel/AMD)'')], pe_installTitle = ''PowerShell installer (run as Administrator)'',
       pe_installCmd = windows_install, pe_serviceTitle = ''Manage the service'',
       pe_serviceSnippets = [''Get-Service DTSYSAgent'', ''Restart-Service DTSYSAgent'',
         ''Get-EventLog -LogName Application -Source DTSYSAgent -Newest 50''],
       pe_notes = [''Installs to C:'' @ [backslash] @ ''Program Files'' @ [backslash] @ ''DTSYS'' @ [backslash] @ ''dtsys-agent.exe'',
         ''Config at C:'' @ [backslash] @ ''Program Files'' @ [backslash] @ ''DTSYS'' @ [backslash] @ ''agent.toml'',
         ''Registered as Windows Service DTSYSAgent (auto-start)'', ''MSI available for Group Policy / Intune / SCCM deployment'',
         ''Software inventory reads from Add/Remove Programs registry'', ''Screenshot works on desktop and RDP sessions via PowerShell GDI+''],
       pe_msiNote = True\<rparr>]"

section \<open>State\<close>

record downloads_page =
  dl_expanded :: "string option"
  dl_copied :: "string list" \<comment> \<open>texts whose copy button shows that it has copied\<close>
  dl_writing :: "string list" \<comment> \<open>clipboard writes under way\<close>
  dl_timers :: "string list"
  dl_opened :: "string list" \<comment> \<open>URLs given to \<open>window.open\<close>\<close>

definition downloads_init :: downloads_page where
  "downloads_init = \<lparr>dl_expanded = Some ''linux'', dl_copied = [], dl_writing = [], dl_timers = [], dl_opened = []\<rparr>"

definition version_query :: query where
  "version_query = \<lparr>q_key = [JStr ''agent-version''], q_request = agent_version None None, q_interval = 0, q_enabled = True\<rparr>"

definition handleDownload :: "string \<Rightarrow> string \<Rightarrow> downloads_page \<Rightarrow> downloads_page" where
  "handleDownload platform arch s =
     s\<lparr>dl_opened := dl_opened s @ [''/api/v1/agent/download?platform='' @ platform @ ''&arch='' @ arch]\<rparr>"

definition agent_toml :: "string \<Rightarrow> string" where
  "agent_toml server =
     join [newline] [''[server]'', ''url = '' @ quoted server,
       ''enrollment_token = '' @ quoted [] @ ''   # cleared after first run; device_id is stored here instead'', [], ''[collect]'',
       ''telemetry_interval_secs = 30'', ''software_scan_interval_m = 60'', ''event_poll_interval_secs = 60'']"

definition msi_command :: "string \<Rightarrow> string" where
  "msi_command server =
     join [newline] [''msiexec /i DTSYSAgent.msi /quiet ^'', ''  DTSYS_SERVER='' @ quoted server @ '' ^'',
       ''  DTSYS_TOKEN='' @ quoted ''[YOUR_ENROLLMENT_TOKEN]'']"

datatype downloads_msg = DlExpand string bool | DlDownload string string | DlCopy string | DlWritten string | DlTimer string

text \<open>
  \<open>CopyButton\<close>: the text is copied, and once the clipboard has taken it the button says so for two seconds. A button
  that is no longer there ignores both. Only the block of the configuration file outlives a change of the open card.
\<close>

fun downloads_update :: "string \<Rightarrow> downloads_page \<Rightarrow> downloads_msg \<Rightarrow> downloads_page" where
  "downloads_update server s (DlExpand key isOpen) =
     (let keep = filter (\<lambda>t. t = agent_toml server)
      in s\<lparr>dl_expanded := if isOpen then None else Some key, dl_copied := keep (dl_copied s), dl_writing := keep (dl_writing s),
           dl_timers := keep (dl_timers s)\<rparr>)"
| "downloads_update server s (DlDownload platform arch) = handleDownload platform arch s"
| "downloads_update server s (DlCopy t) = s\<lparr>dl_writing := dl_writing s @ [t]\<rparr>"
| "downloads_update server s (DlWritten t) =
     s\<lparr>dl_writing := remove1 t (dl_writing s), dl_copied := t # dl_copied s, dl_timers := dl_timers s @ [t]\<rparr>"
| "downloads_update server s (DlTimer t) =
     s\<lparr>dl_timers := remove1 t (dl_timers s), dl_copied := filter (\<lambda>u. u \<noteq> t) (dl_copied s)\<rparr>"

section \<open>The view\<close>

definition CopyButton :: "downloads_page \<Rightarrow> string \<Rightarrow> downloads_msg node" where
  "CopyButton s t =
     (let copied = t \<in> set (dl_copied s)
      in El ''button'' [(''title'', ''Copy'')] [(''onClick'', \<lambda>_. DlCopy t)]
           [icon (if copied then ''Check'' else ''Copy''), Txt (if copied then ''Copied'' else ''Copy'')])"

definition CodeBlock :: "downloads_page \<Rightarrow> string \<Rightarrow> string option \<Rightarrow> downloads_msg node" where
  "CodeBlock s code lbl =
     box (shown (truthy lbl) [label (the lbl), CopyButton s code] @ [label code] @ shown (\<not> truthy lbl) [CopyButton s code])"

definition binary_name :: "string \<Rightarrow> string \<Rightarrow> string" where
  "binary_name platform arch = ''dtsys-agent-'' @ platform @ ''-'' @ arch @ (if platform = ''windows'' then ''.exe'' else [])"

definition platform_details :: "string \<Rightarrow> string \<Rightarrow> downloads_page \<Rightarrow> platform_entry \<Rightarrow> downloads_msg view" where
  "platform_details agentVersion server s p =
     [label (pe_installTitle p), CodeBlock s (pe_installCmd p ''[YOUR_ENROLLMENT_TOKEN]'' server) (Some ''shell''),
      label ''Generate an enrollment token in'', El ''a'' [(''href'', ''/settings'')] [] [Txt ''Settings > Enrollment Tokens''],
      label (pe_serviceTitle p), label (join [newline] (pe_serviceSnippets p))]
     @ shown (pe_msiNote p)
         [label ''MSI Installer - Group Policy / Intune / SCCM'', CodeBlock s (msi_command server) (Some ''PowerShell (silent install)'')]
     @ [label ''Notes''] @ map (\<lambda>note. label note) (pe_notes p)
     @ [label ''Manual binary download'']
     @ map (\<lambda>arch. button (DlDownload (pe_key p) arch) [icon ''Download'', Txt (binary_name (pe_key p) arch), label (''v'' @ agentVersion)]) (pe_archs p)"

definition platform_card :: "string \<Rightarrow> string \<Rightarrow> downloads_page \<Rightarrow> platform_entry \<Rightarrow> downloads_msg node" where
  "platform_card agentVersion server s p =
     (let isOpen = dl_expanded s = Some (pe_key p)
      in box ([El ''button'' [] [(''onClick'', \<lambda>_. DlExpand (pe_key p) isOpen)]
                 ([icon (pe_icon p), label (pe_label p),
                   label (join '' * '' (map (\<lambda>a. nullish (map_of (pe_archLabels p) a) []) (pe_archs p)))]
                  @ map (\<lambda>arch. button (DlDownload (pe_key p) arch) [icon ''Download'', Txt arch]) (pe_archs p)
                  @ [icon (if isOpen then ''ChevronUp'' else ''ChevronDown'')])]
              @ shown isOpen (platform_details agentVersion server s p)))"

text \<open>\<open>d\<close> is the version the server reported and the origin of the page.\<close>

definition downloads_view :: "string option \<times> string \<Rightarrow> downloads_page \<Rightarrow> downloads_msg view" where
  "downloads_view d s =
     (let agentVersion = nullish (fst d) em_dash
      in [icon ''Download'', label ''Agent Downloads'', label (''Current version: v'' @ agentVersion),
          label ''The DTSYS agent is a single static binary with no runtime dependencies. Install it on any machine to start monitoring. Choose your platform below to download the binary or use the one-liner installer.'']
         @ map (platform_card agentVersion (snd d) s) PLATFORMS
         @ [label ''Agent Config File'', label ''/etc/dtsys/agent.toml'',
            label ''The installer creates this automatically. You can edit it manually to customise collection intervals.'',
            CodeBlock s (agent_toml (snd d)) (Some ''agent.toml'')])"

fun downloads_env :: "downloads_page \<Rightarrow> downloads_msg \<Rightarrow> bool" where
  "downloads_env s (DlWritten t) \<longleftrightarrow> t \<in> set (dl_writing s)"
| "downloads_env s (DlTimer t) \<longleftrightarrow> t \<in> set (dl_timers s)"
| "downloads_env s m \<longleftrightarrow> False"

abbreviation downloads_run where
  "downloads_run server \<equiv> ui_run (\<lambda>version. downloads_view (version, server)) downloads_env (downloads_update server) downloads_init"

section \<open>Lemmas\<close>

text \<open>The binaries the server builds, by the pattern of its download endpoint.\<close>

definition known_binary :: "string \<Rightarrow> string \<Rightarrow> bool" where
  "known_binary platform arch \<longleftrightarrow> platform \<in> {''linux'', ''darwin'', ''windows''} \<and> arch \<in> {''amd64'', ''arm64''}"

lemmas downloads_view_defs = downloads_view_def platform_card_def platform_details_def CodeBlock_def CopyButton_def Let_def

lemma platforms_known: "p \<in> set PLATFORMS \<Longrightarrow> arch \<in> set (pe_archs p) \<Longrightarrow> known_binary (pe_key p) arch"
  by (auto simp: PLATFORMS_def known_binary_def)

lemma downloads_offers:
  "offers (downloads_view d s) (DlDownload platform arch) \<Longrightarrow> known_binary platform arch"
  "\<not> offers (downloads_view d s) (DlWritten t)" "\<not> offers (downloads_view d s) (DlTimer t)"
  by (auto simp: downloads_view_defs split: if_splits intro: platforms_known)

definition downloads_inv :: "downloads_page \<Rightarrow> bool" where
  "downloads_inv s \<longleftrightarrow>
     (\<forall>u \<in> set (dl_opened s). \<exists>platform arch. known_binary platform arch \<and> u = ''/api/v1/agent/download?platform='' @ platform @ ''&arch='' @ arch)
     \<and> set (dl_copied s) \<subseteq> set (dl_timers s)"

lemma downloads_inv_step:
  assumes "downloads_inv s" "\<And>platform arch. m = DlDownload platform arch \<Longrightarrow> known_binary platform arch"
  shows "downloads_inv (downloads_update server s m)"
proof (cases m)
  case (DlDownload platform arch)
  with assms show ?thesis by (auto simp: downloads_inv_def handleDownload_def)
next
  case (DlTimer t)
  with assms(1) show ?thesis by (auto simp: downloads_inv_def in_set_remove1 simp del: append_Cons)
qed (use assms(1) in \<open>auto simp: downloads_inv_def Let_def\<close>)

interpretation downloads: ui_page "\<lambda>version. downloads_view (version, server)" downloads_env "downloads_update server" downloads_init "\<lambda>ms. downloads_inv"
proof unfold_locales
  show "downloads_inv downloads_init" by (simp add: downloads_inv_def downloads_init_def)
  show "downloads_inv (downloads_update server s m)" if "downloads_inv s" "offers (downloads_view (d, server) s) m" for s d m
    by (rule downloads_inv_step[OF that(1)]) (use downloads_offers(1) that(2) in blast)
  show "downloads_inv (downloads_update server s m)" if "downloads_inv s" "downloads_env s m" for s m
    by (rule downloads_inv_step[OF that(1)]) (use that(2) in auto)
qed

section \<open>Properties\<close>

text \<open>The page downloads only what the server has: in every run every address it opened is that of a platform and
  architecture of the server's download endpoint; and a button that says it has copied always has a timer that ends that.\<close>

theorem downloads_known:
  assumes "downloads_run server ms s"
  shows "\<forall>u \<in> set (dl_opened s). \<exists>platform arch. known_binary platform arch \<and> u = ''/api/v1/agent/download?platform='' @ platform @ ''&arch='' @ arch"
    and "t \<in> set (dl_copied s) \<Longrightarrow> downloads_env s (DlTimer t) \<and> t \<notin> set (dl_copied (downloads_update server s (DlTimer t)))"
  using downloads.run_inv[OF assms] by (auto simp: downloads_inv_def)

lemma sample_downloads_run: "downloads_run server [DlDownload ''darwin'' ''arm64''] (downloads_update server downloads_init (DlDownload ''darwin'' ''arm64''))"
  using ui_run.user[OF ui_run.mount[of "\<lambda>version. downloads_view (version, server)" downloads_env "downloads_update server" downloads_init],
      where d = None and m = "DlDownload ''darwin'' ''arm64''"]
  by (simp add: downloads_view_def Let_def PLATFORMS_def platform_card_def)

theorem downloads_known_witness:
  "dl_opened (downloads_update ''s'' downloads_init (DlDownload ''darwin'' ''arm64'')) = [''/api/v1/agent/download?platform=darwin&arch=arm64'']
   \<and> (\<exists>platform arch. known_binary platform arch \<and> ''/api/v1/agent/download?platform=darwin&arch=arm64'' = ''/api/v1/agent/download?platform='' @ platform @ ''&arch='' @ arch)"
  using downloads_known(1)[OF sample_downloads_run, of "''s''"] by (simp add: handleDownload_def downloads_init_def)

end
