(* ===== verification/CompliancePage.thy ===== *)
theory CompliancePage
  imports Queries View JsNumber
begin

text \<open>
  \<open>frontend/src/pages/Compliance.tsx\<close>: the compliance policies with the results of their evaluation, and the dialog that
  creates a policy from rules. Every policy card keeps for itself whether it is open; \<open>cp_expanded\<close> holds the ids of the open
  ones. \<open>local_time\<close> is \<open>new Date(_).toLocaleString()\<close>.
\<close>

section \<open>Data\<close>

datatype rule_value = TextValue string | NumberValue rat

fun rule_value_str :: "rule_value \<Rightarrow> string" where
  "rule_value_str (TextValue s) = s"
| "rule_value_str (NumberValue n) = number_str n"

fun rule_value_json :: "rule_value \<Rightarrow> json" where
  "rule_value_json (TextValue s) = JStr s"
| "rule_value_json (NumberValue n) = JNum n"

text \<open>\<open>!value\<close>: the empty string and zero.\<close>

fun rule_value_falsy :: "rule_value \<Rightarrow> bool" where
  "rule_value_falsy (TextValue s) \<longleftrightarrow> s = []"
| "rule_value_falsy (NumberValue n) \<longleftrightarrow> n = 0"

record policy_rule =
  pr_type :: string
  pr_value :: rule_value

record policy =
  po_id :: string
  po_name :: string
  po_description :: "string option"
  po_is_active :: bool
  po_rules :: "policy_rule list"
  po_created_at :: string
  po_updated_at :: string

record rule_detail =
  rd_type :: string
  rd_passed :: bool
  rd_detail :: string

record compliance_result =
  cr_id :: string
  cr_device_id :: string
  cr_hostname :: string
  cr_policy_id :: string
  cr_policy_name :: string
  cr_is_compliant :: bool
  cr_violations :: nat
  cr_details :: "rule_detail list"
  cr_evaluated_at :: string

record rule_type =
  rt_value :: string
  rt_label :: string
  rt_placeholder :: string

definition RULE_TYPES :: "rule_type list" where
  "RULE_TYPES =
     [\<lparr>rt_value = ''max_offline_hours'', rt_label = ''Max offline hours'', rt_placeholder = ''24''\<rparr>,
      \<lparr>rt_value = ''disk_free_min_gb'', rt_label = ''Min free disk (GB)'', rt_placeholder = ''10''\<rparr>,
      \<lparr>rt_value = ''max_disk_percent'', rt_label = ''Max disk usage (%)'', rt_placeholder = ''90''\<rparr>,
      \<lparr>rt_value = ''required_software'', rt_label = ''Required software (name)'', rt_placeholder = ''antivirus''\<rparr>,
      \<lparr>rt_value = ''forbidden_software'', rt_label = ''Forbidden software (name)'', rt_placeholder = ''torrent''\<rparr>,
      \<lparr>rt_value = ''os_type'', rt_label = ''Required OS type'', rt_placeholder = ''linux''\<rparr>]"

definition rule_label :: "string \<Rightarrow> string" where
  "rule_label t = (case find_first (\<lambda>r. rt_value r = t) RULE_TYPES of None \<Rightarrow> t | Some r \<Rightarrow> rt_label r)"

definition rule_placeholder :: "string \<Rightarrow> string" where
  "rule_placeholder t = (case find_first (\<lambda>r. rt_value r = t) RULE_TYPES of None \<Rightarrow> [] | Some r \<Rightarrow> rt_placeholder r)"

section \<open>State and requests\<close>

record policy_form =
  pf_name :: string
  pf_description :: string
  pf_rules :: "policy_rule list"

definition emptyPolicy :: policy_form where
  "emptyPolicy = \<lparr>pf_name = [], pf_description = [], pf_rules = []\<rparr>"

definition freshRule :: policy_rule where
  "freshRule = \<lparr>pr_type = rt_value (RULE_TYPES ! 0), pr_value = TextValue []\<rparr>"

record compliance_page =
  cp_showCreate :: bool
  cp_form :: policy_form
  cp_newRule :: policy_rule
  cp_expanded :: "string list"
  cp_creating :: bool
  cp_createError :: bool
  cp_sent :: "request list"

definition compliance_init :: compliance_page where
  "compliance_init = \<lparr>cp_showCreate = False, cp_form = emptyPolicy, cp_newRule = freshRule, cp_expanded = [], cp_creating = False,
     cp_createError = False, cp_sent = []\<rparr>"

definition policies_query :: query where
  "policies_query = \<lparr>q_key = [JStr ''compliance-policies''], q_request = api_get ''/compliance/policies'' [], q_interval = 0, q_enabled = True\<rparr>"

definition results_query :: "string \<Rightarrow> bool \<Rightarrow> query" where
  "results_query i expanded =
     \<lparr>q_key = [JStr ''compliance-results'', JStr i], q_request = api_get ''/compliance/results'' [(''policy_id'', JStr i)],
      q_interval = 0, q_enabled = expanded\<rparr>"

definition create_policy :: "policy_form \<Rightarrow> mutation" where
  "create_policy f =
     \<lparr>mu_request = api_post ''/compliance/policies'' (Some (JObj
        [(''name'', JStr (trim (pf_name f))), (''description'', JNullable (or_null (pf_description f))),
         (''rules'', JArr (map (\<lambda>r. JObj [(''type'', JStr (pr_type r)), (''value'', rule_value_json (pr_value r))]) (pf_rules f)))])),
      mu_invalidates = [[JStr ''compliance-policies'']]\<rparr>"

definition deletePolicy :: "string \<Rightarrow> mutation" where
  "deletePolicy i = \<lparr>mu_request = api_delete (''/compliance/policies/'' @ i), mu_invalidates = [[JStr ''compliance-policies'']]\<rparr>"

definition evaluate :: "string \<Rightarrow> mutation" where
  "evaluate i = \<lparr>mu_request = api_post (''/compliance/evaluate/'' @ i) None, mu_invalidates = [[JStr ''compliance-results'', JStr i]]\<rparr>"

datatype compliance_msg =
    CpShow | CpCancel | CpName string | CpDescription string
  | CpRuleType string | CpRuleValue string | CpAddRule | CpRemoveRule nat
  | CpCreate | CpCreated | CpCreateFailed
  | CpExpand string | CpDelete string | CpEvaluate string

definition cp_send :: "request \<Rightarrow> compliance_page \<Rightarrow> compliance_page" where
  "cp_send r s = s\<lparr>cp_sent := cp_sent s @ [r]\<rparr>"

definition addRule :: "compliance_page \<Rightarrow> compliance_page" where
  "addRule s =
     (if rule_value_falsy (pr_value (cp_newRule s)) then s
      else s\<lparr>cp_form := (cp_form s)\<lparr>pf_rules := pf_rules (cp_form s) @ [cp_newRule s]\<rparr>, cp_newRule := freshRule\<rparr>)"

text \<open>\<open>rules.filter((_, idx) => idx !== i)\<close>.\<close>

definition removeRule :: "nat \<Rightarrow> compliance_page \<Rightarrow> compliance_page" where
  "removeRule i s = s\<lparr>cp_form := (cp_form s)\<lparr>pf_rules := map snd (filter (\<lambda>(idx, r). idx \<noteq> i) (enumerate 0 (pf_rules (cp_form s))))\<rparr>\<rparr>"

fun compliance_update :: "compliance_page \<Rightarrow> compliance_msg \<Rightarrow> compliance_page" where
  "compliance_update s CpShow = s\<lparr>cp_showCreate := True\<rparr>"
| "compliance_update s CpCancel = s\<lparr>cp_showCreate := False, cp_form := emptyPolicy\<rparr>"
| "compliance_update s (CpName v) = s\<lparr>cp_form := (cp_form s)\<lparr>pf_name := v\<rparr>\<rparr>"
| "compliance_update s (CpDescription v) = s\<lparr>cp_form := (cp_form s)\<lparr>pf_description := v\<rparr>\<rparr>"
| "compliance_update s (CpRuleType v) = s\<lparr>cp_newRule := (cp_newRule s)\<lparr>pr_type := v\<rparr>\<rparr>"
| "compliance_update s (CpRuleValue v) = s\<lparr>cp_newRule := (cp_newRule s)\<lparr>pr_value := TextValue v\<rparr>\<rparr>"
| "compliance_update s CpAddRule = addRule s"
| "compliance_update s (CpRemoveRule i) = removeRule i s"
| "compliance_update s CpCreate = cp_send (mu_request (create_policy (cp_form s))) (s\<lparr>cp_creating := True, cp_createError := False\<rparr>)"
| "compliance_update s CpCreated = s\<lparr>cp_creating := False, cp_showCreate := False, cp_form := emptyPolicy\<rparr>"
| "compliance_update s CpCreateFailed = s\<lparr>cp_creating := False, cp_createError := True\<rparr>"
| "compliance_update s (CpExpand i) = s\<lparr>cp_expanded := toggle_member i (cp_expanded s)\<rparr>"
| "compliance_update s (CpDelete i) = cp_send (mu_request (deletePolicy i)) s"
| "compliance_update s (CpEvaluate i) = cp_send (mu_request (evaluate i)) s"

section \<open>The view\<close>

definition compliantCount :: "compliance_result list \<Rightarrow> nat" where
  "compliantCount results = length (filter cr_is_compliant results)"

definition result_row :: "(string \<Rightarrow> string) \<Rightarrow> compliance_result \<Rightarrow> compliance_msg node" where
  "result_row local_time r =
     box ([if cr_is_compliant r then icon ''Check'' else icon ''AlertTriangle'', label (cr_hostname r)]
          @ shown (\<not> cr_is_compliant r) (map (\<lambda>d. label (rd_detail d)) (filter (\<lambda>d. \<not> rd_passed d) (cr_details r)))
          @ [label (if cr_evaluated_at r \<noteq> [] then local_time (cr_evaluated_at r) else [])])"

definition PolicyCard :: "(string \<Rightarrow> string) \<Rightarrow> bool \<Rightarrow> compliance_result list \<Rightarrow> policy \<Rightarrow> compliance_msg node" where
  "PolicyCard local_time expanded results p =
     (let good = compliantCount results; tot = length results
      in box ([button (CpExpand (po_id p)) [icon (if expanded then ''ChevronDown'' else ''ChevronRight'')], label (po_name p)]
              @ shown (\<not> po_is_active p) [label ''inactive'']
              @ shown (truthy (po_description p)) [label (the (po_description p))]
              @ shown (tot > 0) [toned (if good = tot then ''text-green-600'' else ''text-red-500'') (nat_str good @ ''/'' @ nat_str tot @ '' compliant'')]
              @ [El ''button'' [(''title'', ''Run evaluation'')] [(''onClick'', \<lambda>_. CpEvaluate (po_id p))] [icon ''Play'', Txt ''Evaluate''],
                 El ''button'' [(''title'', ''Delete policy'')] [(''onClick'', \<lambda>_. CpDelete (po_id p))] [icon ''Trash2'']]
              @ shown expanded
                  ([label ''Rules''] @ shown (po_rules p = []) [label ''No rules defined.'']
                   @ map (\<lambda>r. box [label (rule_label (pr_type r)), label (rule_value_str (pr_value r))]) (po_rules p)
                   @ (if results \<noteq> [] then label ''Device Results'' # map (result_row local_time) results
                      else [label ''No evaluation results yet. Click Evaluate to run.'']))))"

definition form_rule_row :: "nat \<times> policy_rule \<Rightarrow> compliance_msg node" where
  "form_rule_row ir = box [label (rule_label (pr_type (snd ir)) @ '': '' @ rule_value_str (pr_value (snd ir))),
     button (CpRemoveRule (fst ir)) [icon ''Trash2'']]"

definition create_policy_modal :: "compliance_page \<Rightarrow> compliance_msg view" where
  "create_policy_modal s =
     (let f = cp_form s; n = cp_newRule s
      in [label ''New Compliance Policy'', label ''Name'',
          El ''input'' [(''value'', pf_name f), (''placeholder'', ''Security Baseline'')] [(''onChange'', CpName)] [],
          label ''Description (optional)'',
          El ''input'' [(''value'', pf_description f), (''placeholder'', ''Minimum security requirements for all devices'')] [(''onChange'', CpDescription)] [],
          label ''Rules'']
         @ map form_rule_row (enumerate 0 (pf_rules f))
         @ [choice_field (pr_type n) CpRuleType (map (\<lambda>r. (rt_value r, rt_label r)) RULE_TYPES),
            El ''input'' [(''value'', rule_value_str (pr_value n)), (''placeholder'', rule_placeholder (pr_type n))] [(''onChange'', CpRuleValue)] [],
            button CpAddRule [Txt ''Add''], button CpCancel [Txt ''Cancel''],
            button_if (trim (pf_name f) = [] \<or> cp_creating s) CpCreate [Txt ''Create'']]
         @ shown (cp_createError s) [label ''Failed to create policy.''])"

record compliance_data =
  cq_loading :: bool
  cq_policies :: "policy list"
  cq_results :: "string \<Rightarrow> compliance_result list" \<comment> \<open>what the results query of a policy holds\<close>

definition compliance_view :: "(string \<Rightarrow> string) \<Rightarrow> compliance_data \<Rightarrow> compliance_page \<Rightarrow> compliance_msg view" where
  "compliance_view local_time q s =
     (if cq_loading q then [label ''Loading compliance...'']
      else [icon ''CheckSquare'', label ''Compliance'', button CpShow [icon ''Plus'', Txt ''New Policy'']]
           @ map (\<lambda>p. PolicyCard local_time (po_id p \<in> set (cp_expanded s)) (cq_results q (po_id p)) p) (cq_policies q)
           @ shown (cq_policies q = []) [icon ''CheckSquare'', label ''No compliance policies yet. Create one to get started.'']
           @ shown (cp_showCreate s) (create_policy_modal s))"

fun compliance_env :: "compliance_page \<Rightarrow> compliance_msg \<Rightarrow> bool" where
  "compliance_env s CpCreated \<longleftrightarrow> cp_creating s"
| "compliance_env s CpCreateFailed \<longleftrightarrow> cp_creating s"
| "compliance_env s m \<longleftrightarrow> False"

abbreviation compliance_run where
  "compliance_run local_time \<equiv> ui_run (compliance_view local_time) compliance_env compliance_update compliance_init"

section \<open>Lemmas\<close>

lemma enumerate_shift: "filter (\<lambda>(idx, r). idx \<noteq> i) (enumerate n xs) =
    (if n \<le> i then enumerate n (take (i - n) xs) @ enumerate (Suc i) (drop (Suc i - n) xs) else enumerate n xs)"
proof (induction xs arbitrary: n)
  case (Cons x xs)
  show ?case
  proof (cases "n < i")
    case True
    then have "i - n = Suc (i - Suc n)" "Suc i - n = Suc (Suc i - Suc n)" by linarith+
    with True Cons.IH[of "Suc n"] show ?thesis by simp
  qed (use Cons.IH[of "Suc n"] in \<open>auto simp: Suc_le_eq not_less\<close>)
qed simp

lemma removeRule_rules: "pf_rules (cp_form (removeRule i s)) = take i (pf_rules (cp_form s)) @ drop (Suc i) (pf_rules (cp_form s))"
  using enumerate_shift[of i 0 "pf_rules (cp_form s)"] by (simp add: removeRule_def)

text \<open>A rule as the type of the form and the server want it: one of the six types, and a value that is not empty.\<close>

definition rule_ok :: "policy_rule \<Rightarrow> bool" where
  "rule_ok r \<longleftrightarrow> pr_type r \<in> rt_value ` set RULE_TYPES \<and> (\<exists>t. pr_value r = TextValue t \<and> t \<noteq> [])"

inductive compliance_call :: "request \<Rightarrow> bool" where
  create: "trim (pf_name f) \<noteq> [] \<Longrightarrow> list_all rule_ok (pf_rules f) \<Longrightarrow> compliance_call (mu_request (create_policy f))"
| delete: "compliance_call (mu_request (deletePolicy i))"
| evaluate: "compliance_call (mu_request (evaluate i))"

definition compliance_inv :: "compliance_page \<Rightarrow> bool" where
  "compliance_inv s \<longleftrightarrow> list_all rule_ok (pf_rules (cp_form s)) \<and> pr_type (cp_newRule s) \<in> rt_value ` set RULE_TYPES
     \<and> (\<exists>t. pr_value (cp_newRule s) = TextValue t) \<and> (\<forall>r \<in> set (cp_sent s). compliance_call r)"

lemma freshRule_ok: "pr_type freshRule \<in> rt_value ` set RULE_TYPES" "pr_value freshRule = TextValue []"
  by (simp_all add: freshRule_def RULE_TYPES_def)

lemma compliance_offers:
  "offers (compliance_view lt q s) (CpRuleType v) \<Longrightarrow> v \<in> rt_value ` set RULE_TYPES"
  "offers (compliance_view lt q s) CpCreate \<Longrightarrow> trim (pf_name (cp_form s)) \<noteq> []"
  by (auto simp: compliance_view_def PolicyCard_def result_row_def create_policy_modal_def form_rule_row_def Let_def split: if_splits)

lemma compliance_inv_step:
  assumes "compliance_inv s" "\<And>v. m = CpRuleType v \<Longrightarrow> v \<in> rt_value ` set RULE_TYPES" "m = CpCreate \<Longrightarrow> trim (pf_name (cp_form s)) \<noteq> []"
  shows "compliance_inv (compliance_update s m)"
proof (cases m)
  case CpCreate
  with assms show ?thesis by (simp add: compliance_inv_def cp_send_def compliance_call.create)
next
  case CpAddRule
  with assms(1) show ?thesis by (auto simp: compliance_inv_def addRule_def rule_ok_def freshRule_ok)
next
  case (CpRemoveRule i)
  with assms(1) removeRule_rules[of i s] show ?thesis
    by (auto simp: compliance_inv_def list_all_iff removeRule_def dest: in_set_takeD in_set_dropD)
qed (use assms in \<open>auto simp: compliance_inv_def emptyPolicy_def cp_send_def intro: compliance_call.intros\<close>)

interpretation compliance: ui_page "compliance_view lt" compliance_env compliance_update compliance_init "\<lambda>ms. compliance_inv"
proof unfold_locales
  show "compliance_inv compliance_init" by (simp add: compliance_inv_def compliance_init_def emptyPolicy_def freshRule_ok)
  show "compliance_inv (compliance_update s m)" if "compliance_inv s" "offers (compliance_view lt d s) m" for s d m
    by (rule compliance_inv_step[OF that(1)]) (use compliance_offers that(2) in blast)+
  show "compliance_inv (compliance_update s m)" if "compliance_inv s" "compliance_env s m" for s m
    by (rule compliance_inv_step[OF that(1)]) (use that(2) in auto)
qed

section \<open>Properties\<close>

text \<open>Policies are made of rules of the six types: in every run every rule of the form has one of the types the page
  knows and a text that is not empty, the rule in entry has such a type, every policy that was sent has a name and only such rules,
  and nothing else is sent but deletions and evaluations. Removing a rule removes that rule and keeps the order of the others.\<close>

theorem compliance_rules_typed:
  assumes "compliance_run lt ms s"
  shows "compliance_inv s \<and> pf_rules (cp_form (compliance_update s (CpRemoveRule i))) = take i (pf_rules (cp_form s)) @ drop (Suc i) (pf_rules (cp_form s))"
  using compliance.run_inv[OF assms] removeRule_rules by simp

definition sample_compliance :: compliance_data where
  "sample_compliance = \<lparr>cq_loading = False, cq_policies = [], cq_results = (\<lambda>i. [])\<rparr>"

lemma sample_compliance_run: "compliance_run lt [CpShow, CpRuleValue ''8'', CpAddRule] (foldl compliance_update compliance_init [CpShow, CpRuleValue ''8'', CpAddRule])"
proof -
  have a: "compliance_run lt [CpShow] (compliance_update compliance_init CpShow)"
    using ui_run.user[OF ui_run.mount[of "compliance_view lt" compliance_env compliance_update compliance_init], where d = sample_compliance and m = CpShow]
    by (simp add: compliance_view_def sample_compliance_def)
  have b: "compliance_run lt [CpShow, CpRuleValue ''8''] (foldl compliance_update compliance_init [CpShow, CpRuleValue ''8''])"
    using ui_run.user[OF a, where d = sample_compliance and m = "CpRuleValue ''8''"]
    by (simp add: compliance_view_def sample_compliance_def create_policy_modal_def Let_def)
  from ui_run.user[OF b, where d = sample_compliance and m = CpAddRule] show ?thesis
    by (simp add: compliance_view_def sample_compliance_def create_policy_modal_def Let_def)
qed

theorem compliance_rules_typed_witness:
  "\<exists>s r. compliance_run (\<lambda>t. t) [CpShow, CpRuleValue ''8'', CpAddRule] s \<and> compliance_inv s \<and> pf_rules (cp_form s) = [r]"
proof (intro exI conjI)
  let ?s = "foldl compliance_update compliance_init [CpShow, CpRuleValue ''8'', CpAddRule]"
  show "compliance_run (\<lambda>t. t) [CpShow, CpRuleValue ''8'', CpAddRule] ?s" by (rule sample_compliance_run)
  show "compliance_inv ?s" using compliance_rules_typed[OF sample_compliance_run] by blast
  show "pf_rules (cp_form ?s) = [freshRule\<lparr>pr_value := TextValue ''8''\<rparr>]"
    by (simp add: compliance_init_def addRule_def emptyPolicy_def)
qed

text \<open>The value of a rule is not checked against its type: a number of hours can be any text.\<close>

lemma numeric_rule_takes_text:
  "pf_rules (cp_form (foldl compliance_update compliance_init [CpRuleValue ''soon'', CpAddRule])) =
     [\<lparr>pr_type = ''max_offline_hours'', pr_value = TextValue ''soon''\<rparr>]"
  by (simp add: compliance_init_def addRule_def emptyPolicy_def freshRule_def RULE_TYPES_def)

end
