(* ===== verification/Spec2Isabelle.thy ===== *)
theory Spec2Isabelle
  imports Cron Utils MobileApp Streams Pagination Dashboard CommandPanel AuditLog DevicePage
    Schedules AlertsPage SoftwareUpdatesPage Compare InventoryPage CustomDashboard Reports
    CommandLibrary NetworkMap MobileNav SettingsPage UsersPage OrganizationsPage Downloads CompliancePage
begin

text \<open>
  DTSYS is a device management system: agents on managed machines report to a server, and a web
  dashboard (\<open>frontend/src\<close>, React and TypeScript) and a phone application (\<open>mobile\<close>, React Native)
  show the devices and send them commands. This development models the two clients.

  \<^bold>\<open>Parts and how they interact.\<close> Both clients talk to the server through an HTTP client with
  interceptors that attach the access token and refresh it on a 401. The session lives in a store that
  mirrors the browser's \<open>localStorage\<close> (web) or a secure store (phone). Pages read server data through
  queries, keep local state, render a view and react to its events; two event streams push alerts and
  activity into the pages. Utilities compute cron schedules, uptimes, tag colours and exports.

  \<^bold>\<open>Theories.\<close>
  \<^item> \<open>Prelude\<close>: JavaScript values and strings (errors as sums, \<open>truthy\<close>, \<open>split\<close>, \<open>join\<close>, \<open>trim\<close>, number
    printing) with the lemmas the components share. \<open>JsNumber\<close>: \<open>Number(...)\<close>, arithmetic with \<open>NaN\<close> and
    infinities, \<open>Array.from\<close> ranges, rounding and printing. \<open>JsDate\<close>: the \<open>Date\<close> methods over an arbitrary
    time zone. \<open>JsSort\<close>: \<open>Array.prototype.sort\<close>, with the locale \<open>comparator\<close>. \<open>Url\<close>:
    \<open>encodeURIComponent\<close> and \<open>URLSearchParams\<close>. \<open>View\<close>: rendered views, what a user can raise on them
    (\<open>offers\<close>), runs of a page (\<open>ui_run\<close>) and the locale \<open>ui_page\<close> for invariants of runs.
  \<^item> \<open>Cron\<close> (\<open>utils/cron.ts\<close>): \<open>parseField\<close>, \<open>matches\<close>, \<open>parseCron\<close>, \<open>nextRuns\<close>. The fields denote what the
    cron notation says; \<open>nextRuns\<close> is the filter of the next minutes by \<open>matches\<close>.
  \<^item> \<open>Utils\<close> (\<open>utils/time.ts\<close>, \<open>tags.ts\<close>, \<open>export.ts\<close>): the uptime text determines the uptime to the minute;
    an exported CSV file read back by a CSV reader is the table.
  \<^item> \<open>Types\<close> (\<open>types/index.ts\<close>): the interfaces as records, prefixes of the fields name the interface.
  \<^item> \<open>Storage\<close>: the locale \<open>kv_store\<close>, interpreted by \<open>localStorage\<close>. \<open>AuthStore\<close> (\<open>store/authStore.ts\<close>,
    \<open>hooks/useCurrentOrg.ts\<close>, the handler of \<open>pages/Login.tsx\<close>): store and storage agree under every sequence of the
    operations of the store (a token refresh by \<open>ApiClient\<close> writes the storage alone).
    \<open>Stores\<close>: the alert, branding, search, layout and theme stores and the boot code of \<open>main.tsx\<close>.
  \<^item> \<open>Api\<close> (\<open>api/*.ts\<close>): every call as the request it makes. \<open>ApiClient\<close> (\<open>api/client.ts\<close> of both clients):
    attaching, refreshing, retrying and ending a session. \<open>Queries\<close> (\<open>hooks/useAlerts.ts\<close>, \<open>useDevices.ts\<close>,
    \<open>useMetrics.ts\<close>): keys, requests, intervals and invalidations.
  \<^item> \<open>Streams\<close> (\<open>hooks/useSSE.ts\<close>, \<open>useActivityStream.ts\<close>): the locale \<open>stream_consumer\<close> (the result does not
    depend on how the network cuts the text), the merging of alerts, and the connection as a state machine.
  \<^item> \<open>Shortcuts\<close> (\<open>hooks/useKeyboardShortcuts.ts\<close>), \<open>Routes\<close> (\<open>App.tsx\<close>), \<open>Chrome\<close> (layout, top bar, side bar,
    global search, small components), \<open>Pagination\<close>, \<open>Dashboard\<close> (device cards, bulk commands, overview page),
    \<open>CommandPanel\<close>, \<open>AuditLog\<close>: state records, update functions and views of the web pages. The command panel sends exactly
    what its history asks for; the search always has a valid selection and opens it.
  \<^item> \<open>DeviceParts\<close> (\<open>components/device/MetricsChart.tsx\<close>, \<open>NetworkInfo.tsx\<close>, \<open>EventLog.tsx\<close>, \<open>ProcessList.tsx\<close>,
    \<open>SoftwareTable.tsx\<close>), \<open>DeviceDetail\<close> and \<open>DevicePage\<close> (\<open>pages/DeviceDetail.tsx\<close>: its state machine, and its view with the
    properties of both): version comparison, uptime bar, screenshot capture, maintenance, configuration, tags and groups.
    A capture ends, all requests are about the device of the page or save a command to the library, the uptime bar is exact,
    tables are stable sorts and pages partition the entries.
  \<^item> Fleet pages: \<open>Schedules\<close> (\<open>ScheduledCommands.tsx\<close>, on \<open>Cron\<close>), \<open>AlertsPage\<close> (\<open>Alerts.tsx\<close>), \<open>SoftwareUpdatesPage\<close>
    (\<open>SoftwareUpdates.tsx\<close>), \<open>Compare\<close> (\<open>DeviceCompare.tsx\<close>, reading the address \<open>Dashboard\<close> writes), \<open>InventoryPage\<close>
    (\<open>Inventory.tsx\<close>), \<open>CustomDashboard\<close>, \<open>Reports\<close>, \<open>CommandLibrary\<close>, \<open>CompliancePage\<close> (\<open>Compliance.tsx\<close>), \<open>NetworkMap\<close>
    (\<open>NetworkMap.tsx\<close> and \<open>Status.tsx\<close>): groupings and aggregations equal their specifications, requests name exactly the
    affected devices, a table of the export is written back, the layout stays well-formed.
  \<^item> Administration pages: \<open>SettingsPage\<close> (\<open>Settings.tsx\<close>), \<open>UsersPage\<close> (\<open>Users.tsx\<close>), \<open>OrganizationsPage\<close> (\<open>Organizations.tsx\<close>),
    \<open>Onboarding\<close> (\<open>Onboarding.tsx\<close>, with the home route of \<open>Routes\<close>), \<open>Downloads\<close> (\<open>Downloads.tsx\<close>): in every run the requests are
    well-typed calls that the user asked for and may make; the wizard keeps its order; when its redirects end.
  \<^item> \<open>MobileApp\<close> (\<open>mobile/App.tsx\<close>, \<open>src/hooks\<close>, \<open>src/screens\<close>, \<open>src/components\<close>, \<open>src/api/commands.ts\<close>) and \<open>MobileNav\<close>
    (\<open>src/navigation/AppNavigator.tsx\<close>).

  \<^bold>\<open>How code became definitions.\<close> A component's \<open>useState\<close> variables are a record; each handler, effect and
  callback is a function on it; a message datatype names the events, and the update function dispatches
  on it. Its JSX is a view: the tree of elements with the texts, the attributes that carry information
  and the handlers, as a function of the state and of the data its queries hold. Effects on the outside
  (requests, navigation, downloads, storage) are fields of the state or returned values. Runs let the user
  raise any message the current view offers and the environment (answers, timers, new data) any message
  it can, in any order.

  \<^bold>\<open>Parameters.\<close> Libraries and the server are arguments: \<open>send\<close> and \<open>refresh\<close> (axios and the server, over an
  arbitrary transport state), the operations of \<open>expo-secure-store\<close> (with \<open>kv_store\<close> as hypothesis),
  \<open>JSON.parse\<close> and \<open>JSON.stringify\<close> (\<open>parse\<close>, \<open>stringify\<close>), \<open>jwtDecode\<close>, date-fns (\<open>ago\<close>, \<open>fmt\<close>, \<open>pp\<close>), \<open>localeCompare\<close> (\<open>lc\<close>, with
  \<open>comparator\<close> as hypothesis), locale formatting and the current time. The properties hold for all of them.

  \<^bold>\<open>Bounds.\<close> \<open>nextRuns\<close> has the bound of 100000 minutes of the source; no fuel is added. The web
  interceptor may retry forever, so \<open>api_request\<close> is a partial function whose value is \<open>None\<close> exactly when
  the request never settles; that it settles is proved under a decreasing measure of the server. Every
  other function is total. \<open>resolve_path\<close> follows the redirects of the route table, at most as many as it is given, and two
  are proved to be enough for a visitor; \<open>settle_path\<close> follows those of the onboarding page too: three are enough, except in
  the one situation where it is proved that no number is (\<open>landing\<close> below).

  \<^bold>\<open>Locales.\<close> \<open>kv_store\<close> (storage), \<open>comparator\<close> (alerts, pages, numbers, code units and strings), \<open>stream_consumer\<close> (both
  streams) and \<open>ui_page\<close> (phone device screen, overview page, command panel, device page, custom dashboard, settings, users,
  compliance, wizard, downloads) are interpreted on the definitions of the code.

  \<^bold>\<open>Limits.\<close> Strings are Latin-1; pictographs and other characters of static labels have ASCII stand-ins or
  are left out. Numbers are rationals: rounding of doubles is not modelled. Styling, scrolling and focus
  are left out. The internals of React, react-query, zustand, axios and the router are not modelled, only
  what the code hands to them. Python's \<open>server\<close>, the Go agent in \<open>client\<close>, and the deployment files are
  not modelled.

  \<^bold>\<open>Not modelled.\<close> The style sheets at the end of the phone screens, the build configuration (\<open>vite.config.ts\<close>,
  \<open>tailwind.config.ts\<close>), import lines and the drawing of charts carry no behaviour of the program.
  Every page, component, store, hook and call of the two clients is modelled.
\<close>

section \<open>Properties across components\<close>

text \<open>
  Where a location leads, as the user sees it: \<open>home\<close> and \<open>onb\<close> are the device list as the home route and as the
  wizard hold it, each with whether it is still loading. \<open>None\<close> means that the redirects never end.
\<close>

definition landing :: "auth_state \<Rightarrow> bool \<times> 'd list option \<Rightarrow> bool \<times> 'd list \<Rightarrow> string \<Rightarrow> element option" where
  "landing auth home onb path =
     (let no_devices = (\<not> fst home \<and> (snd home = None \<or> snd home = Some []));
          wizard_done = (\<not> fst onb \<and> snd onb \<noteq> []);
          dashboard = Some (InLayout (if fst home \<and> role auth = Some ''admin'' then LoadingDashboard else DashboardPage))
      in case match_route path of
           Some (Public p) \<Rightarrow> Some (Bare p)
         | r \<Rightarrow>
             if \<not> isAuthenticated auth then Some (Bare LoginPage)
             else case r of
                Some (ProtectedLayout p) \<Rightarrow>
                  if p \<noteq> HomePage then Some (InLayout p)
                  else if role auth \<noteq> Some ''admin'' \<or> \<not> no_devices then dashboard
                  else if wizard_done then None else Some (WithWhatsNew OnboardingPage)
              | Some _ \<Rightarrow>
                  if role auth \<noteq> Some ''admin'' then dashboard
                  else if \<not> wizard_done then Some (WithWhatsNew OnboardingPage)
                  else if no_devices then None else dashboard
              | None \<Rightarrow>
                  if role auth \<noteq> Some ''admin'' \<or> \<not> no_devices then dashboard
                  else if wizard_done then None else Some (WithWhatsNew OnboardingPage))"


end
